(* ===== verification/Prelude.thy ===== *)
theory Prelude
  imports Main "HOL-Library.State_Monad" "HOL-Library.AList" "HOL-Library.Word"
begin

text \<open>
  Shared ground of the development: the collections of facts the component proofs use, Go's
  64-bit integer and duration arithmetic, Go maps as association lists, and a small Hoare
  calculus for programs of the library's state monad.

  Conventions used by every theory.
  \<^item> A Go \<open>string\<close> is a sequence of bytes, here a \<^typ>\<open>string\<close>.
  \<^item> A \<open>time.Time\<close> is an \<^typ>\<open>int\<close>, nanoseconds since the epoch; a \<open>time.Duration\<close>
    is an \<^typ>\<open>int\<close> kept in the signed 64-bit range by \<open>wrap64\<close> where the source multiplies
    and by \<open>time_sub\<close> where it subtracts two times.
  \<^item> A Go map that the source iterates over or measures with \<open>len\<close> is an association list
    (iteration visits it in list order, Go leaves the order open); a Go map that is only read
    and written by key is a map \<open>'k \<rightharpoonup> 'v\<close>.
\<close>

section \<open>Collections\<close>

named_theorems hoare_intros \<open>introduction rules of the calculus for state programs\<close>
named_theorems go_simps \<open>simplification rules for the Go primitives\<close>

type_synonym time = int
type_synonym duration = int

section \<open>Go integers and durations\<close>

definition max64 :: int where
  "max64 = 9223372036854775807"

definition min64 :: int where
  "min64 = -9223372036854775808"

text \<open>Two's complement wrap-around of a 64-bit \<open>int\<close>, \<open>int64\<close> or \<open>time.Duration\<close>.\<close>

definition wrap64 :: "int \<Rightarrow> int" where
  "wrap64 n = (n + 9223372036854775808) mod 18446744073709551616 - 9223372036854775808"

definition in64 :: "int \<Rightarrow> bool" where
  "in64 n \<longleftrightarrow> min64 \<le> n \<and> n \<le> max64"

lemma wrap64_id [simp]: "in64 n \<Longrightarrow> wrap64 n = n"
  by (simp add: wrap64_def in64_def min64_def max64_def)

lemma in64_wrap64 [simp]: "in64 (wrap64 n)"
proof -
  have "0 \<le> (n + 9223372036854775808) mod 18446744073709551616"
    and "(n + 9223372036854775808) mod 18446744073709551616 < 18446744073709551616"
    by simp_all
  then show ?thesis
    unfolding wrap64_def in64_def min64_def max64_def by linarith
qed

text \<open>\<open>wrap64\<close> is exactly the value of a 64-bit machine word read as a signed number.\<close>

lemma wrap64_sint: "wrap64 n = sint (word_of_int n :: 64 word)"
  by (simp add: wrap64_def sint_sbintrunc' signed_take_bit_eq_take_bit_shift take_bit_eq_mod
      add.commute)

text \<open>\<open>t.Sub(u)\<close>: the difference, saturated at the ends of the \<open>Duration\<close> range.\<close>

definition time_sub :: "time \<Rightarrow> time \<Rightarrow> duration" where
  "time_sub t u = (if t - u > max64 then max64 else if t - u < min64 then min64 else t - u)"

lemma time_sub_ge [go_simps]: "in64 d \<Longrightarrow> min64 < d \<Longrightarrow> time_sub t u \<ge> d \<longleftrightarrow> t - u \<ge> d"
  by (auto simp: time_sub_def in64_def min64_def max64_def)

lemma time_sub_gt [go_simps]: "in64 d \<Longrightarrow> d < max64 \<Longrightarrow> time_sub t u > d \<longleftrightarrow> t - u > d"
  by (auto simp: time_sub_def in64_def min64_def max64_def)

lemma time_sub_le_max: "time_sub t u \<le> max64"
  by (simp add: time_sub_def min64_def max64_def)

text \<open>Units of \<open>time.Duration\<close>, in nanoseconds.\<close>

definition Millisecond :: duration where
  "Millisecond = 1000000"

definition Second :: duration where
  "Second = 1000000000"

definition Minute :: duration where
  "Minute = 60000000000"

definition Hour :: duration where
  "Hour = 3600000000000"

lemmas duration_units = Millisecond_def Second_def Minute_def Hour_def

text \<open>The zero value of \<open>time.Time\<close>: 1 January of year 1.\<close>

definition zero_time :: time where
  "zero_time = -62135596800000000000"

text \<open>Go's remainder truncates towards zero: its sign is that of the dividend.\<close>

definition go_rem :: "int \<Rightarrow> int \<Rightarrow> int" where
  "go_rem a b = sgn a * (\<bar>a\<bar> mod \<bar>b\<bar>)"

definition go_div :: "int \<Rightarrow> int \<Rightarrow> int" where
  "go_div a b = sgn a * sgn b * (\<bar>a\<bar> div \<bar>b\<bar>)"

lemma go_rem_nonneg [simp]: "0 \<le> a \<Longrightarrow> 0 < b \<Longrightarrow> go_rem a b = a mod b"
  by (cases "a = 0") (auto simp: go_rem_def)

lemma go_div_nonneg [simp]: "0 \<le> a \<Longrightarrow> 0 < b \<Longrightarrow> go_div a b = a div b"
  by (cases "a = 0") (auto simp: go_div_def)

section \<open>Go maps as association lists\<close>

type_synonym ('k, 'v) gomap = "('k \<times> 'v) list"

abbreviation gm_get :: "('k, 'v) gomap \<Rightarrow> 'k \<Rightarrow> 'v option" where
  "gm_get m k \<equiv> map_of m k"

abbreviation gm_put :: "'k \<Rightarrow> 'v \<Rightarrow> ('k, 'v) gomap \<Rightarrow> ('k, 'v) gomap" where
  "gm_put k v m \<equiv> AList.update k v m"

abbreviation gm_del :: "'k \<Rightarrow> ('k, 'v) gomap \<Rightarrow> ('k, 'v) gomap" where
  "gm_del k m \<equiv> AList.delete k m"

definition gm_wf :: "('k, 'v) gomap \<Rightarrow> bool" where
  "gm_wf m \<longleftrightarrow> distinct (map fst m)"

lemma gm_wf_Nil [simp]: "gm_wf []"
  by (simp add: gm_wf_def)

lemma gm_wf_put [simp]: "gm_wf m \<Longrightarrow> gm_wf (gm_put k v m)"
  by (simp add: gm_wf_def distinct_update)

lemma gm_wf_del [simp]: "gm_wf m \<Longrightarrow> gm_wf (gm_del k m)"
  by (simp add: gm_wf_def distinct_delete)

lemma gm_get_put [simp]: "gm_get (gm_put k v m) = (gm_get m)(k \<mapsto> v)"
  by (rule update_conv')

lemma gm_get_del [simp]: "gm_get (gm_del k m) = (gm_get m)(k := None)"
  by (rule delete_conv')

lemma gm_get_map:
  "gm_get (map (\<lambda>(k, v). (k, f k v)) m) k = map_option (f k) (gm_get m k)"
  by (induction m) auto

lemma gm_wf_map [simp]: "gm_wf (map (\<lambda>(k, v). (k, f k v)) m) \<longleftrightarrow> gm_wf m"
proof -
  have "map fst (map (\<lambda>(k, v). (k, f k v)) m) = map fst m"
    by (induction m) auto
  then show ?thesis by (simp only: gm_wf_def)
qed

lemma gm_wf_filter [simp]: "gm_wf m \<Longrightarrow> gm_wf (filter P m)"
  by (simp add: gm_wf_def distinct_map_filter)

lemma gm_get_filter:
  "gm_wf m \<Longrightarrow> gm_get (filter (\<lambda>(k, v). P v) m) k =
    (case gm_get m k of None \<Rightarrow> None | Some v \<Rightarrow> if P v then Some v else None)"
proof (induction m)
  case (Cons x m)
  then have ih: "gm_get (filter (\<lambda>(k, v). P v) m) k =
      (case gm_get m k of None \<Rightarrow> None | Some v \<Rightarrow> if P v then Some v else None)"
    by (simp add: gm_wf_def)
  have "fst x \<notin> fst ` set m" using Cons.prems by (simp add: gm_wf_def)
  then have "gm_get m (fst x) = None" by (simp add: map_of_eq_None_iff)
  with ih show ?case by (cases x) (auto split: option.splits)
qed simp

lemma gm_get_in: "gm_get m k = Some v \<Longrightarrow> (k, v) \<in> set m"
  by (rule map_of_SomeD)

lemma gm_in_get: "gm_wf m \<Longrightarrow> (k, v) \<in> set m \<Longrightarrow> gm_get m k = Some v"
  by (simp add: gm_wf_def)

lemma gm_in_iff: "gm_wf m \<Longrightarrow> (k, v) \<in> set m \<longleftrightarrow> gm_get m k = Some v"
  by (auto intro: gm_in_get gm_get_in)

section \<open>A Hoare calculus for state programs\<close>

text \<open>
  \<open>hoare P m Q\<close>: from every state with \<open>P\<close>, the program \<open>m\<close> of the state monad ends with a
  result and a state related by \<open>Q\<close>. Programs of the state monad always return, so this is
  total correctness.
\<close>

definition hoare :: "('s \<Rightarrow> bool) \<Rightarrow> ('s, 'a) state \<Rightarrow> ('a \<Rightarrow> 's \<Rightarrow> bool) \<Rightarrow> bool" where
  "hoare P m Q \<longleftrightarrow> (\<forall>s. P s \<longrightarrow> Q (fst (run_state m s)) (snd (run_state m s)))"

text \<open>\<open>keeps I m\<close>: the program \<open>m\<close> keeps the state predicate \<open>I\<close>.\<close>

abbreviation keeps :: "('s \<Rightarrow> bool) \<Rightarrow> ('s, 'a) state \<Rightarrow> bool" where
  "keeps I m \<equiv> hoare I m (\<lambda>_. I)"

definition modify :: "('s \<Rightarrow> 's) \<Rightarrow> ('s, unit) state" where
  "modify f = State (\<lambda>s. ((), f s))"

definition gets :: "('s \<Rightarrow> 'a) \<Rightarrow> ('s, 'a) state" where
  "gets f = State (\<lambda>s. (f s, s))"

lemma run_modify [simp]: "run_state (modify f) s = ((), f s)"
  by (simp add: modify_def)

lemma run_gets [simp]: "run_state (gets f) s = (f s, s)"
  by (simp add: gets_def)

lemma hoareI: "(\<And>s. P s \<Longrightarrow> Q (fst (run_state m s)) (snd (run_state m s))) \<Longrightarrow> hoare P m Q"
  by (simp add: hoare_def)

lemma hoareD: "hoare P m Q \<Longrightarrow> P s \<Longrightarrow> run_state m s = (a, s') \<Longrightarrow> Q a s'"
  by (auto simp: hoare_def)

lemma hoare_snd: "hoare P m (\<lambda>_. Q) \<Longrightarrow> P s \<Longrightarrow> Q (snd (run_state m s))"
  by (auto simp: hoare_def)

lemma hoare_conseq:
  "hoare P m Q \<Longrightarrow> (\<And>s. P' s \<Longrightarrow> P s) \<Longrightarrow> (\<And>a s. Q a s \<Longrightarrow> Q' a s) \<Longrightarrow> hoare P' m Q'"
  by (auto simp: hoare_def)

lemma hoare_return: "(\<And>s. P s \<Longrightarrow> Q a s) \<Longrightarrow> hoare P (State_Monad.return a) Q"
  by (simp add: hoare_def)

lemma hoare_bind:
  assumes "hoare P m R" and "\<And>a. hoare (R a) (f a) Q"
  shows "hoare P (State_Monad.bind m f) Q"
proof (rule hoareI)
  fix s assume "P s"
  then show "Q (fst (run_state (State_Monad.bind m f) s)) (snd (run_state (State_Monad.bind m f) s))"
    using assms by (cases "run_state m s") (auto simp: hoare_def)
qed

lemma hoare_bind_keep:
  "keeps P m \<Longrightarrow> (\<And>x. hoare P (f x) Q) \<Longrightarrow> hoare P (State_Monad.bind m f) Q"
  by (rule hoare_bind)

lemma hoare_if:
  "(b \<Longrightarrow> hoare P m Q) \<Longrightarrow> (\<not> b \<Longrightarrow> hoare P n Q) \<Longrightarrow> hoare P (if b then m else n) Q"
  by simp

lemma hoare_let: "hoare P (f x) Q \<Longrightarrow> hoare P (Let x f) Q"
  by (simp add: Let_def)

text \<open>Normal form of a program: conditionals and returns in front of a bind are pushed into it.\<close>

lemma bind_if:
  "State_Monad.bind (if b then m else n) f =
    (if b then State_Monad.bind m f else State_Monad.bind n f)"
  by simp

lemma bind_case_option:
  "State_Monad.bind (case x of None \<Rightarrow> m | Some a \<Rightarrow> g a) f =
    (case x of None \<Rightarrow> State_Monad.bind m f | Some a \<Rightarrow> State_Monad.bind (g a) f)"
  by (cases x) auto

lemmas prog_norm = bind_if bind_case_option State_Monad.bind_assoc State_Monad.bind_left_identity

lemma keeps_return [hoare_intros]: "keeps I (State_Monad.return a)"
  by (simp add: hoare_def)

lemma keeps_bind [hoare_intros]:
  "keeps I m \<Longrightarrow> (\<And>a. keeps I (f a)) \<Longrightarrow> keeps I (State_Monad.bind m f)"
  by (rule hoare_bind)

lemma keeps_if [hoare_intros]:
  "(b \<Longrightarrow> keeps I m) \<Longrightarrow> (\<not> b \<Longrightarrow> keeps I n) \<Longrightarrow> keeps I (if b then m else n)"
  by simp

lemma keeps_gets [hoare_intros]: "keeps I (gets f)"
  by (simp add: hoare_def)

lemma keeps_modify: "(\<And>s. I s \<Longrightarrow> I (f s)) \<Longrightarrow> keeps I (modify f)"
  by (simp add: hoare_def)

lemma keeps_case_option [hoare_intros]:
  "(x = None \<Longrightarrow> keeps I m) \<Longrightarrow> (\<And>a. x = Some a \<Longrightarrow> keeps I (f a)) \<Longrightarrow>
   keeps I (case x of None \<Rightarrow> m | Some a \<Rightarrow> f a)"
  by (cases x) auto

lemma keeps_case_sum [hoare_intros]:
  "(\<And>e. x = Inl e \<Longrightarrow> keeps I (g e)) \<Longrightarrow> (\<And>a. x = Inr a \<Longrightarrow> keeps I (f a)) \<Longrightarrow>
   keeps I (case x of Inl e \<Rightarrow> g e | Inr a \<Rightarrow> f a)"
  by (cases x) auto

lemma keeps_case_prod [hoare_intros]:
  "(\<And>a b. x = (a, b) \<Longrightarrow> keeps I (f a b)) \<Longrightarrow> keeps I (case x of (a, b) \<Rightarrow> f a b)"
  by (cases x) auto

lemma keeps_let [hoare_intros]: "keeps I (f x) \<Longrightarrow> keeps I (Let x f)"
  by (simp add: Let_def)

end
