(* ===== verification/Go_Strings.thy ===== *)
theory Go_Strings
  imports Prelude "HOL-Library.Sublist"
begin

text \<open>
  The operations of Go's \<open>strings\<close> and \<open>strconv\<close> packages that the program uses, on byte
  strings. White space is that of \<open>unicode.IsSpace\<close>, recognised in its UTF-8 encoding. Case
  mapping of strings with non-ASCII bytes rests on the Unicode tables, which are not part of the
  repository: it is an argument (\<open>ul\<close>, \<open>uf\<close>) of the definitions that need it.
\<close>

section \<open>Trimming white space\<close>

text \<open>The white-space runes of \<open>unicode.IsSpace\<close>, each as its UTF-8 bytes.\<close>

definition space_seqs :: "string list" where
  "space_seqs =
    [[CHR 0x09], [CHR 0x0A], [CHR 0x0B], [CHR 0x0C], [CHR 0x0D], [CHR 0x20],
     [CHR 0xC2, CHR 0x85], [CHR 0xC2, CHR 0xA0], [CHR 0xE1, CHR 0x9A, CHR 0x80],
     [CHR 0xE2, CHR 0x80, CHR 0x80], [CHR 0xE2, CHR 0x80, CHR 0x81],
     [CHR 0xE2, CHR 0x80, CHR 0x82], [CHR 0xE2, CHR 0x80, CHR 0x83],
     [CHR 0xE2, CHR 0x80, CHR 0x84], [CHR 0xE2, CHR 0x80, CHR 0x85],
     [CHR 0xE2, CHR 0x80, CHR 0x86], [CHR 0xE2, CHR 0x80, CHR 0x87],
     [CHR 0xE2, CHR 0x80, CHR 0x88], [CHR 0xE2, CHR 0x80, CHR 0x89],
     [CHR 0xE2, CHR 0x80, CHR 0x8A], [CHR 0xE2, CHR 0x80, CHR 0xA8],
     [CHR 0xE2, CHR 0x80, CHR 0xA9], [CHR 0xE2, CHR 0x80, CHR 0xAF],
     [CHR 0xE2, CHR 0x81, CHR 0x9F], [CHR 0xE3, CHR 0x80, CHR 0x80]]"

lemma space_seqs_nonempty: "w \<in> set space_seqs \<Longrightarrow> w \<noteq> []"
  by (auto simp: space_seqs_def)

text \<open>The length of the white-space rune at the front (at the end) of a string, 0 if none.\<close>

definition lead_space :: "string \<Rightarrow> nat" where
  "lead_space s = (case find (\<lambda>w. prefix w s) space_seqs of None \<Rightarrow> 0 | Some w \<Rightarrow> length w)"

definition trail_space :: "string \<Rightarrow> nat" where
  "trail_space s = (case find (\<lambda>w. suffix w s) space_seqs of None \<Rightarrow> 0 | Some w \<Rightarrow> length w)"

lemma lead_space_pos: "0 < lead_space s \<Longrightarrow> s \<noteq> []"
  by (auto simp: lead_space_def find_Some_iff in_set_conv_nth
      dest!: space_seqs_nonempty split: option.splits)

lemma trail_space_pos: "0 < trail_space s \<Longrightarrow> s \<noteq> []"
  by (auto simp: trail_space_def find_Some_iff in_set_conv_nth
      dest!: space_seqs_nonempty split: option.splits)

lemma lead_space_0_iff: "lead_space s = 0 \<longleftrightarrow> (\<forall>w \<in> set space_seqs. \<not> prefix w s)"
proof -
  have "find (\<lambda>w. prefix w s) space_seqs = Some w \<Longrightarrow> w \<in> set space_seqs" for w
    by (auto simp: find_Some_iff)
  then show ?thesis
    by (auto simp: lead_space_def find_None_iff split: option.splits dest: space_seqs_nonempty)
      (metis find_Some_iff)
qed

lemma trail_space_0_iff: "trail_space s = 0 \<longleftrightarrow> (\<forall>w \<in> set space_seqs. \<not> suffix w s)"
proof -
  have "find (\<lambda>w. suffix w s) space_seqs = Some w \<Longrightarrow> w \<in> set space_seqs" for w
    by (auto simp: find_Some_iff)
  then show ?thesis
    by (auto simp: trail_space_def find_None_iff split: option.splits dest: space_seqs_nonempty)
      (metis find_Some_iff)
qed

function TrimLeftSpace :: "string \<Rightarrow> string" where
  "TrimLeftSpace s = (if lead_space s = 0 then s else TrimLeftSpace (drop (lead_space s) s))"
  by pat_completeness auto
termination
  by (relation "measure length") (auto dest: lead_space_pos intro: diff_less)

function TrimRightSpace :: "string \<Rightarrow> string" where
  "TrimRightSpace s =
    (if trail_space s = 0 then s else TrimRightSpace (take (length s - trail_space s) s))"
  by pat_completeness auto
termination
  by (relation "measure length") (auto dest: trail_space_pos intro: diff_less)

declare TrimLeftSpace.simps [simp del] TrimRightSpace.simps [simp del]

definition TrimSpace :: "string \<Rightarrow> string" where
  "TrimSpace s = TrimRightSpace (TrimLeftSpace s)"

lemma TrimLeftSpace_suffix: "suffix (TrimLeftSpace s) s"
proof (induction s rule: TrimLeftSpace.induct)
  case (1 s)
  show ?case
  proof (cases "lead_space s = 0")
    case True
    then show ?thesis by (simp add: TrimLeftSpace.simps [of s])
  next
    case False
    with 1 have "suffix (TrimLeftSpace (drop (lead_space s) s)) (drop (lead_space s) s)" by blast
    with False show ?thesis
      by (auto simp: TrimLeftSpace.simps [of s] intro: suffix_order.trans suffix_drop)
  qed
qed

lemma TrimRightSpace_prefix: "prefix (TrimRightSpace s) s"
proof (induction s rule: TrimRightSpace.induct)
  case (1 s)
  show ?case
  proof (cases "trail_space s = 0")
    case True
    then show ?thesis by (simp add: TrimRightSpace.simps [of s])
  next
    case False
    with 1 have "prefix (TrimRightSpace (take (length s - trail_space s) s))
        (take (length s - trail_space s) s)" by blast
    with False show ?thesis
      by (auto simp: TrimRightSpace.simps [of s] intro: prefix_order.trans take_is_prefix)
  qed
qed

lemma lead_space_TrimLeftSpace [simp]: "lead_space (TrimLeftSpace s) = 0"
proof (induction s rule: TrimLeftSpace.induct)
  case (1 s)
  then show ?case by (cases "lead_space s = 0") (auto simp: TrimLeftSpace.simps [of s])
qed

lemma trail_space_TrimRightSpace [simp]: "trail_space (TrimRightSpace s) = 0"
proof (induction s rule: TrimRightSpace.induct)
  case (1 s)
  then show ?case by (cases "trail_space s = 0") (auto simp: TrimRightSpace.simps [of s])
qed

lemma lead_space_prefix: "prefix t s \<Longrightarrow> lead_space s = 0 \<Longrightarrow> lead_space t = 0"
  by (meson lead_space_0_iff prefix_order.trans)

text \<open>A trimmed string has no white space at either end, so trimming again changes nothing.\<close>

lemma TrimSpace_ends [simp]:
  "lead_space (TrimSpace s) = 0" "trail_space (TrimSpace s) = 0"
  by (auto simp: TrimSpace_def intro: lead_space_prefix [OF TrimRightSpace_prefix])

lemma TrimSpace_id: "lead_space s = 0 \<Longrightarrow> trail_space s = 0 \<Longrightarrow> TrimSpace s = s"
  by (simp add: TrimSpace_def TrimLeftSpace.simps TrimRightSpace.simps)

lemma TrimSpace_idem [simp]: "TrimSpace (TrimSpace s) = TrimSpace s"
  by (simp add: TrimSpace_id)

lemma TrimSpace_Nil [simp]: "TrimSpace [] = []"
  by (rule TrimSpace_id) (auto simp: lead_space_0_iff trail_space_0_iff dest: space_seqs_nonempty)

lemma TrimRightSpace_nonempty: "lead_space s = 0 \<Longrightarrow> s \<noteq> [] \<Longrightarrow> TrimRightSpace s \<noteq> []"
proof (induction s rule: TrimRightSpace.induct)
  case (1 s)
  show ?case
  proof (cases "trail_space s = 0")
    case True
    with "1.prems" show ?thesis by (simp add: TrimRightSpace.simps [of s])
  next
    case False
    then obtain w where w: "w \<in> set space_seqs" "suffix w s" "length w = trail_space s"
      by (auto simp: trail_space_def find_Some_iff split: option.splits) (metis nth_mem)
    have "take (length s - trail_space s) s \<noteq> []"
    proof
      assume "take (length s - trail_space s) s = []"
      with "1.prems" w have "w = s" by (auto simp: suffix_def)
      with w "1.prems" show False by (auto simp: lead_space_0_iff)
    qed
    moreover have "lead_space (take (length s - trail_space s) s) = 0"
      using "1.prems"(1) by (rule lead_space_prefix [OF take_is_prefix])
    ultimately show ?thesis
      using "1.IH" False by (simp add: TrimRightSpace.simps [of s])
  qed
qed

lemma TrimSpace_nonempty: "lead_space s = 0 \<Longrightarrow> s \<noteq> [] \<Longrightarrow> TrimSpace s \<noteq> []"
  by (simp add: TrimSpace_def TrimLeftSpace.simps [of s] TrimRightSpace_nonempty)

text \<open>An identifier that starts with a letter is never blank.\<close>

lemma TrimSpace_room_id [simp]: "TrimSpace (''room_'' @ t) \<noteq> []"
  by (rule TrimSpace_nonempty) (auto simp: lead_space_0_iff space_seqs_def)

lemma TrimSpace_api_key: "TrimSpace (''ak_'' @ s) \<noteq> []"
  by (rule TrimSpace_nonempty) (auto simp: lead_space_0_iff space_seqs_def)

lemma TrimSpace_sublist: "sublist (TrimSpace s) s"
  unfolding TrimSpace_def
  by (meson TrimLeftSpace_suffix TrimRightSpace_prefix prefix_imp_sublist sublist_order.order.trans
      suffix_imp_sublist)

lemma TrimSpace_length: "length (TrimSpace s) \<le> length s"
  by (rule sublist_length_le [OF TrimSpace_sublist])

section \<open>Case mapping, searching, cutting\<close>

definition is_ascii :: "string \<Rightarrow> bool" where
  "is_ascii s \<longleftrightarrow> list_all (\<lambda>c. of_char c < (128::nat)) s"

definition lower_byte :: "char \<Rightarrow> char" where
  "lower_byte c = (let n = of_char c :: nat in
     if 65 \<le> n \<and> n \<le> 90 then char_of (n + 32) else c)"

text \<open>
  \<open>strings.ToLower\<close>: byte-wise on an ASCII string; \<open>ul\<close> is the mapping of the Unicode tables on
  any other string. \<open>strings.EqualFold\<close> likewise, with \<open>uf\<close> the Unicode simple folding.
\<close>

definition ToLower :: "(string \<Rightarrow> string) \<Rightarrow> string \<Rightarrow> string" where
  "ToLower ul s = (if is_ascii s then map lower_byte s else ul s)"

definition EqualFold :: "(string \<Rightarrow> string \<Rightarrow> bool) \<Rightarrow> string \<Rightarrow> string \<Rightarrow> bool" where
  "EqualFold uf s t =
    (if is_ascii s \<and> is_ascii t then map lower_byte s = map lower_byte t else uf s t)"

lemma EqualFold_refl_ascii: "is_ascii s \<Longrightarrow> EqualFold uf s s"
  by (simp add: EqualFold_def)

definition Contains :: "string \<Rightarrow> string \<Rightarrow> bool" where
  "Contains s needle = sublist needle s"

definition HasPrefix :: "string \<Rightarrow> string \<Rightarrow> bool" where
  "HasPrefix s p = prefix p s"

definition TrimPrefix :: "string \<Rightarrow> string \<Rightarrow> string" where
  "TrimPrefix s p = (if prefix p s then drop (length p) s else s)"

lemma TrimPrefix_append [simp]: "TrimPrefix (p @ s) p = s"
  by (simp add: TrimPrefix_def)

text \<open>\<open>strings.Trim(s, c)\<close> and \<open>strings.Split(s, c)\<close> for a one-byte cut set or separator.\<close>

definition TrimByte :: "char \<Rightarrow> string \<Rightarrow> string" where
  "TrimByte c s = rev (dropWhile ((=) c) (rev (dropWhile ((=) c) s)))"

fun SplitByte :: "char \<Rightarrow> string \<Rightarrow> string list" where
  "SplitByte c [] = [[]]"
| "SplitByte c (x # xs) =
    (if x = c then [] # SplitByte c xs
     else (case SplitByte c xs of [] \<Rightarrow> [[x]] | y # ys \<Rightarrow> (x # y) # ys))"

text \<open>\<open>strings.SplitN(s, c, 2)\<close>: one or two parts, cut at the first separator.\<close>

definition SplitN2 :: "char \<Rightarrow> string \<Rightarrow> string list" where
  "SplitN2 c s =
    (if c \<in> set s then [takeWhile (\<lambda>x. x \<noteq> c) s, tl (dropWhile (\<lambda>x. x \<noteq> c) s)] else [s])"

definition ReplaceByte :: "char \<Rightarrow> char \<Rightarrow> string \<Rightarrow> string" where
  "ReplaceByte a b s = map (\<lambda>x. if x = a then b else x) s"

fun Join :: "string list \<Rightarrow> string \<Rightarrow> string" where
  "Join [] sep = []"
| "Join [x] sep = x"
| "Join (x # y # ys) sep = x @ sep @ Join (y # ys) sep"

lemma SplitByte_nonempty [simp]: "SplitByte c s \<noteq> []"
  by (cases s) (auto split: list.splits)

text \<open>Splitting at a separator and joining with it gives the string back.\<close>

lemma Join_SplitByte: "Join (SplitByte c s) [c] = s"
proof (induction s)
  case (Cons x xs)
  obtain y ys where sp: "SplitByte c xs = y # ys"
    by (cases "SplitByte c xs") auto
  with Cons show ?case
    by (cases ys) auto
qed simp

lemma SplitN2_cut:
  assumes "c \<notin> set a"
  shows "SplitN2 c (a @ c # b) = [a, b]"
proof -
  have "takeWhile (\<lambda>x. x \<noteq> c) (a @ c # b) = a" and "dropWhile (\<lambda>x. x \<noteq> c) (a @ c # b) = c # b"
    using assms by (induction a) auto
  then show ?thesis by (simp add: SplitN2_def)
qed

section \<open>Decimal numerals\<close>

definition digit_char :: "nat \<Rightarrow> char" where
  "digit_char d = char_of (48 + d)"

fun nat_str :: "nat \<Rightarrow> string" where
  "nat_str n = (if n < 10 then [digit_char n] else nat_str (n div 10) @ [digit_char (n mod 10)])"

declare nat_str.simps [simp del]

text \<open>\<open>strconv.Itoa\<close> and the verb \<open>%d\<close>.\<close>

definition Itoa :: "int \<Rightarrow> string" where
  "Itoa i = (if i < 0 then CHR ''-'' # nat_str (nat (- i)) else nat_str (nat i))"

lemma digit_char_inj: "a < 10 \<Longrightarrow> b < 10 \<Longrightarrow> digit_char a = digit_char b \<Longrightarrow> a = b"
  by (auto simp: digit_char_def dest!: arg_cong [where f = "of_char :: char \<Rightarrow> nat"])

lemma nat_str_nonempty [simp]: "nat_str n \<noteq> []" "[] \<noteq> nat_str n"
  by (subst nat_str.simps, simp)+

lemma nat_str_inj: "nat_str a = nat_str b \<Longrightarrow> a = b"
proof (induction a arbitrary: b rule: nat_str.induct)
  case (1 a)
  show ?case
  proof (cases "a < 10"; cases "b < 10")
    assume "a < 10" "b < 10"
    with "1.prems" show ?thesis
      by (auto simp: nat_str.simps [of a] nat_str.simps [of b] intro: digit_char_inj)
  next
    assume "a < 10" "\<not> b < 10"
    with "1.prems" show ?thesis
      by (auto simp: nat_str.simps [of a] nat_str.simps [of b])
  next
    assume "\<not> a < 10" "b < 10"
    with "1.prems" show ?thesis
      by (auto simp: nat_str.simps [of a] nat_str.simps [of b])
  next
    assume big: "\<not> a < 10" "\<not> b < 10"
    with "1.prems" have "nat_str (a div 10) = nat_str (b div 10)"
      and "digit_char (a mod 10) = digit_char (b mod 10)"
      by (auto simp: nat_str.simps [of a] nat_str.simps [of b])
    with big have "a div 10 = b div 10" and "a mod 10 = b mod 10"
      using "1.IH" digit_char_inj [of "a mod 10" "b mod 10"] by auto
    then show ?thesis by (metis div_mult_mod_eq)
  qed
qed

end
