(* ===== verification/Room_State.thy ===== *)
theory Room_State
  imports Go_Strings
begin

text \<open>
  The room state machine of \<open>internal/domain/room_state.go\<close>: the states, the transition table and
  the checked transition. The Go type is a string type; its four named values are constructors
  and every other string is \<open>RoomStateOther\<close>.
\<close>

datatype RoomState =
    RoomStateOpen
  | RoomStateActive
  | RoomStateClosed
  | RoomStatePurged
  | RoomStateOther string

fun state_text :: "RoomState \<Rightarrow> string" where
  "state_text RoomStateOpen = ''OPEN''"
| "state_text RoomStateActive = ''ACTIVE''"
| "state_text RoomStateClosed = ''CLOSED''"
| "state_text RoomStatePurged = ''PURGED''"
| "state_text (RoomStateOther s) = s"

definition state_of_text :: "string \<Rightarrow> RoomState" where
  "state_of_text s =
    (if s = ''OPEN'' then RoomStateOpen else if s = ''ACTIVE'' then RoomStateActive
     else if s = ''CLOSED'' then RoomStateClosed else if s = ''PURGED'' then RoomStatePurged
     else RoomStateOther s)"

fun CanTransitionTo :: "RoomState \<Rightarrow> RoomState \<Rightarrow> bool" where
  "CanTransitionTo RoomStateOpen nxt = (nxt = RoomStateActive \<or> nxt = RoomStateClosed)"
| "CanTransitionTo RoomStateActive nxt = (nxt = RoomStateClosed)"
| "CanTransitionTo RoomStateClosed nxt = (nxt = RoomStatePurged)"
| "CanTransitionTo RoomStatePurged nxt = False"
| "CanTransitionTo (RoomStateOther _) nxt = False"

definition TransitionState :: "RoomState \<Rightarrow> RoomState \<Rightarrow> string + unit" where
  "TransitionState current nxt =
    (if \<not> CanTransitionTo current nxt
     then Inl (''invalid room transition '' @ state_text current @ '' -> '' @ state_text nxt)
     else Inr ())"

text \<open>A life of a room: states in which each step passes the check.\<close>

fun state_life :: "RoomState list \<Rightarrow> bool" where
  "state_life [] = True"
| "state_life [s] = True"
| "state_life (s # t # ss) = (TransitionState s t = Inr () \<and> state_life (t # ss))"

text \<open>\<open>state_reaches s t\<close>: \<open>t\<close> is \<open>s\<close> or can be reached from it through the table.\<close>

inductive state_reaches :: "RoomState \<Rightarrow> RoomState \<Rightarrow> bool" where
  here: "state_reaches s s"
| onward: "CanTransitionTo s t \<Longrightarrow> state_reaches t u \<Longrightarrow> state_reaches s u"

inductive_cases state_reaches_fromE: "state_reaches s u"

lemma state_of_text_inverse [simp]: "state_text (state_of_text s) = s"
  by (simp add: state_of_text_def)

lemma TransitionState_ok [simp]: "TransitionState s t = Inr () \<longleftrightarrow> CanTransitionTo s t"
  by (simp add: TransitionState_def)

lemma state_reaches_trans: "state_reaches s t \<Longrightarrow> state_reaches t u \<Longrightarrow> state_reaches s u"
  by (induction rule: state_reaches.induct) (auto intro: state_reaches.intros)

lemma state_reaches_step: "CanTransitionTo s t \<Longrightarrow> state_reaches s t"
  by (auto intro: state_reaches.intros)

text \<open>The table is ranked: every allowed step climbs, and nothing leaves \<open>PURGED\<close>.\<close>

fun state_rank :: "RoomState \<Rightarrow> nat" where
  "state_rank RoomStateOpen = 0"
| "state_rank RoomStateActive = 1"
| "state_rank RoomStateClosed = 2"
| "state_rank RoomStatePurged = 3"
| "state_rank (RoomStateOther _) = 3"

lemma CanTransitionTo_rank: "CanTransitionTo s t \<Longrightarrow> state_rank s < state_rank t"
  by (cases s) auto

lemma state_reaches_rank: "state_reaches s t \<Longrightarrow> s = t \<or> state_rank s < state_rank t"
  by (induction rule: state_reaches.induct) (auto dest: CanTransitionTo_rank)

lemma state_reaches_iff:
  "state_reaches s t \<longleftrightarrow>
    s = t \<or> (state_rank s < state_rank t \<and> (\<forall>x. s \<noteq> RoomStateOther x) \<and> (\<forall>x. t \<noteq> RoomStateOther x))"
    (is "_ \<longleftrightarrow> ?R s t")
proof
  show "state_reaches s t \<Longrightarrow> ?R s t"
  proof (induction rule: state_reaches.induct)
    case (onward s t u)
    then show ?case by (cases s) auto
  qed simp
  have cp: "state_reaches RoomStateClosed RoomStatePurged"
    and ac: "state_reaches RoomStateActive RoomStateClosed"
    and oa: "state_reaches RoomStateOpen RoomStateActive"
    by (auto intro: state_reaches_step)
  show "?R s t \<Longrightarrow> state_reaches s t"
    using cp ac oa state_reaches_trans [OF ac cp] state_reaches_trans [OF oa ac]
      state_reaches_trans [OF oa state_reaches_trans [OF ac cp]]
    by (cases s; cases t) (auto intro: state_reaches.here)
qed

lemma state_life_rank:
  "state_life (s # ss) \<Longrightarrow> state_rank s + length ss \<le> 3"
proof (induction ss arbitrary: s)
  case Nil
  then show ?case by (cases s) auto
next
  case (Cons t ss)
  then have "state_rank s < state_rank t" and "state_rank t + length ss \<le> 3"
    by (auto dest: CanTransitionTo_rank)
  then show ?case by simp
qed

end
