(* ===== verification/Rate_Window.thy ===== *)
theory Rate_Window
  imports Prelude
begin

text \<open>
  Sliding-window rate limits. The program keeps, per key, the times of the accepted events and on
  each request first drops those older than the window; the same loop stands in
  \<open>app.allowMessage\<close>, \<open>Service.allowAgentMessageLocked\<close>, \<open>Service.allowRoomMessageLocked\<close> and
  \<open>sqlHTTP.allowIPMessage\<close>. The locale states what such a limiter does to its windows; the
  guarantee that no window of the given width ever holds more than the limit is proved once in
  it, and each limiter of the program interprets it.
\<close>

section \<open>The pruning loop\<close>

text \<open>\<open>kept := ts[:0]; for t in ts: if t.After(windowStart) keep it\<close>.\<close>

fun prune_window :: "time list \<Rightarrow> time \<Rightarrow> time list" where
  "prune_window [] windowStart = []"
| "prune_window (t # ts) windowStart =
    (if t > windowStart then t # prune_window ts windowStart else prune_window ts windowStart)"

lemma prune_window_filter: "prune_window ts a = filter (\<lambda>t. a < t) ts"
  by (induction ts) auto

lemma prune_window_twice: "a \<le> b \<Longrightarrow> prune_window (prune_window ts a) b = prune_window ts b"
  by (auto simp: prune_window_filter intro!: filter_cong)

section \<open>The limiter as an interface\<close>

text \<open>
  A run of requests through a limiter \<open>allow\<close>, and the times at which key \<open>k\<close> was let through.
\<close>

fun rl_run :: "('s \<Rightarrow> 'k \<Rightarrow> time \<Rightarrow> bool \<times> 's) \<Rightarrow> 's \<Rightarrow> ('k \<times> time) list \<Rightarrow> 's" where
  "rl_run allow s [] = s"
| "rl_run allow s ((k, now) # cs) = rl_run allow (snd (allow s k now)) cs"

fun rl_grants ::
  "('s \<Rightarrow> 'k \<Rightarrow> time \<Rightarrow> bool \<times> 's) \<Rightarrow> 'k \<Rightarrow> 's \<Rightarrow> ('k \<times> time) list \<Rightarrow> time list" where
  "rl_grants allow k s [] = []"
| "rl_grants allow k s ((k', now) # cs) =
    (if k' = k \<and> fst (allow s k' now) then [now] else []) @
      rl_grants allow k (snd (allow s k' now)) cs"

locale rate_limiter =
  fixes allow :: "'s \<Rightarrow> 'k \<Rightarrow> time \<Rightarrow> bool \<times> 's"
    and windows :: "'s \<Rightarrow> 'k \<Rightarrow> time list"
    and limit :: nat
    and width :: duration
  assumes width_pos: "0 < width"
    and granted: "fst (allow s k now) \<longleftrightarrow> length (prune_window (windows s k) (now - width)) < limit"
    and window_granted: "fst (allow s k now) \<Longrightarrow>
      windows (snd (allow s k now)) k = prune_window (windows s k) (now - width) @ [now]"
    and window_refused: "\<not> fst (allow s k now) \<Longrightarrow>
      windows (snd (allow s k now)) k = prune_window (windows s k) (now - width)"
    and window_other: "k' \<noteq> k \<Longrightarrow> windows (snd (allow s k now)) k' = windows s k'"
begin

text \<open>
  The stored window is the history of grants, cut at the last request for the key: \<open>hist\<close> is the
  history before the run, \<open>last\<close> a time up to which the window was pruned.
\<close>

lemma window_is_history:
  assumes "windows s k = prune_window hist (past - width)"
    and "sorted (past # map snd cs)"
  shows "\<exists>now. past \<le> now \<and> now \<in> insert past (set (map snd cs)) \<and>
    windows (rl_run allow s cs) k = prune_window (hist @ rl_grants allow k s cs) (now - width)"
  using assms
proof (induction cs arbitrary: s hist past)
  case Nil
  then show ?case by auto
next
  case (Cons c cs)
  obtain k' now where c: "c = (k', now)" by (cases c)
  let ?s = "snd (allow s k' now)"
  from Cons.prems c have ord: "past \<le> now" "sorted (now # map snd cs)" by auto
  show ?case
  proof (cases "k' = k")
    case False
    with Cons.prems c window_other [of k k' s now]
    have "windows ?s k = prune_window hist (past - width)" "sorted (past # map snd cs)" by auto
    from Cons.IH [OF this] c False show ?thesis by auto
  next
    case True
    have pruned: "prune_window (windows s k) (now - width) = prune_window hist (now - width)"
      using Cons.prems(1) ord(1) by (simp add: prune_window_twice)
    have "windows ?s k =
        prune_window (hist @ (if fst (allow s k now) then [now] else [])) (now - width)"
      using True pruned window_granted [of s k now] window_refused [of s k now] width_pos
      by (auto simp: prune_window_filter)
    from Cons.IH [OF this ord(2)] obtain n where "now \<le> n"
      and "n \<in> insert now (set (map snd cs))"
      and "windows (rl_run allow ?s cs) k = prune_window ((hist @
        (if fst (allow s k now) then [now] else [])) @ rl_grants allow k ?s cs) (n - width)"
      by blast
    then show ?thesis
      using c True ord(1) by (intro exI [of _ n]) auto
  qed
qed

text \<open>
  The limit is kept: whatever the requests, no interval of the width of the window holds more than
  \<open>limit\<close> grants of one key.
\<close>

lemma grants_bounded_from:
  assumes "windows s k = prune_window hist (past - width)"
    and "sorted (past # map snd cs)" and "\<forall>h \<in> set hist. h \<le> past"
    and "\<And>T. length (filter (\<lambda>t. T - width < t \<and> t \<le> T) hist) \<le> limit"
  shows "length (filter (\<lambda>t. T - width < t \<and> t \<le> T) (hist @ rl_grants allow k s cs)) \<le> limit"
  using assms
proof (induction cs arbitrary: s hist past)
  case Nil
  then show ?case by simp
next
  case (Cons c cs)
  obtain k' now where c: "c = (k', now)" by (cases c)
  let ?s = "snd (allow s k' now)"
  from Cons.prems c have ord: "past \<le> now" "sorted (now # map snd cs)" by auto
  show ?case
  proof (cases "k' = k \<and> fst (allow s k' now)")
    case False
    show ?thesis
    proof (cases "k' = k")
      case True
      then have "windows ?s k = prune_window hist (now - width)"
        using False Cons.prems(1) ord(1) window_refused [of s k now] by (simp add: prune_window_twice)
      moreover have "\<forall>h \<in> set hist. h \<le> now" using Cons.prems(3) ord(1) by auto
      ultimately show ?thesis
        using Cons.IH [OF _ ord(2)] Cons.prems(4) False c by auto
    next
      case other: False
      then have "windows ?s k = prune_window hist (past - width)"
        using Cons.prems(1) window_other by auto
      moreover have "sorted (past # map snd cs)" using Cons.prems(2) c by auto
      ultimately show ?thesis
        using Cons.IH Cons.prems(3,4) False c by auto
    qed
  next
    case True
    have pruned: "prune_window (windows s k) (now - width) = prune_window hist (now - width)"
      using Cons.prems(1) ord(1) by (simp add: prune_window_twice)
    have kept: "windows ?s k = prune_window (hist @ [now]) (now - width)"
      using True pruned window_granted [of s k now] width_pos
      by (auto simp: prune_window_filter)
    have few: "length (filter (\<lambda>t. now - width < t) hist) < limit"
      using True granted [of s k now] pruned by (auto simp: prune_window_filter)
    have "length (filter (\<lambda>t. T - width < t \<and> t \<le> T) (hist @ [now])) \<le> limit" for T
    proof (cases "now \<le> T")
      case True
      have "filter (\<lambda>t. T - width < t \<and> t \<le> T) hist =
          filter (\<lambda>t. T - width < t \<and> t \<le> T) (filter (\<lambda>t. now - width < t) hist)"
        using True by (auto intro!: filter_cong)
      then have "length (filter (\<lambda>t. T - width < t \<and> t \<le> T) hist) < limit"
        using few by (metis length_filter_le order_le_less_trans)
      then show ?thesis by auto
    next
      case False
      then show ?thesis using Cons.prems(4) [of T] by auto
    qed
    moreover have "\<forall>h \<in> set (hist @ [now]). h \<le> now" using Cons.prems(3) ord(1) by auto
    ultimately show ?thesis
      using Cons.IH [OF kept ord(2)] True c by auto
  qed
qed

lemma grants_bounded:
  assumes "windows s k = []" and "sorted (map snd cs)"
  shows "length (filter (\<lambda>t. T - width < t \<and> t \<le> T) (rl_grants allow k s cs)) \<le> limit"
proof (cases cs)
  case Nil
  then show ?thesis by simp
next
  case (Cons c cs')
  with assms have "windows s k = prune_window [] (snd c - width)" "sorted (snd c # map snd cs)"
    by auto
  from grants_bounded_from [OF this, of T] show ?thesis by simp
qed

text \<open>No request is refused without cause: a refusal means the limit was reached.\<close>

lemma refused_full:
  assumes "windows s k = []" and "sorted (map snd (cs @ [(k, now)]))"
    and "\<not> fst (allow (rl_run allow s cs) k now)"
  shows "limit \<le> length (filter (\<lambda>t. now - width < t \<and> t \<le> now) (rl_grants allow k s cs))"
proof (cases cs)
  case Nil
  with assms have "limit = 0" by (simp add: granted)
  then show ?thesis by simp
next
  case (Cons c cs')
  with assms(1,2) have "windows s k = prune_window [] (snd c - width)" "sorted (snd c # map snd cs)"
    by (auto simp: sorted_append)
  from window_is_history [OF this] obtain n where n: "n \<in> insert (snd c) (set (map snd cs))"
    and w: "windows (rl_run allow s cs) k = prune_window (rl_grants allow k s cs) (n - width)"
    by auto
  have le: "n \<le> now" and all: "\<forall>t \<in> snd ` set cs. t \<le> now"
    using n assms(2) Cons by (auto simp: sorted_append)
  have sub: "set (rl_grants allow k s cs) \<subseteq> snd ` set cs" for s
  proof (induction cs arbitrary: s)
    case (Cons a as)
    then show ?case by (cases a) fastforce
  qed simp
  have "limit \<le> length (prune_window (windows (rl_run allow s cs) k) (now - width))"
    using assms(3) granted [of "rl_run allow s cs" k now] by simp
  also have "prune_window (windows (rl_run allow s cs) k) (now - width) =
      filter (\<lambda>t. now - width < t) (rl_grants allow k s cs)"
    using w le by (simp add: prune_window_twice) (simp add: prune_window_filter)
  also have "\<dots> = filter (\<lambda>t. now - width < t \<and> t \<le> now) (rl_grants allow k s cs)"
    using sub all by (auto intro!: filter_cong)
  finally show ?thesis .
qed

end

end
