(* ===== verification/Message_Policy.thy ===== *)
theory Message_Policy
  imports Go_Strings
begin

text \<open>
  The message policy of \<open>internal/security/policy.go\<close>: which texts may be persisted, and which
  verdict a refused text gets. Sizes count bytes, as Go's \<open>len\<close> does.
\<close>

definition MaxPersistMessageChars :: nat where
  "MaxPersistMessageChars = 8192"

record PolicyDecision =
  Allowed :: bool
  Code :: string
  Reason :: string

fun hasAny :: "string \<Rightarrow> string list \<Rightarrow> bool" where
  "hasAny txt [] = False"
| "hasAny txt (n # ns) = (if Contains txt n then True else hasAny txt ns)"

definition actionNeedles :: "string list" where
  "actionNeedles = [''action:'', ''tool:'', ''exec:'', ''run_shell'', ''<tool_call'']"

definition riskNeedles :: "string list" where
  "riskNeedles =
    [''rm -rf'', ''sudo '', ''/etc/passwd'', ''begin private key'', ''169.254.169.254'',
     ''kubectl delete'', ''drop table'', ''shutdown -h'', ''reboot'']"

definition EvaluateMessageForPersist :: "(string \<Rightarrow> string) \<Rightarrow> string \<Rightarrow> PolicyDecision" where
  "EvaluateMessageForPersist ul ciphertext = (let trimmed = TrimSpace ciphertext in
    if trimmed = [] then
      \<lparr>Allowed = False, Code = ''empty_message'', Reason = ''message is empty''\<rparr>
    else if length trimmed > MaxPersistMessageChars then
      \<lparr>Allowed = False, Code = ''payload_too_large'',
       Reason = ''message exceeds max allowed size''\<rparr>
    else (let lower = ToLower ul trimmed in
      if hasAny lower actionNeedles then
        \<lparr>Allowed = False, Code = ''external_action_blocked'',
         Reason = ''external/tool action requests are blocked''\<rparr>
      else if hasAny lower riskNeedles then
        \<lparr>Allowed = False, Code = ''high_risk_content'',
         Reason = ''high-risk system or data-destructive content detected''\<rparr>
      else \<lparr>Allowed = True, Code = [], Reason = []\<rparr>))"

lemma hasAny_iff: "hasAny txt ns \<longleftrightarrow> (\<exists>n \<in> set ns. \<exists>a b. txt = a @ n @ b)"
  by (induction ns) (auto simp: Contains_def sublist_def)


text \<open>The policy judges the trimmed text: surrounding white space changes no verdict.\<close>

lemma policy_trim [simp]:
  "EvaluateMessageForPersist ul (TrimSpace m) = EvaluateMessageForPersist ul m"
  by (simp add: EvaluateMessageForPersist_def)

end
