(* ===== verification/Http_Types.thy ===== *)
theory Http_Types
  imports Message_Policy
begin

text \<open>
  Requests, responses and error bodies of \<open>internal/httpapi\<close> (the first part of \<open>api.go\<close>,
  \<open>request.go\<close>, \<open>splitPath\<close> of \<open>app.go\<close>). A request carries what the handlers read of it; the
  body is the outcome of \<open>decodeJSON\<close> (\<open>None\<close> when decoding fails), so the JSON reader of the
  standard library stays outside. The outside world that the handlers compute with is an
  environment: the SHA-256 hex digest and the Unicode lower-case mapping.
\<close>

record env =
  hashText :: "string \<Rightarrow> string"
  uLower :: "string \<Rightarrow> string"

record 'b request =
  Method :: string
  URLPath :: string
  Authorization :: string
  Query :: "(string, string) gomap"
  Body :: "'b option"

record errorOptions =
  Recoverable :: bool
  Hint :: string
  MaxChars :: nat
  Endpoint :: string
  Allow :: "string list"

definition no_options :: errorOptions where
  "no_options = \<lparr>Recoverable = False, Hint = [], MaxChars = 0, Endpoint = [], Allow = []\<rparr>"

record 'p response =
  Status :: int
  Payload :: "(string \<times> errorOptions) + 'p"

definition writeJSON :: "int \<Rightarrow> 'p \<Rightarrow> 'p response" where
  "writeJSON st p = \<lparr>Status = st, Payload = Inr p\<rparr>"

definition writeAPIError :: "int \<Rightarrow> string \<Rightarrow> errorOptions \<Rightarrow> 'p response" where
  "writeAPIError st code opts = \<lparr>Status = st, Payload = Inl (code, opts)\<rparr>"

definition writeMethodNotAllowed :: "string list \<Rightarrow> 'p response" where
  "writeMethodNotAllowed allow =
    writeAPIError 405 ''method_not_allowed'' (no_options\<lparr>Allow := allow\<rparr>)"

definition writeEndpointNotSupported :: "string \<Rightarrow> string \<Rightarrow> 'p response" where
  "writeEndpointNotSupported endpoint hint =
    writeAPIError 501 ''endpoint_not_supported''
      (no_options\<lparr>Endpoint := endpoint, Hint := hint\<rparr>)"

definition normalizeError :: "env \<Rightarrow> int \<Rightarrow> string \<Rightarrow> string \<times> errorOptions" where
  "normalizeError E status msg = (let m = TrimSpace msg in
    if m = ''method not allowed'' then (''method_not_allowed'', no_options)
    else if m \<in> {''invalid request'', ''invalid json'', ''topic is required''} then
      (''invalid_request'', no_options)
    else if m \<in> {''missing or invalid token'', ''invalid api key'',
        ''missing or invalid admin token''} then
      (''unauthorized'', no_options\<lparr>Recoverable := True,
        Hint := ''Login again and retry with a fresh session token.''\<rparr>)
    else if m = ''policy blocked'' then (''policy_blocked'', no_options)
    else if m = ''payload too large'' then
      (''payload_too_large'', no_options\<lparr>Recoverable := True,
        Hint := ''Keep the message at or below '' @ Itoa (int MaxPersistMessageChars) @
          '' characters.'', MaxChars := MaxPersistMessageChars\<rparr>)
    else if m \<in> {''forbidden'', ''not room participant'', ''cannot connect to own listing''} then
      (''forbidden'', no_options)
    else if m = ''not found'' then (''not_found'', no_options)
    else if m = ''listing not found'' then (''listing_not_found'', no_options)
    else if m = ''room not found'' then (''room_not_found'', no_options)
    else if m = ''viewer not found'' then (''viewer_not_found'', no_options)
    else if m = ''listing already connected'' then (''listing_already_connected'', no_options)
    else if m = ''turn_mismatch'' then
      (''turn_mismatch'', no_options\<lparr>Recoverable := True,
        Hint := ''Fetch fresh /context and retry only if next_actor_id is still you.''\<rparr>)
    else if m = ''stale_bundle_hash'' then
      (''stale_bundle_hash'', no_options\<lparr>Recoverable := True,
        Hint := ''Fetch fresh /context and rebuild before retrying.''\<rparr>)
    else if m = ''rate limit exceeded'' then
      (''rate_limited'', no_options\<lparr>Recoverable := True, Hint := ''Back off before retrying.''\<rparr>)
    else if m = ''conflict'' then (''conflict'', no_options\<lparr>Recoverable := True\<rparr>)
    else if m \<in> {''room closed'', ''room ttl exceeded'', ''room purged'', ''gone''} then
      (''gone'', no_options)
    else if m = ''admin not configured'' then (''admin_not_configured'', no_options)
    else (let code = ReplaceByte (CHR '' '') (CHR ''_'')
                (ReplaceByte (CHR ''-'') (CHR ''_'') (ToLower (uLower E) m)) in
      (if code = [] then ''internal_error'' else code,
       no_options\<lparr>Recoverable := status \<ge> 500\<rparr>)))"

definition writeError :: "env \<Rightarrow> int \<Rightarrow> string \<Rightarrow> 'p response" where
  "writeError E status msg =
    (case normalizeError E status msg of (code, opts) \<Rightarrow> writeAPIError status code opts)"

text \<open>\<open>splitPath\<close> of \<open>app.go\<close>.\<close>

definition splitPath :: "string \<Rightarrow> string list" where
  "splitPath path = (let trimmed = TrimByte (CHR ''/'') path in
    if trimmed = [] then [] else SplitByte (CHR ''/'') trimmed)"

text \<open>\<open>bearerTokenFromRequest\<close> of \<open>sql_handlers.go\<close>: the token of a bearer header, empty if none.\<close>

definition bearerTokenFromRequest :: "string \<Rightarrow> string" where
  "bearerTokenFromRequest header = (let auth = TrimSpace header in
    if auth = [] \<or> \<not> HasPrefix auth ''Bearer '' then []
    else TrimSpace (TrimPrefix auth ''Bearer ''))"

lemma Status_writeJSON [simp]: "Status (writeJSON st p) = st" "Payload (writeJSON st p) = Inr p"
  by (simp_all add: writeJSON_def)

lemma Status_writeAPIError [simp]:
  "Status (writeAPIError st c opts) = st" "Payload (writeAPIError st c opts) = Inl (c, opts)"
  by (simp_all add: writeAPIError_def)

lemma Status_writeError [simp]:
  "Status (writeError E st m) = st" "Payload (writeError E st m) = Inl (normalizeError E st m)"
  by (simp_all add: writeError_def split: prod.splits)

end
