(* ===== verification/Memory_App.thy ===== *)
theory Memory_App
  imports Room_State Rate_Window Http_Types
begin

text \<open>
  The in-memory server of \<open>internal/httpapi/app.go\<close> and \<open>api.go\<close>: its state, the purge sweep and
  one program of the state monad per handler. The clock \<open>a.now\<close> and \<open>crypto/rand\<close> are streams in
  the state, read one element per call, so that two calls in one handler may differ. The handlers
  release the mutex between their checks and their update; the locked sections are separate
  definitions (\<open>requireRoomMember\<close>, \<open>roomJoin_commit\<close>, \<open>roomMessage_commit\<close>, \<open>roomClose_commit\<close>),
  so that other requests can be placed between them.
\<close>

section \<open>State\<close>

record agent =
  aID :: string
  aName :: string
  APIKeyHash :: string

record authSession =
  sessAgentID :: string
  sessExpiresAt :: time

record listing =
  lID :: string
  lAgentID :: string
  lTopic :: string
  lTags :: "string list"
  lMaxTurns :: int
  lTTLSecond :: int
  lCreatedAt :: time
  lConnected :: bool
  lRoomID :: string

record message =
  mID :: string
  mRoomID :: string
  SenderID :: string
  SenderName :: string
  Turn :: int
  Ciphertext :: string
  mCreatedAt :: time

record viewerSession =
  vToken :: string
  JoinedAt :: time
  LastHeartbeatAt :: time
  LeftAt :: "time option"

record room =
  rID :: string
  rTopic :: string
  AgentAID :: string
  AgentBID :: string
  rState :: RoomState
  TurnIndex :: int
  MaxTurns :: int
  TTLAt :: time
  rCreatedAt :: time
  ClosedAt :: "time option"
  PurgedAt :: "time option"
  HumanCodeHash :: string
  HumanCodeExpiresAt :: "time option"
  Joined :: "string \<Rightarrow> bool"
  Viewers :: "(string, viewerSession) gomap"
  Messages :: "message list"

record auditEvent =
  auRoomID :: string
  auEvent :: string
  auAt :: time
  auMeta :: string
  auMessageCnt :: nat

record app =
  agents :: "string \<rightharpoonup> agent"
  agentsByAPIHash :: "string \<rightharpoonup> string"
  sessions :: "string \<rightharpoonup> authSession"
  listings :: "(string, listing) gomap"
  rooms :: "(string, room) gomap"
  messageWindows :: "string \<rightharpoonup> time list"
  auditEvents :: "auditEvent list"
  viewerHeartbeatTimeout :: duration
  closedRoomGraceDelay :: duration
  maxClosedRetention :: duration
  clock :: "nat \<Rightarrow> time"
  ticks :: nat
  entropy :: "nat \<Rightarrow> string"
  draws :: nat

text \<open>The zero value of the struct, which Go's map read gives for a missing key.\<close>

definition room_zero :: room where
  "room_zero = \<lparr>rID = [], rTopic = [], AgentAID = [], AgentBID = [], rState = RoomStateOther [],
     TurnIndex = 0, MaxTurns = 0, TTLAt = 0, rCreatedAt = 0, ClosedAt = None, PurgedAt = None,
     HumanCodeHash = [], HumanCodeExpiresAt = None, Joined = (\<lambda>_. False), Viewers = [],
     Messages = []\<rparr>"

definition room_at :: "app \<Rightarrow> string \<Rightarrow> room" where
  "room_at a rid = (case gm_get (rooms a) rid of None \<Rightarrow> room_zero | Some rm \<Rightarrow> rm)"

definition maxMessagesPerMinute :: nat where
  "maxMessagesPerMinute = 30"

definition sessionTTLDays :: int where
  "sessionTTLDays = 14"

definition humanCodeTTL :: duration where
  "humanCodeTTL = 24 * Hour"

definition newApp :: "duration \<Rightarrow> duration \<Rightarrow> duration \<Rightarrow> (nat \<Rightarrow> time) \<Rightarrow> (nat \<Rightarrow> string) \<Rightarrow> app" where
  "newApp heartbeat grace retention clk rnd =
    \<lparr>agents = Map.empty, agentsByAPIHash = Map.empty, sessions = Map.empty, listings = [],
     rooms = [], messageWindows = Map.empty, auditEvents = [],
     viewerHeartbeatTimeout = (if heartbeat > 0 then heartbeat else 45 * Second),
     closedRoomGraceDelay = (if grace > 0 then grace else 2 * Minute),
     maxClosedRetention = (if retention > 0 then retention else 24 * Hour),
     clock = clk, ticks = 0, entropy = rnd, draws = 0\<rparr>"

definition a_now :: "(app, time) state" where
  "a_now = State (\<lambda>a. (clock a (ticks a), a\<lparr>ticks := Suc (ticks a)\<rparr>))"

definition randomToken :: "(app, string) state" where
  "randomToken = State (\<lambda>a. (entropy a (draws a), a\<lparr>draws := Suc (draws a)\<rparr>))"

definition newID :: "string \<Rightarrow> (app, string) state" where
  "newID pre = do { t \<leftarrow> randomToken; State_Monad.return (pre @ ''_'' @ t) }"

definition put_room :: "string \<Rightarrow> room \<Rightarrow> (app, unit) state" where
  "put_room rid rm = modify (\<lambda>a. a\<lparr>rooms := gm_put rid rm (rooms a)\<rparr>)"

section \<open>Viewers and the purge sweep\<close>

fun countActive :: "(string, viewerSession) gomap \<Rightarrow> time \<Rightarrow> duration \<Rightarrow> nat" where
  "countActive [] now timeout = 0"
| "countActive ((_, vw) # vs) now timeout =
    (if LeftAt vw \<noteq> None then countActive vs now timeout
     else if time_sub now (LastHeartbeatAt vw) > timeout then countActive vs now timeout
     else Suc (countActive vs now timeout))"

definition activeViewerCount :: "room \<Rightarrow> time \<Rightarrow> duration \<Rightarrow> nat" where
  "activeViewerCount rm now timeout =
    (if length (Viewers rm) = 0 then 0 else countActive (Viewers rm) now timeout)"

text \<open>
  One room of the sweep: the room to store and the audit event to append. In the \<open>CLOSED\<close> case a
  missing \<open>ClosedAt\<close> is filled in on the local copy, which is stored only when the room is purged.
\<close>

definition sweepRoom :: "app \<Rightarrow> time \<Rightarrow> string \<Rightarrow> room \<Rightarrow> room \<times> auditEvent list" where
  "sweepRoom a now rid rm =
    (case rState rm of
       RoomStateOpen \<Rightarrow>
         (if now > TTLAt rm then (rm\<lparr>rState := RoomStateClosed, ClosedAt := Some now\<rparr>, [])
          else (rm, []))
     | RoomStateActive \<Rightarrow>
         (if now > TTLAt rm then (rm\<lparr>rState := RoomStateClosed, ClosedAt := Some now\<rparr>, [])
          else (rm, []))
     | RoomStateClosed \<Rightarrow>
         (let closedAt = (case ClosedAt rm of None \<Rightarrow> now | Some t \<Rightarrow> t);
              rm' = rm\<lparr>ClosedAt := Some closedAt\<rparr>;
              activeViewers = activeViewerCount rm' now (viewerHeartbeatTimeout a);
              pastGrace = (time_sub now closedAt \<ge> closedRoomGraceDelay a);
              pastRetention = (time_sub now closedAt \<ge> maxClosedRetention a)
          in if (activeViewers = 0 \<and> pastGrace) \<or> pastRetention then
               (rm'\<lparr>rState := RoomStatePurged, PurgedAt := Some now, Messages := [], Viewers := []\<rparr>,
                [\<lparr>auRoomID = rid, auEvent = ''room_purged'', auAt = now,
                  auMeta = ''content hard-deleted'', auMessageCnt = length (Messages rm)\<rparr>])
             else (rm, []))
     | RoomStatePurged \<Rightarrow> (rm, [])
     | RoomStateOther _ \<Rightarrow> (rm, []))"

definition purgeSweepLocked :: "time \<Rightarrow> (app, unit) state" where
  "purgeSweepLocked now = modify (\<lambda>a. a\<lparr>
     rooms := map (\<lambda>(rid, rm). (rid, fst (sweepRoom a now rid rm))) (rooms a),
     auditEvents := auditEvents a @ concat (map (\<lambda>(rid, rm). snd (sweepRoom a now rid rm)) (rooms a))\<rparr>)"

definition purgeSweep :: "(app, unit) state" where
  "purgeSweep = do { now \<leftarrow> a_now; purgeSweepLocked now }"

section \<open>Registration, login, authentication\<close>

datatype payload =
    RegisterBody string string
  | LoginBody string
  | ListingBody listing string string bool RoomState string
  | ListingsBody "listing list"
  | ConnectBody string string string string RoomState string string string
  | JoinBody string RoomState "(string, bool) gomap"
  | MessageBody string int int RoomState
  | RoomStateBody string string string RoomState int int string int time time "time option"
      "time option" nat
  | CloseBody string RoomState
  | TranscriptBody string string string string int string RoomState "message list" "time option"
      "time option"
  | ViewerJoinBody string nat
  | ViewerBody nat

type_synonym reply = "payload response"

definition authAgentID :: "string \<Rightarrow> (app, string option) state" where
  "authAgentID auth =
    (if auth = [] \<or> \<not> HasPrefix auth ''Bearer '' then State_Monad.return None
     else (let token = TrimSpace (TrimPrefix auth ''Bearer '') in
       if token = [] then State_Monad.return None
       else do {
         sess \<leftarrow> gets (\<lambda>a. sessions a token);
         case sess of None \<Rightarrow> State_Monad.return None
         | Some sess \<Rightarrow> do {
             now \<leftarrow> a_now;
             if \<not> sessExpiresAt sess > now then do {
               modify (\<lambda>a. a\<lparr>sessions := (sessions a)(token := None)\<rparr>);
               State_Monad.return None }
             else State_Monad.return (Some (sessAgentID sess)) } }))"

definition handleAgentRegister :: "env \<Rightarrow> string request \<Rightarrow> (app, reply) state" where
  "handleAgentRegister E r = do {
    purgeSweep;
    if Method r \<noteq> ''POST'' then State_Monad.return (writeError E 405 ''method not allowed'')
    else (case Body r of
      None \<Rightarrow> State_Monad.return (writeError E 400 ''invalid request'')
    | Some name \<Rightarrow>
        if TrimSpace name = [] then State_Monad.return (writeError E 400 ''invalid request'')
        else do {
          t \<leftarrow> randomToken;
          let apiKey = ''ak_'' @ t;
          agentID \<leftarrow> newID ''agt'';
          modify (\<lambda>a. a\<lparr>agents := (agents a)(agentID \<mapsto>
             \<lparr>aID = agentID, aName = TrimSpace name, APIKeyHash = hashText E apiKey\<rparr>),
             agentsByAPIHash := (agentsByAPIHash a)(hashText E apiKey \<mapsto> agentID)\<rparr>);
          State_Monad.return (writeJSON 201 (RegisterBody agentID apiKey)) }) }"

definition handleAgentLogin :: "env \<Rightarrow> string request \<Rightarrow> (app, reply) state" where
  "handleAgentLogin E r = do {
    purgeSweep;
    if Method r \<noteq> ''POST'' then State_Monad.return (writeError E 405 ''method not allowed'')
    else (case Body r of
      None \<Rightarrow> State_Monad.return (writeError E 400 ''invalid request'')
    | Some apiKey \<Rightarrow>
        if TrimSpace apiKey = [] then State_Monad.return (writeError E 400 ''invalid request'')
        else do {
          known \<leftarrow> gets (\<lambda>a. agentsByAPIHash a (hashText E apiKey));
          case known of
            None \<Rightarrow> State_Monad.return (writeError E 401 ''invalid api key'')
          | Some agentID \<Rightarrow> do {
              t \<leftarrow> randomToken;
              let token = ''as_'' @ t;
              now \<leftarrow> a_now;
              modify (\<lambda>a. a\<lparr>sessions := (sessions a)(token \<mapsto>
                \<lparr>sessAgentID = agentID, sessExpiresAt = now + sessionTTLDays * 24 * Hour\<rparr>)\<rparr>);
              State_Monad.return (writeJSON 200 (LoginBody token)) } }) }"

section \<open>Listings\<close>

record createListingRequest =
  reqTopic :: string
  reqTags :: "string list"
  reqMaxTurns :: int
  reqTTLSeconds :: int

definition handleListings :: "env \<Rightarrow> createListingRequest request \<Rightarrow> (app, reply) state" where
  "handleListings E r = do {
    purgeSweep;
    if URLPath r \<noteq> ''/v1/listings'' then State_Monad.return (writeError E 404 ''not found'')
    else if Method r \<noteq> ''POST'' then State_Monad.return (writeError E 405 ''method not allowed'')
    else do {
      who \<leftarrow> authAgentID (Authorization r);
      case who of
        None \<Rightarrow> State_Monad.return (writeError E 401 ''missing or invalid token'')
      | Some agentID \<Rightarrow>
        (case Body r of
           None \<Rightarrow> State_Monad.return (writeError E 400 ''invalid request'')
         | Some req \<Rightarrow>
           if TrimSpace (reqTopic req) = [] then
             State_Monad.return (writeError E 400 ''topic is required'')
           else do {
             let maxTurns = (if reqMaxTurns req \<le> 0 then 20 else reqMaxTurns req);
             let ttlSeconds = (if reqTTLSeconds req \<le> 0 then 900 else reqTTLSeconds req);
             now \<leftarrow> a_now;
             roomID \<leftarrow> newID ''room'';
             hc \<leftarrow> randomToken;
             let humanCode = ''hc_'' @ hc;
             lid \<leftarrow> newID ''lst'';
             let item = \<lparr>lID = lid, lAgentID = agentID, lTopic = TrimSpace (reqTopic req),
               lTags = reqTags req, lMaxTurns = maxTurns, lTTLSecond = ttlSeconds,
               lCreatedAt = now, lConnected = False, lRoomID = roomID\<rparr>;
             let rm = \<lparr>rID = roomID, rTopic = TrimSpace (reqTopic req), AgentAID = agentID,
               AgentBID = [], rState = RoomStateOpen, TurnIndex = 0, MaxTurns = maxTurns,
               TTLAt = now + wrap64 (ttlSeconds * Second), rCreatedAt = now, ClosedAt = None,
               PurgedAt = None, HumanCodeHash = hashText E humanCode,
               HumanCodeExpiresAt = Some (now + humanCodeTTL),
               Joined = (\<lambda>x. x = agentID), Viewers = [], Messages = []\<rparr>;
             modify (\<lambda>a. a\<lparr>listings := gm_put lid item (listings a),
               rooms := gm_put roomID rm (rooms a)\<rparr>);
             State_Monad.return (writeJSON 201
               (ListingBody item roomID humanCode True (rState rm) (AgentAID rm))) }) } }"

fun anyTagMatches :: "env \<Rightarrow> string \<Rightarrow> string list \<Rightarrow> bool" where
  "anyTagMatches E query [] = False"
| "anyTagMatches E query (t # ts) =
    (if Contains (ToLower (uLower E) t) query then True else anyTagMatches E query ts)"

fun searchListings :: "env \<Rightarrow> string \<Rightarrow> (string, listing) gomap \<Rightarrow> listing list" where
  "searchListings E query [] = []"
| "searchListings E query ((_, l) # ls) =
    (if lConnected l then searchListings E query ls
     else if query = [] then l # searchListings E query ls
     else if Contains (ToLower (uLower E) (lTopic l)) query then l # searchListings E query ls
     else if anyTagMatches E query (lTags l) then l # searchListings E query ls
     else searchListings E query ls)"

definition handleListingSearch :: "env \<Rightarrow> unit request \<Rightarrow> (app, reply) state" where
  "handleListingSearch E r = do {
    purgeSweep;
    if Method r \<noteq> ''GET'' then State_Monad.return (writeError E 405 ''method not allowed'')
    else do {
      let q = (case gm_get (Query r) ''q'' of None \<Rightarrow> [] | Some q \<Rightarrow> q);
      let query = ToLower (uLower E) (TrimSpace q);
      ls \<leftarrow> gets listings;
      State_Monad.return (writeJSON 200 (ListingsBody (searchListings E query ls))) } }"

definition connectBody :: "room \<Rightarrow> string \<Rightarrow> string \<Rightarrow> payload" where
  "connectBody rm humanCode listingID =
    ConnectBody (rID rm) humanCode (AgentAID rm) (AgentBID rm) (rState rm) listingID (AgentAID rm)
      (AgentAID rm)"

definition handleListingByID :: "env \<Rightarrow> unit request \<Rightarrow> (app, reply) state" where
  "handleListingByID E r = do {
    purgeSweep;
    let parts = splitPath (URLPath r);
    if length parts \<noteq> 4 \<or> parts ! 0 \<noteq> ''v1'' \<or> parts ! 1 \<noteq> ''listings'' \<or> parts ! 3 \<noteq> ''connect''
    then State_Monad.return (writeError E 404 ''not found'')
    else if Method r \<noteq> ''POST'' then State_Monad.return (writeError E 405 ''method not allowed'')
    else do {
      who \<leftarrow> authAgentID (Authorization r);
      case who of
        None \<Rightarrow> State_Monad.return (writeError E 401 ''missing or invalid token'')
      | Some agentID \<Rightarrow> do {
          let listingID = parts ! 2;
          found \<leftarrow> gets (\<lambda>a. gm_get (listings a) listingID);
          case found of
            None \<Rightarrow> State_Monad.return (writeError E 404 ''listing not found'')
          | Some l \<Rightarrow>
            if lAgentID l = agentID then
              State_Monad.return (writeError E 403 ''cannot connect to own listing'')
            else if lConnected l then
              State_Monad.return (writeError E 409 ''listing already connected'')
            else do {
              let l = l\<lparr>lConnected := True\<rparr>;
              modify (\<lambda>a. a\<lparr>listings := gm_put listingID l (listings a)\<rparr>);
              rm \<leftarrow> gets (\<lambda>a. room_at a (lRoomID l));
              if TrimSpace (rID rm) = [] then do {
                hc \<leftarrow> randomToken;
                let humanCode = ''hc_'' @ hc;
                now \<leftarrow> a_now;
                roomID \<leftarrow> newID ''room'';
                let rm = \<lparr>rID = roomID, rTopic = TrimSpace (lTopic l), AgentAID = lAgentID l,
                  AgentBID = agentID, rState = RoomStateActive, TurnIndex = 0,
                  MaxTurns = lMaxTurns l, TTLAt = now + wrap64 (lTTLSecond l * Second),
                  rCreatedAt = now, ClosedAt = None, PurgedAt = None,
                  HumanCodeHash = hashText E humanCode,
                  HumanCodeExpiresAt = Some (now + humanCodeTTL),
                  Joined = (\<lambda>x. x = lAgentID l \<or> x = agentID), Viewers = [], Messages = []\<rparr>;
                let l = l\<lparr>lRoomID := roomID\<rparr>;
                modify (\<lambda>a. a\<lparr>listings := gm_put listingID l (listings a),
                  rooms := gm_put roomID rm (rooms a)\<rparr>);
                State_Monad.return (writeJSON 201 (connectBody rm humanCode listingID)) }
              else do {
                let rm = rm\<lparr>AgentBID := agentID, rState := RoomStateActive,
                  Joined := (Joined rm)(lAgentID l := True, agentID := True)\<rparr>;
                put_room (rID rm) rm;
                State_Monad.return (writeJSON 201 (connectBody rm [] listingID)) } } } } }"

section \<open>Rooms\<close>

definition requireRoomMember ::
  "env \<Rightarrow> string \<Rightarrow> string \<Rightarrow> (app, reply + (room \<times> string)) state" where
  "requireRoomMember E auth roomID = do {
    who \<leftarrow> authAgentID auth;
    case who of
      None \<Rightarrow> State_Monad.return (Inl (writeError E 401 ''missing or invalid token''))
    | Some agentID \<Rightarrow> do {
        now \<leftarrow> a_now;
        purgeSweepLocked now;
        found \<leftarrow> gets (\<lambda>a. gm_get (rooms a) roomID);
        case found of
          None \<Rightarrow> State_Monad.return (Inl (writeError E 404 ''room not found''))
        | Some rm \<Rightarrow>
          if AgentAID rm \<noteq> agentID \<and> AgentBID rm \<noteq> agentID then
            State_Monad.return (Inl (writeError E 403 ''not room participant''))
          else State_Monad.return (Inr (rm, agentID)) } }"

definition joinedParticipants :: "room \<Rightarrow> (string, bool) gomap" where
  "joinedParticipants rm =
    (let out = (if TrimSpace (AgentAID rm) \<noteq> []
                then gm_put (AgentAID rm) (Joined rm (AgentAID rm)) [] else [])
     in if TrimSpace (AgentBID rm) \<noteq> []
        then gm_put (AgentBID rm) (Joined rm (AgentBID rm)) out else out)"

definition roomJoin_commit :: "string \<Rightarrow> string \<Rightarrow> (app, reply) state" where
  "roomJoin_commit agentID roomID = do {
    rm \<leftarrow> gets (\<lambda>a. room_at a roomID);
    let rm = rm\<lparr>Joined := (Joined rm)(agentID := True)\<rparr>;
    let rm = (if TrimSpace (AgentBID rm) \<noteq> [] \<and> Joined rm (AgentAID rm) \<and> Joined rm (AgentBID rm)
              then rm\<lparr>rState := RoomStateActive\<rparr> else rm);
    put_room roomID rm;
    State_Monad.return (writeJSON 200 (JoinBody roomID (rState rm) (joinedParticipants rm))) }"

definition handleRoomJoin :: "env \<Rightarrow> unit request \<Rightarrow> string \<Rightarrow> (app, reply) state" where
  "handleRoomJoin E r roomID = do {
    purgeSweep;
    if Method r \<noteq> ''POST'' then State_Monad.return (writeError E 405 ''method not allowed'')
    else do {
      m \<leftarrow> requireRoomMember E (Authorization r) roomID;
      case m of
        Inl resp \<Rightarrow> State_Monad.return resp
      | Inr (rm, agentID) \<Rightarrow>
        if rState rm = RoomStateClosed \<or> rState rm = RoomStatePurged then
          State_Monad.return (writeError E 410 ''room closed'')
        else roomJoin_commit agentID roomID } }"

definition handleRoomLeave :: "unit request \<Rightarrow> string \<Rightarrow> (app, reply) state" where
  "handleRoomLeave r roomID = do {
    purgeSweep;
    if Method r \<noteq> ''POST'' then State_Monad.return (writeMethodNotAllowed [''POST''])
    else State_Monad.return (writeEndpointNotSupported ''/v1/rooms/{id}/leave''
      ''Leave is not implemented. Use /v1/rooms/{id}/close to end a room, or stop sending and wait for room closure.'') }"

record messageRequest =
  ExpectedTurn :: int
  reqCiphertext :: string
  BundleHash :: string

definition allowMessage :: "app \<Rightarrow> string \<Rightarrow> time \<Rightarrow> bool \<times> app" where
  "allowMessage a agentID now =
    (let windowStart = now + - 1 * Minute;
         timestamps = (case messageWindows a agentID of None \<Rightarrow> [] | Some ts \<Rightarrow> ts);
         kept = prune_window timestamps windowStart
     in if length kept \<ge> maxMessagesPerMinute then
          (False, a\<lparr>messageWindows := (messageWindows a)(agentID \<mapsto> kept)\<rparr>)
        else (True, a\<lparr>messageWindows := (messageWindows a)(agentID \<mapsto> kept @ [now])\<rparr>))"

definition expectedSenderID :: "room \<Rightarrow> string" where
  "expectedSenderID rm = (if go_rem (TurnIndex rm) 2 = 0 then AgentAID rm else AgentBID rm)"

definition nextActorID :: "room \<Rightarrow> string" where
  "nextActorID rm =
    (if rState rm \<noteq> RoomStateOpen \<and> rState rm \<noteq> RoomStateActive then [] else expectedSenderID rm)"

definition roomMessage_commit ::
  "env \<Rightarrow> messageRequest \<Rightarrow> string \<Rightarrow> string \<Rightarrow> (app, reply) state" where
  "roomMessage_commit E req agentID roomID = do {
    rm \<leftarrow> gets (\<lambda>a. room_at a roomID);
    now \<leftarrow> a_now;
    ok \<leftarrow> State (\<lambda>a. allowMessage a agentID now);
    if \<not> ok then State_Monad.return (writeError E 429 ''rate limit exceeded'')
    else if ExpectedTurn req \<noteq> TurnIndex rm then
      State_Monad.return (writeError E 409 ''turn_mismatch'')
    else if expectedSenderID rm \<noteq> agentID then
      State_Monad.return (writeError E 409 ''turn_mismatch'')
    else do {
      mid \<leftarrow> newID ''msg'';
      name \<leftarrow> gets (\<lambda>a. case agents a agentID of None \<Rightarrow> [] | Some ag \<Rightarrow> aName ag);
      createdAt \<leftarrow> a_now;
      let msg = \<lparr>mID = mid, mRoomID = roomID, SenderID = agentID, SenderName = name,
        Turn = TurnIndex rm, Ciphertext = reqCiphertext req, mCreatedAt = createdAt\<rparr>;
      let rm = rm\<lparr>Messages := Messages rm @ [msg], TurnIndex := wrap64 (TurnIndex rm + 1)\<rparr>;
      rm \<leftarrow> (if TurnIndex rm \<ge> MaxTurns rm then do {
               closeTime \<leftarrow> a_now;
               State_Monad.return (rm\<lparr>rState := RoomStateClosed, ClosedAt := Some closeTime\<rparr>) }
             else State_Monad.return rm);
      put_room roomID rm;
      State_Monad.return (writeJSON 201
        (MessageBody mid (Turn msg) (TurnIndex rm) (rState rm))) } }"

definition handleRoomMessage :: "env \<Rightarrow> messageRequest request \<Rightarrow> string \<Rightarrow> (app, reply) state" where
  "handleRoomMessage E r roomID = do {
    purgeSweep;
    if Method r \<noteq> ''POST'' then State_Monad.return (writeError E 405 ''method not allowed'')
    else (case Body r of
      None \<Rightarrow> State_Monad.return (writeError E 400 ''invalid request'')
    | Some req \<Rightarrow>
      if TrimSpace (reqCiphertext req) = [] then
        State_Monad.return (writeError E 400 ''invalid request'')
      else do {
        m \<leftarrow> requireRoomMember E (Authorization r) roomID;
        case m of
          Inl resp \<Rightarrow> State_Monad.return resp
        | Inr (rm, agentID) \<Rightarrow>
          if rState rm = RoomStateClosed \<or> rState rm = RoomStatePurged then
            State_Monad.return (writeError E 410 ''room closed'')
          else if rState rm \<noteq> RoomStateActive then
            State_Monad.return (writeAPIError 409 ''room_not_active'' (no_options\<lparr>Recoverable := True,
              Hint := ''Wait until the room becomes ACTIVE before sending messages.''\<rparr>))
          else do {
            now \<leftarrow> a_now;
            if now > TTLAt rm then State_Monad.return (writeError E 410 ''room ttl exceeded'')
            else roomMessage_commit E req agentID roomID } }) }"

definition handleRoomState :: "env \<Rightarrow> unit request \<Rightarrow> string \<Rightarrow> (app, reply) state" where
  "handleRoomState E r roomID = do {
    purgeSweep;
    if Method r \<noteq> ''GET'' then State_Monad.return (writeError E 405 ''method not allowed'')
    else do {
      m \<leftarrow> requireRoomMember E (Authorization r) roomID;
      case m of
        Inl resp \<Rightarrow> State_Monad.return resp
      | Inr (rm, _) \<Rightarrow> do {
          now \<leftarrow> a_now;
          timeout \<leftarrow> gets viewerHeartbeatTimeout;
          State_Monad.return (writeJSON 200 (RoomStateBody (rID rm) (AgentAID rm) (AgentBID rm)
            (rState rm) (TurnIndex rm) (TurnIndex rm) (nextActorID rm) (MaxTurns rm) (TTLAt rm)
            (rCreatedAt rm) (ClosedAt rm) (PurgedAt rm) (activeViewerCount rm now timeout))) } } }"

definition roomClose_commit :: "string \<Rightarrow> (app, reply) state" where
  "roomClose_commit roomID = do {
    rm \<leftarrow> gets (\<lambda>a. room_at a roomID);
    now \<leftarrow> a_now;
    let rm = rm\<lparr>rState := RoomStateClosed, ClosedAt := Some now\<rparr>;
    put_room roomID rm;
    State_Monad.return (writeJSON 200 (CloseBody roomID (rState rm))) }"

definition handleRoomClose :: "env \<Rightarrow> unit request \<Rightarrow> string \<Rightarrow> (app, reply) state" where
  "handleRoomClose E r roomID = do {
    purgeSweep;
    if Method r \<noteq> ''POST'' then State_Monad.return (writeError E 405 ''method not allowed'')
    else do {
      m \<leftarrow> requireRoomMember E (Authorization r) roomID;
      case m of
        Inl resp \<Rightarrow> State_Monad.return resp
      | Inr (rm, _) \<Rightarrow>
        if rState rm = RoomStatePurged then State_Monad.return (writeError E 410 ''room purged'')
        else roomClose_commit roomID } }"

section \<open>Human transcript and viewers\<close>

definition handleTranscript :: "env \<Rightarrow> string request \<Rightarrow> string \<Rightarrow> (app, reply) state" where
  "handleTranscript E r roomID = do {
    purgeSweep;
    if Method r \<noteq> ''POST'' then State_Monad.return (writeError E 405 ''method not allowed'')
    else if gm_get (Query r) ''human_code'' \<noteq> None then
      State_Monad.return (writeAPIError 400 ''invalid_request'' (no_options\<lparr>
        Hint := ''Send human_code in the JSON request body. Query-string human_code is not supported.''\<rparr>))
    else (case Body r of
      None \<Rightarrow> State_Monad.return (writeError E 400 ''invalid request'')
    | Some code \<Rightarrow>
      (let humanCode = TrimSpace code in
       if humanCode = [] then State_Monad.return (writeError E 403 ''missing human_code'')
       else do {
         found \<leftarrow> gets (\<lambda>a. gm_get (rooms a) roomID);
         case found of
           None \<Rightarrow> State_Monad.return (writeError E 404 ''room not found'')
         | Some rm \<Rightarrow>
           if rState rm = RoomStatePurged then
             State_Monad.return (writeError E 410 ''room purged'')
           else if hashText E humanCode \<noteq> HumanCodeHash rm then
             State_Monad.return (writeError E 403 ''invalid human_code'')
           else do {
             expired \<leftarrow> (case HumanCodeExpiresAt rm of
                None \<Rightarrow> State_Monad.return False
              | Some t \<Rightarrow> do { now \<leftarrow> a_now; State_Monad.return (now > t) });
             if expired then State_Monad.return (writeError E 403 ''human_code expired'')
             else State_Monad.return (writeJSON 200 (TranscriptBody roomID (TrimSpace (rTopic rm))
               (AgentAID rm) (AgentBID rm) (TurnIndex rm) (nextActorID rm) (rState rm)
               (Messages rm) (ClosedAt rm) (PurgedAt rm))) } })) }"

record viewerRequest =
  Op :: string
  reqHumanCode :: string
  ViewerToken :: string

definition viewerJoin :: "env \<Rightarrow> viewerRequest \<Rightarrow> string \<Rightarrow> room \<Rightarrow> (app, reply) state" where
  "viewerJoin E req roomID rm =
    (if hashText E (TrimSpace (reqHumanCode req)) \<noteq> HumanCodeHash rm then
       State_Monad.return (writeError E 403 ''invalid human_code'')
     else do {
       expired \<leftarrow> (case HumanCodeExpiresAt rm of
          None \<Rightarrow> State_Monad.return False
        | Some t \<Rightarrow> do { now \<leftarrow> a_now; State_Monad.return (now > t) });
       if expired then State_Monad.return (writeError E 403 ''human_code expired'')
       else do {
         now \<leftarrow> a_now;
         t \<leftarrow> randomToken;
         let token = ''hv_'' @ t;
         let rm = rm\<lparr>Viewers := gm_put token
           \<lparr>vToken = token, JoinedAt = now, LastHeartbeatAt = now, LeftAt = None\<rparr> (Viewers rm)\<rparr>;
         put_room roomID rm;
         timeout \<leftarrow> gets viewerHeartbeatTimeout;
         State_Monad.return (writeJSON 201
           (ViewerJoinBody token (activeViewerCount rm now timeout))) } })"

definition viewerHeartbeat :: "env \<Rightarrow> viewerRequest \<Rightarrow> string \<Rightarrow> room \<Rightarrow> (app, reply) state" where
  "viewerHeartbeat E req roomID rm =
    (let token = TrimSpace (ViewerToken req) in
     case gm_get (Viewers rm) token of
       None \<Rightarrow> State_Monad.return (writeError E 404 ''viewer not found'')
     | Some vw \<Rightarrow>
       if LeftAt vw \<noteq> None then State_Monad.return (writeError E 410 ''viewer left'')
       else do {
         now \<leftarrow> a_now;
         let rm = rm\<lparr>Viewers := gm_put token (vw\<lparr>LastHeartbeatAt := now\<rparr>) (Viewers rm)\<rparr>;
         put_room roomID rm;
         now' \<leftarrow> a_now;
         timeout \<leftarrow> gets viewerHeartbeatTimeout;
         State_Monad.return (writeJSON 200 (ViewerBody (activeViewerCount rm now' timeout))) })"

definition viewerLeave :: "env \<Rightarrow> viewerRequest \<Rightarrow> string \<Rightarrow> room \<Rightarrow> (app, reply) state" where
  "viewerLeave E req roomID rm =
    (let token = TrimSpace (ViewerToken req) in
     case gm_get (Viewers rm) token of
       None \<Rightarrow> State_Monad.return (writeError E 404 ''viewer not found'')
     | Some vw \<Rightarrow> do {
         vw \<leftarrow> (if LeftAt vw = None then do {
                  now \<leftarrow> a_now; State_Monad.return (vw\<lparr>LeftAt := Some now\<rparr>) }
                else State_Monad.return vw);
         let rm = rm\<lparr>Viewers := gm_put token vw (Viewers rm)\<rparr>;
         put_room roomID rm;
         now' \<leftarrow> a_now;
         timeout \<leftarrow> gets viewerHeartbeatTimeout;
         State_Monad.return (writeJSON 200 (ViewerBody (activeViewerCount rm now' timeout))) })"

definition handleRoomViewers :: "env \<Rightarrow> viewerRequest request \<Rightarrow> string \<Rightarrow> (app, reply) state" where
  "handleRoomViewers E r roomID = do {
    purgeSweep;
    if Method r \<noteq> ''POST'' then State_Monad.return (writeError E 405 ''method not allowed'')
    else (case Body r of
      None \<Rightarrow> State_Monad.return (writeError E 400 ''invalid request'')
    | Some req \<Rightarrow> do {
        now \<leftarrow> a_now;
        purgeSweepLocked now;
        found \<leftarrow> gets (\<lambda>a. gm_get (rooms a) roomID);
        case found of
          None \<Rightarrow> State_Monad.return (writeError E 404 ''room not found'')
        | Some rm \<Rightarrow>
          if rState rm = RoomStatePurged then State_Monad.return (writeError E 410 ''room purged'')
          else (let op = TrimSpace (Op req) in
            if op = ''join'' then viewerJoin E req roomID rm
            else if op = ''heartbeat'' then viewerHeartbeat E req roomID rm
            else if op = ''leave'' then viewerLeave E req roomID rm
            else State_Monad.return (writeError E 400 ''unsupported op'')) }) }"

section \<open>Dispatch\<close>

text \<open>
  A raw request carries the undecoded body; \<open>decodeJSON\<close> into the request struct of the chosen
  handler is one of the decoders.
\<close>

record decoders =
  decodeName :: "string \<Rightarrow> string option"
  decodeAPIKey :: "string \<Rightarrow> string option"
  decodeListing :: "string \<Rightarrow> createListingRequest option"
  decodeMessage :: "string \<Rightarrow> messageRequest option"
  decodeHumanCode :: "string \<Rightarrow> string option"
  decodeViewer :: "string \<Rightarrow> viewerRequest option"

definition withBody :: "(string \<Rightarrow> 'b option) \<Rightarrow> string request \<Rightarrow> 'b request" where
  "withBody dec r = \<lparr>Method = Method r, URLPath = URLPath r, Authorization = Authorization r,
     Query = Query r, Body = (case Body r of None \<Rightarrow> None | Some raw \<Rightarrow> dec raw)\<rparr>"

definition noBody :: "string request \<Rightarrow> unit request" where
  "noBody r = withBody (\<lambda>_. None) r"

definition handleRoomByID :: "env \<Rightarrow> decoders \<Rightarrow> string request \<Rightarrow> (app, reply) state" where
  "handleRoomByID E D r =
    (let parts = splitPath (URLPath r) in
     if length parts \<noteq> 4 \<or> parts ! 0 \<noteq> ''v1'' \<or> parts ! 1 \<noteq> ''rooms'' then
       State_Monad.return (writeError E 404 ''not found'')
     else (let roomID = parts ! 2; action = parts ! 3 in
       if action = ''join'' then handleRoomJoin E (noBody r) roomID
       else if action = ''messages'' then handleRoomMessage E (withBody (decodeMessage D) r) roomID
       else if action = ''state'' then handleRoomState E (noBody r) roomID
       else if action = ''leave'' then handleRoomLeave (noBody r) roomID
       else if action = ''close'' then handleRoomClose E (noBody r) roomID
       else if action = ''transcript'' then
         handleTranscript E (withBody (decodeHumanCode D) r) roomID
       else if action = ''viewers'' then handleRoomViewers E (withBody (decodeViewer D) r) roomID
       else State_Monad.return (writeError E 404 ''not found'')))"

end
