(* ===== verification/Memory_Inv.thy ===== *)
theory Memory_Inv
  imports Memory_App
begin

text \<open>
  The invariant of the in-memory server and its preservation by every handler: rooms are well
  formed (turn counter within its bound, transcript in strict alternation, purged rooms empty),
  listings point to their rooms, sessions belong to named agents.
\<close>

section \<open>The invariant\<close>

text \<open>The transcript of a room: turn \<open>i\<close> is the \<open>i\<close>-th message, the agents speak in alternation.\<close>

definition log_ok :: "string \<Rightarrow> room \<Rightarrow> bool" where
  "log_ok rid rm \<longleftrightarrow> int (length (Messages rm)) = TurnIndex rm \<and>
     (\<forall>i < length (Messages rm). Turn (Messages rm ! i) = int i \<and> mRoomID (Messages rm ! i) = rid \<and>
        SenderID (Messages rm ! i) = (if even i then AgentAID rm else AgentBID rm))"

definition room_inv :: "string \<Rightarrow> room \<Rightarrow> bool" where
  "room_inv rid rm \<longleftrightarrow>
     rID rm = rid \<and> rState rm \<in> {RoomStateOpen, RoomStateActive, RoomStateClosed, RoomStatePurged} \<and>
     AgentAID rm \<noteq> [] \<and> AgentBID rm \<noteq> AgentAID rm \<and>
     0 \<le> TurnIndex rm \<and> TurnIndex rm \<le> MaxTurns rm \<and> 0 < MaxTurns rm \<and> in64 (MaxTurns rm) \<and>
     (rState rm \<in> {RoomStateOpen, RoomStateActive} \<longrightarrow> TurnIndex rm < MaxTurns rm) \<and>
     (AgentBID rm = [] \<longrightarrow> TurnIndex rm = 0 \<and> rState rm \<noteq> RoomStateActive) \<and>
     (rState rm = RoomStateClosed \<longrightarrow> ClosedAt rm \<noteq> None) \<and>
     (rState rm = RoomStatePurged \<longrightarrow> Messages rm = [] \<and> Viewers rm = []) \<and>
     (rState rm \<noteq> RoomStatePurged \<longrightarrow> log_ok rid rm)"

text \<open>A room id that has been drawn from the random source.\<close>

definition drawn :: "app \<Rightarrow> string \<Rightarrow> bool" where
  "drawn a rid \<longleftrightarrow> (\<exists>i < draws a. rid = ''room_'' @ entropy a i)"

definition listing_inv :: "app \<Rightarrow> listing \<Rightarrow> bool" where
  "listing_inv a l \<longleftrightarrow> 0 < lMaxTurns l \<and> in64 (lMaxTurns l) \<and>
     (\<exists>rm. gm_get (rooms a) (lRoomID l) = Some rm \<and>
        (\<not> lConnected l \<longrightarrow> AgentBID rm = [] \<and> AgentAID rm = lAgentID l))"

definition agents_inv :: "app \<Rightarrow> bool" where
  "agents_inv a \<longleftrightarrow> (\<forall>t s. sessions a t = Some s \<longrightarrow> sessAgentID s \<noteq> []) \<and>
     (\<forall>h i. agentsByAPIHash a h = Some i \<longrightarrow> i \<noteq> [])"

definition rooms_inv :: "app \<Rightarrow> bool" where
  "rooms_inv a \<longleftrightarrow> gm_wf (rooms a) \<and>
     (\<forall>rid rm. gm_get (rooms a) rid = Some rm \<longrightarrow> room_inv rid rm \<and> drawn a rid)"

definition listings_inv :: "app \<Rightarrow> bool" where
  "listings_inv a \<longleftrightarrow> gm_wf (listings a) \<and>
     (\<forall>lid l. gm_get (listings a) lid = Some l \<longrightarrow> listing_inv a l) \<and>
     (\<forall>i j l k. gm_get (listings a) i = Some l \<and> gm_get (listings a) j = Some k \<and>
        lRoomID l = lRoomID k \<longrightarrow> i = j)"

definition mem_inv :: "app \<Rightarrow> bool" where
  "mem_inv a \<longleftrightarrow> agents_inv a \<and> rooms_inv a \<and> listings_inv a \<and> inj (entropy a)"

lemmas mem_inv_defs = mem_inv_def agents_inv_def rooms_inv_def listings_inv_def listing_inv_def
  drawn_def

lemma mem_inv_listing_unique:
  "mem_inv a \<Longrightarrow> gm_get (listings a) i = Some l \<Longrightarrow> gm_get (listings a) j = Some k \<Longrightarrow>
   lRoomID l = lRoomID k \<Longrightarrow> i = j"
  by (simp add: mem_inv_def listings_inv_def)

lemma mem_inv_listing: "mem_inv a \<Longrightarrow> gm_get (listings a) i = Some l \<Longrightarrow> listing_inv a l"
  by (simp add: mem_inv_def listings_inv_def)

lemma mem_invI:
  assumes "agents_inv a" and "rooms_inv a" and "inj (entropy a)" and "gm_wf (listings a)"
    and "\<And>i l. gm_get (listings a) i = Some l \<Longrightarrow> listing_inv a l"
    and "\<And>i j l k. gm_get (listings a) i = Some l \<Longrightarrow> gm_get (listings a) j = Some k \<Longrightarrow>
      lRoomID l = lRoomID k \<Longrightarrow> i = j"
  shows "mem_inv a"
  using assms(1-4) unfolding mem_inv_def listings_inv_def
  by (intro conjI allI impI) (blast intro: assms(5,6))+

section \<open>How single updates act on the invariant\<close>

lemma mem_inv_cong:
  "mem_inv a \<Longrightarrow> agents_inv b \<Longrightarrow> rooms b = rooms a \<Longrightarrow> listings b = listings a \<Longrightarrow>
   entropy b = entropy a \<Longrightarrow> draws a \<le> draws b \<Longrightarrow> mem_inv b"
  by (auto simp: mem_inv_defs) (meson order_less_le_trans)

lemma mem_inv_frame [simp]:
  "mem_inv (a\<lparr>ticks := n\<rparr>) \<longleftrightarrow> mem_inv a"
  "mem_inv (a\<lparr>messageWindows := w\<rparr>) \<longleftrightarrow> mem_inv a"
  "mem_inv (a\<lparr>auditEvents := ev\<rparr>) \<longleftrightarrow> mem_inv a"
  by (auto simp: mem_inv_defs)

lemma mem_inv_draw [simp]: "mem_inv a \<Longrightarrow> mem_inv (a\<lparr>draws := Suc (draws a)\<rparr>)"
  by (rule mem_inv_cong [of a]) (auto simp: mem_inv_def agents_inv_def)

lemma mem_inv_drop_session [simp]: "mem_inv a \<Longrightarrow> mem_inv (a\<lparr>sessions := (sessions a)(t := None)\<rparr>)"
  by (rule mem_inv_cong [of a]) (auto simp: mem_inv_def agents_inv_def)

lemma mem_inv_room: "mem_inv a \<Longrightarrow> gm_get (rooms a) rid = Some rm \<Longrightarrow> room_inv rid rm"
  by (simp add: mem_inv_def rooms_inv_def)

text \<open>Storing a room with the same two agents keeps the invariant if the room itself is well formed.\<close>

lemma mem_inv_put_room:
  assumes "mem_inv a" and "gm_get (rooms a) rid = Some rm0" and "room_inv rid rm"
    and "AgentAID rm = AgentAID rm0" and "AgentBID rm = AgentBID rm0"
  shows "mem_inv (a\<lparr>rooms := gm_put rid rm (rooms a)\<rparr>)"
  using assms by (fastforce simp: mem_inv_defs)

lemma listing_inv_cong:
  assumes "listing_inv a l"
    and "\<And>rm. gm_get (rooms a) (lRoomID l) = Some rm \<Longrightarrow>
      \<exists>rm'. gm_get (rooms b) (lRoomID l) = Some rm' \<and>
        AgentAID rm' = AgentAID rm \<and> AgentBID rm' = AgentBID rm"
  shows "listing_inv b l"
  using assms by (fastforce simp: listing_inv_def)

subsection \<open>The clock, the random source and authentication\<close>

lemma run_a_now [simp]: "run_state a_now a = (clock a (ticks a), a\<lparr>ticks := Suc (ticks a)\<rparr>)"
  by (simp add: a_now_def)

lemma run_randomToken [simp]:
  "run_state randomToken a = (entropy a (draws a), a\<lparr>draws := Suc (draws a)\<rparr>)"
  by (simp add: randomToken_def)

lemma run_newID [simp]:
  "run_state (newID p) a = (p @ ''_'' @ entropy a (draws a), a\<lparr>draws := Suc (draws a)\<rparr>)"
  by (simp add: newID_def)

lemma run_put_room [simp]:
  "run_state (put_room rid rm) a = ((), a\<lparr>rooms := gm_put rid rm (rooms a)\<rparr>)"
  by (simp add: put_room_def)

lemma keeps_a_now [hoare_intros]: "keeps mem_inv a_now"
  by (simp add: hoare_def)

lemma keeps_randomToken [hoare_intros]: "keeps mem_inv randomToken"
  by (simp add: hoare_def)

lemma keeps_newID [hoare_intros]: "keeps mem_inv (newID p)"
  by (simp add: hoare_def)

lemma keeps_authAgentID [hoare_intros]: "keeps mem_inv (authAgentID auth)"
  unfolding authAgentID_def
  by (intro hoare_intros keeps_modify) (simp add: fun_upd_def [symmetric])

text \<open>An authenticated agent has a name; authentication touches only the sessions and the clock.\<close>

lemma authAgentID_result:
  assumes "run_state (authAgentID auth) a = (Some ag, a')"
  shows "\<exists>s. sessions a (TrimSpace (TrimPrefix auth ''Bearer '')) = Some s \<and> sessAgentID s = ag \<and>
    sessExpiresAt s > clock a (ticks a) \<and> a' = a\<lparr>ticks := Suc (ticks a)\<rparr>"
  using assms by (auto simp: authAgentID_def Let_def split: if_splits option.splits)

lemma authAgentID_named:
  "mem_inv a \<Longrightarrow> run_state (authAgentID auth) a = (Some ag, a') \<Longrightarrow> ag \<noteq> []"
  by (auto dest!: authAgentID_result simp: mem_inv_def agents_inv_def)

subsection \<open>The purge sweep\<close>

lemma sweepRoom_agents [simp]:
  "AgentAID (fst (sweepRoom a now rid rm)) = AgentAID rm"
  "AgentBID (fst (sweepRoom a now rid rm)) = AgentBID rm"
  "rID (fst (sweepRoom a now rid rm)) = rID rm"
  by (auto simp: sweepRoom_def Let_def split: RoomState.splits)

lemma sweepRoom_inv: "room_inv rid rm \<Longrightarrow> room_inv rid (fst (sweepRoom a now rid rm))"
  by (auto simp: sweepRoom_def Let_def room_inv_def log_ok_def split: RoomState.splits)

definition swept :: "time \<Rightarrow> app \<Rightarrow> app" where
  "swept now a = snd (run_state (purgeSweepLocked now) a)"

lemma run_purgeSweepLocked [simp]: "run_state (purgeSweepLocked now) a = ((), swept now a)"
  by (simp add: swept_def purgeSweepLocked_def)

lemma swept_rooms:
  "gm_get (rooms (swept now a)) rid =
     map_option (\<lambda>rm. fst (sweepRoom a now rid rm)) (gm_get (rooms a) rid)"
  by (simp add: swept_def purgeSweepLocked_def gm_get_map)

lemma swept_same [simp]:
  "agents (swept now a) = agents a" "agentsByAPIHash (swept now a) = agentsByAPIHash a"
  "sessions (swept now a) = sessions a" "listings (swept now a) = listings a"
  "messageWindows (swept now a) = messageWindows a" "clock (swept now a) = clock a"
  "ticks (swept now a) = ticks a" "entropy (swept now a) = entropy a" "draws (swept now a) = draws a"
  "viewerHeartbeatTimeout (swept now a) = viewerHeartbeatTimeout a"
  by (simp_all add: swept_def purgeSweepLocked_def)

lemma gm_wf_swept [simp]: "gm_wf (rooms (swept now a)) \<longleftrightarrow> gm_wf (rooms a)"
  by (simp add: swept_def purgeSweepLocked_def)

lemma rooms_inv_swept: "rooms_inv a \<Longrightarrow> rooms_inv (swept now a)"
  by (auto simp: rooms_inv_def swept_rooms drawn_def sweepRoom_inv)

lemma listings_inv_swept: "listings_inv a \<Longrightarrow> listings_inv (swept now a)"
  by (fastforce simp: listings_inv_def swept_rooms intro: listing_inv_cong)

lemma mem_inv_swept [simp]: "mem_inv a \<Longrightarrow> mem_inv (swept now a)"
  by (simp add: mem_inv_def rooms_inv_swept listings_inv_swept) (simp add: agents_inv_def)

lemma keeps_purgeSweepLocked [hoare_intros]: "keeps mem_inv (purgeSweepLocked now)"
  by (simp add: hoare_def)

lemma keeps_purgeSweep [hoare_intros]: "keeps mem_inv purgeSweep"
  unfolding purgeSweep_def by (intro hoare_intros)

section \<open>Membership\<close>

lemma keeps_requireRoomMember [hoare_intros]: "keeps mem_inv (requireRoomMember E auth rid)"
  unfolding requireRoomMember_def by (intro hoare_intros)

text \<open>The state a handler goes on from once it holds room \<open>rm\<close>.\<close>

definition room_here :: "string \<Rightarrow> room \<Rightarrow> app \<Rightarrow> bool" where
  "room_here rid rm a \<longleftrightarrow> mem_inv a \<and> gm_get (rooms a) rid = Some rm"

lemma requireRoomMember_result:
  assumes "mem_inv a" and "run_state (requireRoomMember E auth rid) a = (Inr (rm, ag), a')"
  shows "room_here rid rm a'" and "ag \<noteq> []" and "AgentAID rm = ag \<or> AgentBID rm = ag"
proof -
  have inv: "mem_inv a'"
    using hoareD [OF keeps_requireRoomMember assms] .
  from assms(2) obtain a1 where "run_state (authAgentID auth) a = (Some ag, a1)"
    and "gm_get (rooms a') rid = Some rm" and "AgentAID rm = ag \<or> AgentBID rm = ag"
    by (auto simp: requireRoomMember_def split: prod.splits option.splits if_splits)
  with inv authAgentID_named [OF assms(1)]
  show "room_here rid rm a'" "ag \<noteq> []" "AgentAID rm = ag \<or> AgentBID rm = ag"
    by (auto simp: room_here_def)
qed

lemma room_here_inv: "room_here rid rm a \<Longrightarrow> room_inv rid rm"
  by (auto simp: room_here_def intro: mem_inv_room)

end
