(* ===== verification/Memory_Rooms.thy ===== *)
theory Memory_Rooms
  imports Memory_Inv "HOL-Library.Sublist"
begin

text \<open>
  What one request may do to a room (\<open>room_step\<close>), and the contract of the room table towards the
  handlers as a locale: a predicate on the server that survives frame changes, sweeps and stores
  of a room step is kept by every handler but connect. The locale is interpreted twice, on the
  invariant of the server and on the history relation \<open>evolves\<close>.
\<close>

section \<open>One step of a room\<close>

definition room_step :: "room \<Rightarrow> room \<Rightarrow> bool" where
  "room_step rm rm' \<longleftrightarrow>
     rID rm' = rID rm \<and> rTopic rm' = rTopic rm \<and> AgentAID rm' = AgentAID rm \<and>
     AgentBID rm' = AgentBID rm \<and> MaxTurns rm' = MaxTurns rm \<and> TTLAt rm' = TTLAt rm \<and>
     rCreatedAt rm' = rCreatedAt rm \<and> HumanCodeHash rm' = HumanCodeHash rm \<and>
     HumanCodeExpiresAt rm' = HumanCodeExpiresAt rm \<and> TurnIndex rm \<le> TurnIndex rm' \<and>
     state_reaches (rState rm) (rState rm') \<and>
     (rState rm' = RoomStatePurged \<or> prefix (Messages rm) (Messages rm'))"

lemma state_reaches_purged [simp]: "state_reaches RoomStatePurged s \<longleftrightarrow> s = RoomStatePurged"
  by (cases s) (auto simp: state_reaches_iff)

lemma room_step_refl [simp]: "room_step rm rm"
  by (simp add: room_step_def state_reaches.here)

lemma room_step_trans: "room_step rm rm' \<Longrightarrow> room_step rm' rm'' \<Longrightarrow> room_step rm rm''"
  by (auto simp: room_step_def dest: state_reaches_trans prefix_order.trans)

lemma room_step_sweep: "room_step rm (fst (sweepRoom a now rid rm))"
  by (auto simp: sweepRoom_def Let_def room_step_def state_reaches_iff split: RoomState.splits)

lemma room_step_viewers: "room_step rm (rm\<lparr>Viewers := v\<rparr>)"
  by (simp add: room_step_def state_reaches.here)

lemma room_step_join:
  "room_step rm (rm\<lparr>Joined := j\<rparr>)"
  "rState rm \<in> {RoomStateOpen, RoomStateActive} \<Longrightarrow>
    room_step rm (rm\<lparr>Joined := j, rState := RoomStateActive\<rparr>)"
  by (auto simp: room_step_def state_reaches_iff)

lemma room_step_close:
  "rState rm \<in> {RoomStateOpen, RoomStateActive, RoomStateClosed} \<Longrightarrow>
   room_step rm (rm\<lparr>rState := RoomStateClosed, ClosedAt := c\<rparr>)"
  by (auto simp: room_step_def state_reaches_iff)

text \<open>Under the room invariant the turn counter never wraps.\<close>

lemma next_turn_no_wrap:
  "room_inv rid rm \<Longrightarrow> TurnIndex rm < MaxTurns rm \<Longrightarrow> wrap64 (TurnIndex rm + 1) = TurnIndex rm + 1"
  by (rule wrap64_id) (auto simp: room_inv_def in64_def min64_def)

lemma expectedSenderID_parity:
  "0 \<le> TurnIndex rm \<Longrightarrow>
   expectedSenderID rm = (if even (TurnIndex rm) then AgentAID rm else AgentBID rm)"
  by (auto simp: expectedSenderID_def even_iff_mod_2_eq_zero)

lemma log_ok_append:
  assumes "log_ok rid rm" and "Turn msg = TurnIndex rm" and "mRoomID msg = rid"
    and "SenderID msg = expectedSenderID rm"
  shows "log_ok rid (rm\<lparr>Messages := Messages rm @ [msg], TurnIndex := TurnIndex rm + 1\<rparr>)"
  using assms
  by (auto simp: log_ok_def nth_append less_Suc_eq expectedSenderID_parity) (metis even_of_nat)+

lemma log_ok_update [simp]:
  "log_ok rid (rm\<lparr>rState := s\<rparr>) \<longleftrightarrow> log_ok rid rm" "log_ok rid (rm\<lparr>ClosedAt := c\<rparr>) \<longleftrightarrow> log_ok rid rm"
  "log_ok rid (rm\<lparr>Joined := j\<rparr>) \<longleftrightarrow> log_ok rid rm" "log_ok rid (rm\<lparr>Viewers := v\<rparr>) \<longleftrightarrow> log_ok rid rm"
  by (simp_all add: log_ok_def)

lemma message_room_inv:
  assumes inv: "room_inv rid rm" and "rState rm = RoomStateActive"
    and msg: "Turn msg = TurnIndex rm" "mRoomID msg = rid" "SenderID msg = expectedSenderID rm"
    and rm': "rm' = rm\<lparr>Messages := Messages rm @ [msg], TurnIndex := wrap64 (TurnIndex rm + 1)\<rparr>"
  shows "TurnIndex rm' < MaxTurns rm' \<Longrightarrow> room_inv rid rm'"
    and "room_inv rid (rm'\<lparr>rState := RoomStateClosed, ClosedAt := Some t\<rparr>)"
proof -
  have lt: "TurnIndex rm < MaxTurns rm" and log: "log_ok rid rm" and b: "AgentBID rm \<noteq> []"
    using assms by (auto simp: room_inv_def)
  have rm'': "rm' = rm\<lparr>Messages := Messages rm @ [msg], TurnIndex := TurnIndex rm + 1\<rparr>"
    using next_turn_no_wrap [OF inv lt] rm' by simp
  have log': "log_ok rid rm'"
    unfolding rm'' by (rule log_ok_append [OF log msg])
  show "TurnIndex rm' < MaxTurns rm' \<Longrightarrow> room_inv rid rm'"
    using inv lt b log' assms(2) by (auto simp: room_inv_def rm'')
  show "room_inv rid (rm'\<lparr>rState := RoomStateClosed, ClosedAt := Some t\<rparr>)"
    using inv lt b log' by (auto simp: room_inv_def rm'')
qed

lemma message_room_step:
  fixes msg :: message
  assumes "room_inv rid rm" and "rState rm = RoomStateActive"
  defines "rm' \<equiv> rm\<lparr>Messages := Messages rm @ [msg], TurnIndex := wrap64 (TurnIndex rm + 1)\<rparr>"
  shows "room_step rm rm'" and "room_step rm (rm'\<lparr>rState := RoomStateClosed, ClosedAt := c\<rparr>)"
proof -
  have "TurnIndex rm < MaxTurns rm" using assms by (simp add: room_inv_def)
  then have "wrap64 (TurnIndex rm + 1) = TurnIndex rm + 1" by (rule next_turn_no_wrap [OF assms(1)])
  with assms(2) show "room_step rm rm'" "room_step rm (rm'\<lparr>rState := RoomStateClosed, ClosedAt := c\<rparr>)"
    by (auto simp: rm'_def room_step_def state_reaches_iff)
qed

text \<open>A room id that was drawn and is not yet in use.\<close>

definition fresh_room :: "string \<Rightarrow> app \<Rightarrow> bool" where
  "fresh_room rid a \<longleftrightarrow> mem_inv a \<and> drawn a rid \<and> gm_get (rooms a) rid = None"

lemma hoare_newID_room: "hoare mem_inv (newID ''room'') fresh_room"
proof (rule hoareI)
  fix a assume inv: "mem_inv a"
  let ?rid = "''room_'' @ entropy a (draws a)"
  have "gm_get (rooms a) ?rid = None"
  proof (rule ccontr)
    assume "gm_get (rooms a) ?rid \<noteq> None"
    with inv have "drawn a ?rid" by (auto simp: mem_inv_def rooms_inv_def)
    then obtain i where "i < draws a" "entropy a (draws a) = entropy a i" by (auto simp: drawn_def)
    moreover have "inj (entropy a)" using inv by (simp add: mem_inv_def)
    ultimately show False by (metis injD less_irrefl)
  qed
  with inv show "fresh_room (fst (run_state (newID ''room'') a)) (snd (run_state (newID ''room'') a))"
    by (auto simp: fresh_room_def drawn_def)
qed

lemma keeps_fresh:
  "keeps (fresh_room rid) a_now" "keeps (fresh_room rid) randomToken" "keeps (fresh_room rid) (newID p)"
  by (auto simp: hoare_def fresh_room_def drawn_def) (metis less_Suc_eq)+

lemma mem_inv_new_listing:
  assumes "fresh_room rid a" and "room_inv rid rm" and "lRoomID l = rid"
    and "0 < lMaxTurns l" "in64 (lMaxTurns l)" "AgentBID rm = []" "AgentAID rm = lAgentID l"
  shows "mem_inv (a\<lparr>listings := gm_put lid l (listings a), rooms := gm_put rid rm (rooms a)\<rparr>)"
proof -
  let ?b = "a\<lparr>listings := gm_put lid l (listings a), rooms := gm_put rid rm (rooms a)\<rparr>"
  from assms(1) have inv: "mem_inv a" and new: "gm_get (rooms a) rid = None" and dr: "drawn a rid"
    by (auto simp: fresh_room_def)
  have elsewhere: "lRoomID k \<noteq> rid" if "gm_get (listings a) i = Some k" for i k
    using inv new that by (fastforce simp: mem_inv_def listings_inv_def listing_inv_def)
  have "rooms_inv ?b"
    using inv dr assms(2) by (auto simp: mem_inv_def rooms_inv_def drawn_def)
  moreover have "listing_inv ?b k" if "gm_get (listings ?b) i = Some k" for i k
  proof (cases "i = lid")
    case True
    with that assms show ?thesis by (auto simp: listing_inv_def)
  next
    case False
    with that have k: "gm_get (listings a) i = Some k" by simp
    with mem_inv_listing [OF inv k] elsewhere show ?thesis by (auto simp: listing_inv_def)
  qed
  moreover have "i = j" if k: "gm_get (listings ?b) i = Some k" "gm_get (listings ?b) j = Some k'"
    and same: "lRoomID k = lRoomID k'" for i j k k'
  proof (cases "i = lid \<or> j = lid")
    case True
    with k same assms(3) elsewhere [of i k] elsewhere [of j k'] show ?thesis
      by (auto split: if_splits)
  next
    case False
    with k have "gm_get (listings a) i = Some k" "gm_get (listings a) j = Some k'" by auto
    then show ?thesis by (rule mem_inv_listing_unique [OF inv _ _ same])
  qed
  moreover have "agents_inv ?b" "inj (entropy ?b)" "gm_wf (listings ?b)"
    using inv by (auto simp: mem_inv_def agents_inv_def listings_inv_def)
  ultimately show ?thesis by (intro mem_invI)
qed

section \<open>The contract\<close>

locale room_invariant =
  fixes I :: "app \<Rightarrow> bool"
  assumes I_inv: "I a \<Longrightarrow> mem_inv a"
    and I_frame: "I a \<Longrightarrow> mem_inv b \<Longrightarrow> map_of (rooms a) \<subseteq>\<^sub>m map_of (rooms b) \<Longrightarrow> I b"
    and I_sweep: "I a \<Longrightarrow> I (swept now a)"
    and I_store: "I a \<Longrightarrow> gm_get (rooms a) rid = Some rm \<Longrightarrow> room_inv rid rm' \<Longrightarrow> room_step rm rm' \<Longrightarrow>
      I (a\<lparr>rooms := gm_put rid rm' (rooms a)\<rparr>)"
begin

lemma I_same_rooms: "I a \<Longrightarrow> mem_inv b \<Longrightarrow> rooms b = rooms a \<Longrightarrow> I b"
  by (erule I_frame) simp_all

lemma keeps_lift:
  assumes "keeps mem_inv m" and "\<And>a. rooms (snd (run_state m a)) = rooms a"
  shows "keeps I m"
proof (rule hoareI)
  fix a assume "I a"
  moreover from this have "mem_inv (snd (run_state m a))"
    by (intro hoare_snd [OF assms(1)] I_inv)
  ultimately show "I (snd (run_state m a))" using assms(2) by (rule I_same_rooms)
qed

lemma keeps_basic [hoare_intros]:
  "keeps I a_now" "keeps I randomToken" "keeps I (newID p)" "keeps I (purgeSweepLocked now)"
proof -
  show "keeps I (purgeSweepLocked now)" by (simp add: hoare_def I_sweep)
qed (rule keeps_lift; (intro hoare_intros)?; simp)+

lemma keeps_sweep [hoare_intros]: "keeps I purgeSweep"
  unfolding purgeSweep_def by (intro hoare_intros)

lemma keeps_auth [hoare_intros]: "keeps I (authAgentID auth)"
proof (rule keeps_lift)
  show "rooms (snd (run_state (authAgentID auth) a)) = rooms a" for a
    by (simp add: authAgentID_def Let_def split: option.splits)
qed (rule keeps_authAgentID)

lemma keeps_member [hoare_intros]: "keeps I (requireRoomMember E auth rid)"
  unfolding requireRoomMember_def by (intro hoare_intros)

subsection \<open>Going on with a room\<close>

text \<open>The state a handler goes on from once it holds room \<open>rm\<close>.\<close>

definition here :: "string \<Rightarrow> room \<Rightarrow> app \<Rightarrow> bool" where
  "here rid rm a \<longleftrightarrow> I a \<and> gm_get (rooms a) rid = Some rm"

lemma here_room_inv: "here rid rm a \<Longrightarrow> room_inv rid rm"
  by (auto simp: here_def intro: mem_inv_room I_inv)

lemma keeps_after_member:
  assumes "\<And>resp. keeps I (f (Inl resp))"
    and "\<And>rm ag. ag \<noteq> [] \<Longrightarrow> AgentAID rm = ag \<or> AgentBID rm = ag \<Longrightarrow> room_inv rid rm \<Longrightarrow>
      hoare (here rid rm) (f (Inr (rm, ag))) (\<lambda>_. I)"
  shows "keeps I (State_Monad.bind (requireRoomMember E auth rid) f)"
proof (rule hoareI)
  fix a assume inv: "I a"
  obtain m a' where run: "run_state (requireRoomMember E auth rid) a = (m, a')" by fastforce
  have "I (snd (run_state (f m) a'))"
  proof (cases m)
    case (Inl resp)
    then show ?thesis
      using hoare_snd [OF assms(1)] hoareD [OF keeps_member inv run] by simp
  next
    case (Inr x)
    then obtain rm ag where m: "m = Inr (rm, ag)" by (cases x) auto
    note res = requireRoomMember_result [OF I_inv [OF inv] run [unfolded m]]
    have "here rid rm a'"
      using res(1) hoareD [OF keeps_member inv run] by (simp add: here_def room_here_def)
    then show ?thesis
      unfolding m using res by (intro hoare_snd [OF assms(2)] here_room_inv) auto
  qed
  then show "I (snd (run_state (State_Monad.bind (requireRoomMember E auth rid) f) a))"
    by (simp add: run)
qed

lemma keeps_here:
  assumes "keeps I m" and "\<And>a. rooms (snd (run_state m a)) = rooms a"
  shows "keeps (here rid rm) m"
  using assms by (auto simp: hoare_def here_def)

lemma rooms_allowMessage: "rooms (snd (allowMessage a who now)) = rooms a"
  by (simp add: allowMessage_def Let_def)

lemma keeps_allow: "keeps I (State (\<lambda>a. allowMessage a who now))"
  by (rule keeps_lift) (auto simp: hoare_def rooms_allowMessage, simp add: allowMessage_def Let_def)

lemma hoare_room_at:
  "hoare (here rid rm) (f rm) Q \<Longrightarrow>
   hoare (here rid rm) (State_Monad.bind (gets (\<lambda>a. room_at a rid)) f) Q"
  by (auto simp: hoare_def here_def room_at_def)

text \<open>The last step of a handler: store the changed room and reply.\<close>

lemma hoare_store_reply:
  assumes "room_inv rid rm'" and "room_step rm rm'" and "\<And>u. keeps I (f u)"
  shows "hoare (here rid rm) (State_Monad.bind (put_room rid rm') f) (\<lambda>_. I)"
proof (rule hoare_bind [where R = "\<lambda>_. I"])
  show "hoare (here rid rm) (put_room rid rm') (\<lambda>_. I)"
    using assms by (auto simp: hoare_def here_def intro: I_store)
qed (rule assms(3))

lemma hoare_here_return: "hoare (here rid rm) (State_Monad.return x) (\<lambda>_. I)"
  by (simp add: hoare_def here_def)

lemma hoare_here_case_option:
  "(x = None \<Longrightarrow> hoare P m Q) \<Longrightarrow> (\<And>a. x = Some a \<Longrightarrow> hoare P (f a) Q) \<Longrightarrow>
   hoare P (case x of None \<Rightarrow> m | Some a \<Rightarrow> f a) Q"
  by (cases x) auto

lemmas here_keep = hoare_bind_keep [OF keeps_here]

lemma here_basic:
  "(\<And>x. hoare (here rid rm) (f x) Q) \<Longrightarrow> hoare (here rid rm) (State_Monad.bind a_now f) Q"
  "(\<And>y. hoare (here rid rm) (g y) Q) \<Longrightarrow> hoare (here rid rm) (State_Monad.bind randomToken g) Q"
  "(\<And>y. hoare (here rid rm) (g y) Q) \<Longrightarrow> hoare (here rid rm) (State_Monad.bind (newID p) g) Q"
  "(\<And>z. hoare (here rid rm) (h z) Q) \<Longrightarrow>
    hoare (here rid rm) (State_Monad.bind (State (\<lambda>a. allowMessage a who now)) h) Q"
  by (rule here_keep; auto intro: keeps_basic keeps_allow simp: rooms_allowMessage)+

lemmas here_intros = hoare_if hoare_let hoare_room_at hoare_here_return here_basic
  hoare_bind_keep [OF keeps_gets]

subsection \<open>Rooms: every handler keeps the predicate\<close>

lemma hoare_roomMessage_commit:
  assumes inv: "room_inv rid rm" and act: "rState rm = RoomStateActive"
  shows "hoare (here rid rm) (roomMessage_commit E req ag rid) (\<lambda>_. I)"
proof -
  note ok = message_room_inv [OF inv act _ _ _ refl] message_room_step [OF inv act]
  show ?thesis
    unfolding roomMessage_commit_def prog_norm
    by (intro here_intros hoare_store_reply hoare_intros) (auto intro!: ok)
qed

lemma hoare_roomJoin_commit:
  assumes "room_inv rid rm" "rState rm \<noteq> RoomStateClosed" "rState rm \<noteq> RoomStatePurged"
  shows "hoare (here rid rm) (roomJoin_commit ag rid) (\<lambda>_. I)"
proof -
  have "room_inv rid (rm\<lparr>Joined := j\<rparr>)"
    and "TrimSpace (AgentBID rm) \<noteq> [] \<Longrightarrow>
      room_inv rid (rm\<lparr>Joined := j, rState := RoomStateActive\<rparr>)"
    and "rState rm \<in> {RoomStateOpen, RoomStateActive}" for j
    using assms by (auto simp: room_inv_def log_ok_def)
  then show ?thesis
    unfolding roomJoin_commit_def prog_norm
    by (intro here_intros hoare_store_reply hoare_intros) (simp_all add: room_step_join)
qed

lemma hoare_roomClose_commit:
  assumes "room_inv rid rm" "rState rm \<noteq> RoomStatePurged"
  shows "hoare (here rid rm) (roomClose_commit rid) (\<lambda>_. I)"
  unfolding roomClose_commit_def prog_norm
  using assms by (intro here_intros hoare_store_reply hoare_intros)
    (auto simp: room_inv_def intro!: room_step_close)

lemma hoare_viewers:
  assumes np: "room_inv rid rm" "rState rm \<noteq> RoomStatePurged"
  shows "hoare (here rid rm) (viewerJoin E req rid rm) (\<lambda>_. I)"
    and "hoare (here rid rm) (viewerHeartbeat E req rid rm) (\<lambda>_. I)"
    and "hoare (here rid rm) (viewerLeave E req rid rm) (\<lambda>_. I)"
proof -
  have "room_inv rid (rm\<lparr>Viewers := v\<rparr>)" for v
    using np by (simp add: room_inv_def)
  note ok = this room_step_viewers
  show "hoare (here rid rm) (viewerJoin E req rid rm) (\<lambda>_. I)"
    and "hoare (here rid rm) (viewerHeartbeat E req rid rm) (\<lambda>_. I)"
    and "hoare (here rid rm) (viewerLeave E req rid rm) (\<lambda>_. I)"
    unfolding viewerJoin_def viewerHeartbeat_def viewerLeave_def prog_norm
    by (intro here_intros hoare_here_case_option hoare_store_reply hoare_intros; rule ok)+
qed

lemma hoare_find_room:
  assumes "keeps I m" and "\<And>rm. room_inv rid rm \<Longrightarrow> hoare (here rid rm) (f rm) (\<lambda>_. I)"
  shows "keeps I (State_Monad.bind (gets (\<lambda>a. gm_get (rooms a) rid))
    (\<lambda>found. case found of None \<Rightarrow> m | Some rm \<Rightarrow> f rm))"
proof (rule hoareI)
  fix a assume "I a"
  with assms(1) hoare_snd [OF assms(2) [OF here_room_inv]] show "I (snd (run_state (State_Monad.bind
      (gets (\<lambda>a. gm_get (rooms a) rid)) (\<lambda>found. case found of None \<Rightarrow> m | Some rm \<Rightarrow> f rm)) a))"
    by (auto simp: hoare_def here_def split: option.splits)
qed

lemma keeps_handleRoomViewers: "keeps I (handleRoomViewers E r rid)"
  unfolding handleRoomViewers_def Let_def
  by (intro hoare_intros hoare_find_room here_intros hoare_viewers; assumption)

lemma keeps_handleRoomMessage: "keeps I (handleRoomMessage E r rid)"
  unfolding handleRoomMessage_def
  by (intro hoare_intros keeps_after_member)
    (auto intro!: hoare_intros here_intros hoare_roomMessage_commit)

lemma keeps_handleRoomJoin: "keeps I (handleRoomJoin E r rid)"
  unfolding handleRoomJoin_def
  by (intro hoare_intros keeps_after_member)
    (auto intro!: hoare_intros here_intros hoare_roomJoin_commit)

lemma keeps_handleRoomClose: "keeps I (handleRoomClose E r rid)"
  unfolding handleRoomClose_def
  by (intro hoare_intros keeps_after_member)
    (auto intro!: hoare_intros here_intros hoare_roomClose_commit)

lemma keeps_handleRoomState: "keeps I (handleRoomState E r rid)"
  unfolding handleRoomState_def
  by (intro hoare_intros keeps_after_member) (auto intro!: hoare_intros here_intros)

lemma keeps_handleRoomLeave: "keeps I (handleRoomLeave r rid)"
  unfolding handleRoomLeave_def by (intro hoare_intros)

lemma keeps_handleTranscript: "keeps I (handleTranscript E r rid)"
  unfolding handleTranscript_def Let_def by (intro hoare_intros)

lemma keeps_handleRoomByID: "keeps I (handleRoomByID E D r)"
  unfolding handleRoomByID_def Let_def
  by (intro hoare_intros keeps_handleRoomJoin keeps_handleRoomMessage keeps_handleRoomState
      keeps_handleRoomLeave keeps_handleRoomClose keeps_handleTranscript keeps_handleRoomViewers)

lemma keeps_handleListingSearch: "keeps I (handleListingSearch E r)"
  unfolding handleListingSearch_def Let_def by (intro hoare_intros)

subsection \<open>Registration, login and new listings\<close>

lemma keeps_bind_newID:
  "(\<And>x. x \<noteq> [] \<Longrightarrow> keeps I (f x)) \<Longrightarrow> keeps I (State_Monad.bind (newID p) f)"
  using keeps_basic(3) [of p] by (auto simp: hoare_def)

lemma keeps_bind_auth:
  assumes "\<And>w. (\<And>ag. w = Some ag \<Longrightarrow> ag \<noteq> []) \<Longrightarrow> keeps I (f w)"
  shows "keeps I (State_Monad.bind (authAgentID auth) f)"
proof (rule hoareI)
  fix a assume inv: "I a"
  obtain w a' where run: "run_state (authAgentID auth) a = (w, a')" by fastforce
  with I_inv [OF inv] have "w = Some ag \<Longrightarrow> ag \<noteq> []" for ag
    by (auto dest: authAgentID_named)
  with hoareD [OF keeps_auth inv run] hoare_snd [OF assms, of w a']
  show "I (snd (run_state (State_Monad.bind (authAgentID auth) f) a))"
    by (simp add: run)
qed

lemma keeps_handleAgentRegister: "keeps I (handleAgentRegister E r)"
proof -
  have store: "I (a\<lparr>agents := (agents a)(ag \<mapsto> x),
      agentsByAPIHash := (agentsByAPIHash a)(h \<mapsto> ag)\<rparr>)"
    if "ag \<noteq> []" "I a" for a ag x h
    by (rule I_same_rooms [OF that(2)], rule mem_inv_cong [OF I_inv [OF that(2)]])
      (use that I_inv [OF that(2)] in \<open>auto simp: mem_inv_def agents_inv_def\<close>)
  show ?thesis
    unfolding handleAgentRegister_def Let_def
    by (intro keeps_bind_newID hoare_intros keeps_modify store)
qed

lemma keeps_handleAgentLogin: "keeps I (handleAgentLogin E r)"
proof -
  have store: "I (a\<lparr>sessions := (sessions a)(t \<mapsto> \<lparr>sessAgentID = ag, sessExpiresAt = e\<rparr>)\<rparr>)"
    if "ag \<noteq> []" "I a" for a t ag e
    by (rule I_same_rooms [OF that(2)], rule mem_inv_cong [OF I_inv [OF that(2)]])
      (use that I_inv [OF that(2)] in \<open>auto simp: mem_inv_def agents_inv_def\<close>)
  have known: "keeps I (State_Monad.bind (gets (\<lambda>a. agentsByAPIHash a h))
      (\<lambda>known. case known of None \<Rightarrow> m | Some i \<Rightarrow> f i))"
    if "keeps I m" "\<And>i. i \<noteq> [] \<Longrightarrow> keeps I (f i)" for h f and m :: "(app, reply) state"
  proof (rule hoareI)
    fix a assume "I a"
    with that I_inv [OF this] show "I (snd (run_state (State_Monad.bind (gets (\<lambda>a. agentsByAPIHash a h))
        (\<lambda>known. case known of None \<Rightarrow> m | Some i \<Rightarrow> f i)) a))"
      by (cases "agentsByAPIHash a h") (auto simp: hoare_def mem_inv_def [of a] agents_inv_def [of a])
  qed
  show ?thesis
    unfolding handleAgentLogin_def Let_def
    by (intro known hoare_intros keeps_modify store)
qed

text \<open>The state in which room id \<open>rid\<close> was drawn and is not yet in use.\<close>

definition fresh :: "string \<Rightarrow> app \<Rightarrow> bool" where
  "fresh rid a \<longleftrightarrow> I a \<and> fresh_room rid a"

lemma hoare_fresh: "hoare I (newID ''room'') fresh"
  using hoare_newID_room keeps_basic(3) [of "''room''"] I_inv by (auto simp: hoare_def fresh_def)

lemma keeps_fresh_here:
  "keeps (fresh rid) a_now" "keeps (fresh rid) randomToken" "keeps (fresh rid) (newID p)"
  using keeps_fresh [of rid] keeps_basic by (auto simp: hoare_def fresh_def)

lemma keeps_handleListings:
  assumes "\<And>req. Body r = Some req \<Longrightarrow> in64 (reqMaxTurns req)"
  shows "keeps I (handleListings E r)"
proof -
  have body: "keeps I (State_Monad.bind (newID ''room'') f)"
    if "\<And>rid. hoare (fresh rid) (f rid) (\<lambda>_. I)" for f :: "string \<Rightarrow> (app, reply) state"
    using that by (rule hoare_bind [OF hoare_fresh])
  have store: "hoare (fresh rid) (State_Monad.bind (modify (\<lambda>a. a\<lparr>listings := gm_put lid l (listings a),
        rooms := gm_put rid rm (rooms a)\<rparr>)) f) (\<lambda>_. I)"
    if "room_inv rid rm" "lRoomID l = rid" "0 < lMaxTurns l" "in64 (lMaxTurns l)" "AgentBID rm = []"
      "AgentAID rm = lAgentID l" and k: "\<And>u. keeps I (f u)"
    for rid lid rm l and f :: "unit \<Rightarrow> (app, reply) state"
  proof (rule hoare_bind [where R = "\<lambda>_. I"])
    show "hoare (fresh rid) (modify (\<lambda>a. a\<lparr>listings := gm_put lid l (listings a),
        rooms := gm_put rid rm (rooms a)\<rparr>)) (\<lambda>_. I)"
    proof (rule hoareI, simp)
      fix a assume fr: "fresh rid a"
      show "I (a\<lparr>listings := gm_put lid l (listings a), rooms := gm_put rid rm (rooms a)\<rparr>)"
      proof (rule I_frame)
        show "I a" using fr by (simp add: fresh_def)
        show "mem_inv (a\<lparr>listings := gm_put lid l (listings a), rooms := gm_put rid rm (rooms a)\<rparr>)"
          using fr that by (intro mem_inv_new_listing) (auto simp: fresh_def)
        show "map_of (rooms a) \<subseteq>\<^sub>m map_of (rooms (a\<lparr>listings := gm_put lid l (listings a),
            rooms := gm_put rid rm (rooms a)\<rparr>))"
          using fr by (auto simp: fresh_def fresh_room_def map_le_def)
      qed
    qed
  qed (rule k)
  note fresh_intros = hoare_bind_keep [OF keeps_fresh_here(1)]
    hoare_bind_keep [OF keeps_fresh_here(2)] hoare_bind_keep [OF keeps_fresh_here(3)]
  have 20: "in64 20" by (simp add: in64_def min64_def max64_def)
  show ?thesis
    unfolding handleListings_def Let_def
    by (intro hoare_intros keeps_bind_auth body fresh_intros store)
      (use assms 20 in \<open>auto simp: room_inv_def log_ok_def\<close>)
qed

end

end
