(* ===== verification/Memory_Handlers.thy ===== *)
theory Memory_Handlers
  imports Memory_Rooms
begin

text \<open>
  The two interpretations of the contract of \<open>Memory_Rooms\<close>: the invariant of the server, which
  connecting keeps as well, and the history of its rooms.
\<close>

section \<open>The invariant of the server\<close>

interpretation inv: room_invariant mem_inv
proof
  fix a rid rm rm'
  assume "mem_inv a" "gm_get (rooms a) rid = Some rm" "room_inv rid rm'" "room_step rm rm'"
  then show "mem_inv (a\<lparr>rooms := gm_put rid rm' (rooms a)\<rparr>)"
    by (auto simp: room_step_def intro: mem_inv_put_room)
qed simp_all

section \<open>The history of the rooms\<close>

text \<open>Every room of \<open>a0\<close> is still there in \<open>b\<close> and got there by room steps.\<close>

definition evolves :: "app \<Rightarrow> app \<Rightarrow> bool" where
  "evolves a0 b \<longleftrightarrow> mem_inv b \<and> (\<forall>rid rm. gm_get (rooms a0) rid = Some rm \<longrightarrow>
     (\<exists>rm'. gm_get (rooms b) rid = Some rm' \<and> room_step rm rm'))"

lemma evolves_refl: "mem_inv a \<Longrightarrow> evolves a a"
  by (simp add: evolves_def)

lemma evolves_onward:
  assumes "evolves a0 b" and "mem_inv c"
    and "\<And>rid rm. gm_get (rooms b) rid = Some rm \<Longrightarrow>
      \<exists>rm'. gm_get (rooms c) rid = Some rm' \<and> room_step rm rm'"
  shows "evolves a0 c"
  using assms unfolding evolves_def by (meson room_step_trans)

interpretation evo: room_invariant "evolves a0" for a0
proof
  fix a b rid rm rm' and now :: time
  assume a: "evolves a0 a"
  show inv: "mem_inv a" using a by (simp add: evolves_def)
  show "evolves a0 b" if "mem_inv b" "map_of (rooms a) \<subseteq>\<^sub>m map_of (rooms b)"
    using that by (intro evolves_onward [OF a]) (force simp: map_le_def)+
  show "evolves a0 (swept now a)"
    by (rule evolves_onward [OF a]) (auto simp: inv swept_rooms room_step_sweep)
  show "evolves a0 (a\<lparr>rooms := gm_put rid rm' (rooms a)\<rparr>)"
    if "gm_get (rooms a) rid = Some rm" "room_inv rid rm'" "room_step rm rm'"
    using that inv.I_store [OF inv that] by (intro evolves_onward [OF a]) auto
qed

section \<open>Connecting to a listing\<close>

lemma connect_room_inv:
  assumes "room_inv rid rm" and "AgentBID rm = []" and "ag \<noteq> []" and "AgentAID rm \<noteq> ag"
  shows "room_inv rid (rm\<lparr>AgentBID := ag, rState := RoomStateActive, Joined := j\<rparr>)"
  using assms by (auto simp: room_inv_def log_ok_def)

lemma mem_inv_connect:
  assumes inv: "mem_inv a" and l: "gm_get (listings a) lid = Some l" "\<not> lConnected l"
    and ag: "ag \<noteq> []" "lAgentID l \<noteq> ag"
  defines "rm \<equiv> room_at (a\<lparr>listings := gm_put lid (l\<lparr>lConnected := True\<rparr>) (listings a)\<rparr>) (lRoomID l)"
  shows "TrimSpace (rID rm) \<noteq> []"
    and "mem_inv (a\<lparr>listings := gm_put lid (l\<lparr>lConnected := True\<rparr>) (listings a),
      rooms := gm_put (rID rm) (rm\<lparr>AgentBID := ag, rState := RoomStateActive, Joined := j\<rparr>) (rooms a)\<rparr>)"
proof -
  let ?rm = "rm\<lparr>AgentBID := ag, rState := RoomStateActive, Joined := j\<rparr>"
  let ?b = "a\<lparr>listings := gm_put lid (l\<lparr>lConnected := True\<rparr>) (listings a),
      rooms := gm_put (rID rm) ?rm (rooms a)\<rparr>"
  have li: "listing_inv a l" using inv l by (auto simp: mem_inv_def listings_inv_def)
  then have here: "gm_get (rooms a) (lRoomID l) = Some rm" and no_b: "AgentBID rm = []"
    and owner: "AgentAID rm = lAgentID l"
    using l(2) by (auto simp: rm_def room_at_def listing_inv_def)
  have rinv: "room_inv (lRoomID l) rm" and dr: "drawn a (lRoomID l)"
    using inv here by (auto simp: mem_inv_def rooms_inv_def)
  then have rid: "rID rm = lRoomID l" by (simp add: room_inv_def)
  show "TrimSpace (rID rm) \<noteq> []"
    using dr TrimSpace_room_id by (auto simp: rid drawn_def simp del: append.simps)
  have ok: "room_inv (lRoomID l) ?rm"
    using connect_room_inv [OF rinv no_b ag(1)] ag(2) owner by simp
  have "rooms_inv ?b"
    using inv ok dr by (auto simp: mem_inv_def rooms_inv_def rid drawn_def)
  moreover have "listing_inv ?b k" if "gm_get (listings ?b) i = Some k" for i k
  proof (cases "i = lid")
    case True
    with that li show ?thesis by (auto simp: listing_inv_def rid)
  next
    case False
    with that have k: "gm_get (listings a) i = Some k" by simp
    with False inv l(1) have "lRoomID k \<noteq> lRoomID l" by (auto simp: mem_inv_def listings_inv_def)
    moreover have "listing_inv a k" using inv k by (auto simp: mem_inv_def listings_inv_def)
    ultimately show ?thesis by (auto simp: listing_inv_def rid)
  qed
  moreover have "i = j" if k: "gm_get (listings ?b) i = Some k" "gm_get (listings ?b) j = Some k'"
    and same: "lRoomID k = lRoomID k'" for i j k k'
  proof -
    obtain m where "gm_get (listings a) i = Some m" "lRoomID m = lRoomID k"
      using k(1) l(1) by (auto split: if_splits)
    moreover obtain n where "gm_get (listings a) j = Some n" "lRoomID n = lRoomID k'"
      using k(2) l(1) by (auto split: if_splits)
    ultimately show ?thesis
      using mem_inv_listing_unique [OF inv] same by metis
  qed
  moreover have "agents_inv ?b" "inj (entropy ?b)" "gm_wf (listings ?b)"
    using inv by (auto simp: mem_inv_def agents_inv_def listings_inv_def)
  ultimately show "mem_inv ?b" by (intro mem_invI)
qed

lemma keeps_handleListingByID: "keeps mem_inv (handleListingByID E r)"
proof -
  have commit: "keeps mem_inv (State_Monad.bind (gets (\<lambda>a. gm_get (listings a) lid))
      (\<lambda>found. case found of None \<Rightarrow> State_Monad.return x | Some l \<Rightarrow>
         if lAgentID l = ag then State_Monad.return y else if lConnected l then State_Monad.return z
         else f l))"
    if "\<And>l. lAgentID l \<noteq> ag \<Longrightarrow> \<not> lConnected l \<Longrightarrow>
      hoare (\<lambda>a. mem_inv a \<and> gm_get (listings a) lid = Some l) (f l) (\<lambda>_. mem_inv)"
    for lid ag and f :: "listing \<Rightarrow> (app, reply) state" and x y z
    using that by (auto simp: hoare_def split: option.splits)
  show ?thesis
    unfolding handleListingByID_def Let_def
    by (intro commit inv.keeps_bind_auth hoare_intros, rule hoareI, erule conjE)
      (simp add: mem_inv_connect)
qed

end
