(* ===== verification/Memory_Reach.thy ===== *)
theory Memory_Reach
  imports Memory_Handlers
begin

text \<open>
  The in-memory server as a transition system, the invariant of its reachable states, and one
  concrete run of it. A transition is one call of a registered handler (\<open>NewRouterWithStoreAndAdminRuntime\<close>
  without a store) on any request.
\<close>

section \<open>Transitions and reachable states\<close>

text \<open>The calls that do not connect an agent to a listing, and all calls.\<close>

inductive plain_call :: "env \<Rightarrow> decoders \<Rightarrow> (app, reply) state \<Rightarrow> bool" for E D where
  call_register: "plain_call E D (handleAgentRegister E (withBody (decodeName D) r))"
| call_login: "plain_call E D (handleAgentLogin E (withBody (decodeAPIKey D) r))"
| call_listings: "plain_call E D (handleListings E (withBody (decodeListing D) r))"
| call_search: "plain_call E D (handleListingSearch E (noBody r))"
| call_room: "plain_call E D (handleRoomByID E D r)"

inductive mem_call :: "env \<Rightarrow> decoders \<Rightarrow> (app, reply) state \<Rightarrow> bool" for E D where
  call_plain: "plain_call E D m \<Longrightarrow> mem_call E D m"
| call_connect: "mem_call E D (handleListingByID E (noBody r))"

inductive mem_reach :: "env \<Rightarrow> decoders \<Rightarrow> app \<Rightarrow> bool" for E D where
  reach_new: "inj rnd \<Longrightarrow> mem_reach E D (newApp heartbeat grace retention clk rnd)"
| reach_step: "mem_reach E D a \<Longrightarrow> mem_call E D m \<Longrightarrow> mem_reach E D (snd (run_state m a))"

text \<open>The JSON reader yields 64-bit numbers: the range of Go's \<open>int\<close>.\<close>

definition decodes64 :: "decoders \<Rightarrow> bool" where
  "decodes64 D \<longleftrightarrow> (\<forall>raw req. decodeListing D raw = Some req \<longrightarrow> in64 (reqMaxTurns req))"

lemma Body_withBody: "Body (withBody dec r) = Some req \<Longrightarrow> \<exists>raw. dec raw = Some req"
  by (auto simp: withBody_def split: option.splits)

text \<open>Every predicate that meets the contract of the rooms is kept by every plain call.\<close>

context room_invariant
begin

lemma keeps_plain_call:
  assumes "decodes64 D" and "plain_call E D m"
  shows "keeps I m"
  using assms(2)
proof cases
  case (call_listings r)
  have "in64 (reqMaxTurns req)" if "Body (withBody (decodeListing D) r) = Some req" for req
    using assms(1) Body_withBody [OF that] by (auto simp: decodes64_def)
  then show ?thesis
    unfolding call_listings by (rule keeps_handleListings)
qed (auto intro: keeps_handleAgentRegister keeps_handleAgentLogin keeps_handleListingSearch
    keeps_handleRoomByID)

end

lemma mem_call_keeps: "decodes64 D \<Longrightarrow> mem_call E D m \<Longrightarrow> keeps mem_inv m"
  by (erule mem_call.cases) (auto intro: inv.keeps_plain_call keeps_handleListingByID)

lemma mem_inv_newApp: "inj rnd \<Longrightarrow> mem_inv (newApp heartbeat grace retention clk rnd)"
  by (simp add: mem_inv_def agents_inv_def rooms_inv_def listings_inv_def newApp_def)

lemma mem_reach_inv: "mem_reach E D a \<Longrightarrow> decodes64 D \<Longrightarrow> mem_inv a"
  by (induction rule: mem_reach.induct)
    (auto intro: mem_inv_newApp hoare_snd mem_call_keeps)

section \<open>A concrete run\<close>

text \<open>
  Two agents register and log in, the first opens a listing, the second connects to it and the
  two messages are sent, which closes the room. A day later a search sweeps it. The digest and the case mapping are the identity on these ASCII texts,
  random tokens are counted, the clock ticks once per reading and jumps before the search.
\<close>

definition ex_env :: env where
  "ex_env = \<lparr>hashText = (\<lambda>x. x), uLower = (\<lambda>x. x)\<rparr>"

definition ex_decoders :: decoders where
  "ex_decoders = \<lparr>decodeName = Some, decodeAPIKey = Some,
     decodeListing = (\<lambda>raw. Some \<lparr>reqTopic = raw, reqTags = [], reqMaxTurns = 2, reqTTLSeconds = 0\<rparr>),
     decodeMessage = (\<lambda>raw. Some \<lparr>ExpectedTurn = int (length raw) - 1, reqCiphertext = raw, BundleHash = []\<rparr>),
     decodeHumanCode = Some,
     decodeViewer = (\<lambda>raw. Some \<lparr>Op = ''join'', reqHumanCode = raw, ViewerToken = []\<rparr>)\<rparr>"

definition ex_clock :: "nat \<Rightarrow> time" where
  "ex_clock n = (if n < 24 then int n else 1000000000000000 + int n)"

definition ex_start :: app where
  "ex_start = newApp 0 0 0 ex_clock nat_str"

definition ex_post :: "string \<Rightarrow> string \<Rightarrow> string \<Rightarrow> string request" where
  "ex_post path token raw = \<lparr>Method = ''POST'', URLPath = path, Authorization = ''Bearer '' @ token,
     Query = [], Body = Some raw\<rparr>"

definition ex_calls :: "(app, reply) state list" where
  "ex_calls =
    [handleAgentRegister ex_env (withBody (decodeName ex_decoders) (ex_post ''/v1/agents/register'' [] ''ann'')),
     handleAgentRegister ex_env (withBody (decodeName ex_decoders) (ex_post ''/v1/agents/register'' [] ''bob'')),
     handleAgentLogin ex_env (withBody (decodeAPIKey ex_decoders) (ex_post ''/v1/agents/login'' [] ''ak_0'')),
     handleAgentLogin ex_env (withBody (decodeAPIKey ex_decoders) (ex_post ''/v1/agents/login'' [] ''ak_2'')),
     handleListings ex_env (withBody (decodeListing ex_decoders) (ex_post ''/v1/listings'' ''as_4'' ''talk'')),
     handleListingByID ex_env (noBody (ex_post ''/v1/listings/lst_8/connect'' ''as_5'' [])),
     handleRoomByID ex_env ex_decoders (ex_post ''/v1/rooms/room_6/messages'' ''as_4'' ''a''),
     handleRoomByID ex_env ex_decoders (ex_post ''/v1/rooms/room_6/messages'' ''as_5'' ''bb''),
     handleListingSearch ex_env (noBody ((ex_post ''/v1/listings/search'' [] [])\<lparr>Method := ''GET''\<rparr>))]"

definition run_calls :: "(app, reply) state list \<Rightarrow> app \<Rightarrow> app" where
  "run_calls ms a = fold (\<lambda>m a. snd (run_state m a)) ms a"

definition ex_state :: "nat \<Rightarrow> app" where
  "ex_state n = run_calls (take n ex_calls) ex_start"

lemma mem_reach_run:
  "mem_reach E D a \<Longrightarrow> (\<forall>m \<in> set ms. mem_call E D m) \<Longrightarrow> mem_reach E D (run_calls ms a)"
  by (induction ms arbitrary: a) (auto simp: run_calls_def intro: reach_step)

lemma ex_calls_are_calls: "\<forall>m \<in> set ex_calls. mem_call ex_env ex_decoders m"
  unfolding ex_calls_def
  by (auto intro: mem_call.intros plain_call.intros)

lemma ex_decodes64: "decodes64 ex_decoders"
  by (simp add: decodes64_def ex_decoders_def in64_def min64_def max64_def)

lemma ex_reach: "mem_reach ex_env ex_decoders (ex_state n)"
  unfolding ex_state_def
proof (rule mem_reach_run)
  show "mem_reach ex_env ex_decoders ex_start"
    unfolding ex_start_def by (rule reach_new) (simp add: inj_def nat_str_inj)
  show "\<forall>m \<in> set (take n ex_calls). mem_call ex_env ex_decoders m"
    using ex_calls_are_calls by (meson in_set_takeD)
qed


lemma ex_words:
  "TrimSpace ''ann'' = ''ann''" "TrimSpace ''bob'' = ''bob''" "TrimSpace ''ak_0'' = ''ak_0''"
  "TrimSpace ''ak_2'' = ''ak_2''" "TrimSpace ''as_4'' = ''as_4''" "TrimSpace ''as_5'' = ''as_5''"
  "TrimSpace ''talk'' = ''talk''" "TrimSpace ''a'' = ''a''" "TrimSpace ''bb'' = ''bb''"
  "TrimSpace ''room_6'' = ''room_6''"
  "splitPath ''/v1/listings/lst_8/connect'' = [''v1'', ''listings'', ''lst_8'', ''connect'']"
  "splitPath ''/v1/rooms/room_6/messages'' = [''v1'', ''rooms'', ''room_6'', ''messages'']"
  "nat_str 0 = ''0''" "nat_str (Suc 0) = ''1''" "nat_str 2 = ''2''" "nat_str 3 = ''3''"
  "nat_str 4 = ''4''" "nat_str 5 = ''5''" "nat_str 6 = ''6''" "nat_str 7 = ''7''"
  "nat_str 8 = ''8''" "nat_str 9 = ''9''" "nat_str 10 = ''10''"
  "nat_str (Suc (Suc 0)) = ''2''" "nat_str (Suc (Suc (Suc 0))) = ''3''"
  by code_simp+

lemma ex_state_Suc: "n < 9 \<Longrightarrow> ex_state (Suc n) = snd (run_state (ex_calls ! n) (ex_state n))"
proof -
  assume "n < 9"
  then have "n < length ex_calls" by (simp add: ex_calls_def)
  then show ?thesis by (simp add: ex_state_def run_calls_def take_Suc_conv_app_nth)
qed

lemmas ex_eval = ex_words ex_env_def ex_decoders_def ex_post_def withBody_def noBody_def swept_def
  purgeSweepLocked_def purgeSweep_def sweepRoom_def authAgentID_def requireRoomMember_def
  HasPrefix_def TrimPrefix_def room_at_def Let_def duration_units wrap64_def humanCodeTTL_def
  sessionTTLDays_def

definition ex_app :: "nat \<Rightarrow> nat \<Rightarrow> app" where
  "ex_app tk dr = ex_start\<lparr>agents := [''agt_1'' \<mapsto> \<lparr>aID = ''agt_1'', aName = ''ann'', APIKeyHash = ''ak_0''\<rparr>,
       ''agt_3'' \<mapsto> \<lparr>aID = ''agt_3'', aName = ''bob'', APIKeyHash = ''ak_2''\<rparr>],
     agentsByAPIHash := [''ak_0'' \<mapsto> ''agt_1'', ''ak_2'' \<mapsto> ''agt_3''], ticks := tk, draws := dr\<rparr>"

definition ex_talk :: "nat \<Rightarrow> nat \<Rightarrow> listing \<Rightarrow> room \<Rightarrow> app" where
  "ex_talk tk dr l rm = (ex_app tk dr)\<lparr>sessions :=
    [''as_4'' \<mapsto> \<lparr>sessAgentID = ''agt_1'', sessExpiresAt = 1209600000000003\<rparr>,
     ''as_5'' \<mapsto> \<lparr>sessAgentID = ''agt_3'', sessExpiresAt = 1209600000000005\<rparr>],
    listings := [(''lst_8'', l)], rooms := [(''room_6'', rm)]\<rparr>"

definition ex_listing :: "bool \<Rightarrow> listing" where
  "ex_listing connected = \<lparr>lID = ''lst_8'', lAgentID = ''agt_1'', lTopic = ''talk'', lTags = [],
     lMaxTurns = 2, lTTLSecond = 900, lCreatedAt = 8, lConnected = connected, lRoomID = ''room_6''\<rparr>"

definition ex_rm :: "string \<Rightarrow> RoomState \<Rightarrow> time option \<Rightarrow> message list \<Rightarrow> room" where
  "ex_rm b st closed ms = \<lparr>rID = ''room_6'', rTopic = ''talk'', AgentAID = ''agt_1'',
     AgentBID = b, rState = st, TurnIndex = int (length ms), MaxTurns = 2, TTLAt = 900000000008,
     rCreatedAt = 8, ClosedAt = closed, PurgedAt = None, HumanCodeHash = ''hc_7'',
     HumanCodeExpiresAt = Some 86400000000008, Joined = (\<lambda>x. x = ''agt_1'' \<or> (x = ''agt_3'' \<and> b \<noteq> [])),
     Viewers = [], Messages = ms\<rparr>"

lemmas ex_mem = ex_app_def ex_talk_def ex_listing_def ex_rm_def ex_start_def newApp_def ex_clock_def
  ex_calls_def ex_eval

lemma ex_state_2: "ex_state 2 = ex_app 2 4"
  by (simp add: ex_state_def run_calls_def handleAgentRegister_def ex_mem del: run_purgeSweepLocked)

lemma ex_state_4: "ex_state 4 = (ex_app 6 6)\<lparr>sessions :=
    [''as_4'' \<mapsto> \<lparr>sessAgentID = ''agt_1'', sessExpiresAt = 1209600000000003\<rparr>,
     ''as_5'' \<mapsto> \<lparr>sessAgentID = ''agt_3'', sessExpiresAt = 1209600000000005\<rparr>]\<rparr>"
  by (simp add: ex_state_Suc [of 3, simplified] ex_state_Suc [of 2, simplified]
      ex_state_2 handleAgentLogin_def ex_mem del: run_purgeSweepLocked)

lemma ex_state_5: "ex_state 5 = ex_talk 9 9 (ex_listing False) (ex_rm [] RoomStateOpen None [])"
  by (simp add: ex_state_Suc [of 4, simplified]
      ex_state_4 handleListings_def ex_mem del: run_purgeSweepLocked)

lemma ex_state_6: "ex_state 6 = ex_talk 11 9 (ex_listing True) (ex_rm ''agt_3'' RoomStateActive None [])"
  by (simp add: ex_state_Suc [of 5, simplified]
      ex_state_5 handleListingByID_def ex_mem del: run_purgeSweepLocked) (auto simp: fun_eq_iff)

definition ex_msg1 :: message where
  "ex_msg1 = \<lparr>mID = ''msg_9'', mRoomID = ''room_6'', SenderID = ''agt_1'', SenderName = ''ann'',
     Turn = 0, Ciphertext = ''a'', mCreatedAt = 16\<rparr>"

definition ex_msg2 :: message where
  "ex_msg2 = \<lparr>mID = ''msg_10'', mRoomID = ''room_6'', SenderID = ''agt_3'', SenderName = ''bob'',
     Turn = 1, Ciphertext = ''bb'', mCreatedAt = 22\<rparr>"

lemmas ex_message = handleRoomByID_def handleRoomMessage_def roomMessage_commit_def allowMessage_def
  maxMessagesPerMinute_def expectedSenderID_def

lemma ex_state_7: "ex_state 7 = (ex_talk 17 10 (ex_listing True)
    (ex_rm ''agt_3'' RoomStateActive None [ex_msg1]))\<lparr>messageWindows := [''agt_1'' \<mapsto> [15]]\<rparr>"
  by (simp add: ex_state_Suc [of 6, simplified] ex_state_6 ex_message ex_msg1_def ex_mem
      del: run_purgeSweepLocked)

lemma ex_state_8: "ex_state 8 = (ex_talk 24 11 (ex_listing True)
    (ex_rm ''agt_3'' RoomStateClosed (Some 23) [ex_msg1, ex_msg2]))\<lparr>messageWindows := [''agt_1'' \<mapsto> [15], ''agt_3'' \<mapsto> [21]]\<rparr>"
  by (simp add: ex_state_Suc [of 7, simplified] ex_state_7 ex_message ex_msg1_def ex_msg2_def ex_mem
      del: run_purgeSweepLocked)

lemma ex_state_9: "gm_get (rooms (ex_state 9)) ''room_6'' =
    Some ((ex_rm ''agt_3'' RoomStatePurged (Some 23) [ex_msg1, ex_msg2])
      \<lparr>PurgedAt := Some 1000000000000024, Messages := []\<rparr>)"
  by (simp add: ex_state_Suc [of 8, simplified] ex_state_8 handleListingSearch_def ex_mem
      time_sub_def max64_def min64_def del: run_purgeSweepLocked)

end
