(* ===== verification/Memory_Spec.thy ===== *)
theory Memory_Spec
  imports Memory_Reach
begin

text \<open>
  The properties of the in-memory server: invariants of its reachable states, what each accepted
  request does, who may do it, and how rooms move through their states.
\<close>

section \<open>Reachable states\<close>



text \<open>
  Purged rooms are empty. In every reachable state a room in state \<open>PURGED\<close> holds no
  message and no viewer session, and no room is in a state outside the four named ones.
\<close>

theorem purged_rooms_empty:
  assumes "decodes64 D" and "mem_reach E D a" and "gm_get (rooms a) rid = Some rm"
  shows "(rState rm = RoomStatePurged \<longrightarrow> Messages rm = [] \<and> Viewers rm = []) \<and>
    (\<forall>x. rState rm \<noteq> RoomStateOther x)"
  using mem_inv_room [OF mem_reach_inv [OF assms(2,1)] assms(3)]
  by (auto simp: room_inv_def)

theorem purged_rooms_empty_witness:
  "\<exists>rm. gm_get (rooms (ex_state 9)) ''room_6'' = Some rm \<and> rState rm = RoomStatePurged \<and>
     Messages rm = [] \<and> Viewers rm = []"
  using purged_rooms_empty [OF ex_decodes64 ex_reach [of 9] ex_state_9]
  by (simp add: ex_state_9) (simp add: ex_rm_def)

section \<open>How rooms move\<close>



section \<open>Membership\<close>

text \<open>What the membership check leaves behind when it lets the request through.\<close>

lemma requireRoomMember_exact:
  assumes "run_state (requireRoomMember E auth rid) a = (Inr (rm, ag), a')"
  shows "(\<exists>s. sessions a (TrimSpace (TrimPrefix auth ''Bearer '')) = Some s \<and> sessAgentID s = ag \<and>
      sessExpiresAt s > clock a (ticks a)) \<and>
    a' = swept (clock a (Suc (ticks a))) (a\<lparr>ticks := Suc (Suc (ticks a))\<rparr>) \<and>
    gm_get (rooms a') rid = Some rm \<and> (AgentAID rm = ag \<or> AgentBID rm = ag)"
proof -
  from assms obtain a1 where auth: "run_state (authAgentID auth) a = (Some ag, a1)"
    by (auto simp: requireRoomMember_def split: prod.splits option.splits if_splits)
  from authAgentID_result [OF this] assms show ?thesis
    by (auto simp: requireRoomMember_def auth split: option.splits if_splits)
qed

lemma requireRoomMember_refused:
  assumes "run_state (requireRoomMember E auth rid) a = (Inl resp, a')"
  shows "Status resp \<in> {401, 403, 404}"
  using assms by (auto simp: requireRoomMember_def split: prod.splits option.splits if_splits)

text \<open>A room that is still open or active after a sweep was not touched by it.\<close>

lemma swept_live:
  assumes "gm_get (rooms (swept now a)) rid = Some rm"
    and "rState rm = RoomStateActive \<or> rState rm = RoomStateOpen"
  shows "gm_get (rooms a) rid = Some rm"
proof -
  obtain rm0 where rm0: "gm_get (rooms a) rid = Some rm0" "rm = fst (sweepRoom a now rid rm0)"
    using assms(1) by (auto simp: swept_rooms)
  with assms(2) have "rm = rm0"
    by (auto simp: sweepRoom_def Let_def split: RoomState.splits if_splits)
  with rm0 show ?thesis by simp
qed

lemma sweepRoom_ticks [simp]: "sweepRoom (a\<lparr>ticks := n\<rparr>) = sweepRoom a"
  by (intro ext) (simp add: sweepRoom_def Let_def split: RoomState.split)

lemma swept_cong [simp]: "rooms (swept now (a\<lparr>ticks := n\<rparr>)) = rooms (swept now a)"
  by (simp add: swept_def purgeSweepLocked_def)

lemma run_purgeSweep:
  "run_state purgeSweep a = ((), swept (clock a (ticks a)) (a\<lparr>ticks := Suc (ticks a)\<rparr>))"
  by (simp add: purgeSweep_def)

text \<open>The room as the handler of a request by member \<open>ag\<close> finds it.\<close>

definition member_session :: "app \<Rightarrow> string \<Rightarrow> string \<Rightarrow> bool" where
  "member_session a auth ag \<longleftrightarrow>
    (\<exists>s. sessions a (TrimSpace (TrimPrefix auth ''Bearer '')) = Some s \<and> sessAgentID s = ag)"

lemma after_sweep_member:
  assumes "run_state (requireRoomMember E auth rid) (snd (run_state purgeSweep a)) = (Inr (rm, ag), a')"
  shows "member_session a auth ag" and "gm_get (rooms a') rid = Some rm"
    and "AgentAID rm = ag \<or> AgentBID rm = ag"
    and "rState rm = RoomStateActive \<or> rState rm = RoomStateOpen \<Longrightarrow> gm_get (rooms a) rid = Some rm"
    and "messageWindows a' = messageWindows a"
proof -
  note exact = requireRoomMember_exact [OF assms, unfolded run_purgeSweep, simplified]
  show "member_session a auth ag" "gm_get (rooms a') rid = Some rm" "AgentAID rm = ag \<or> AgentBID rm = ag"
    "messageWindows a' = messageWindows a"
    using exact by (auto simp: member_session_def)
  assume live: "rState rm = RoomStateActive \<or> rState rm = RoomStateOpen"
  from exact have "gm_get (rooms (swept (clock a (Suc (Suc (ticks a))))
      (swept (clock a (ticks a)) (a\<lparr>ticks := Suc (ticks a)\<rparr>)))) rid = Some rm" by auto
  from swept_live [OF swept_live [OF this live] live] show "gm_get (rooms a) rid = Some rm" by simp
qed

section \<open>Messages\<close>

text \<open>The locked section of the message handler, when it accepts.\<close>

lemma roomMessage_commit_accepts:
  assumes "gm_get (rooms a) rid = Some rm"
    and "Status (fst (run_state (roomMessage_commit E req ag rid) a)) = 201"
  shows "ExpectedTurn req = TurnIndex rm \<and> expectedSenderID rm = ag \<and>
    (\<exists>msg rm'. gm_get (rooms (snd (run_state (roomMessage_commit E req ag rid) a))) rid = Some rm' \<and>
       Messages rm' = Messages rm @ [msg] \<and> SenderID msg = ag \<and> Turn msg = TurnIndex rm \<and>
       Ciphertext msg = reqCiphertext req \<and> TurnIndex rm' = wrap64 (TurnIndex rm + 1) \<and>
       rState rm' = (if MaxTurns rm \<le> TurnIndex rm' then RoomStateClosed else rState rm))"
  using assms
  by (auto simp: roomMessage_commit_def room_at_def Let_def allowMessage_def split: if_splits)



text \<open>
  C15. The room state is not checked again under the lock. The locked section of the message handler
  accepts and appends a message to a room in any state, a \<open>CLOSED\<close> or \<open>PURGED\<close> one included, if turn,
  sender and rate limit are right: a close that gets in between the handler's check and its locked
  section does not stop the message.
\<close>

theorem commit_ignores_state:
  assumes "gm_get (rooms a) rid = Some rm" and "ExpectedTurn req = TurnIndex rm"
    and "expectedSenderID rm = ag"
    and "fst (allowMessage a ag (clock a (ticks a)))"
  shows "Status (fst (run_state (roomMessage_commit E req ag rid) a)) = 201 \<and>
    (\<exists>msg rm'. gm_get (rooms (snd (run_state (roomMessage_commit E req ag rid) a))) rid = Some rm' \<and>
       Messages rm' = Messages rm @ [msg] \<and>
       (TurnIndex rm' < MaxTurns rm \<longrightarrow> rState rm' = rState rm))"
  using assms
  by (auto simp: roomMessage_commit_def room_at_def Let_def allowMessage_def split: if_splits)

theorem commit_ignores_state_witness:
  "let a = snd (run_state (roomClose_commit ''room_6'') (ex_state 7)) in
   map_option rState (gm_get (rooms a) ''room_6'') = Some RoomStateClosed \<and>
   Status (fst (run_state (roomMessage_commit ex_env
     \<lparr>ExpectedTurn = 1, reqCiphertext = ''late'', BundleHash = []\<rparr> ''agt_3'' ''room_6'') a)) = 201"
proof -
  define a where "a = snd (run_state (roomClose_commit ''room_6'') (ex_state 7))"
  have a: "gm_get (rooms a) ''room_6'' = Some (ex_rm ''agt_3'' RoomStateClosed (Some 17) [ex_msg1])"
    and w: "messageWindows a = [''agt_1'' \<mapsto> [15]]"
    by (simp_all add: a_def roomClose_commit_def ex_state_7 ex_mem)
  have "fst (allowMessage a ''agt_3'' (clock a (ticks a)))"
    by (simp add: allowMessage_def Let_def w maxMessagesPerMinute_def)
  then show ?thesis
    using commit_ignores_state [OF a, of "\<lparr>ExpectedTurn = 1, reqCiphertext = ''late'', BundleHash = []\<rparr>"
      "''agt_3''" ex_env] a
    by (auto simp: a_def [symmetric] ex_rm_def expectedSenderID_def)
qed

subsection \<open>The rate limit\<close>

definition messageWindow :: "app \<Rightarrow> string \<Rightarrow> time list" where
  "messageWindow a ag = (case messageWindows a ag of None \<Rightarrow> [] | Some ts \<Rightarrow> ts)"

interpretation mrl: rate_limiter allowMessage messageWindow maxMessagesPerMinute Minute
  by unfold_locales
    (auto simp: allowMessage_def Let_def messageWindow_def Minute_def split: option.splits if_splits)

text \<open>
  The message rate limit is a true sliding window. Starting from a server that has seen no
  message of an agent, whatever requests follow in time order, no minute-long interval holds more
  than 30 accepted messages of the agent; and a request is refused only if the agent already had
  30 messages accepted in the minute up to it.
\<close>

theorem message_rate_limited:
  assumes "messageWindows a ag = None" and "sorted (map snd (cs @ [(ag, now)]))"
  shows "length (filter (\<lambda>t. T - Minute < t \<and> t \<le> T) (rl_grants allowMessage ag a cs)) \<le> 30 \<and>
    (\<not> fst (allowMessage (rl_run allowMessage a cs) ag now) \<longrightarrow>
      30 \<le> length (filter (\<lambda>t. now - Minute < t \<and> t \<le> now) (rl_grants allowMessage ag a cs)))"
proof -
  have "messageWindow a ag = []" using assms(1) by (simp add: messageWindow_def)
  from mrl.grants_bounded [OF this, of cs T] mrl.refused_full [OF this assms(2)] assms(2)
  show ?thesis by (auto simp: maxMessagesPerMinute_def sorted_append)
qed

theorem message_rate_limited_witness:
  "length (filter (\<lambda>t. 31 - Minute < t \<and> t \<le> 31)
     (rl_grants allowMessage ''agt_1'' (ex_state 6) (map (\<lambda>i. (''agt_1'', int i)) [0..<40]))) \<le> 30"
proof -
  have "sorted (map snd (map (\<lambda>i. (''agt_1'', int i)) [0..<40] @ [(''agt_1'', 40)]))"
    by (simp add: upt_rec numeral_eq_Suc)
  moreover have "messageWindows (ex_state 6) ''agt_1'' = None"
    by (simp add: ex_state_6 ex_talk_def ex_app_def ex_start_def newApp_def)
  ultimately show ?thesis
    using message_rate_limited by blast
qed

end
