(* ===== verification/Memory_Access.thy ===== *)
theory Memory_Access
  imports Memory_Spec
begin

text \<open>
  Who gets what from the in-memory server: login, the human transcript, the search for listings,
  connecting to a listing, and the purge sweep that ends a room.
\<close>

section \<open>Login\<close>

text \<open>
  C14. Register, log in, authenticate. The key handed out at registration logs its agent in, and the
  session token handed out at login authenticates that agent until the session expires. (Tokens are
  base64url text, which trimming leaves alone.)
\<close>

theorem register_login_auth:
  assumes "Status (fst (run_state (handleAgentRegister E r1) a)) = 201"
    and "Payload (fst (run_state (handleAgentRegister E r1) a)) = Inr (RegisterBody agentID apiKey)"
    and a1: "a1 = snd (run_state (handleAgentRegister E r1) a)"
    and "Method r2 = ''POST''" and "Body r2 = Some apiKey"
    and a2: "a2 = snd (run_state (handleAgentLogin E r2) a1)"
    and trim: "TrimSpace (''as_'' @ entropy a (draws a1)) = ''as_'' @ entropy a (draws a1)"
    and fresh: "clock a (ticks a2) < clock a (ticks a2 - 1) + 14 * 24 * Hour"
  shows "\<exists>token. fst (run_state (handleAgentLogin E r2) a1) = writeJSON 200 (LoginBody token) \<and>
    fst (run_state (authAgentID (''Bearer '' @ token)) a2) = Some agentID"
proof -
  have a1': "a1 = (swept (clock a (ticks a)) (a\<lparr>ticks := Suc (ticks a)\<rparr>))
      \<lparr>draws := Suc (Suc (draws a)), agents := (agents a)(agentID \<mapsto> \<lparr>aID = agentID,
         aName = TrimSpace (the (Body r1)), APIKeyHash = hashText E apiKey\<rparr>),
       agentsByAPIHash := (agentsByAPIHash a)(hashText E apiKey \<mapsto> agentID)\<rparr>"
    and key: "apiKey = ''ak_'' @ entropy a (draws a)"
    using assms(1,2) a1
    by (auto simp: handleAgentRegister_def run_purgeSweep Let_def split: option.splits if_splits)
  let ?token = "''as_'' @ entropy a (Suc (Suc (draws a)))"
  have key_text: "TrimSpace apiKey \<noteq> []"
    unfolding key by (rule TrimSpace_api_key)
  have login: "fst (run_state (handleAgentLogin E r2) a1) = writeJSON 200 (LoginBody ?token)"
    and sess: "sessions a2 ?token = Some \<lparr>sessAgentID = agentID,
      sessExpiresAt = clock a (Suc (Suc (ticks a))) + 14 * 24 * Hour\<rparr>"
    and clk: "clock a2 = clock a" "ticks a2 = Suc (Suc (Suc (ticks a)))"
    using assms(4,5) key_text
    by (simp_all add: a2 a1' handleAgentLogin_def run_purgeSweep sessionTTLDays_def Let_def)
  have "fst (run_state (authAgentID (''Bearer '' @ ?token)) a2) = Some agentID"
    using sess clk fresh trim
    by (simp add: a1' authAgentID_def HasPrefix_def TrimPrefix_def Let_def)
  with login show ?thesis by blast
qed

theorem register_login_auth_witness:
  "fst (run_state (authAgentID ''Bearer as_2'') (snd (run_state (ex_calls ! 2) (ex_state (Suc 0))))) =
     Some ''agt_1''"
proof -
  define r1 where "r1 = withBody (decodeName ex_decoders) (ex_post ''/v1/agents/register'' [] ''ann'')"
  define r2 where "r2 = withBody (decodeAPIKey ex_decoders) (ex_post ''/v1/agents/login'' [] ''ak_0'')"
  have reg: "fst (run_state (handleAgentRegister ex_env r1) ex_start) =
      writeJSON 201 (RegisterBody ''agt_1'' ''ak_0'')"
    by (simp add: r1_def handleAgentRegister_def ex_mem del: run_purgeSweepLocked)
  have a1: "ex_state (Suc 0) = snd (run_state (handleAgentRegister ex_env r1) ex_start)"
    by (simp add: ex_state_def ex_calls_def run_calls_def r1_def)
  have st: "draws (ex_state (Suc 0)) = 2" "ticks (ex_state (Suc 0)) = 1" "entropy (ex_state (Suc 0)) = nat_str"
    and lg: "fst (run_state (handleAgentLogin ex_env r2) (ex_state (Suc 0))) = writeJSON 200 (LoginBody ''as_2'')"
    and tk: "ticks (snd (run_state (handleAgentLogin ex_env r2) (ex_state (Suc 0)))) = 3"
    by (simp_all add: a1 r1_def r2_def handleAgentRegister_def handleAgentLogin_def ex_mem
        del: run_purgeSweepLocked)
  have trim: "TrimSpace ''as_2'' = ''as_2''" by code_simp
  have "clock ex_start 3 < clock ex_start 2 + 14 * 24 * Hour"
    by (simp add: ex_start_def newApp_def ex_clock_def Hour_def)
  then have "\<exists>token. fst (run_state (handleAgentLogin ex_env r2) (ex_state (Suc 0))) =
      writeJSON 200 (LoginBody token) \<and> fst (run_state (authAgentID (''Bearer '' @ token))
        (snd (run_state (handleAgentLogin ex_env r2) (ex_state (Suc 0))))) = Some ''agt_1''"
    by (intro register_login_auth [OF _ _ a1 _ _ refl])
      (simp_all add: reg st tk, simp_all add: trim r2_def withBody_def ex_post_def ex_decoders_def
        ex_start_def newApp_def ex_words)
  then show ?thesis
    by (simp add: lg writeJSON_def) (simp add: r2_def ex_calls_def)
qed

section \<open>The human transcript\<close>

text \<open>
  C13. The transcript is shown to holders of the human code only. When the transcript endpoint answers
  200, the code sent in the body (trimmed) hashes to the stored hash of the room, the code has not
  expired, the room is not purged, no code was sent in the query string, and the body carries the
  room's messages as they are after the sweep; the request itself changes nothing else.
\<close>

theorem transcript_authorised:
  assumes "run_state (handleTranscript E r rid) a = (resp, a')" and "Status resp = 200"
  shows "\<exists>code rm. Body r = Some code \<and> gm_get (rooms (swept (clock a (ticks a)) a)) rid = Some rm \<and>
    hashText E (TrimSpace code) = HumanCodeHash rm \<and> TrimSpace code \<noteq> [] \<and>
    gm_get (Query r) ''human_code'' = None \<and> rState rm \<noteq> RoomStatePurged \<and>
    (\<forall>t. HumanCodeExpiresAt rm = Some t \<longrightarrow> clock a (Suc (ticks a)) \<le> t) \<and>
    Payload resp = Inr (TranscriptBody rid (TrimSpace (rTopic rm)) (AgentAID rm) (AgentBID rm)
      (TurnIndex rm) (nextActorID rm) (rState rm) (Messages rm) (ClosedAt rm) (PurgedAt rm)) \<and>
    rooms a' = rooms (swept (clock a (ticks a)) a) \<and> sessions a' = sessions a \<and> listings a' = listings a"
  using assms
  by (auto simp: handleTranscript_def run_purgeSweep Let_def split: option.splits if_splits)

theorem transcript_authorised_witness:
  "\<exists>rm. gm_get (rooms (swept 17 (ex_state 7))) ''room_6'' = Some rm \<and>
     hashText ex_env ''hc_7'' = HumanCodeHash rm"
proof -
  define r where "r = withBody (decodeHumanCode ex_decoders)
    (ex_post ''/v1/rooms/room_6/transcript'' [] ''hc_7'')"
  have code: "TrimSpace ''hc_7'' = ''hc_7''" by code_simp
  have tick: "clock (ex_state 7) (ticks (ex_state 7)) = 17"
    by (simp add: ex_state_7 ex_mem)
  have "Status (fst (run_state (handleTranscript ex_env r ''room_6'') (ex_state 7))) = 200"
    by (simp add: r_def handleTranscript_def code ex_state_7 ex_mem del: run_purgeSweepLocked)
  from transcript_authorised [OF prod.collapse [symmetric] this] tick show ?thesis
    by (auto simp: r_def code withBody_def ex_post_def ex_decoders_def)
qed

section \<open>Search\<close>

lemma anyTagMatches_iff: "anyTagMatches E q ts \<longleftrightarrow> (\<exists>t \<in> set ts. Contains (ToLower (uLower E) t) q)"
  by (induction ts) auto

text \<open>
  Search returns exactly the open listings that match: those not yet connected whose lower-cased
  topic or one of whose lower-cased tags contains the query, and all of them for an empty query, each
  once and in table order.
\<close>

theorem search_is_filter:
  "searchListings E q ls = filter (\<lambda>l. \<not> lConnected l \<and> (q = [] \<or>
     Contains (ToLower (uLower E) (lTopic l)) q \<or>
     (\<exists>t. t \<in> set (lTags l) \<and> Contains (ToLower (uLower E) t) q))) (map snd ls)"
  by (induction ls) (auto simp: anyTagMatches_iff)

section \<open>Connecting\<close>

text \<open>
  Connecting makes the room active whatever state it was in. An authenticated agent other than
  the owner who connects to a listing nobody has connected to yet gets 201, becomes the second agent
  of the listing's room, and the room is \<open>ACTIVE\<close> afterwards: neither the room's state nor its
  time-to-live is looked at, so a \<open>CLOSED\<close> or \<open>PURGED\<close> room is revived against the transition
  table.
\<close>

theorem connect_activates_any_room:
  assumes "decodes64 D" and "mem_reach E D a"
    and "splitPath (URLPath r) = [''v1'', ''listings'', lid, ''connect'']" and "Method r = ''POST''"
    and "HasPrefix (Authorization r) ''Bearer ''"
    and "token = TrimSpace (TrimPrefix (Authorization r) ''Bearer '')" and "token \<noteq> []"
    and "sessions a token = Some s" and "clock a (Suc (ticks a)) < sessExpiresAt s"
    and l: "gm_get (listings a) lid = Some l" "\<not> lConnected l" and ag: "lAgentID l \<noteq> sessAgentID s"
  shows "Status (fst (run_state (handleListingByID E r) a)) = 201 \<and>
    (\<exists>rm rm'. gm_get (rooms a) (lRoomID l) = Some rm \<and>
       gm_get (rooms (snd (run_state (handleListingByID E r) a))) (lRoomID l) = Some rm' \<and>
       rState rm' = RoomStateActive \<and> AgentAID rm' = lAgentID l \<and> AgentBID rm' = sessAgentID s)"
proof -
  define b where "b = swept (clock a (ticks a)) (a\<lparr>ticks := Suc (ticks a)\<rparr>)"
  define b' where "b' = b\<lparr>ticks := Suc (ticks b)\<rparr>"
  note inv = mem_reach_inv [OF assms(2,1)]
  have binv: "mem_inv b'" using inv by (simp add: b'_def b_def)
  have lb: "gm_get (listings b') lid = Some l" using l by (simp add: b'_def b_def)
  define rm where "rm = room_at (b'\<lparr>listings := gm_put lid (l\<lparr>lConnected := True\<rparr>) (listings b')\<rparr>) (lRoomID l)"
  from mem_inv_listing [OF binv lb] l(2) have here: "gm_get (rooms b') (lRoomID l) = Some rm"
    and own: "AgentAID rm = lAgentID l" by (auto simp: rm_def room_at_def listing_inv_def)
  have rid: "rID rm = lRoomID l" using mem_inv_room [OF binv here] by (simp add: room_inv_def)
  have agn: "sessAgentID s \<noteq> []" using inv assms(8) by (auto simp: mem_inv_def agents_inv_def)
  have named: "TrimSpace (rID rm) \<noteq> []"
    unfolding rm_def by (rule mem_inv_connect(1) [OF binv lb l(2) agn ag])
  have auth: "run_state (authAgentID (Authorization r)) b = (Some (sessAgentID s), b')"
    using assms(5-9) by (auto simp: authAgentID_def Let_def b_def b'_def HasPrefix_def)
  have run: "run_state (handleListingByID E r) a =
     (let rm' = rm\<lparr>AgentBID := sessAgentID s, rState := RoomStateActive,
        Joined := (Joined rm)(lAgentID l := True, sessAgentID s := True)\<rparr> in
      (writeJSON 201 (connectBody rm' [] lid),
       b'\<lparr>listings := gm_put lid (l\<lparr>lConnected := True\<rparr>) (listings b'),
          rooms := gm_put (rID rm) rm' (rooms b')\<rparr>))"
    using assms(3,4) auth lb l(2) ag named here
    by (simp add: handleListingByID_def run_purgeSweep b_def [symmetric] Let_def room_at_def)
  obtain rm0 where "gm_get (rooms a) (lRoomID l) = Some rm0"
    using here by (auto simp: b'_def b_def swept_rooms)
  with run rid own show ?thesis by (simp add: Let_def)
qed

theorem connect_activates_any_room_witness:
  "let a = snd (run_state (handleRoomByID ex_env ex_decoders
       (ex_post ''/v1/rooms/room_6/close'' ''as_4'' [])) (ex_state 5)) in
   map_option rState (gm_get (rooms a) ''room_6'') = Some RoomStateClosed \<and>
   map_option rState (gm_get (rooms (snd (run_state (ex_calls ! 5) a))) ''room_6'') = Some RoomStateActive"
proof -
  define m where "m = handleRoomByID ex_env ex_decoders (ex_post ''/v1/rooms/room_6/close'' ''as_4'' [])"
  define r where "r = noBody (ex_post ''/v1/listings/lst_8/connect'' ''as_5'' [])"
  define a where "a = snd (run_state m (ex_state 5))"
  have path: "splitPath ''/v1/rooms/room_6/close'' = [''v1'', ''rooms'', ''room_6'', ''close'']"
    by code_simp
  have a: "a = ex_talk 13 9 (ex_listing False) (ex_rm [] RoomStateClosed (Some 12) [])"
    by (simp add: a_def m_def path handleRoomByID_def handleRoomClose_def roomClose_commit_def
        ex_state_5 ex_mem del: run_purgeSweepLocked)
  have reach: "mem_reach ex_env ex_decoders a"
    unfolding a_def m_def by (intro reach_step ex_reach mem_call.call_plain plain_call.call_room)
  have "map_option rState (gm_get (rooms (snd (run_state (handleListingByID ex_env r) a))) ''room_6'') =
      Some RoomStateActive"
  proof -
    have "sessions a ''as_5'' = Some \<lparr>sessAgentID = ''agt_3'', sessExpiresAt = 1209600000000005\<rparr>"
      "clock a (Suc (ticks a)) = 14" "gm_get (listings a) ''lst_8'' = Some (ex_listing False)"
      "lRoomID (ex_listing False) = ''room_6''" "\<not> lConnected (ex_listing False)"
      "lAgentID (ex_listing False) = ''agt_1''"
      by (simp_all add: a ex_mem)
    moreover have "HasPrefix (Authorization r) ''Bearer ''" "Method r = ''POST''"
      "TrimSpace (TrimPrefix (Authorization r) ''Bearer '') = ''as_5''"
      "splitPath (URLPath r) = [''v1'', ''listings'', ''lst_8'', ''connect'']"
      by (simp_all add: r_def ex_eval)
    ultimately show ?thesis
      using connect_activates_any_room [OF ex_decodes64 reach, of r "''lst_8''" "''as_5''"
          "\<lparr>sessAgentID = ''agt_3'', sessExpiresAt = 1209600000000005\<rparr>" "ex_listing False"] by auto
  qed
  moreover have "map_option rState (gm_get (rooms a) ''room_6'') = Some RoomStateClosed"
    by (simp add: a ex_talk_def ex_rm_def)
  ultimately show ?thesis
    by (simp add: a_def m_def r_def ex_calls_def)
qed

section \<open>The purge sweep\<close>

lemma countActive_0:
  assumes "in64 timeout" and "timeout < max64"
  shows "countActive vs now timeout = 0 \<longleftrightarrow>
    (\<forall>t v. (t, v) \<in> set vs \<longrightarrow> LeftAt v \<noteq> None \<or> now - LastHeartbeatAt v > timeout)"
  using assms by (induction vs) (auto simp: go_simps split: if_splits)

lemma activeViewerCount_0:
  assumes "in64 timeout" and "timeout < max64"
  shows "activeViewerCount rm now timeout = 0 \<longleftrightarrow>
    (\<forall>t v. (t, v) \<in> set (Viewers rm) \<longrightarrow> LeftAt v \<noteq> None \<or> now - LastHeartbeatAt v > timeout)"
  using countActive_0 [OF assms] by (auto simp: activeViewerCount_def)

text \<open>
  When rooms close and when their content goes. One sweep at time \<open>now\<close> over a reachable state
  closes an open or active room exactly if its time-to-live has passed, keeping its transcript; it
  purges a closed room exactly if the retention time has passed since it was closed, or the grace
  delay has and every viewer has left or stopped sending heartbeats; it leaves purged rooms alone.
\<close>

theorem sweep_rules:
  assumes "decodes64 D" and "mem_reach E D a" and room: "gm_get (rooms a) rid = Some rm"
    and lim: "in64 (viewerHeartbeatTimeout a)" "viewerHeartbeatTimeout a < max64"
      "0 < closedRoomGraceDelay a" "in64 (closedRoomGraceDelay a)"
      "0 < maxClosedRetention a" "in64 (maxClosedRetention a)"
  shows "\<exists>rm'. gm_get (rooms (snd (run_state (purgeSweepLocked now) a))) rid = Some rm' \<and>
    (rState rm \<in> {RoomStateOpen, RoomStateActive} \<longrightarrow> Messages rm' = Messages rm \<and>
       rState rm' = (if now > TTLAt rm then RoomStateClosed else rState rm)) \<and>
    (rState rm = RoomStateClosed \<longrightarrow> (\<exists>c. ClosedAt rm = Some c \<and>
       (if now - c \<ge> maxClosedRetention a \<or> now - c \<ge> closedRoomGraceDelay a \<and>
          (\<forall>t v. (t, v) \<in> set (Viewers rm) \<longrightarrow>
             LeftAt v \<noteq> None \<or> now - LastHeartbeatAt v > viewerHeartbeatTimeout a)
        then rState rm' = RoomStatePurged \<and> Messages rm' = [] \<and> Viewers rm' = [] \<and>
          PurgedAt rm' = Some now
        else rm' = rm))) \<and>
    (rState rm = RoomStatePurged \<longrightarrow> rm' = rm)"
proof -
  have inv: "room_inv rid rm" by (rule mem_inv_room [OF mem_reach_inv [OF assms(2,1)] room])
  have ge: "time_sub now c \<ge> closedRoomGraceDelay a \<longleftrightarrow> now - c \<ge> closedRoomGraceDelay a"
    "time_sub now c \<ge> maxClosedRetention a \<longleftrightarrow> now - c \<ge> maxClosedRetention a" for c
    using lim by (auto simp: time_sub_ge min64_def)
  have get: "gm_get (rooms (snd (run_state (purgeSweepLocked now) a))) rid =
      Some (fst (sweepRoom a now rid rm))"
    by (simp add: swept_rooms room)
  show ?thesis
  proof (cases "rState rm = RoomStateClosed")
    case True
    with inv obtain c where c: "ClosedAt rm = Some c" by (auto simp: room_inv_def)
    have same: "rm\<lparr>ClosedAt := Some c\<rparr> = rm" using c by simp
    show ?thesis
      unfolding get using True c
      by (cases "maxClosedRetention a \<le> now - c"; cases "closedRoomGraceDelay a \<le> now - c")
        (simp_all add: sweepRoom_def Let_def same ge activeViewerCount_0 [OF lim(1,2)], fastforce)
  next
    case False
    then show ?thesis
      unfolding get by (auto simp: sweepRoom_def split: RoomState.splits)
  qed
qed

theorem sweep_rules_witness:
  "\<exists>rm'. gm_get (rooms (snd (run_state (purgeSweepLocked (2 * Minute + 23)) (ex_state 8)))) ''room_6'' =
     Some rm' \<and> rState rm' = RoomStatePurged \<and> Messages rm' = []"
proof -
  have "gm_get (rooms (ex_state 8)) ''room_6'' =
      Some (ex_rm ''agt_3'' RoomStateClosed (Some 23) [ex_msg1, ex_msg2])"
    and lim: "viewerHeartbeatTimeout (ex_state 8) = 45 * Second"
      "closedRoomGraceDelay (ex_state 8) = 2 * Minute" "maxClosedRetention (ex_state 8) = 24 * Hour"
    by (simp_all add: ex_state_8 ex_talk_def ex_app_def ex_start_def newApp_def)
  from sweep_rules [OF ex_decodes64 ex_reach this(1), of "2 * Minute + 23"] show ?thesis
    unfolding lim by (auto simp: duration_units in64_def min64_def max64_def ex_rm_def)
qed

end
