(* ===== verification/Pub_Sub.thy ===== *)
theory Pub_Sub
  imports Go_Strings
begin

text \<open>
  Buffered channels and the subscription tables shared by \<open>event_hub.go\<close> and \<open>typing_hub.go\<close>. A
  subscription is a heap object named by its id (the hub hands out every id once): the hub's table
  and the subscriber hold the same object, which lives on in the subscriber's hand after the hub
  has dropped it. Operations return \<open>None\<close> where Go panics: a send on a closed channel and a second
  close of a channel.
\<close>

section \<open>Channels, subscriptions, hubs\<close>

record 'e channel =
  chQueue :: "'e list"
  chCap :: nat
  chClosed :: bool

record 'e subscription =
  subRoomID :: string
  subCh :: "'e channel"
  subOnce :: bool
  subDropped :: bool

record 'e hub =
  nextSubID :: int
  buffer :: nat
  subsByRoom :: "(string, int list) gomap"
  heap :: "int \<Rightarrow> 'e subscription option"

definition room_subs :: "('e, 'z) hub_scheme \<Rightarrow> string \<Rightarrow> int list" where
  "room_subs h roomID = (case gm_get (subsByRoom h) roomID of None \<Rightarrow> [] | Some is \<Rightarrow> is)"

text \<open>\<open>delete(subs, id)\<close> and the removal of a room entry that became empty.\<close>

definition put_subs :: "string \<Rightarrow> int list \<Rightarrow> ('e, 'z) hub_scheme \<Rightarrow> ('e, 'z) hub_scheme" where
  "put_subs roomID is h = h\<lparr>subsByRoom :=
     (if length is = 0 then gm_del roomID (subsByRoom h) else gm_put roomID is (subsByRoom h))\<rparr>"

definition put_sub :: "int \<Rightarrow> 'e subscription \<Rightarrow> ('e, 'z) hub_scheme \<Rightarrow> ('e, 'z) hub_scheme" where
  "put_sub i s h = h\<lparr>heap := (heap h)(i \<mapsto> s)\<rparr>"

text \<open>\<open>close(sub.ch)\<close>.\<close>

definition close_ch :: "'e subscription \<Rightarrow> 'e subscription option" where
  "close_ch s = (if chClosed (subCh s) then None else Some (s\<lparr>subCh := (subCh s)\<lparr>chClosed := True\<rparr>\<rparr>))"

definition hub_subscribe :: "string \<Rightarrow> ('e, 'z) hub_scheme \<Rightarrow> int \<times> ('e, 'z) hub_scheme" where
  "hub_subscribe roomID h =
    (let i = wrap64 (nextSubID h + 1);
         s = \<lparr>subRoomID = roomID, subCh = \<lparr>chQueue = [], chCap = buffer h, chClosed = False\<rparr>,
              subOnce = False, subDropped = False\<rparr>;
         h = h\<lparr>nextSubID := i\<rparr>
     in (i, put_sub i s (h\<lparr>subsByRoom := gm_put roomID (room_subs h roomID @ [i]) (subsByRoom h)\<rparr>)))"

text \<open>The non-blocking send to each subscription; the result names those whose buffer was full.\<close>

fun send_all :: "int list \<Rightarrow> 'e \<Rightarrow> ('e, 'z) hub_scheme \<Rightarrow> (int list \<times> ('e, 'z) hub_scheme) option" where
  "send_all [] ev h = Some ([], h)"
| "send_all (i # is) ev h =
    (case heap h i of
       None \<Rightarrow> None
     | Some s \<Rightarrow>
       if chClosed (subCh s) then None
       else if length (chQueue (subCh s)) < chCap (subCh s) then
         send_all is ev (put_sub i (s\<lparr>subCh := (subCh s)\<lparr>chQueue := chQueue (subCh s) @ [ev]\<rparr>\<rparr>) h)
       else (case send_all is ev h of None \<Rightarrow> None | Some (toDrop, h) \<Rightarrow> Some (i # toDrop, h)))"

text \<open>The second locked section: the full subscriptions that are still in the table are dropped.\<close>

fun drop_all :: "string \<Rightarrow> int list \<Rightarrow> ('e, 'z) hub_scheme \<Rightarrow> ('e, 'z) hub_scheme option" where
  "drop_all roomID [] h = Some h"
| "drop_all roomID (i # is) h =
    (if i \<notin> set (room_subs h roomID) then drop_all roomID is h
     else (case heap h i of
       None \<Rightarrow> None
     | Some s \<Rightarrow>
       (case close_ch (s\<lparr>subDropped := True\<rparr>) of
          None \<Rightarrow> None
        | Some s \<Rightarrow> drop_all roomID is
            (put_subs roomID (remove1 i (room_subs h roomID)) (put_sub i s h)))))"

definition hub_unsubscribe :: "string \<Rightarrow> int \<Rightarrow> ('e, 'z) hub_scheme \<Rightarrow> ('e, 'z) hub_scheme option" where
  "hub_unsubscribe roomID i h =
    (let is = room_subs h roomID in
     if length is = 0 then Some h
     else if i \<notin> set is then Some h
     else (case heap h i of
       None \<Rightarrow> None
     | Some s \<Rightarrow>
       (case close_ch s of
          None \<Rightarrow> None
        | Some s \<Rightarrow> Some (put_subs roomID (remove1 i is) (put_sub i s h)))))"

text \<open>\<open>sub.Close()\<close>: the first call unsubscribes, later ones do nothing.\<close>

definition hub_close :: "int \<Rightarrow> ('e, 'z) hub_scheme \<Rightarrow> ('e, 'z) hub_scheme option" where
  "hub_close i h = (case heap h i of
     None \<Rightarrow> Some h
   | Some s \<Rightarrow> if subOnce s then Some h
     else hub_unsubscribe (subRoomID s) i (put_sub i (s\<lparr>subOnce := True\<rparr>) h))"

text \<open>The subscriber's receive: the oldest element of the buffer, if any.\<close>

definition hub_recv :: "int \<Rightarrow> ('e, 'z) hub_scheme \<Rightarrow> 'e option \<times> ('e, 'z) hub_scheme" where
  "hub_recv i h = (case heap h i of
     None \<Rightarrow> (None, h)
   | Some s \<Rightarrow> (case chQueue (subCh s) of
       [] \<Rightarrow> (None, h)
     | x # xs \<Rightarrow> (Some x, put_sub i (s\<lparr>subCh := (subCh s)\<lparr>chQueue := xs\<rparr>\<rparr>) h)))"

section \<open>Invariant\<close>

definition live_sub :: "string \<Rightarrow> nat \<Rightarrow> 'e subscription \<Rightarrow> bool" where
  "live_sub roomID buf s \<longleftrightarrow> subRoomID s = roomID \<and> \<not> chClosed (subCh s) \<and> \<not> subDropped s \<and>
     chCap (subCh s) = buf"

definition hub_inv :: "('e, 'z) hub_scheme \<Rightarrow> bool" where
  "hub_inv h \<longleftrightarrow> gm_wf (subsByRoom h) \<and> 0 < buffer h \<and> min64 \<le> nextSubID h \<and>
     (\<forall>room. distinct (room_subs h room)) \<and>
     (\<forall>room. gm_get (subsByRoom h) room \<noteq> Some []) \<and>
     (\<forall>room i. i \<in> set (room_subs h room) \<longrightarrow> (\<exists>s. heap h i = Some s \<and> live_sub room (buffer h) s)) \<and>
     (\<forall>i s. heap h i = Some s \<longrightarrow> i \<le> nextSubID h \<and> length (chQueue (subCh s)) \<le> buffer h)"

lemma room_subs_put_subs [simp]:
  "room_subs (put_subs room is h) room' = (if room' = room then is else room_subs h room')"
  by (auto simp: room_subs_def put_subs_def split: option.splits)

lemma put_sub_simps [simp]:
  "room_subs (put_sub i s h) room = room_subs h room" "heap (put_sub i s h) = (heap h)(i \<mapsto> s)"
  "buffer (put_sub i s h) = buffer h" "nextSubID (put_sub i s h) = nextSubID h"
  "subsByRoom (put_sub i s h) = subsByRoom h"
  by (simp_all add: put_sub_def room_subs_def)

lemma put_subs_simps [simp]:
  "heap (put_subs room is h) = heap h" "buffer (put_subs room is h) = buffer h"
  "nextSubID (put_subs room is h) = nextSubID h"
  by (simp_all add: put_subs_def)

lemma gm_wf_put_subs [simp]: "gm_wf (subsByRoom h) \<Longrightarrow> gm_wf (subsByRoom (put_subs room is h))"
  by (simp add: put_subs_def)

lemma put_subs_not_Nil:
  "(\<forall>room. gm_get (subsByRoom h) room \<noteq> Some []) \<Longrightarrow>
   gm_get (subsByRoom (put_subs r is h)) room \<noteq> Some []"
  by (auto simp: put_subs_def)

lemma hub_inv_live:
  "hub_inv h \<Longrightarrow> i \<in> set (room_subs h room) \<Longrightarrow> \<exists>s. heap h i = Some s \<and> live_sub room (buffer h) s"
  by (simp add: hub_inv_def)

lemma hub_inv_heap:
  "hub_inv h \<Longrightarrow> heap h i = Some s \<Longrightarrow> i \<le> nextSubID h \<and> length (chQueue (subCh s)) \<le> buffer h"
  by (simp add: hub_inv_def)

lemma hub_inv_tables:
  "hub_inv h \<Longrightarrow> gm_wf (subsByRoom h)" "hub_inv h \<Longrightarrow> 0 < buffer h"
  "hub_inv h \<Longrightarrow> min64 \<le> nextSubID h" "hub_inv h \<Longrightarrow> distinct (room_subs h room)"
  "hub_inv h \<Longrightarrow> gm_get (subsByRoom h) room \<noteq> Some []"
  by (simp_all add: hub_inv_def)

lemma hub_invI:
  assumes "gm_wf (subsByRoom h)" "0 < buffer h" "min64 \<le> nextSubID h"
    and "\<And>room. distinct (room_subs h room)" "\<And>room. gm_get (subsByRoom h) room \<noteq> Some []"
    and "\<And>room i. i \<in> set (room_subs h room) \<Longrightarrow> \<exists>s. heap h i = Some s \<and> live_sub room (buffer h) s"
    and "\<And>i s. heap h i = Some s \<Longrightarrow> i \<le> nextSubID h \<and> length (chQueue (subCh s)) \<le> buffer h"
  shows "hub_inv h"
  unfolding hub_inv_def using assms by simp

text \<open>An id stands in the table of one room only.\<close>

lemma hub_inv_one_room:
  "hub_inv h \<Longrightarrow> i \<in> set (room_subs h room) \<Longrightarrow> i \<in> set (room_subs h room') \<Longrightarrow> room' = room"
  using hub_inv_live [of h i room] hub_inv_live [of h i room'] by (auto simp: live_sub_def)

text \<open>Changing a subscription that keeps being live keeps the invariant.\<close>

lemma hub_inv_put_sub:
  assumes "hub_inv h" and "heap h i = Some s"
    and "live_sub (subRoomID s) (buffer h) s \<Longrightarrow> live_sub (subRoomID s) (buffer h) s'"
    and "length (chQueue (subCh s')) \<le> buffer h"
  shows "hub_inv (put_sub i s' h)"
proof (rule hub_invI)
  fix room j
  assume "j \<in> set (room_subs (put_sub i s' h) room)"
  with hub_inv_live [OF assms(1), of j room] assms(2,3)
  show "\<exists>t. heap (put_sub i s' h) j = Some t \<and> live_sub room (buffer (put_sub i s' h)) t"
    by (cases "j = i") (auto simp: live_sub_def)
next
  fix j t
  assume "heap (put_sub i s' h) j = Some t"
  with hub_inv_heap [OF assms(1), of i s] hub_inv_heap [OF assms(1), of j t] assms(2,4)
  show "j \<le> nextSubID (put_sub i s' h) \<and> length (chQueue (subCh t)) \<le> buffer (put_sub i s' h)"
    by (cases "j = i") auto
qed (use hub_inv_tables [OF assms(1)] in simp_all)

text \<open>Removing an id from the table of its room lets its subscription change at will.\<close>

lemma hub_inv_remove:
  assumes "hub_inv h" and "heap h i = Some s" and "length (chQueue (subCh s')) \<le> buffer h"
    and room: "i \<in> set (room_subs h room)"
  shows "hub_inv (put_subs room (remove1 i (room_subs h room)) (put_sub i s' h))"
proof -
  have d: "distinct (room_subs h room)" by (rule hub_inv_tables(4) [OF assms(1)])
  show ?thesis (is "hub_inv ?h")
  proof (rule hub_invI)
    fix r j
    assume "j \<in> set (room_subs ?h r)"
    with d hub_inv_live [OF assms(1)] hub_inv_one_room [OF assms(1) room]
    show "\<exists>t. heap ?h j = Some t \<and> live_sub r (buffer ?h) t"
      by (cases "r = room") (auto split: if_splits)
  next
    fix j t
    assume "heap ?h j = Some t"
    with hub_inv_heap [OF assms(1), of i s] hub_inv_heap [OF assms(1), of j t] assms(2,3)
    show "j \<le> nextSubID ?h \<and> length (chQueue (subCh t)) \<le> buffer ?h"
      by (cases "j = i") auto
  next
    show "gm_get (subsByRoom ?h) r \<noteq> Some []" for r
      by (rule put_subs_not_Nil) (use hub_inv_tables(5) [OF assms(1)] in simp)
  qed (use hub_inv_tables [OF assms(1)] in \<open>simp_all add: d\<close>)
qed

section \<open>The operations keep the invariant and do not panic\<close>

lemma hub_subscribe_fields:
  assumes "in64 (nextSubID h + 1)"
  shows "fst (hub_subscribe room h) = nextSubID h + 1"
    and "room_subs (snd (hub_subscribe room h)) r =
      (if r = room then room_subs h room @ [nextSubID h + 1] else room_subs h r)"
    and "heap (snd (hub_subscribe room h)) = (heap h)(nextSubID h + 1 \<mapsto>
      \<lparr>subRoomID = room, subCh = \<lparr>chQueue = [], chCap = buffer h, chClosed = False\<rparr>,
       subOnce = False, subDropped = False\<rparr>)"
    and "buffer (snd (hub_subscribe room h)) = buffer h"
    and "nextSubID (snd (hub_subscribe room h)) = nextSubID h + 1"
  using assms
  by (simp_all add: hub_subscribe_def Let_def) (simp add: put_sub_def room_subs_def)

lemma hub_inv_subscribe:
  assumes "hub_inv h" and "nextSubID h < max64"
  shows "hub_inv (snd (hub_subscribe room h))"
proof -
  have w: "in64 (nextSubID h + 1)"
    using assms by (auto simp: hub_inv_def in64_def)
  have new: "heap h (nextSubID h + 1) = None"
    using hub_inv_heap [OF assms(1), of "nextSubID h + 1"] by (cases "heap h (nextSubID h + 1)") auto
  then have out: "nextSubID h + 1 \<notin> set (room_subs h r)" for r
    using hub_inv_live [OF assms(1)] by force
  note subs = hub_subscribe_fields(2) [OF w] and hp = hub_subscribe_fields(3) [OF w]
    and flds = hub_subscribe_fields(4,5) [OF w]
  show ?thesis (is "hub_inv ?h")
  proof (rule hub_invI)
    fix r j
    assume "j \<in> set (room_subs ?h r)"
    with hub_inv_live [OF assms(1), of j r] out
    show "\<exists>t. heap ?h j = Some t \<and> live_sub r (buffer ?h) t"
      by (auto simp: subs hp flds live_sub_def split: if_splits)
  next
    fix j t
    assume "heap ?h j = Some t"
    with hub_inv_heap [OF assms(1), of j t]
    show "j \<le> nextSubID ?h \<and> length (chQueue (subCh t)) \<le> buffer ?h"
      by (auto simp: hp flds split: if_splits)
  next
    show "distinct (room_subs ?h r)" for r
      using hub_inv_tables(4) [OF assms(1)] out by (simp add: subs)
    show "gm_wf (subsByRoom ?h)" "gm_get (subsByRoom ?h) r \<noteq> Some []" for r
      using hub_inv_tables [OF assms(1)] by (simp_all add: hub_subscribe_def Let_def)
  qed (use hub_inv_tables [OF assms(1)] in \<open>simp_all add: flds\<close>)
qed

lemma hub_inv_recv: "hub_inv h \<Longrightarrow> hub_inv (snd (hub_recv i h))"
  by (auto simp: hub_recv_def live_sub_def split: option.splits list.splits intro!: hub_inv_put_sub
      dest: hub_inv_heap)

lemma hub_inv_unsubscribe:
  assumes "hub_inv h"
  shows "\<exists>h'. hub_unsubscribe room i h = Some h' \<and> hub_inv h'"
proof (cases "i \<in> set (room_subs h room)")
  case True
  then obtain s where "heap h i = Some s" "live_sub room (buffer h) s"
    using hub_inv_live [OF assms] by blast
  with True hub_inv_heap [OF assms] hub_inv_remove [OF assms _ _ True] show ?thesis
    by (auto simp: hub_unsubscribe_def close_ch_def live_sub_def Let_def)
qed (auto simp: hub_unsubscribe_def Let_def assms)

lemma hub_inv_close:
  assumes "hub_inv h"
  shows "\<exists>h'. hub_close i h = Some h' \<and> hub_inv h'"
proof (cases "heap h i")
  case (Some s)
  then have "hub_inv (put_sub i (s\<lparr>subOnce := True\<rparr>) h)"
    using hub_inv_heap [OF assms Some] by (intro hub_inv_put_sub [OF assms Some]) (auto simp: live_sub_def)
  from hub_inv_unsubscribe [OF this] Some show ?thesis
    by (cases "subOnce s") (auto simp: hub_close_def assms)
qed (simp add: hub_close_def assms)

lemma hub_inv_send_all:
  assumes "hub_inv h" and "set is \<subseteq> set (room_subs h room)"
  shows "\<exists>d h'. send_all is ev h = Some (d, h') \<and> hub_inv h'"
  using assms
proof (induction "is" arbitrary: h)
  case (Cons i "is")
  then obtain s where s: "heap h i = Some s" "live_sub room (buffer h) s"
    using hub_inv_live by fastforce
  let ?s = "s\<lparr>subCh := (subCh s)\<lparr>chQueue := chQueue (subCh s) @ [ev]\<rparr>\<rparr>"
  show ?case
  proof (cases "length (chQueue (subCh s)) < chCap (subCh s)")
    case True
    then have "hub_inv (put_sub i ?s h)"
      using s by (intro hub_inv_put_sub [OF Cons.prems(1) s(1)]) (auto simp: live_sub_def)
    from Cons.IH [OF this] Cons.prems(2) s True show ?thesis by (auto simp: live_sub_def)
  next
    case False
    from Cons.IH [OF Cons.prems(1)] Cons.prems(2) s False show ?thesis by (auto simp: live_sub_def)
  qed
qed simp

lemma hub_inv_drop_all:
  assumes "hub_inv h"
  shows "\<exists>h'. drop_all room is h = Some h' \<and> hub_inv h'"
  using assms
proof (induction "is" arbitrary: h)
  case (Cons i "is")
  show ?case
  proof (cases "i \<in> set (room_subs h room)")
    case True
    then obtain s where s: "heap h i = Some s" "live_sub room (buffer h) s"
      using hub_inv_live [OF Cons.prems] by blast
    let ?s = "s\<lparr>subDropped := True, subCh := (subCh s)\<lparr>chClosed := True\<rparr>\<rparr>"
    have "hub_inv (put_subs room (remove1 i (room_subs h room)) (put_sub i ?s h))"
      using hub_inv_heap [OF Cons.prems s(1)] by (intro hub_inv_remove [OF Cons.prems s(1) _ True]) simp
    from Cons.IH [OF this] True s show ?thesis
      by (auto simp: close_ch_def live_sub_def)
  qed (use Cons in auto)
qed simp

lemma nextSubID_close: "hub_close i h = Some h' \<Longrightarrow> nextSubID h' = nextSubID h"
  by (auto simp: hub_close_def hub_unsubscribe_def Let_def split: option.splits if_splits)

lemma nextSubID_send: "send_all is ev h = Some (d, h') \<Longrightarrow> nextSubID h' = nextSubID h"
  by (induction "is" ev h arbitrary: d h' rule: send_all.induct) (fastforce split: option.splits if_splits)+

lemma nextSubID_drop: "drop_all room d h = Some h' \<Longrightarrow> nextSubID h' = nextSubID h"
  by (induction room d h rule: drop_all.induct) (auto split: option.splits if_splits)

section \<open>What a broadcast does\<close>

text \<open>The subscription \<open>i\<close> after the sends: the event is in its buffer unless that was full.\<close>

definition offered :: "'e \<Rightarrow> 'e subscription \<Rightarrow> 'e subscription" where
  "offered ev s = (if length (chQueue (subCh s)) < chCap (subCh s)
     then s\<lparr>subCh := (subCh s)\<lparr>chQueue := chQueue (subCh s) @ [ev]\<rparr>\<rparr> else s)"

definition full :: "'e subscription \<Rightarrow> bool" where
  "full s \<longleftrightarrow> \<not> length (chQueue (subCh s)) < chCap (subCh s)"

lemma send_all_result:
  assumes "send_all is ev h = Some (d, h')" and "distinct is"
  shows "heap h' = (\<lambda>i. if i \<in> set is then map_option (offered ev) (heap h i) else heap h i)"
    and "d = filter (\<lambda>i. case heap h i of None \<Rightarrow> False | Some s \<Rightarrow> full s) is"
    and "room_subs h' = room_subs h" and "subsByRoom h' = subsByRoom h" and "buffer h' = buffer h"
    and "nextSubID h' = nextSubID h"
proof -
  have "heap h' = (\<lambda>i. if i \<in> set is then map_option (offered ev) (heap h i) else heap h i) \<and>
    d = filter (\<lambda>i. case heap h i of None \<Rightarrow> False | Some s \<Rightarrow> full s) is \<and>
    subsByRoom h' = subsByRoom h \<and> buffer h' = buffer h \<and> nextSubID h' = nextSubID h"
    using assms
  proof (induction "is" arbitrary: h d h')
    case (Cons i "is")
    then obtain s where s: "heap h i = Some s" and o: "\<not> chClosed (subCh s)"
      by (auto split: option.splits if_splits)
    show ?case
    proof (cases "full s")
      case False
      let ?h = "put_sub i (offered ev s) h"
      from False s o Cons.prems have "send_all is ev ?h = Some (d, h')"
        by (auto simp: full_def offered_def)
      note ih = Cons.IH [OF this]
      have "(case heap ?h j of None \<Rightarrow> False | Some s \<Rightarrow> full s) =
          (case heap h j of None \<Rightarrow> False | Some s \<Rightarrow> full s)" if "j \<in> set is" for j
        using that Cons.prems(2) by auto
      with ih Cons.prems(2) s False show ?thesis
        by (auto simp: fun_eq_iff intro!: filter_cong)
    next
      case True
      with s o Cons.prems obtain d' where "send_all is ev h = Some (d', h')" "d = i # d'"
        by (auto simp: full_def split: option.splits)
      with Cons.IH [of h d' h'] Cons.prems(2) s True show ?thesis
        by (auto simp: fun_eq_iff offered_def full_def)
    qed
  qed auto
  then show "heap h' = (\<lambda>i. if i \<in> set is then map_option (offered ev) (heap h i) else heap h i)"
    "d = filter (\<lambda>i. case heap h i of None \<Rightarrow> False | Some s \<Rightarrow> full s) is"
    "room_subs h' = room_subs h" "subsByRoom h' = subsByRoom h" "buffer h' = buffer h"
    "nextSubID h' = nextSubID h"
    by (auto simp: room_subs_def fun_eq_iff)
qed

text \<open>The subscription of a dropped subscriber.\<close>

definition dropped_sub :: "'e subscription \<Rightarrow> 'e subscription" where
  "dropped_sub s = s\<lparr>subDropped := True, subCh := (subCh s)\<lparr>chClosed := True\<rparr>\<rparr>"

lemma drop_all_result:
  assumes "drop_all room d h = Some h'" and "distinct d" and "distinct (room_subs h room)"
  shows "heap h' = (\<lambda>i. if i \<in> set d \<and> i \<in> set (room_subs h room)
      then map_option dropped_sub (heap h i) else heap h i) \<and>
    room_subs h' = (room_subs h)(room := filter (\<lambda>i. i \<notin> set d) (room_subs h room)) \<and>
    buffer h' = buffer h \<and> nextSubID h' = nextSubID h"
  using assms
proof (induction d arbitrary: h)
  case (Cons i d)
  show ?case
  proof (cases "i \<in> set (room_subs h room)")
    case False
    with Cons have "drop_all room d h = Some h'" by simp
    from Cons.IH [OF this] Cons.prems False show ?thesis
      by (auto simp: fun_eq_iff intro!: filter_cong)
  next
    case True
    then obtain s where s: "heap h i = Some s" "\<not> chClosed (subCh s)"
      using Cons.prems(1) by (auto simp: close_ch_def split: option.splits if_splits)
    let ?h = "put_subs room (remove1 i (room_subs h room)) (put_sub i (dropped_sub s) h)"
    have "drop_all room d ?h = Some h'"
      using Cons.prems(1) True s by (auto simp: close_ch_def dropped_sub_def)
    from Cons.IH [OF this] Cons.prems True s show ?thesis
      by (auto simp: fun_eq_iff distinct_remove1_removeAll removeAll_filter_not_eq intro!: filter_cong)
  qed
qed auto

end
