(* ===== verification/Contracts.thy ===== *)
theory Contracts
  imports Room_State
begin

text \<open>
  The data of \<open>internal/repository/contracts.go\<close>: the rows the store returns and the inputs of its
  operations, one record per struct with the fields in source order (a short prefix tells the
  structs apart, pointers are options, raw JSON is its text), and the two sentinel errors.
\<close>

section \<open>Errors\<close>

text \<open>
  The sentinel errors of the store; \<open>ErrOther\<close> stands for any other error of the database driver.
\<close>

datatype repo_error = ErrNotFound | ErrConflict | ErrOther string

section \<open>Rows and inputs\<close>

record PolicyState =
  ps_ViolationCount :: int
  ps_BlockedUntil :: "time option"

record Agent =
  agt_ID :: string
  agt_Name :: string
  agt_APIKeyHash :: string
  agt_CreatedAt :: time

record Session =
  ses_Token :: string
  ses_AgentID :: string
  ses_CreatedAt :: time
  ses_ExpiresAt :: "time option"

record Listing =
  lst_ID :: string
  lst_AgentID :: string
  lst_Topic :: string
  lst_Tags :: "string list"
  lst_MaxTurns :: int
  lst_TTLSeconds :: int
  lst_Connected :: bool
  lst_CreatedAt :: time
  lst_RoomID :: string

record Room =
  room_ID :: string
  room_Topic :: string
  room_AgentAID :: string
  room_AgentBID :: string
  room_State :: RoomState
  room_TurnIndex :: int
  room_MaxTurns :: int
  room_TTLAt :: time
  room_CreatedAt :: time
  room_ClosedAt :: "time option"
  room_PurgedAt :: "time option"
  room_HumanCodeHash :: string
  room_HumanCodeExpiresAt :: "time option"
  room_MessageKeyCiphertext :: string

record Message =
  msg_ID :: string
  msg_RoomID :: string
  msg_SenderID :: string
  msg_SenderName :: string
  msg_Turn :: int
  msg_Ciphertext :: string
  msg_CreatedAt :: time

record Viewer =
  vw_ID :: string
  vw_RoomID :: string
  vw_ViewerToken :: string
  vw_JoinedAt :: time
  vw_LastHeartbeatAt :: time
  vw_LeftAt :: "time option"

record RoomContextState =
  rc_RoomID :: string
  rc_Context :: string
  rc_Version :: int
  rc_UpdatedAt :: time
  rc_CreatedAt :: time

record AdminOverview =
  ao_AgentsTotal :: int
  ao_SessionsActive :: int
  ao_RoomsOpen :: int
  ao_RoomsActive :: int
  ao_RoomsClosed :: int
  ao_RoomsPurged :: int
  ao_MessagesTotal :: int

record AdminRoom =
  ar_ID :: string
  ar_AgentAID :: string
  ar_AgentAName :: string
  ar_AgentBID :: string
  ar_AgentBName :: string
  ar_State :: RoomState
  ar_TurnIndex :: int
  ar_MaxTurns :: int
  ar_TTLAt :: time
  ar_CreatedAt :: time
  ar_ClosedAt :: "time option"
  ar_PurgedAt :: "time option"

record AuditEvent =
  au_ID :: int
  au_RoomID :: string
  au_Event :: string
  au_Meta :: string
  au_MessageCount :: int
  au_CreatedAt :: time

record APIRequestLog =
  al_ID :: int
  al_RequestID :: string
  al_Method :: string
  al_Path :: string
  al_RouteName :: string
  al_Query :: string
  al_StatusCode :: int
  al_DurationMS :: int
  al_RemoteIP :: string
  al_UserAgent :: string
  al_BytesWritten :: int
  al_AuthPresent :: bool
  al_CreatedAt :: time

record RoomEvent =
  ev_ID :: int
  ev_RoomID :: string
  ev_EventType :: string
  ev_MessageID :: "string option"
  ev_Turn :: "int option"
  ev_SenderID :: "string option"
  ev_Ciphertext :: "string option"
  ev_CreatedAt :: time

record AgentStreamDelivery =
  asd_Seq :: int
  asd_DeliveryID :: string
  asd_AgentID :: string
  asd_RoomID :: string
  asd_Type :: string
  asd_Reason :: string
  asd_Payload :: string
  asd_Status :: string
  asd_CreatedAt :: time
  asd_AckedAt :: "time option"
  asd_ExpiresAt :: time

record AgentWebhookEndpoint =
  ep_ID :: string
  ep_AgentID :: string
  ep_URL :: string
  ep_SecretCiphertext :: string
  ep_KeyID :: string
  ep_Enabled :: bool
  ep_CreatedAt :: time
  ep_UpdatedAt :: time

record WebhookOutboxItem =
  ob_ID :: int
  ob_RoomID :: string
  ob_RoomEventID :: int
  ob_TargetAgentID :: string
  ob_EndpointID :: string
  ob_EventType :: string
  ob_Payload :: string
  ob_Status :: string
  ob_AttemptCount :: int
  ob_NextAttemptAt :: time
  ob_LastError :: string
  ob_CreatedAt :: time
  ob_UpdatedAt :: time

record ClaimedWebhookDelivery = WebhookOutboxItem +
  cl_EndpointURL :: string
  cl_EndpointSecretCiphertext :: string
  cl_EndpointKeyID :: string
  cl_EndpointEnabled :: bool

record RoomScopedToken =
  rt_ID :: string
  rt_RoomID :: string
  rt_AgentID :: string
  rt_TokenHash :: string
  rt_Scope :: string
  rt_ExpiresAt :: time
  rt_RevokedAt :: "time option"
  rt_CreatedAt :: time

record CreateAgentInput =
  cai_ID :: string
  cai_Name :: string
  cai_APIKeyHash :: string

record CreateSessionInput =
  csi_Token :: string
  csi_AgentID :: string
  csi_ExpiresAt :: "time option"

record AcquireRoomEventStreamLeaseInput =
  li_LeaseID :: string
  li_RoomID :: string
  li_AgentID :: string
  li_RemoteIP :: string
  li_Now :: time
  li_LeaseExpiresAt :: time
  li_MaxActivePerRoomAgent :: int
  li_MaxConnectsPerMinuteKey :: int
  li_MaxConnectsPerMinuteIP :: int

record AcquireRoomEventStreamLeaseResult =
  lr_Acquired :: bool
  lr_DeniedReason :: string
  lr_ActivePerRoomAgent :: int
  lr_ConnectsPerMinuteKey :: int
  lr_ConnectsPerMinuteIP :: int

record CreateListingInput =
  cli_ID :: string
  cli_AgentID :: string
  cli_Topic :: string
  cli_Tags :: "string list"
  cli_MaxTurns :: int
  cli_TTLSeconds :: int
  cli_RoomID :: string

record CreateRoomInput =
  cri_ID :: string
  cri_Topic :: string
  cri_AgentAID :: string
  cri_AgentBID :: string
  cri_State :: RoomState
  cri_TurnIndex :: int
  cri_MaxTurns :: int
  cri_TTLAt :: time
  cri_HumanCodeHash :: string
  cri_HumanCodeExpiresAt :: "time option"
  cri_MessageKeyCiphertext :: string

record UpdateRoomInput =
  uri_ID :: string
  uri_Topic :: "string option"
  uri_AgentBID :: "string option"
  uri_State :: "RoomState option"
  uri_TurnIndex :: "int option"
  uri_ClosedAt :: "time option"
  uri_PurgedAt :: "time option"
  uri_MessageKeyCiphertext :: "string option"

record AppendMessageInput =
  ami_ID :: string
  ami_RoomID :: string
  ami_SenderID :: string
  ami_Turn :: int
  ami_Ciphertext :: string

record UpsertViewerInput =
  uvi_ID :: string
  uvi_RoomID :: string
  uvi_ViewerToken :: string
  uvi_JoinedAt :: time
  uvi_LastHeartbeatAt :: time
  uvi_LeftAt :: "time option"

record AppendAuditEventInput =
  aai_RoomID :: string
  aai_Event :: string
  aai_Meta :: string
  aai_MessageCount :: int

record AppendAPIRequestLogInput =
  ali_RequestID :: string
  ali_Method :: string
  ali_Path :: string
  ali_RouteName :: string
  ali_Query :: string
  ali_StatusCode :: int
  ali_DurationMS :: int
  ali_RemoteIP :: string
  ali_UserAgent :: string
  ali_BytesWritten :: int
  ali_AuthPresent :: bool

record AppendRoomEventInput =
  aei_RoomID :: string
  aei_EventType :: string
  aei_MessageID :: "string option"
  aei_Turn :: "int option"
  aei_SenderID :: "string option"
  aei_Ciphertext :: "string option"

record ListRoomEventsInput =
  lei_RoomID :: string
  lei_SinceID :: int
  lei_Limit :: int

record CreateAgentStreamDeliveryInput =
  cdi_DeliveryID :: string
  cdi_AgentID :: string
  cdi_RoomID :: string
  cdi_Type :: string
  cdi_Reason :: string
  cdi_Payload :: string
  cdi_Status :: string
  cdi_ExpiresAt :: time

record UpsertRoomContextInput =
  uci_RoomID :: string
  uci_Context :: string
  uci_Version :: int

record CreateAgentWebhookEndpointInput =
  cei_ID :: string
  cei_AgentID :: string
  cei_URL :: string
  cei_SecretCiphertext :: string
  cei_KeyID :: string
  cei_Enabled :: bool

record CreateWebhookOutboxInput =
  coi_RoomID :: string
  coi_RoomEventID :: int
  coi_TargetAgentID :: string
  coi_EndpointID :: string
  coi_EventType :: string
  coi_Payload :: string
  coi_Status :: string
  coi_AttemptCount :: int
  coi_NextAttemptAt :: time
  coi_LastError :: string

record CreateRoomScopedTokenInput =
  cti_ID :: string
  cti_RoomID :: string
  cti_AgentID :: string
  cti_TokenHash :: string
  cti_Scope :: string
  cti_ExpiresAt :: time

end
