(* ===== verification/Event_Hub.thy ===== *)
theory Event_Hub
  imports Pub_Sub Contracts
begin

text \<open>
  The room event hub of \<open>internal/httpapi/event_hub.go\<close>: subscribe, publish, close. \<open>Publish\<close> takes
  the lock twice, once to send and once to drop the subscribers whose buffer was full; the two
  locked sections are separate definitions so that other operations can come between them.
\<close>

section \<open>Operations\<close>

type_synonym roomEventHub = "RoomEvent hub"

definition newRoomEventHub :: "int \<Rightarrow> roomEventHub" where
  "newRoomEventHub buf = \<lparr>nextSubID = 0, buffer = nat (if buf \<le> 0 then 64 else buf),
     subsByRoom = [], heap = Map.empty\<rparr>"

text \<open>A subscription to a blank room is a closed channel outside the hub: \<open>None\<close>.\<close>

definition eh_Subscribe :: "string \<Rightarrow> roomEventHub \<Rightarrow> int option \<times> roomEventHub" where
  "eh_Subscribe roomID h =
    (let roomID = TrimSpace roomID in
     if roomID = [] then (None, h)
     else (case hub_subscribe roomID h of (i, h) \<Rightarrow> (Some i, h)))"

text \<open>The section under the read lock: the event is offered to every subscriber of its room.\<close>

definition publish_send :: "RoomEvent \<Rightarrow> roomEventHub \<Rightarrow> (int list \<times> roomEventHub) option" where
  "publish_send ev h =
    (let roomID = TrimSpace (ev_RoomID ev) in
     if roomID = [] then Some ([], h)
     else (let subs = room_subs h roomID in
       if length subs = 0 then Some ([], h) else send_all subs ev h))"

text \<open>The section under the write lock.\<close>

definition publish_drop :: "RoomEvent \<Rightarrow> int list \<Rightarrow> roomEventHub \<Rightarrow> roomEventHub option" where
  "publish_drop ev toDrop h =
    (if length toDrop = 0 then Some h else drop_all (TrimSpace (ev_RoomID ev)) toDrop h)"

definition Publish :: "RoomEvent \<Rightarrow> roomEventHub \<Rightarrow> roomEventHub option" where
  "Publish ev h = (case publish_send ev h of
     None \<Rightarrow> None
   | Some (toDrop, h) \<Rightarrow> publish_drop ev toDrop h)"

definition SubscriberCount :: "string \<Rightarrow> roomEventHub \<Rightarrow> nat" where
  "SubscriberCount roomID h =
    (let roomID = TrimSpace roomID in if roomID = [] then 0 else length (room_subs h roomID))"

definition eh_Dropped :: "int \<Rightarrow> roomEventHub \<Rightarrow> bool" where
  "eh_Dropped i h = (case heap h i of None \<Rightarrow> False | Some s \<Rightarrow> subDropped s)"

definition eh_Close :: "int \<Rightarrow> roomEventHub \<Rightarrow> roomEventHub option" where
  "eh_Close i h = hub_close i h"

section \<open>Interleavings\<close>

datatype hub_op =
    OpSubscribe string
  | OpClose int
  | OpSend RoomEvent
  | OpDrop RoomEvent "int list"
  | OpPublish RoomEvent
  | OpRecv int

fun op_step :: "hub_op \<Rightarrow> roomEventHub \<Rightarrow> roomEventHub option" where
  "op_step (OpSubscribe room) h = Some (snd (eh_Subscribe room h))"
| "op_step (OpClose i) h = eh_Close i h"
| "op_step (OpSend ev) h = map_option snd (publish_send ev h)"
| "op_step (OpDrop ev toDrop) h = publish_drop ev toDrop h"
| "op_step (OpPublish ev) h = Publish ev h"
| "op_step (OpRecv i) h = Some (snd (hub_recv i h))"

fun hub_run :: "hub_op list \<Rightarrow> roomEventHub \<Rightarrow> roomEventHub option" where
  "hub_run [] h = Some h"
| "hub_run (x # ops) h = (case op_step x h of None \<Rightarrow> None | Some h \<Rightarrow> hub_run ops h)"

lemma hub_inv_new: "hub_inv (newRoomEventHub buf)"
  by (simp add: hub_inv_def newRoomEventHub_def room_subs_def min64_def)

lemma publish_send_ok:
  "hub_inv h \<Longrightarrow> \<exists>d h'. publish_send ev h = Some (d, h') \<and> hub_inv h'"
  using hub_inv_send_all [of h "room_subs h (TrimSpace (ev_RoomID ev))" "TrimSpace (ev_RoomID ev)"]
  by (auto simp: publish_send_def Let_def)

lemma publish_drop_ok: "hub_inv h \<Longrightarrow> \<exists>h'. publish_drop ev d h = Some h' \<and> hub_inv h'"
  using hub_inv_drop_all [of h] by (auto simp: publish_drop_def)

lemma op_step_ok:
  assumes "hub_inv h" and "nextSubID h < max64"
  shows "\<exists>h'. op_step x h = Some h' \<and> hub_inv h'"
proof (cases x)
  case (OpSubscribe room)
  with assms hub_inv_subscribe [OF assms] show ?thesis
    by (auto simp: eh_Subscribe_def Let_def split: prod.splits) (metis snd_conv)
next
  case (OpPublish ev)
  obtain d h1 where "publish_send ev h = Some (d, h1)" "hub_inv h1"
    using publish_send_ok [OF assms(1)] by blast
  with OpPublish publish_drop_ok [of h1 ev d] show ?thesis
    by (auto simp: Publish_def)
next
  case (OpSend ev)
  with publish_send_ok [OF assms(1), of ev] show ?thesis by auto
qed (use assms in \<open>auto simp: eh_Close_def hub_inv_close publish_drop_ok hub_inv_recv\<close>)

lemma nextSubID_step:
  assumes "hub_inv h" and "nextSubID h < max64" and "op_step x h = Some h'"
  shows "nextSubID h' \<le> nextSubID h + 1"
proof (cases x)
  case (OpSubscribe room)
  have "in64 (nextSubID h + 1)" using assms by (auto simp: hub_inv_def in64_def)
  with OpSubscribe assms show ?thesis
    by (auto simp: eh_Subscribe_def hub_subscribe_def Let_def)
next
  case (OpRecv i)
  with assms show ?thesis by (auto simp: hub_recv_def split: option.splits list.splits)
qed (use assms in \<open>auto simp: eh_Close_def publish_send_def publish_drop_def Publish_def Let_def
    dest!: nextSubID_close nextSubID_send nextSubID_drop split: option.splits if_splits\<close>)

lemma hub_run_ok:
  assumes "hub_inv h" and "nextSubID h + int (length ops) < max64"
  shows "\<exists>h'. hub_run ops h = Some h' \<and> hub_inv h'"
  using assms
proof (induction ops arbitrary: h)
  case (Cons x ops)
  then have lt: "nextSubID h < max64" by simp
  from op_step_ok [OF Cons.prems(1) lt] obtain h1 where h1: "op_step x h = Some h1" "hub_inv h1"
    by blast
  with nextSubID_step [OF Cons.prems(1) lt] Cons.prems have "nextSubID h1 + int (length ops) < max64"
    by fastforce
  from Cons.IH [OF h1(2) this] h1 show ?case by simp
qed simp

text \<open>
  C17. The event hub never panics. Whatever the order in which subscriptions, closes, receives,
  publishes and the two locked sections of overlapping publishes take effect, starting from a new
  hub, no send hits a closed channel and no channel is closed twice, as long as fewer than
  \<open>2 ^ 63\<close> subscription ids are handed out; every subscriber in the table has an open buffer within
  its bound.
\<close>

theorem event_hub_no_panic:
  assumes "int (length ops) < max64"
  shows "\<exists>h. hub_run ops (newRoomEventHub buf) = Some h \<and> hub_inv h"
  using hub_run_ok [OF hub_inv_new [of buf], of ops] assms by (simp add: newRoomEventHub_def)

theorem event_hub_no_panic_witness:
  "\<exists>h. hub_run [OpSubscribe ''r'', OpClose 1, OpClose 1] (newRoomEventHub 0) = Some h \<and> hub_inv h"
  by (rule event_hub_no_panic) (simp add: max64_def)

section \<open>What a subscriber sees\<close>

text \<open>Operations in which every publish is atomic.\<close>

fun atomic_op :: "hub_op \<Rightarrow> bool" where
  "atomic_op (OpSend _) = False"
| "atomic_op (OpDrop _ _) = False"
| "atomic_op _ = True"

fun rcvd :: "int \<Rightarrow> hub_op \<Rightarrow> roomEventHub \<Rightarrow> RoomEvent list" where
  "rcvd i (OpRecv j) h = (if j = i then (case fst (hub_recv i h) of None \<Rightarrow> [] | Some ev \<Rightarrow> [ev]) else [])"
| "rcvd i _ h = []"

text \<open>The events a subscriber takes from its channel, and the events published to a room.\<close>

fun received :: "int \<Rightarrow> hub_op list \<Rightarrow> roomEventHub \<Rightarrow> RoomEvent list" where
  "received i [] h = []"
| "received i (x # ops) h =
    rcvd i x h @ (case op_step x h of None \<Rightarrow> [] | Some h \<Rightarrow> received i ops h)"

fun publishes :: "string \<Rightarrow> hub_op \<Rightarrow> RoomEvent list" where
  "publishes room (OpPublish ev) = (if TrimSpace (ev_RoomID ev) = room then [ev] else [])"
| "publishes room _ = []"

definition published :: "string \<Rightarrow> hub_op list \<Rightarrow> RoomEvent list" where
  "published room ops = concat (map (publishes room) ops)"

text \<open>A subscription that is in its room's table or has been closed.\<close>

definition attached :: "int \<Rightarrow> 'e subscription \<Rightarrow> ('e, 'z) hub_scheme \<Rightarrow> bool" where
  "attached i s h \<longleftrightarrow> heap h i = Some s \<and> subRoomID s \<noteq> [] \<and>
     (chClosed (subCh s) \<or> i \<in> set (room_subs h (subRoomID s)))"

lemma not_in_table: "hub_inv h \<Longrightarrow> heap h i = Some s \<Longrightarrow> chClosed (subCh s) \<Longrightarrow> i \<notin> set (room_subs h room)"
  using hub_inv_live [of h i room] by (auto simp: live_sub_def)

lemma Publish_result:
  assumes inv: "hub_inv h" and pub: "Publish ev h = Some h'" and room: "TrimSpace (ev_RoomID ev) = room"
    and "room \<noteq> []"
  shows "heap h' i = (case heap h i of None \<Rightarrow> None | Some s \<Rightarrow>
      Some (if i \<in> set (room_subs h room) then if full s then dropped_sub s else offered ev s else s))"
    and "room_subs h' r = (if r = room then
      filter (\<lambda>i. case heap h i of None \<Rightarrow> True | Some s \<Rightarrow> \<not> full s) (room_subs h room) else room_subs h r)"
proof -
  let ?is = "room_subs h room"
  have d: "distinct ?is" using inv by (simp add: hub_inv_def)
  obtain dr h1 where send: "send_all ?is ev h = Some (dr, h1)"
    and drop: "publish_drop ev dr h1 = Some h'"
    using pub room assms(4)
    by (cases "?is = []") (auto simp: Publish_def publish_send_def Let_def split: option.splits)
  note s = send_all_result [OF send d]
  have drd: "distinct dr" unfolding s(2) using d by simp
  have drop': "drop_all room dr h1 = Some h'"
    using drop room by (auto simp: publish_drop_def split: if_splits)
  have d1: "distinct (room_subs h1 room)" using d s(3) by simp
  note r = drop_all_result [OF drop' drd d1]
  show "heap h' i = (case heap h i of None \<Rightarrow> None | Some s \<Rightarrow>
      Some (if i \<in> set ?is then if full s then dropped_sub s else offered ev s else s))"
    using r s by (auto simp: offered_def full_def split: option.splits)
  show "room_subs h' r = (if r = room then
      filter (\<lambda>i. case heap h i of None \<Rightarrow> True | Some s \<Rightarrow> \<not> full s) ?is else room_subs h r)"
    using r s by (auto intro!: filter_cong split: option.splits)
qed

lemma Publish_blank: "TrimSpace (ev_RoomID ev) = [] \<Longrightarrow> Publish ev h = Some h"
  by (simp add: Publish_def publish_send_def publish_drop_def)

lemma hub_close_other:
  assumes "hub_close j h = Some h'" and "i \<noteq> j"
  shows "heap h' i = heap h i" and "i \<in> set (room_subs h' r) \<longleftrightarrow> i \<in> set (room_subs h r)"
  using assms
  by (auto simp: hub_close_def hub_unsubscribe_def Let_def in_set_remove1
      split: option.splits if_splits)

lemma hub_close_self:
  assumes "hub_close i h = Some h'" and "heap h i = Some s"
  shows "h' = h \<or> h' = put_sub i (s\<lparr>subOnce := True\<rparr>) h \<or>
    heap h' i = Some (s\<lparr>subOnce := True, subCh := (subCh s)\<lparr>chClosed := True\<rparr>\<rparr>)"
  using assms
  by (auto simp: hub_close_def hub_unsubscribe_def close_ch_def Let_def
      split: option.splits if_splits)

lemma op_step_sub:
  assumes inv: "hub_inv h" and lt: "nextSubID h < max64" and att: "attached i s h"
    and at: "atomic_op x" and step: "op_step x h = Some h'"
  shows "\<exists>s'. attached i s' h' \<and> subRoomID s' = subRoomID s \<and>
    (chClosed (subCh s) \<longrightarrow> chClosed (subCh s')) \<and>
    rcvd i x h @ chQueue (subCh s') = chQueue (subCh s) @
      (if chClosed (subCh s') then [] else publishes (subRoomID s) x)"
proof (cases x)
  case (OpSubscribe room)
  have "in64 (nextSubID h + 1)" using inv lt by (auto simp: hub_inv_def in64_def)
  moreover have "heap h i = Some s" using att by (simp add: attached_def)
  moreover have "i \<noteq> nextSubID h + 1" using hub_inv_heap [OF inv] att by (fastforce simp: attached_def)
  ultimately show ?thesis
    using OpSubscribe step att
    by (cases "TrimSpace room = []"; intro exI [of _ s])
      (auto simp: eh_Subscribe_def Let_def attached_def case_prod_beta hub_subscribe_fields split: if_splits)
next
  case (OpRecv j)
  with step att show ?thesis
    by (auto simp: hub_recv_def attached_def split: option.splits list.splits)
next
  case (OpPublish ev)
  show ?thesis
  proof (cases "TrimSpace (ev_RoomID ev) = []")
    case True
    with OpPublish step att show ?thesis
      by (auto simp: Publish_blank attached_def)
  next
    case False
    have pub: "Publish ev h = Some h'" using OpPublish step by simp
    note res = Publish_result [OF inv pub refl False]
    from att have s: "heap h i = Some s" by (simp add: attached_def)
    show ?thesis
    proof (cases "i \<in> set (room_subs h (TrimSpace (ev_RoomID ev)))")
      case True
      with hub_inv_live [OF inv True] s have live: "subRoomID s = TrimSpace (ev_RoomID ev)"
        "\<not> chClosed (subCh s)" by (auto simp: live_sub_def)
      with True s att OpPublish show ?thesis
        by (intro exI [of _ "if full s then dropped_sub s else offered ev s"])
          (auto simp: attached_def res dropped_sub_def offered_def full_def)
    next
      case out: False
      with s att OpPublish show ?thesis
        by (intro exI [of _ s]) (auto simp: attached_def res)
    qed
  qed
next
  case (OpClose j)
  then have cl: "hub_close j h = Some h'" using step by (simp add: eh_Close_def)
  show ?thesis
  proof (cases "i = j")
    case True
    from att have "heap h j = Some s" by (simp add: attached_def True)
    from hub_close_self [OF cl this] att OpClose show ?thesis
      by (auto simp: attached_def True)
  next
    case False
    with hub_close_other [OF cl] att OpClose show ?thesis
      by (intro exI [of _ s]) (auto simp: attached_def)
  qed
qed (use at in auto)

lemma received_published:
  assumes "hub_inv h" and "nextSubID h + int (length ops) < max64" and "attached i s h"
    and "\<forall>x \<in> set ops. atomic_op x" and "hub_run ops h = Some h'"
  shows "\<exists>s' k. heap h' i = Some s' \<and>
    received i ops h @ chQueue (subCh s') = chQueue (subCh s) @ take k (published (subRoomID s) ops) \<and>
    (chClosed (subCh s) \<longrightarrow> k = 0) \<and>
    (\<not> chClosed (subCh s') \<longrightarrow> \<not> chClosed (subCh s) \<and> length (published (subRoomID s) ops) \<le> k)"
  using assms
proof (induction ops arbitrary: h s)
  case Nil
  then show ?case by (auto simp: published_def attached_def)
next
  case (Cons x ops)
  have lt: "nextSubID h < max64" using Cons.prems by simp
  obtain h1 where h1: "op_step x h = Some h1" "hub_inv h1" and run: "hub_run ops h1 = Some h'"
    using op_step_ok [OF Cons.prems(1) lt] Cons.prems(5) by fastforce
  have lt1: "nextSubID h1 + int (length ops) < max64"
    using nextSubID_step [OF Cons.prems(1) lt h1(1)] Cons.prems(2) by simp
  have at: "atomic_op x" "\<forall>x \<in> set ops. atomic_op x" using Cons.prems(4) by auto
  from op_step_sub [OF Cons.prems(1) lt Cons.prems(3) at(1) h1(1)] obtain s1
    where s1: "attached i s1 h1" "subRoomID s1 = subRoomID s"
      "chClosed (subCh s) \<longrightarrow> chClosed (subCh s1)"
      "rcvd i x h @ chQueue (subCh s1) = chQueue (subCh s) @
        (if chClosed (subCh s1) then [] else publishes (subRoomID s) x)" by blast
  from Cons.IH [OF h1(2) lt1 s1(1) at(2) run] obtain s' k where ih: "heap h' i = Some s'"
    "received i ops h1 @ chQueue (subCh s') = chQueue (subCh s1) @ take k (published (subRoomID s) ops)"
    "chClosed (subCh s1) \<longrightarrow> k = 0"
    "\<not> chClosed (subCh s') \<longrightarrow> \<not> chClosed (subCh s1) \<and> length (published (subRoomID s) ops) \<le> k"
    by (auto simp: s1(2))
  show ?case
  proof (cases "chClosed (subCh s1)")
    case True
    with ih s1 h1 show ?thesis
      by (intro exI [of _ s'] exI [of _ 0]) auto
  next
    case False
    with ih s1 h1 show ?thesis
      by (intro exI [of _ s'] exI [of _ "length (publishes (subRoomID s) x) + k"])
        (auto simp: published_def)
  qed
qed


text \<open>A subscriber with buffer 1: a receive, a delivery, an overflow.\<close>

definition ex_event :: "int \<Rightarrow> RoomEvent" where
  "ex_event n = \<lparr>ev_ID = n, ev_RoomID = ''r'', ev_EventType = ''message.created'', ev_MessageID = None,
     ev_Turn = None, ev_SenderID = None, ev_Ciphertext = None, ev_CreatedAt = 0\<rparr>"

definition ex_ops :: "hub_op list" where
  "ex_ops = [OpPublish (ex_event 1), OpRecv 1, OpPublish (ex_event 2), OpPublish (ex_event 3), OpRecv 1]"


definition ex_race :: "hub_op list" where
  "ex_race = [OpSend (ex_event 1), OpSend (ex_event 2), OpRecv 1, OpSend (ex_event 3),
     OpDrop (ex_event 2) [1], OpRecv 1]"


end
