(* ===== verification/Typing_Hub.thy ===== *)
theory Typing_Hub
  imports Pub_Sub
begin

text \<open>
  The typing hub of \<open>internal/httpapi/typing_hub.go\<close>: who is typing in which room, with an expiry
  and a timer per entry, and the broadcast of start and stop events to the subscribers of the room.
  The hub extends the subscription table of \<open>Pub_Sub\<close> by the presences and the pending timers
  (\<open>time.AfterFunc\<close>, named by a counter). Every operation has a locked part and a broadcast that
  runs after the lock has been released; the two are separate definitions.
\<close>

section \<open>State\<close>

definition defaultTypingTTL :: duration where
  "defaultTypingTTL = 7 * Second"

definition minTypingTTL :: duration where
  "minTypingTTL = 1 * Second"

definition maxTypingTTL :: duration where
  "maxTypingTTL = 30 * Second"

record roomTypingEvent =
  teType :: string
  teRoomID :: string
  teActorID :: string
  teState :: string
  teTTLMS :: int
  teCreatedAt :: time
  teExpiresAt :: time

record typingPresence =
  tpEvent :: roomTypingEvent
  tpTimer :: nat

record typingHub = "roomTypingEvent hub" +
  activeByRoom :: "(string, (string, typingPresence) gomap) gomap"
  timers :: "nat \<Rightarrow> (string \<times> string \<times> time) option"
  nextTimer :: nat

text \<open>The zero value of the event.\<close>

definition zero_typing_event :: roomTypingEvent where
  "zero_typing_event = \<lparr>teType = [], teRoomID = [], teActorID = [], teState = [], teTTLMS = 0,
     teCreatedAt = zero_time, teExpiresAt = zero_time\<rparr>"

definition stop_event :: "string \<Rightarrow> string \<Rightarrow> time \<Rightarrow> roomTypingEvent" where
  "stop_event roomID actorID now = \<lparr>teType = ''agent.typing'', teRoomID = roomID,
     teActorID = actorID, teState = ''stop'', teTTLMS = 0, teCreatedAt = now, teExpiresAt = now\<rparr>"

definition newTypingHub :: "int \<Rightarrow> typingHub" where
  "newTypingHub buf = \<lparr>nextSubID = 0, buffer = nat (if buf \<le> 0 then 32 else buf), subsByRoom = [],
     heap = Map.empty, activeByRoom = [], timers = Map.empty, nextTimer = 0\<rparr>"

definition room_states :: "typingHub \<Rightarrow> string \<Rightarrow> (string, typingPresence) gomap" where
  "room_states h roomID = (case gm_get (activeByRoom h) roomID of None \<Rightarrow> [] | Some m \<Rightarrow> m)"

text \<open>The room's presences after a deletion: an empty map is removed from the table.\<close>

definition put_states :: "string \<Rightarrow> (string, typingPresence) gomap \<Rightarrow> typingHub \<Rightarrow> typingHub" where
  "put_states roomID m h = h\<lparr>activeByRoom :=
     (if length m = 0 then gm_del roomID (activeByRoom h) else gm_put roomID m (activeByRoom h))\<rparr>"

definition stop_timer :: "nat \<Rightarrow> typingHub \<Rightarrow> typingHub" where
  "stop_timer t h = h\<lparr>timers := (timers h)(t := None)\<rparr>"

section \<open>Operations\<close>

fun expired_timers :: "(string, typingPresence) gomap \<Rightarrow> time \<Rightarrow> nat list" where
  "expired_timers [] now = []"
| "expired_timers ((_, p) # m) now =
    (if now < teExpiresAt (tpEvent p) then expired_timers m now else tpTimer p # expired_timers m now)"

fun unexpired :: "(string, typingPresence) gomap \<Rightarrow> time \<Rightarrow> (string, typingPresence) gomap" where
  "unexpired [] now = []"
| "unexpired ((a, p) # m) now =
    (if now < teExpiresAt (tpEvent p) then (a, p) # unexpired m now else unexpired m now)"

definition pruneExpiredLocked :: "string \<Rightarrow> time \<Rightarrow> typingHub \<Rightarrow> typingHub" where
  "pruneExpiredLocked roomID now h =
    (let m = room_states h roomID in
     if length m = 0 then h
     else put_states roomID (unexpired m now) (fold stop_timer (expired_timers m now) h))"

definition snapshotLocked :: "string \<Rightarrow> typingHub \<Rightarrow> roomTypingEvent list" where
  "snapshotLocked roomID h = map (\<lambda>(_, p). tpEvent p) (room_states h roomID)"

definition subscribersLocked :: "string \<Rightarrow> typingHub \<Rightarrow> int list" where
  "subscribersLocked roomID h = room_subs h roomID"

definition th_Subscribe :: "string \<Rightarrow> typingHub \<Rightarrow> int option \<times> typingHub" where
  "th_Subscribe roomID h =
    (let roomID = TrimSpace roomID in
     if roomID = [] then (None, h)
     else (case hub_subscribe roomID h of (i, h) \<Rightarrow> (Some i, h)))"

definition Snapshot :: "string \<Rightarrow> time \<Rightarrow> typingHub \<Rightarrow> roomTypingEvent list \<times> typingHub" where
  "Snapshot roomID now h =
    (let roomID = TrimSpace roomID in
     if roomID = [] then ([], h)
     else (let h = pruneExpiredLocked roomID now h in (snapshotLocked roomID h, h)))"

definition SubscribeWithSnapshot ::
  "string \<Rightarrow> time \<Rightarrow> typingHub \<Rightarrow> int option \<times> roomTypingEvent list \<times> typingHub" where
  "SubscribeWithSnapshot roomID now h =
    (let roomID = TrimSpace roomID in
     if roomID = [] then (None, [], h)
     else (let h = pruneExpiredLocked roomID now h in
       (case hub_subscribe roomID h of (i, h) \<Rightarrow> (Some i, snapshotLocked roomID h, h))))"

definition broadcast :: "int list \<Rightarrow> roomTypingEvent \<Rightarrow> typingHub \<Rightarrow> typingHub option" where
  "broadcast subs event h =
    (if length subs = 0 then Some h
     else (case send_all subs event h of
       None \<Rightarrow> None
     | Some (toDrop, h) \<Rightarrow>
         if length toDrop = 0 then Some h else drop_all (teRoomID event) toDrop h))"

definition typing_ttl :: "duration \<Rightarrow> duration" where
  "typing_ttl ttl = (let ttl = (if ttl < minTypingTTL then defaultTypingTTL else ttl) in
     if ttl > maxTypingTTL then maxTypingTTL else ttl)"

definition start_event :: "string \<Rightarrow> string \<Rightarrow> time \<Rightarrow> duration \<Rightarrow> roomTypingEvent" where
  "start_event roomID actorID now ttl = \<lparr>teType = ''agent.typing'', teRoomID = roomID,
     teActorID = actorID, teState = ''start'', teTTLMS = go_div ttl Millisecond,
     teCreatedAt = now, teExpiresAt = now + ttl\<rparr>"

text \<open>The locked part of \<open>Start\<close>: the new hub and the subscribers to tell.\<close>

definition start_locked :: "string \<Rightarrow> string \<Rightarrow> time \<Rightarrow> duration \<Rightarrow> typingHub \<Rightarrow> int list \<times> typingHub" where
  "start_locked roomID actorID now ttl h =
    (let event = start_event roomID actorID now ttl;
         h = pruneExpiredLocked roomID now h;
         m = room_states h roomID;
         h = (case gm_get m actorID of None \<Rightarrow> h | Some prev \<Rightarrow> stop_timer (tpTimer prev) h);
         t = nextTimer h;
         h = h\<lparr>timers := (timers h)(t \<mapsto> (roomID, actorID, teExpiresAt event)), nextTimer := Suc t\<rparr>;
         h = put_states roomID (gm_put actorID \<lparr>tpEvent = event, tpTimer = t\<rparr> m) h
     in (subscribersLocked roomID h, h))"

definition Start ::
  "string \<Rightarrow> string \<Rightarrow> time \<Rightarrow> duration \<Rightarrow> typingHub \<Rightarrow> (roomTypingEvent \<times> typingHub) option" where
  "Start roomID actorID now ttl h =
    (let roomID = TrimSpace roomID; actorID = TrimSpace actorID in
     if roomID = [] \<or> actorID = [] then Some (zero_typing_event, h)
     else (let ttl = typing_ttl ttl; event = start_event roomID actorID now ttl in
       case start_locked roomID actorID now ttl h of (subs, h) \<Rightarrow>
         map_option (\<lambda>h. (event, h)) (broadcast subs event h)))"

text \<open>The locked part of \<open>Stop\<close>: \<open>None\<close> when the actor is not typing.\<close>

definition stop_locked :: "string \<Rightarrow> string \<Rightarrow> typingHub \<Rightarrow> (int list \<times> typingHub) option" where
  "stop_locked roomID actorID h =
    (let m = room_states h roomID in
     case gm_get m actorID of
       None \<Rightarrow> None
     | Some current \<Rightarrow>
       (let h = put_states roomID (gm_del actorID m) (stop_timer (tpTimer current) h)
        in Some (subscribersLocked roomID h, h)))"

definition Stop ::
  "string \<Rightarrow> string \<Rightarrow> time \<Rightarrow> typingHub \<Rightarrow> ((roomTypingEvent \<times> bool) \<times> typingHub) option" where
  "Stop roomID actorID now h =
    (let roomID = TrimSpace roomID; actorID = TrimSpace actorID in
     if roomID = [] \<or> actorID = [] then Some ((zero_typing_event, False), h)
     else (case stop_locked roomID actorID h of
       None \<Rightarrow> Some ((zero_typing_event, False), h)
     | Some (subs, h) \<Rightarrow>
         (let event = stop_event roomID actorID now in
          map_option (\<lambda>h. ((event, True), h)) (broadcast subs event h))))"

fun broadcast_all :: "int list \<Rightarrow> roomTypingEvent list \<Rightarrow> typingHub \<Rightarrow> typingHub option" where
  "broadcast_all subs [] h = Some h"
| "broadcast_all subs (event # events) h =
    (case broadcast subs event h of None \<Rightarrow> None | Some h \<Rightarrow> broadcast_all subs events h)"

definition clear_locked :: "string \<Rightarrow> time \<Rightarrow> typingHub \<Rightarrow> roomTypingEvent list \<times> int list \<times> typingHub" where
  "clear_locked roomID now h =
    (let m = room_states h roomID;
         events = map (\<lambda>(actorID, _). stop_event roomID actorID now) m;
         h = fold stop_timer (map (\<lambda>(_, p). tpTimer p) m) h;
         h = h\<lparr>activeByRoom := gm_del roomID (activeByRoom h)\<rparr>
     in (events, subscribersLocked roomID h, h))"

definition ClearRoom :: "string \<Rightarrow> time \<Rightarrow> typingHub \<Rightarrow> (roomTypingEvent list \<times> typingHub) option" where
  "ClearRoom roomID now h =
    (let roomID = TrimSpace roomID in
     if roomID = [] then Some ([], h)
     else if length (room_states h roomID) = 0 then Some ([], h)
     else (case clear_locked roomID now h of (events, subs, h) \<Rightarrow>
       map_option (\<lambda>h. (events, h)) (broadcast_all subs events h)))"

definition expire_locked ::
  "string \<Rightarrow> string \<Rightarrow> time \<Rightarrow> typingHub \<Rightarrow> (int list \<times> typingHub) option" where
  "expire_locked roomID actorID expectedExpiresAt h =
    (let m = room_states h roomID in
     case gm_get m actorID of
       None \<Rightarrow> None
     | Some current \<Rightarrow>
       if teExpiresAt (tpEvent current) \<noteq> expectedExpiresAt then None
       else (let h = put_states roomID (gm_del actorID m) h in Some (subscribersLocked roomID h, h)))"

definition expire :: "string \<Rightarrow> string \<Rightarrow> time \<Rightarrow> time \<Rightarrow> typingHub \<Rightarrow> typingHub option" where
  "expire roomID actorID expectedExpiresAt now h =
    (case expire_locked roomID actorID expectedExpiresAt h of
       None \<Rightarrow> Some h
     | Some (subs, h) \<Rightarrow> broadcast subs (stop_event roomID actorID now) h)"

text \<open>A pending timer fires: it is no longer pending and its function runs.\<close>

definition fire :: "nat \<Rightarrow> time \<Rightarrow> typingHub \<Rightarrow> typingHub option" where
  "fire t now h = (case timers h t of
     None \<Rightarrow> Some h
   | Some (roomID, actorID, expiresAt) \<Rightarrow> expire roomID actorID expiresAt now (stop_timer t h))"

definition th_Close :: "int \<Rightarrow> typingHub \<Rightarrow> typingHub option" where
  "th_Close i h = hub_close i h"

section \<open>Lookups after updates\<close>

lemma room_states_put [simp]:
  "room_states (put_states r m h) r' = (if r' = r then m else room_states h r')"
  by (auto simp: room_states_def put_states_def split: option.splits)

lemma put_states_simps [simp]:
  "timers (put_states r m h) = timers h" "nextTimer (put_states r m h) = nextTimer h"
  "room_subs (put_states r m h) = room_subs h" "heap (put_states r m h) = heap h"
  "hub_inv (put_states r m h) = hub_inv h" "nextSubID (put_states r m h) = nextSubID h"
  by (simp_all add: put_states_def room_subs_def hub_inv_def fun_eq_iff)

lemma stop_timer_simps [simp]:
  "room_states (stop_timer t h) = room_states h" "room_subs (stop_timer t h) = room_subs h"
  "nextTimer (stop_timer t h) = nextTimer h" "timers (stop_timer t h) = (timers h)(t := None)"
  "hub_inv (stop_timer t h) = hub_inv h" "nextSubID (stop_timer t h) = nextSubID h"
  "activeByRoom (stop_timer t h) = activeByRoom h" "heap (stop_timer t h) = heap h"
  by (simp_all add: stop_timer_def room_states_def room_subs_def hub_inv_def fun_eq_iff)

lemma hub_inv_timers [simp]:
  "hub_inv (h\<lparr>timers := x, nextTimer := y\<rparr>) = hub_inv h"
  "hub_inv (h\<lparr>activeByRoom := m\<rparr>) = hub_inv h" "room_subs (h\<lparr>activeByRoom := m\<rparr>) = room_subs h"
  by (simp_all add: hub_inv_def room_subs_def fun_eq_iff)

lemma stop_timers_simps [simp]:
  "room_states (fold stop_timer ts h) = room_states h" "room_subs (fold stop_timer ts h) = room_subs h"
  "nextTimer (fold stop_timer ts h) = nextTimer h" "hub_inv (fold stop_timer ts h) = hub_inv h"
  "activeByRoom (fold stop_timer ts h) = activeByRoom h" "nextSubID (fold stop_timer ts h) = nextSubID h"
  "heap (fold stop_timer ts h) = heap h"
  by (induction ts arbitrary: h) auto

lemma timers_stop_timers [simp]:
  "timers (fold stop_timer ts h) t = (if t \<in> set ts then None else timers h t)"
  by (induction ts arbitrary: h) auto

lemma unexpired_filter: "unexpired m now = filter (\<lambda>(_, p). now < teExpiresAt (tpEvent p)) m"
  by (induction m now rule: unexpired.induct) auto

lemma expired_timers_set:
  "set (expired_timers m now) = {tpTimer p | a p. (a, p) \<in> set m \<and> \<not> now < teExpiresAt (tpEvent p)}"
  by (induction m now rule: expired_timers.induct) auto

lemma room_states_prune:
  "room_states (pruneExpiredLocked r now h) r' =
     (if r' = r then unexpired (room_states h r) now else room_states h r')"
  by (auto simp: pruneExpiredLocked_def Let_def)

lemma prune_simps [simp]:
  "room_subs (pruneExpiredLocked r now h) = room_subs h" "hub_inv (pruneExpiredLocked r now h) = hub_inv h"
  "nextTimer (pruneExpiredLocked r now h) = nextTimer h"
  "nextSubID (pruneExpiredLocked r now h) = nextSubID h"
  by (simp_all add: pruneExpiredLocked_def Let_def)

section \<open>Invariant\<close>

definition typing_inv :: "typingHub \<Rightarrow> bool" where
  "typing_inv h \<longleftrightarrow> hub_inv h \<and> (\<forall>room. gm_wf (room_states h room)) \<and>
     (\<forall>room actor p. gm_get (room_states h room) actor = Some p \<longrightarrow>
        teRoomID (tpEvent p) = room \<and> teActorID (tpEvent p) = actor \<and>
        timers h (tpTimer p) = Some (room, actor, teExpiresAt (tpEvent p))) \<and>
     (\<forall>t. nextTimer h \<le> t \<longrightarrow> timers h t = None)"

lemma typing_invD:
  assumes "typing_inv h"
  shows "hub_inv h" and "gm_wf (room_states h room)"
    and "gm_get (room_states h room) actor = Some p \<Longrightarrow> teRoomID (tpEvent p) = room \<and>
      teActorID (tpEvent p) = actor \<and>
      timers h (tpTimer p) = Some (room, actor, teExpiresAt (tpEvent p))"
    and "nextTimer h \<le> t \<Longrightarrow> timers h t = None"
  using assms by (auto simp: typing_inv_def)

lemma typing_invI:
  assumes "hub_inv h" and "\<And>room. gm_wf (room_states h room)"
    and "\<And>room actor p. gm_get (room_states h room) actor = Some p \<Longrightarrow> teRoomID (tpEvent p) = room \<and>
      teActorID (tpEvent p) = actor \<and>
      timers h (tpTimer p) = Some (room, actor, teExpiresAt (tpEvent p))"
    and "\<And>t. nextTimer h \<le> t \<Longrightarrow> timers h t = None"
  shows "typing_inv h"
  using assms by (simp add: typing_inv_def)

text \<open>The part of the hub that subscriptions and broadcasts leave alone.\<close>

definition same_presence :: "typingHub \<Rightarrow> typingHub \<Rightarrow> bool" where
  "same_presence h h' \<longleftrightarrow> activeByRoom h' = activeByRoom h \<and> timers h' = timers h \<and>
     nextTimer h' = nextTimer h"

lemma same_presence_inv: "typing_inv h \<Longrightarrow> same_presence h h' \<Longrightarrow> hub_inv h' \<Longrightarrow> typing_inv h'"
  by (simp add: typing_inv_def same_presence_def room_states_def)

lemma same_presence_basic [simp]:
  "same_presence h h" "same_presence h (put_sub i s h')  \<longleftrightarrow> same_presence h h'"
  "same_presence h (put_subs r is h') \<longleftrightarrow> same_presence h h'"
  by (simp_all add: same_presence_def put_sub_def put_subs_def)

lemma same_presence_send: "send_all is ev h = Some (d, h') \<Longrightarrow> same_presence h h'"
proof (induction "is" ev h arbitrary: d h' rule: send_all.induct)
  case (2 i "is" ev h)
  then show ?case
    by (fastforce simp: same_presence_def put_sub_def split: option.splits if_splits)
qed simp

lemma same_presence_drop: "drop_all room d h = Some h' \<Longrightarrow> same_presence h h'"
proof (induction room d h rule: drop_all.induct)
  case (2 room i d h)
  then show ?case
    by (auto simp: same_presence_def put_sub_def put_subs_def split: option.splits if_splits)
qed simp

lemma same_presence_close: "hub_close i h = Some h' \<Longrightarrow> same_presence h h'"
  by (auto simp: hub_close_def hub_unsubscribe_def Let_def split: option.splits if_splits)

lemma same_presence_subscribe: "same_presence h (snd (hub_subscribe r h))"
  by (simp add: hub_subscribe_def Let_def same_presence_def put_sub_def)

lemma same_presence_recv: "same_presence h (snd (hub_recv i h))"
  by (simp add: hub_recv_def split: option.splits list.splits)

lemma broadcast_ok:
  assumes "typing_inv h" and "set subs \<subseteq> set (room_subs h room)"
  shows "\<exists>h'. broadcast subs ev h = Some h' \<and> typing_inv h' \<and> same_presence h h'"
proof -
  obtain d h1 where h1: "send_all subs ev h = Some (d, h1)" "hub_inv h1"
    using hub_inv_send_all [OF typing_invD(1) [OF assms(1)] assms(2)] by blast
  then have sp: "same_presence h h1" by (auto dest: same_presence_send)
  obtain h2 where h2: "drop_all (teRoomID ev) d h1 = Some h2" "hub_inv h2"
    using hub_inv_drop_all [OF h1(2)] by blast
  then have sp2: "same_presence h h2"
    using sp by (auto dest!: same_presence_drop simp: same_presence_def)
  show ?thesis
    using h1 h2 sp sp2 same_presence_inv [OF assms(1)] assms(1)
    by (auto simp: broadcast_def)
qed

section \<open>Presence operations keep the invariant\<close>

lemma gm_get_unexpired:
  assumes "gm_wf m"
  shows "gm_wf (unexpired m now)"
    and "gm_get (unexpired m now) a = (case gm_get m a of None \<Rightarrow> None
      | Some p \<Rightarrow> if now < teExpiresAt (tpEvent p) then Some p else None)"
  using assms by (simp_all add: unexpired_filter gm_get_filter)

lemma typing_inv_prune:
  assumes inv: "typing_inv h"
  shows "typing_inv (pruneExpiredLocked r now h)" (is "typing_inv ?h")
proof (rule typing_invI)
  note I = typing_invD [OF inv]
  show "hub_inv ?h" using I(1) by simp
  show "gm_wf (room_states ?h room)" for room
    using I(2) by (simp add: room_states_prune gm_get_unexpired)
  have tm: "timers ?h = (\<lambda>t. if t \<in> set (expired_timers (room_states h r) now) then None else timers h t)"
    by (auto simp: pruneExpiredLocked_def Let_def fun_eq_iff)
  show "timers ?h t = None" if "nextTimer ?h \<le> t" for t
    using that I(4) by (simp add: tm)
  fix room actor p
  assume get: "gm_get (room_states ?h room) actor = Some p"
  then have old: "gm_get (room_states h room) actor = Some p"
    and fresh: "room = r \<Longrightarrow> now < teExpiresAt (tpEvent p)"
    using gm_get_unexpired(2) [OF I(2), of r now actor]
    by (auto simp: room_states_prune split: if_splits option.splits)
  have "tpTimer p \<notin> set (expired_timers (room_states h r) now)"
  proof
    assume "tpTimer p \<in> set (expired_timers (room_states h r) now)"
    then obtain a q where q: "(a, q) \<in> set (room_states h r)" "tpTimer q = tpTimer p"
      "\<not> now < teExpiresAt (tpEvent q)" by (auto simp: expired_timers_set)
    then have "gm_get (room_states h r) a = Some q" using gm_in_get [OF I(2)] by blast
    with I(3) [OF this] I(3) [OF old] q fresh show False by auto
  qed
  with I(3) [OF old] show "teRoomID (tpEvent p) = room \<and> teActorID (tpEvent p) = actor \<and>
      timers ?h (tpTimer p) = Some (room, actor, teExpiresAt (tpEvent p))"
    by (simp add: tm)
qed

text \<open>Removing an actor's presence, whatever happens to its timer.\<close>

lemma typing_inv_remove:
  assumes inv: "typing_inv h" and p: "gm_get (room_states h r) a = Some p"
    and h': "room_states h' = (room_states h)(r := gm_del a (room_states h r))"
    and tm: "timers h' = timers h \<or> timers h' = (timers h)(tpTimer p := None)"
    and "nextTimer h' = nextTimer h" and "hub_inv h'"
  shows "typing_inv h'"
proof (rule typing_invI)
  note I = typing_invD [OF inv]
  show "hub_inv h'" by fact
  show "gm_wf (room_states h' room)" for room using I(2) by (simp add: h')
  show "timers h' t = None" if "nextTimer h' \<le> t" for t using that I(4) assms(5) tm by auto
  fix room actor q
  assume get: "gm_get (room_states h' room) actor = Some q"
  then have old: "gm_get (room_states h room) actor = Some q" and "(room, actor) \<noteq> (r, a)"
    by (auto simp: h' split: if_splits)
  then have "tpTimer q \<noteq> tpTimer p" using I(3) [OF old] I(3) [OF p] by auto
  with I(3) [OF old] tm show "teRoomID (tpEvent q) = room \<and> teActorID (tpEvent q) = actor \<and>
      timers h' (tpTimer q) = Some (room, actor, teExpiresAt (tpEvent q))" by auto
qed

lemma typing_inv_start:
  assumes "typing_inv h" and "start_locked r a now ttl h = (subs, h')"
  shows "typing_inv h'" and "subs = room_subs h' r" and "room_subs h' = room_subs h"
    and "room_states h' r = gm_put a \<lparr>tpEvent = start_event r a now ttl, tpTimer = nextTimer h\<rparr>
      (unexpired (room_states h r) now)"
    and "r' \<noteq> r \<Longrightarrow> room_states h' r' = room_states h r'"
proof -
  let ?h = "pruneExpiredLocked r now h"
  let ?m = "room_states ?h r"
  note I = typing_invD [OF typing_inv_prune [OF assms(1), of r now]]
  define h1 where "h1 = (case gm_get ?m a of None \<Rightarrow> ?h | Some prev \<Rightarrow> stop_timer (tpTimer prev) ?h)"
  have h1: "room_states h1 = room_states ?h" "room_subs h1 = room_subs h" "hub_inv h1"
    "nextTimer h1 = nextTimer h" "timers h1 t = (case gm_get ?m a of None \<Rightarrow> timers ?h t
       | Some prev \<Rightarrow> if t = tpTimer prev then None else timers ?h t)" for t
    using I(1) by (auto simp: h1_def split: option.splits)
  let ?e = "start_event r a now ttl" and ?t = "nextTimer h"
  have h': "h' = put_states r (gm_put a \<lparr>tpEvent = ?e, tpTimer = ?t\<rparr> ?m)
      (h1\<lparr>timers := (timers h1)(?t \<mapsto> (r, a, teExpiresAt ?e)), nextTimer := Suc ?t\<rparr>)"
    and subs: "subs = room_subs h' r"
    using assms(2) by (auto simp: start_locked_def Let_def h1_def [symmetric] h1(4) subscribersLocked_def)
  show "subs = room_subs h' r" by fact
  have rs: "room_states (h1\<lparr>timers := x, nextTimer := y\<rparr>) = room_states ?h" for x y
    using h1(1) by (simp add: room_states_def fun_eq_iff)
  show "room_states h' r = gm_put a \<lparr>tpEvent = ?e, tpTimer = ?t\<rparr> (unexpired (room_states h r) now)"
    by (simp add: h' room_states_prune)
  show "r' \<noteq> r \<Longrightarrow> room_states h' r' = room_states h r'"
    by (simp add: h' rs room_states_prune)
  show "room_subs h' = room_subs h"
    using h1(2) by (simp add: h' room_subs_def fun_eq_iff)
  show "typing_inv h'"
  proof (rule typing_invI)
    show "hub_inv h'" using h1(3) by (simp add: h')
    show "gm_wf (room_states h' room)" for room using I(2) by (simp add: h' rs)
    show "timers h' t = None" if "nextTimer h' \<le> t" for t
      using that I(4) [of t] h1(5) [of t] by (auto simp: h' split: option.splits)
    fix room actor q
    assume get: "gm_get (room_states h' room) actor = Some q"
    show "teRoomID (tpEvent q) = room \<and> teActorID (tpEvent q) = actor \<and>
        timers h' (tpTimer q) = Some (room, actor, teExpiresAt (tpEvent q))"
    proof (cases "(room, actor) = (r, a)")
      case True
      with get show ?thesis by (auto simp: h' start_event_def)
    next
      case False
      with get have old: "gm_get (room_states ?h room) actor = Some q"
        by (auto simp: h' rs split: if_splits)
      have "tpTimer q \<noteq> ?t" using I(3) [OF old] I(4) [of ?t] by auto
      moreover have "tpTimer q \<noteq> tpTimer prev" if "gm_get ?m a = Some prev" for prev
        using I(3) [OF old] I(3) [OF that] False by auto
      ultimately show ?thesis
        using I(3) [OF old] h1(5) [of "tpTimer q"] by (auto simp: h' split: option.splits)
    qed
  qed
qed

lemma typing_inv_stop:
  assumes "typing_inv h" and "stop_locked r a h = Some (subs, h')"
  shows "typing_inv h'" and "subs = room_subs h' r"
proof -
  from assms(2) obtain p where p: "gm_get (room_states h r) a = Some p"
    and h': "h' = put_states r (gm_del a (room_states h r)) (stop_timer (tpTimer p) h)"
    and "subs = room_subs h' r"
    by (auto simp: stop_locked_def Let_def subscribersLocked_def split: option.splits)
  then show "subs = room_subs h' r" by simp
  show "typing_inv h'"
    using typing_invD(1) [OF assms(1)]
    by (intro typing_inv_remove [OF assms(1) p]) (auto simp: h')
qed

lemma typing_inv_expire:
  assumes "typing_inv h" and "expire_locked r a ex h = Some (subs, h')"
  shows "typing_inv h'" and "subs = room_subs h' r"
proof -
  from assms(2) obtain p where p: "gm_get (room_states h r) a = Some p"
    and h': "h' = put_states r (gm_del a (room_states h r)) h" and "subs = room_subs h' r"
    by (auto simp: expire_locked_def Let_def subscribersLocked_def split: option.splits if_splits)
  then show "subs = room_subs h' r" by simp
  show "typing_inv h'"
    using typing_invD(1) [OF assms(1)]
    by (intro typing_inv_remove [OF assms(1) p]) (auto simp: h')
qed

lemma typing_inv_clear:
  assumes "typing_inv h" and "clear_locked r now h = (events, subs, h')"
  shows "typing_inv h'" and "subs = room_subs h' r"
proof -
  note I = typing_invD [OF assms(1)]
  have h': "h' = (fold stop_timer (map (\<lambda>(_, p). tpTimer p) (room_states h r)) h)
      \<lparr>activeByRoom := gm_del r (activeByRoom h)\<rparr>"
    and subs: "subs = room_subs h' r"
    using assms(2) by (auto simp: clear_locked_def Let_def subscribersLocked_def)
  show "subs = room_subs h' r" by (rule subs)
  have rs: "room_states h' room = (if room = r then [] else room_states h room)" for room
    by (simp add: h' room_states_def)
  show "typing_inv h'"
  proof (rule typing_invI)
    show "hub_inv h'" using I(1) by (simp add: h')
    show "gm_wf (room_states h' room)" for room using I(2) by (simp add: rs)
    show "timers h' t = None" if "nextTimer h' \<le> t" for t using that I(4) by (simp add: h')
    fix room actor q
    assume "gm_get (room_states h' room) actor = Some q"
    then have old: "gm_get (room_states h room) actor = Some q" and "room \<noteq> r"
      by (auto simp: rs split: if_splits)
    then have "tpTimer q \<noteq> tpTimer p" if "(a, p) \<in> set (room_states h r)" for a p
      using I(3) [OF old] I(3) [OF gm_in_get [OF I(2) that]] by auto
    with I(3) [OF old] show "teRoomID (tpEvent q) = room \<and> teActorID (tpEvent q) = actor \<and>
        timers h' (tpTimer q) = Some (room, actor, teExpiresAt (tpEvent q))"
      by (auto simp: h')
  qed
qed

text \<open>
  The broadcasts of \<open>ClearRoom\<close> use one list of subscribers for all events: a subscriber dropped on
  the first event is sent the second one on a closed channel. So the repeated broadcast is safe for
  a single event, or as long as no buffer overflows.
\<close>

lemma fire_ok:
  assumes inv: "typing_inv h"
  shows "\<exists>h'. fire t now h = Some h' \<and> typing_inv h' \<and>
    (\<forall>r a p. timers h t = Some (r, a, teExpiresAt (tpEvent p)) \<and> gm_get (room_states h r) a = Some p \<longrightarrow>
       gm_get (room_states h' r) a = None)"
proof (cases "timers h t")
  case None
  then show ?thesis using inv by (simp add: fire_def)
next
  case (Some x)
  then obtain r a ex where t: "timers h t = Some (r, a, ex)" by (cases x) auto
  note I = typing_invD [OF inv]
  show ?thesis
  proof (cases "\<exists>p. gm_get (room_states h r) a = Some p \<and> teExpiresAt (tpEvent p) = ex")
    case True
    then obtain p where p: "gm_get (room_states h r) a = Some p" "teExpiresAt (tpEvent p) = ex" by blast
    define h1 where "h1 = put_states r (gm_del a (room_states h r)) (stop_timer t h)"
    have ex1: "expire_locked r a ex (stop_timer t h) = Some (room_subs h1 r, h1)"
      using p by (simp add: expire_locked_def h1_def subscribersLocked_def Let_def)
    have "typing_inv h1"
    proof (rule typing_invI)
      show "hub_inv h1" using I(1) by (simp add: h1_def)
      show "gm_wf (room_states h1 room)" for room using I(2) by (simp add: h1_def)
      show "timers h1 u = None" if "nextTimer h1 \<le> u" for u using that I(4) by (simp add: h1_def)
      fix room actor q
      assume "gm_get (room_states h1 room) actor = Some q"
      then have old: "gm_get (room_states h room) actor = Some q" and "(room, actor) \<noteq> (r, a)"
        by (auto simp: h1_def split: if_splits)
      then have "tpTimer q \<noteq> t" using I(3) [OF old] t by auto
      with I(3) [OF old] show "teRoomID (tpEvent q) = room \<and> teActorID (tpEvent q) = actor \<and>
          timers h1 (tpTimer q) = Some (room, actor, teExpiresAt (tpEvent q))" by (simp add: h1_def)
    qed
    from broadcast_ok [OF this order.refl, of r "stop_event r a now"] obtain h2
      where "broadcast (room_subs h1 r) (stop_event r a now) h1 = Some h2" "typing_inv h2"
        "same_presence h1 h2" by blast
    then show ?thesis
      using ex1 t by (auto simp: fire_def expire_def same_presence_def room_states_def h1_def
          put_states_def split: if_splits option.splits)
  next
    case False
    then have none: "expire_locked r a ex (stop_timer t h) = None"
      by (auto simp: expire_locked_def Let_def split: option.splits)
    have "typing_inv (stop_timer t h)"
    proof (rule typing_invI)
      fix room actor q
      assume "gm_get (room_states (stop_timer t h) room) actor = Some q"
      then have old: "gm_get (room_states h room) actor = Some q" by simp
      then have "tpTimer q \<noteq> t" using I(3) [OF old] t False by auto
      with I(3) [OF old] show "teRoomID (tpEvent q) = room \<and> teActorID (tpEvent q) = actor \<and>
          timers (stop_timer t h) (tpTimer q) = Some (room, actor, teExpiresAt (tpEvent q))" by simp
    qed (use I in simp_all)
    then show ?thesis
      using none t False by (auto simp: fire_def expire_def)
  qed
qed

section \<open>Runs\<close>

datatype typing_op =
    TStart string string time duration
  | TStop string string time
  | TFire nat time
  | TSnapshot string time
  | TSubscribe string
  | TClose int
  | TRecv int

fun typing_step :: "typing_op \<Rightarrow> typingHub \<Rightarrow> typingHub option" where
  "typing_step (TStart room actor now ttl) h = map_option snd (Start room actor now ttl h)"
| "typing_step (TStop room actor now) h = map_option snd (Stop room actor now h)"
| "typing_step (TFire t now) h = fire t now h"
| "typing_step (TSnapshot room now) h = Some (snd (Snapshot room now h))"
| "typing_step (TSubscribe room) h = Some (snd (th_Subscribe room h))"
| "typing_step (TClose i) h = th_Close i h"
| "typing_step (TRecv i) h = Some (snd (hub_recv i h))"

fun typing_run :: "typing_op list \<Rightarrow> typingHub \<Rightarrow> typingHub option" where
  "typing_run [] h = Some h"
| "typing_run (x # ops) h = (case typing_step x h of None \<Rightarrow> None | Some h \<Rightarrow> typing_run ops h)"

lemma Start_ok:
  assumes "typing_inv h"
  shows "\<exists>ev h'. Start r a now ttl h = Some (ev, h') \<and> typing_inv h'"
proof (cases "TrimSpace r = [] \<or> TrimSpace a = []")
  case False
  obtain subs h1 where st: "start_locked (TrimSpace r) (TrimSpace a) now (typing_ttl ttl) h = (subs, h1)"
    by fastforce
  note S = typing_inv_start [OF assms st]
  from broadcast_ok [OF S(1), of subs "TrimSpace r"] S(2) st False show ?thesis
    by (fastforce simp: Start_def Let_def)
qed (auto simp: Start_def assms)

lemma Stop_ok:
  assumes "typing_inv h"
  shows "\<exists>x h'. Stop r a now h = Some (x, h') \<and> typing_inv h'"
proof (cases "stop_locked (TrimSpace r) (TrimSpace a) h")
  case None
  then show ?thesis using assms by (auto simp: Stop_def Let_def)
next
  case (Some x)
  then obtain subs h1 where st: "stop_locked (TrimSpace r) (TrimSpace a) h = Some (subs, h1)"
    by (cases x) auto
  note S = typing_inv_stop [OF assms st]
  from broadcast_ok [OF S(1), of subs "TrimSpace r"] S(2) st assms show ?thesis
    by (fastforce simp: Stop_def Let_def)
qed

lemma typing_inv_Snapshot: "typing_inv h \<Longrightarrow> typing_inv (snd (Snapshot r now h))"
  by (simp add: Snapshot_def Let_def typing_inv_prune)

lemma typing_step_ok:
  assumes "typing_inv h" and "nextSubID h < max64"
  shows "\<exists>h'. typing_step x h = Some h' \<and> typing_inv h'"
proof (cases x)
  case (TSubscribe room)
  with assms hub_inv_subscribe [OF typing_invD(1) [OF assms(1)] assms(2)] show ?thesis
    by (auto simp: th_Subscribe_def Let_def case_prod_beta
        intro!: same_presence_inv [OF assms(1) same_presence_subscribe])
next
  case (TClose i)
  with hub_inv_close [OF typing_invD(1) [OF assms(1)], of i] assms(1) show ?thesis
    by (auto simp: th_Close_def dest: same_presence_close same_presence_inv)
next
  case (TRecv i)
  with hub_inv_recv [OF typing_invD(1) [OF assms(1)], of i] show ?thesis
    by (auto intro: same_presence_inv [OF assms(1) same_presence_recv])
next
  case (TStart r a now ttl)
  with Start_ok [OF assms(1), of r a now ttl] show ?thesis by auto
next
  case (TStop r a now)
  with Stop_ok [OF assms(1), of r a now] show ?thesis by auto
next
  case (TFire t now)
  with fire_ok [OF assms(1), of t now] show ?thesis by auto
qed (simp add: typing_inv_Snapshot assms)

lemma nextSubID_broadcast: "broadcast subs ev h = Some h' \<Longrightarrow> nextSubID h' = nextSubID h"
  by (auto simp: broadcast_def split: option.splits if_splits dest!: nextSubID_send nextSubID_drop)

lemma nextSubID_typing_step:
  assumes "typing_inv h" and "nextSubID h < max64" and "typing_step x h = Some h'"
  shows "nextSubID h' \<le> nextSubID h + 1"
proof (cases x)
  case (TSubscribe room)
  have "in64 (nextSubID h + 1)"
    using typing_invD(1) [OF assms(1)] assms(2) by (auto simp: hub_inv_def in64_def)
  with TSubscribe assms show ?thesis
    by (auto simp: th_Subscribe_def Let_def case_prod_beta hub_subscribe_fields)
next
  case (TStart r a now ttl)
  obtain subs h1 where st: "start_locked (TrimSpace r) (TrimSpace a) now (typing_ttl ttl) h = (subs, h1)"
    by fastforce
  then have "nextSubID h1 = nextSubID h"
    by (auto simp: start_locked_def Let_def split: option.splits)
  with TStart assms st show ?thesis
    by (auto simp: Start_def Let_def split: if_splits dest!: nextSubID_broadcast)
next
  case (TRecv i)
  with assms show ?thesis by (auto simp: hub_recv_def split: option.splits list.splits)
qed (use assms in \<open>auto simp: Stop_def stop_locked_def fire_def expire_def expire_locked_def Snapshot_def
    th_Close_def Let_def split: option.splits if_splits prod.splits
    dest!: nextSubID_broadcast nextSubID_close\<close>)

lemma typing_run_ok:
  assumes "typing_inv h" and "nextSubID h + int (length ops) < max64"
  shows "\<exists>h'. typing_run ops h = Some h' \<and> typing_inv h'"
  using assms
proof (induction ops arbitrary: h)
  case (Cons x ops)
  then have lt: "nextSubID h < max64" by simp
  from typing_step_ok [OF Cons.prems(1) lt] obtain h1 where h1: "typing_step x h = Some h1" "typing_inv h1"
    by blast
  with nextSubID_typing_step [OF Cons.prems(1) lt] Cons.prems
  have "nextSubID h1 + int (length ops) < max64" by fastforce
  from Cons.IH [OF h1(2) this] h1 show ?case by simp
qed simp

lemma typing_inv_new: "typing_inv (newTypingHub buf)"
  by (simp add: typing_inv_def newTypingHub_def hub_inv_def room_subs_def room_states_def min64_def)



section \<open>What is seen\<close>

lemma typing_ttl_bounds: "minTypingTTL \<le> typing_ttl ttl \<and> typing_ttl ttl \<le> maxTypingTTL"
  by (simp add: typing_ttl_def Let_def minTypingTTL_def maxTypingTTL_def defaultTypingTTL_def Second_def)

lemma Snapshot_events:
  assumes "typing_inv h" and "TrimSpace r \<noteq> []"
  shows "ev \<in> set (fst (Snapshot r now h)) \<longleftrightarrow>
    (\<exists>a p. gm_get (room_states h (TrimSpace r)) a = Some p \<and> tpEvent p = ev \<and> now < teExpiresAt ev)"
proof -
  note wf = typing_invD(2) [OF assms(1), of "TrimSpace r"]
  have "fst (Snapshot r now h) = map (\<lambda>(_, p). tpEvent p) (unexpired (room_states h (TrimSpace r)) now)"
    using assms(2) by (simp add: Snapshot_def snapshotLocked_def room_states_prune Let_def)
  then show ?thesis
    by (auto simp: unexpired_filter gm_in_iff [OF wf, symmetric] intro!: image_eqI)
qed

text \<open>
  How long a typing signal is visible. After \<open>Start\<close> at time \<open>now\<close> (with a room and an actor that
  are not blank) the snapshot of the room at a later time shows the actor's event exactly while less
  than the time-to-live has passed, which is the requested one brought into the range of 1 to 30
  seconds (7 seconds when less than 1 was asked for); every event in a snapshot is unexpired, and an
  actor has at most one.
\<close>

theorem typing_visible_until_ttl:
  assumes inv: "typing_inv h" and "TrimSpace r \<noteq> []" "TrimSpace a \<noteq> []"
    and "Start r a now ttl h = Some (ev, h')"
  shows "(ev \<in> set (fst (Snapshot r later h')) \<longleftrightarrow> later < now + typing_ttl ttl) \<and>
    1 * Second \<le> typing_ttl ttl \<and> typing_ttl ttl \<le> 30 * Second \<and>
    (\<forall>ev'. ev' \<in> set (fst (Snapshot r later h')) \<longrightarrow> later < teExpiresAt ev' \<and>
      (teActorID ev' = TrimSpace a \<longrightarrow> ev' = ev))"
proof -
  let ?r = "TrimSpace r" and ?a = "TrimSpace a"
  let ?ev = "start_event ?r ?a now (typing_ttl ttl)"
  obtain subs h1 where st: "start_locked ?r ?a now (typing_ttl ttl) h = (subs, h1)" by fastforce
  note S = typing_inv_start [OF inv st]
  obtain h2 where h2: "broadcast subs ?ev h1 = Some h2" "typing_inv h2" "same_presence h1 h2"
    using broadcast_ok [OF S(1), of subs ?r] S(2) by blast
  have eqs: "ev = ?ev" "h' = h2"
    using assms(2-4) st h2(1) by (auto simp: Start_def Let_def)
  have rs: "room_states h' ?r = gm_put ?a \<lparr>tpEvent = ev, tpTimer = nextTimer h\<rparr> (unexpired (room_states h ?r) now)"
    using S(4) h2(3) by (simp add: eqs same_presence_def room_states_def)
  note snap = Snapshot_events [OF h2(2) assms(2), folded eqs(2)]
  have self: "gm_get (room_states h' ?r) ?a = Some \<lparr>tpEvent = ev, tpTimer = nextTimer h\<rparr>"
    by (simp add: rs)
  have ex: "teExpiresAt ev = now + typing_ttl ttl" by (simp add: eqs start_event_def)
  have "ev \<in> set (fst (Snapshot r later h')) \<longleftrightarrow> later < now + typing_ttl ttl"
    using self ex by (auto simp: snap) (metis typingPresence.select_convs(1))
  moreover have "1 * Second \<le> typing_ttl ttl \<and> typing_ttl ttl \<le> 30 * Second"
    using typing_ttl_bounds [of ttl] by (simp add: minTypingTTL_def maxTypingTTL_def)
  moreover have "later < teExpiresAt ev' \<and> (teActorID ev' = ?a \<longrightarrow> ev' = ev)"
    if seen: "ev' \<in> set (fst (Snapshot r later h'))" for ev'
  proof -
    obtain b q where q: "gm_get (room_states h' ?r) b = Some q" "tpEvent q = ev'" "later < teExpiresAt ev'"
      using seen by (auto simp: snap)
    then have "teActorID ev' = b" using typing_invD(3) [OF h2(2), folded eqs(2), OF q(1)] by simp
    with q self show ?thesis by auto
  qed
  ultimately show ?thesis by blast
qed

text \<open>Two agents are typing, a subscriber with buffer 1 arrives and a third agent starts typing.\<close>

definition ex_typing :: typingHub where
  "ex_typing = the (typing_run [TStart ''r'' ''a'' 0 0, TStart ''r'' ''b'' 0 0, TSubscribe ''r'',
     TStart ''r'' ''c'' 0 0] (newTypingHub 1))"

lemma ex_words_typing: "TrimSpace ''r'' = ''r''" "TrimSpace ''a'' = ''a''" "TrimSpace ''b'' = ''b''"
  "TrimSpace ''c'' = ''c''"
  by code_simp+

lemmas ex_typing_eval = ex_words_typing Start_def typing_ttl_def minTypingTTL_def maxTypingTTL_def
  defaultTypingTTL_def Second_def start_event_def start_locked_def pruneExpiredLocked_def
  room_states_def put_states_def stop_timer_def subscribersLocked_def room_subs_def broadcast_def
  th_Subscribe_def hub_subscribe_def put_sub_def wrap64_def newTypingHub_def Let_def Millisecond_def

lemma ex_typing_inv: "typing_inv ex_typing"
  using typing_run_ok [OF typing_inv_new, of 1 "[TStart ''r'' ''a'' 0 0, TStart ''r'' ''b'' 0 0,
    TSubscribe ''r'', TStart ''r'' ''c'' 0 0]"]
  by (auto simp: ex_typing_def newTypingHub_def max64_def simp del: typing_run.simps)

lemma ex_typing_room: "length (room_states ex_typing ''r'') = 3" "room_subs ex_typing ''r'' = [1]"
  "\<exists>s. heap ex_typing 1 = Some s \<and> full s \<and> \<not> subOnce s"
  by (simp_all add: ex_typing_def ex_typing_eval full_def)

theorem typing_visible_until_ttl_witness:
  "\<exists>ev h'. Start ''r'' ''a'' 0 (60 * Second) ex_typing = Some (ev, h') \<and>
     ev \<in> set (fst (Snapshot ''r'' (29 * Second) h')) \<and> ev \<notin> set (fst (Snapshot ''r'' (30 * Second) h'))"
proof -
  obtain ev h' where st: "Start ''r'' ''a'' 0 (60 * Second) ex_typing = Some (ev, h')"
    using Start_ok [OF ex_typing_inv] by blast
  have "typing_ttl (60 * Second) = 30 * Second"
    by (simp add: typing_ttl_def minTypingTTL_def maxTypingTTL_def Second_def)
  with typing_visible_until_ttl [OF ex_typing_inv _ _ st] st show ?thesis
    by (auto simp: ex_words_typing Second_def)
qed

section \<open>Sends after the lock is released\<close>

lemma send_all_closed:
  "i \<in> set is \<Longrightarrow> heap h i = Some s \<Longrightarrow> chClosed (subCh s) \<Longrightarrow> send_all is ev h = None"
proof (induction "is" ev h rule: send_all.induct)
  case (2 j "is" ev h)
  then show ?case by (cases "j = i") (auto split: option.splits)
qed simp

text \<open>
  C21. Clearing a room can panic. When two or more agents are typing in a room that has a subscriber
  with a full buffer, \<open>ClearRoom\<close> drops that subscriber on the first stop event, closing its channel,
  and then sends the second stop event to the same list of subscribers: a send on a closed channel.
\<close>

theorem clear_room_panics:
  assumes inv: "typing_inv h" and r: "TrimSpace r \<noteq> []"
    and two: "length (room_states h (TrimSpace r)) \<ge> 2"
    and i: "i \<in> set (room_subs h (TrimSpace r))" "heap h i = Some s" "full s"
  shows "ClearRoom r now h = None"
proof -
  let ?r = "TrimSpace r"
  obtain x y m where m: "room_states h ?r = x # y # m"
    using two by (metis Suc_le_length_iff numeral_2_eq_2)
  obtain events subs h1 where cl: "clear_locked ?r now h = (events, subs, h1)"
    by (cases "clear_locked ?r now h") auto
  note C = typing_inv_clear [OF inv cl]
  have h1: "room_subs h1 = room_subs h" "heap h1 = heap h"
    and ev: "events = stop_event ?r (fst x) now # stop_event ?r (fst y) now #
      map (\<lambda>(a, _). stop_event ?r a now) m"
    using cl m by (auto simp: clear_locked_def Let_def case_prod_beta)
  have i1: "i \<in> set subs" "heap h1 i = Some s" using C(2) h1 i by auto
  have "heap h2 i = Some (dropped_sub s)" if b: "broadcast subs (stop_event ?r (fst x) now) h1 = Some h2" for h2
  proof -
    have d: "distinct subs" using C(2) hub_inv_tables(4) [OF typing_invD(1) [OF C(1)]] by simp
    obtain dr h' where send: "send_all subs (stop_event ?r (fst x) now) h1 = Some (dr, h')"
      using b i1 by (auto simp: broadcast_def split: option.splits if_splits)
    note res = send_all_result [OF send d]
    have dr: "i \<in> set dr" "distinct dr" using res(2) i1 i(3) d by auto
    have hi: "heap h' i = Some s" using res(1) i1 i(3) by (simp add: offered_def full_def)
    have drop: "drop_all ?r dr h' = Some h2"
      using b send dr i1 by (auto simp: broadcast_def stop_event_def split: if_splits)
    have "distinct (room_subs h' ?r)" using d C(2) res(3) by simp
    from drop_all_result [OF drop dr(2) this] dr(1) hi i1 C(2) res(3) show ?thesis by auto
  qed
  moreover have "broadcast subs e h2 = None" if "heap h2 i = Some (dropped_sub s)" for e h2
    using send_all_closed [OF i1(1) that] i1(1) by (auto simp: broadcast_def dropped_sub_def)
  ultimately have "broadcast_all subs events h1 = None"
    by (cases "broadcast subs (stop_event ?r (fst x) now) h1") (simp_all add: ev)
  with m r cl show ?thesis by (simp add: ClearRoom_def Let_def)
qed

theorem clear_room_panics_witness: "ClearRoom ''r'' 1 ex_typing = None"
proof -
  obtain s where "heap ex_typing 1 = Some s" "full s" using ex_typing_room(3) by blast
  with clear_room_panics [OF ex_typing_inv, of "''r''" 1 s 1] show ?thesis
    by (simp add: ex_words_typing ex_typing_room)
qed

text \<open>
  A subscriber that leaves during a broadcast brings the sender down. If a subscriber closes its
  subscription between the locked part of \<open>Start\<close>, which collects the subscribers, and the broadcast
  to them, the broadcast sends on its closed channel and panics.
\<close>

theorem broadcast_after_close_panics:
  assumes inv: "typing_inv h" and st: "start_locked r a now ttl h = (subs, h1)"
    and i: "i \<in> set (room_subs h r)" "heap h i = Some s" "\<not> subOnce s"
  shows "\<exists>h2. th_Close i h1 = Some h2 \<and> broadcast subs (start_event r a now ttl) h2 = None"
proof -
  note S = typing_inv_start [OF inv st]
  have hp: "heap h1 = heap h"
    using st by (auto simp: start_locked_def Let_def pruneExpiredLocked_def split: option.splits if_splits)
  have live: "subRoomID s = r" "\<not> chClosed (subCh s)"
    using hub_inv_live [OF typing_invD(1) [OF inv] i(1)] i(2) by (auto simp: live_sub_def)
  have mem: "i \<in> set subs" "i \<in> set (room_subs h1 r)" using S i by auto
  let ?s = "s\<lparr>subOnce := True, subCh := (subCh s)\<lparr>chClosed := True\<rparr>\<rparr>"
  have "room_subs h1 r \<noteq> []" using mem by auto
  then have "hub_close i h1 = Some (put_subs r (remove1 i (room_subs h1 r)) (put_sub i ?s
      (put_sub i (s\<lparr>subOnce := True\<rparr>) h1)))"
    using i hp live mem by (simp add: hub_close_def hub_unsubscribe_def close_ch_def Let_def)
  then obtain h2 where h2: "hub_close i h1 = Some h2" "heap h2 i = Some ?s" by simp
  then have "send_all subs ev h2 = None" for ev
    by (intro send_all_closed [OF mem(1) h2(2)]) simp
  with mem(1) h2 show ?thesis by (auto simp: th_Close_def broadcast_def)
qed

theorem broadcast_after_close_panics_witness:
  "\<exists>subs h1 h2. start_locked ''r'' ''a'' 0 Second ex_typing = (subs, h1) \<and> th_Close 1 h1 = Some h2 \<and>
     broadcast subs (start_event ''r'' ''a'' 0 Second) h2 = None"
proof -
  obtain s where s: "heap ex_typing 1 = Some s" "\<not> subOnce s" using ex_typing_room(3) by blast
  obtain subs h1 where st: "start_locked ''r'' ''a'' 0 Second ex_typing = (subs, h1)" by fastforce
  from broadcast_after_close_panics [OF ex_typing_inv st _ s] st show ?thesis
    by (auto simp: ex_typing_room)
qed

end
