(* ===== verification/Base64.thy ===== *)
theory Base64
  imports Go_Strings
begin

text \<open>
  \<open>base64.RawURLEncoding\<close> of the standard library: encoding of bytes without padding over the URL
  alphabet, and its decoder, which skips line breaks and reports any other foreign byte.
\<close>

section \<open>Visible ASCII\<close>

text \<open>A visible ASCII byte is no part of any white-space rune.\<close>

definition visible :: "char \<Rightarrow> bool" where
  "visible c \<longleftrightarrow> 33 \<le> (of_char c :: nat) \<and> (of_char c :: nat) \<le> 126"

lemma lead_space_visible: "visible c \<Longrightarrow> lead_space (c # s) = 0"
  by (auto simp: lead_space_0_iff space_seqs_def visible_def)

lemma trail_space_visible: "visible c \<Longrightarrow> trail_space (s @ [c]) = 0"
  by (auto simp: trail_space_0_iff space_seqs_def visible_def suffix_def append_eq_append_conv2
      Cons_eq_append_conv append_eq_Cons_conv)

lemma TrimSpace_visible_ends:
  assumes "s \<noteq> []" and "visible (hd s)" and "visible (last s)"
  shows "TrimSpace s = s"
proof (rule TrimSpace_id)
  show "lead_space s = 0" using assms lead_space_visible [of "hd s" "tl s"] by simp
  show "trail_space s = 0" using assms trail_space_visible [of "last s" "butlast s"] by simp
qed

lemma space_invisible: "w \<in> set space_seqs \<Longrightarrow> c \<in> set w \<Longrightarrow> \<not> visible c"
  by (auto simp: space_seqs_def visible_def)

text \<open>Trimming on the left stops at a visible byte at the latest.\<close>

lemma TrimLeftSpace_stops: "visible c \<Longrightarrow> \<exists>x'. TrimLeftSpace (x @ c # y) = x' @ c # y"
proof (induction x rule: length_induct)
  case (1 x)
  show ?case
  proof (cases "lead_space (x @ c # y) = 0")
    case True
    then show ?thesis by (simp add: TrimLeftSpace.simps [of "x @ c # y"])
  next
    case False
    then obtain w where w: "w \<in> set space_seqs" "prefix w (x @ c # y)" "length w = lead_space (x @ c # y)"
      by (auto simp: lead_space_def find_Some_iff split: option.splits) (metis nth_mem)
    have "length w \<le> length x"
    proof (rule ccontr)
      assume "\<not> length w \<le> length x"
      with w(2) have "c \<in> set w"
        by (auto simp: prefix_def append_eq_append_conv2 Cons_eq_append_conv)
      with space_invisible [OF w(1)] 1 show False by blast
    qed
    then have "drop (lead_space (x @ c # y)) (x @ c # y) = drop (length w) x @ c # y"
      "length (drop (length w) x) < length x"
      using w False by auto
    with 1 False show ?thesis
      by (subst TrimLeftSpace.simps) (metis (no_types, lifting))
  qed
qed

lemma TrimSpace_keeps:
  assumes "visible c" and "y \<noteq> []" and "visible (last y)"
  shows "c \<in> set (TrimSpace (x @ c # y))"
proof -
  obtain x' where x': "TrimLeftSpace (x @ c # y) = x' @ c # y" using TrimLeftSpace_stops [OF assms(1)] by blast
  have "trail_space (x' @ c # y) = 0"
    using trail_space_visible [OF assms(3), of "x' @ c # butlast y"] assms(2) by simp
  then show ?thesis by (simp add: TrimSpace_def x' TrimRightSpace.simps [of "x' @ c # y"])
qed

section \<open>The alphabet\<close>

definition b64_char :: "nat \<Rightarrow> char" where
  "b64_char n = (if n < 26 then char_of (65 + n) else if n < 52 then char_of (71 + n)
     else if n < 62 then char_of (n - 4) else if n = 62 then CHR ''-'' else CHR ''_'')"

definition b64_val :: "char \<Rightarrow> nat option" where
  "b64_val c = (let n = of_char c :: nat in
     if 65 \<le> n \<and> n \<le> 90 then Some (n - 65)
     else if 97 \<le> n \<and> n \<le> 122 then Some (n - 71)
     else if 48 \<le> n \<and> n \<le> 57 then Some (n + 4)
     else if c = CHR ''-'' then Some 62 else if c = CHR ''_'' then Some 63 else None)"

lemma b64_val_char: "n < 64 \<Longrightarrow> b64_val (b64_char n) = Some n"
  by (auto simp: b64_char_def b64_val_def Let_def not_less dest: order.antisym)

lemma b64_char_visible: "n < 64 \<Longrightarrow> visible (b64_char n)"
  by (auto simp: b64_char_def visible_def)

section \<open>Encoding and decoding\<close>

fun b64_sextets :: "string \<Rightarrow> nat list" where
  "b64_sextets [] = []"
| "b64_sextets [a] = [of_char a div 4, (of_char a mod 4) * 16]"
| "b64_sextets [a, b] = [of_char a div 4, (of_char a mod 4) * 16 + of_char b div 16, (of_char b mod 16) * 4]"
| "b64_sextets (a # b # c # bs) = (of_char a div 4) # ((of_char a mod 4) * 16 + of_char b div 16) #
     ((of_char b mod 16) * 4 + of_char c div 64) # (of_char c mod 64) # b64_sextets bs"

definition EncodeToString :: "string \<Rightarrow> string" where
  "EncodeToString bs = map b64_char (b64_sextets bs)"

fun b64_bytes :: "nat list \<Rightarrow> string option" where
  "b64_bytes [] = Some []"
| "b64_bytes [w] = None"
| "b64_bytes [w, x] = Some [char_of (w * 4 + x div 16)]"
| "b64_bytes [w, x, y] = Some [char_of (w * 4 + x div 16), char_of ((x mod 16) * 16 + y div 4)]"
| "b64_bytes (w # x # y # z # r) = (case b64_bytes r of None \<Rightarrow> None
     | Some bs \<Rightarrow> Some (char_of (w * 4 + x div 16) # char_of ((x mod 16) * 16 + y div 4) #
         char_of ((y mod 4) * 64 + z) # bs))"

definition DecodeString :: "string \<Rightarrow> string option" where
  "DecodeString s =
    (case those (map b64_val (filter (\<lambda>c. c \<noteq> CHR 0x0A \<and> c \<noteq> CHR 0x0D) s)) of
       None \<Rightarrow> None | Some xs \<Rightarrow> b64_bytes xs)"

lemma char_bits [simp]:
  "(of_char c :: nat) div 4 < 64" "(of_char c :: nat) div 16 < 16" "(of_char c :: nat) div 64 < 4"
  "(of_char c :: nat) div 16 div 16 = 0" "(of_char c :: nat) div 16 mod 16 = of_char c div 16"
  "(of_char c :: nat) div 64 div 4 = 0" "(of_char c :: nat) div 64 mod 4 = of_char c div 64"
proof -
  have less: "(of_char c :: nat) < 256" by simp
  show bounds: "(of_char c :: nat) div 4 < 64" "(of_char c :: nat) div 16 < 16"
    "(of_char c :: nat) div 64 < 4"
    using less by (auto intro!: less_mult_imp_div_less simp del: of_char_of)
  show "(of_char c :: nat) div 16 div 16 = 0" "(of_char c :: nat) div 64 div 4 = 0"
    "(of_char c :: nat) div 16 mod 16 = of_char c div 16" "(of_char c :: nat) div 64 mod 4 = of_char c div 64"
    using bounds by (auto simp del: div_mult2_eq)
qed

lemma b64_sextets_less: "\<forall>x \<in> set (b64_sextets bs). x < 64"
proof -
  have "(of_char a mod 4) * 16 + of_char b div 16 < (64 :: nat)" for a b :: char
  proof -
    have "(of_char a :: nat) mod 4 \<le> 3" by simp
    then show ?thesis using char_bits(2) [of b] by linarith
  qed
  moreover have "(of_char b mod 16) * 4 + of_char c div 64 < (64 :: nat)" for b c :: char
  proof -
    have "(of_char b :: nat) mod 16 \<le> 15" by simp
    then show ?thesis using char_bits(3) [of c] by linarith
  qed
  moreover have "(of_char a mod 4) * 16 < (64 :: nat)" "(of_char a mod 16) * 4 < (64 :: nat)" for a :: char
    by (simp_all add: less_mult_imp_div_less)
  ultimately show ?thesis
    by (induction bs rule: b64_sextets.induct) simp_all
qed

lemma b64_bytes_sextets: "b64_bytes (b64_sextets bs) = Some bs"
  by (induction bs rule: b64_sextets.induct) simp_all

lemma those_map_Some: "(\<And>x. x \<in> set xs \<Longrightarrow> f x = Some (g x)) \<Longrightarrow> those (map f xs) = Some (map g xs)"
  by (induction xs) auto

lemma those_None: "x \<in> set xs \<Longrightarrow> f x = None \<Longrightarrow> those (map f xs) = None"
  by (induction xs) (auto split: option.splits)

lemma EncodeToString_visible: "c \<in> set (EncodeToString bs) \<Longrightarrow> visible c"
  using b64_sextets_less [of bs] by (auto simp: EncodeToString_def intro: b64_char_visible)

lemma visible_no_break: "visible c \<Longrightarrow> c \<noteq> CHR 0x0A \<and> c \<noteq> CHR 0x0D"
  by (auto simp: visible_def)

text \<open>Decoding an encoding gives the bytes back.\<close>

lemma DecodeString_Encode: "DecodeString (EncodeToString bs) = Some bs"
proof -
  have "filter (\<lambda>c. c \<noteq> CHR 0x0A \<and> c \<noteq> CHR 0x0D) (EncodeToString bs) = EncodeToString bs"
    using EncodeToString_visible visible_no_break by (auto simp: filter_id_conv)
  moreover have "those (map b64_val (EncodeToString bs)) = Some (b64_sextets bs)"
    using b64_sextets_less [of bs] those_map_Some [of "b64_sextets bs" "b64_val \<circ> b64_char" "\<lambda>x. x"]
    by (simp add: EncodeToString_def b64_val_char)
  ultimately show ?thesis by (simp add: DecodeString_def b64_bytes_sextets)
qed

text \<open>A byte outside the alphabet makes the decoder fail.\<close>

lemma DecodeString_foreign:
  "c \<in> set s \<Longrightarrow> b64_val c = None \<Longrightarrow> c \<noteq> CHR 0x0A \<Longrightarrow> c \<noteq> CHR 0x0D \<Longrightarrow> DecodeString s = None"
proof -
  assume "c \<in> set s" "b64_val c = None" "c \<noteq> CHR 0x0A" "c \<noteq> CHR 0x0D"
  then have "those (map b64_val (filter (\<lambda>c. c \<noteq> CHR 0x0A \<and> c \<noteq> CHR 0x0D) s)) = None"
    by (intro those_None [of c]) auto
  then show ?thesis by (simp add: DecodeString_def)
qed

lemma EncodeToString_nonempty: "bs \<noteq> [] \<Longrightarrow> EncodeToString bs \<noteq> []"
  by (cases bs rule: b64_sextets.cases) (auto simp: EncodeToString_def)

lemma TrimSpace_EncodeToString [simp]: "TrimSpace (EncodeToString bs) = EncodeToString bs"
proof (cases "EncodeToString bs = []")
  case False
  then show ?thesis
    by (intro TrimSpace_visible_ends EncodeToString_visible [of _ bs]) auto
qed simp

end
