(* ===== verification/Secret_Cipher.thy ===== *)
theory Secret_Cipher
  imports Base64 "HOL-Library.List_Lexorder" "HOL-Library.Char_ord"
begin

text \<open>
  The keyed encryption of secrets of \<open>internal/security/secretcipher/cipher.go\<close>: parsing of key
  sets, choice of the primary key, encryption and decryption with fallback over all keys, and the
  signature of \<open>internal/security/webhooksigner/signer.go\<close>. SHA-256, AES-GCM and HMAC are arguments;
  what is relied on of AES-GCM is \<open>aead_ok\<close>. Key ids are compared bytewise, as \<open>sort.Strings\<close> does.
\<close>

section \<open>Cryptographic primitives\<close>

record crypto =
  Sum256 :: "string \<Rightarrow> string"
  Seal :: "string \<Rightarrow> string \<Rightarrow> string \<Rightarrow> string"
  Open :: "string \<Rightarrow> string \<Rightarrow> string \<Rightarrow> string option"

text \<open>\<open>Open\<close> under the same key and nonce inverts \<open>Seal\<close>, and under another key it reports failure.\<close>

definition aead_ok :: "crypto \<Rightarrow> bool" where
  "aead_ok K \<longleftrightarrow> (\<forall>k n p. Open K k n (Seal K k n p) = Some p) \<and>
     (\<forall>k k' n p. k' \<noteq> k \<longrightarrow> Open K k' n (Seal K k n p) = None)"

datatype cipher_error = PrimaryKeyNotFound | EmptyCiphertext | EmptyPayload | BadBase64
  | CiphertextTooShort | OpenFailed | UnknownKeyID string | NoConfiguredKey

section \<open>Key sets\<close>

record Cipher =
  primaryKeyID :: string
  keyByID :: "(string, string) gomap"

definition cipher_prefix :: string where
  "cipher_prefix = ''enc:v1:''"

definition defaultKeyID :: string where
  "defaultKeyID = ''v1''"

definition rotatedPrimaryKeyID :: string where
  "rotatedPrimaryKeyID = ''current''"

definition defaultKeyMaterial :: string where
  "defaultKeyMaterial = ''areyouai-dev-webhook-secret-encryption-key''"

definition nonceSize :: nat where
  "nonceSize = 12"

fun parse_items :: "string list \<Rightarrow> (string, string) gomap \<Rightarrow> (string, string) gomap" where
  "parse_items [] out = out"
| "parse_items (item # items) out =
    (let item = TrimSpace item in
     if item = [] then parse_items items out
     else (case SplitN2 (CHR ''='') item of
       [a, b] \<Rightarrow>
         (let keyID = TrimSpace a; material = TrimSpace b in
          if keyID = [] \<or> material = [] then parse_items items out
          else parse_items items (gm_put keyID material out))
     | _ \<Rightarrow> parse_items items out))"

definition parseKeyset :: "string \<Rightarrow> (string, string) gomap" where
  "parseKeyset raw = parse_items (SplitByte (CHR '','') (TrimSpace raw)) []"

definition sortedKeyIDs :: "(string, string) gomap \<Rightarrow> string list" where
  "sortedKeyIDs keys = sort (map fst keys)"

definition candidate :: "nat \<Rightarrow> string" where
  "candidate i = (if i > 0 then rotatedPrimaryKeyID @ ''-'' @ nat_str i else rotatedPrimaryKeyID)"

lemma candidate_inj: "candidate i = candidate j \<Longrightarrow> i = j"
  by (auto simp: candidate_def dest: nat_str_inj split: if_splits)

text \<open>The loop for a free key id: it ends because a map has finitely many keys.\<close>

function freeCandidate :: "(string, string) gomap \<Rightarrow> nat \<Rightarrow> string" where
  "freeCandidate keys i =
    (if gm_get keys (candidate i) = None then candidate i else freeCandidate keys (Suc i))"
  by pat_completeness auto
termination
proof (relation "measure (\<lambda>(keys, i). card {k \<in> fst ` set keys. \<exists>j\<ge>i. k = candidate j})", simp, clarsimp)
  fix keys :: "(string, string) gomap" and i y
  assume "gm_get keys (candidate i) = Some y"
  then have i: "candidate i \<in> fst ` set keys" by (metis domI dom_map_of_conv_image_fst)
  show "card {k \<in> fst ` set keys. \<exists>j\<ge>Suc i. k = candidate j}
      < card {k \<in> fst ` set keys. \<exists>j\<ge>i. k = candidate j}"
  proof (rule psubset_card_mono)
    have "candidate i \<notin> {k \<in> fst ` set keys. \<exists>j\<ge>Suc i. k = candidate j}"
      by (auto dest: candidate_inj)
    with i show "{k \<in> fst ` set keys. \<exists>j\<ge>Suc i. k = candidate j}
        \<subset> {k \<in> fst ` set keys. \<exists>j\<ge>i. k = candidate j}"
      by (auto intro: Suc_leD)
  qed simp
qed

declare freeCandidate.simps [simp del]

definition NewWithKeyset :: "crypto \<Rightarrow> string \<Rightarrow> string \<Rightarrow> Cipher" where
  "NewWithKeyset K keyMaterial keysetRaw =
    (let keys = parseKeyset keysetRaw;
         v = TrimSpace keyMaterial;
         (keys, primary) =
           (if v \<noteq> [] then
              if gm_get keys defaultKeyID \<noteq> None then
                (let c = freeCandidate keys 0 in (gm_put c v keys, c))
              else (gm_put defaultKeyID v keys, defaultKeyID)
            else (keys, []));
         keys = (if length keys = 0 then gm_put defaultKeyID defaultKeyMaterial keys else keys);
         primary = (if primary = [] then
             if gm_get keys defaultKeyID = None then hd (sortedKeyIDs keys) else defaultKeyID
           else primary)
     in \<lparr>primaryKeyID = primary, keyByID = map (\<lambda>(i, material). (i, Sum256 K material)) keys\<rparr>)"

definition New :: "crypto \<Rightarrow> string \<Rightarrow> Cipher" where
  "New K keyMaterial = NewWithKeyset K keyMaterial []"

section \<open>Encryption and decryption\<close>

text \<open>\<open>nonce\<close> is what is read from the random source, 12 bytes.\<close>

definition encryptWithKey :: "crypto \<Rightarrow> string \<Rightarrow> string \<Rightarrow> string \<Rightarrow> string" where
  "encryptWithKey K key nonce plaintext = EncodeToString (nonce @ Seal K key nonce plaintext)"

definition decryptWithKey :: "crypto \<Rightarrow> string \<Rightarrow> string \<Rightarrow> cipher_error + string" where
  "decryptWithKey K encoded key =
    (case DecodeString (TrimSpace encoded) of
       None \<Rightarrow> Inl BadBase64
     | Some raw \<Rightarrow>
       if length raw < nonceSize then Inl CiphertextTooShort
       else (case Open K key (take nonceSize raw) (drop nonceSize raw) of
         None \<Rightarrow> Inl OpenFailed | Some plain \<Rightarrow> Inr plain))"

definition key_of :: "Cipher \<Rightarrow> string \<Rightarrow> string" where
  "key_of c i = (case gm_get (keyByID c) i of None \<Rightarrow> replicate 32 (CHR 0x00) | Some k \<Rightarrow> k)"

definition Encrypt :: "crypto \<Rightarrow> Cipher \<Rightarrow> string \<Rightarrow> string \<Rightarrow> cipher_error + string" where
  "Encrypt K c nonce plaintext =
    (case gm_get (keyByID c) (primaryKeyID c) of
       None \<Rightarrow> Inl PrimaryKeyNotFound
     | Some key \<Rightarrow>
         Inr (cipher_prefix @ primaryKeyID c @ '':'' @ encryptWithKey K key nonce plaintext))"

definition splitKeyedPayload :: "string \<Rightarrow> (string \<times> string) option" where
  "splitKeyedPayload payload = (case SplitN2 (CHR '':'') payload of
     [a, b] \<Rightarrow> (let keyID = TrimSpace a; encoded = TrimSpace b in
       if keyID = [] \<or> encoded = [] then None else Some (keyID, encoded))
   | _ \<Rightarrow> None)"

definition decryptKeyIDs :: "Cipher \<Rightarrow> string list" where
  "decryptKeyIDs c =
    (if gm_get (keyByID c) (primaryKeyID c) \<noteq> None then [primaryKeyID c] else []) @
    sort (filter (\<lambda>i. i \<noteq> primaryKeyID c) (map fst (keyByID c)))"

text \<open>The loops over candidate keys: the first that opens wins, else the last error stands.\<close>

fun tryKeys :: "crypto \<Rightarrow> Cipher \<Rightarrow> string \<Rightarrow> string list \<Rightarrow> cipher_error option \<Rightarrow> cipher_error option + string" where
  "tryKeys K c encoded [] lastErr = Inl lastErr"
| "tryKeys K c encoded (i # ids) lastErr =
    (case decryptWithKey K encoded (key_of c i) of
       Inr plain \<Rightarrow> Inr plain
     | Inl e \<Rightarrow> tryKeys K c encoded ids (Some e))"

definition decryptWithKeyIDFallback :: "crypto \<Rightarrow> Cipher \<Rightarrow> string \<Rightarrow> string \<Rightarrow> cipher_error + string" where
  "decryptWithKeyIDFallback K c encoded keyID =
    (case gm_get (keyByID c) keyID of
       Some key \<Rightarrow>
         (case decryptWithKey K encoded key of
            Inr plain \<Rightarrow> Inr plain
          | Inl err \<Rightarrow>
            (case tryKeys K c encoded (filter (\<lambda>i. i \<noteq> keyID) (decryptKeyIDs c)) (Some err) of
               Inr plain \<Rightarrow> Inr plain
             | Inl (Some e) \<Rightarrow> Inl e
             | Inl None \<Rightarrow> Inl err))
     | None \<Rightarrow>
         (case tryKeys K c encoded (decryptKeyIDs c) None of
            Inr plain \<Rightarrow> Inr plain
          | Inl (Some e) \<Rightarrow> Inl e
          | Inl None \<Rightarrow> Inl (UnknownKeyID keyID)))"

definition Decrypt :: "crypto \<Rightarrow> Cipher \<Rightarrow> string \<Rightarrow> cipher_error + string" where
  "Decrypt K c ciphertext =
    (let ciphertext = TrimSpace ciphertext in
     if ciphertext = [] then Inl EmptyCiphertext
     else if \<not> HasPrefix ciphertext cipher_prefix then Inr ciphertext
     else (let payload = TrimPrefix ciphertext cipher_prefix in
       if payload = [] then Inl EmptyPayload
       else (case splitKeyedPayload payload of
         Some (keyID, encoded) \<Rightarrow> decryptWithKeyIDFallback K c encoded keyID
       | None \<Rightarrow>
         (case tryKeys K c payload (decryptKeyIDs c) None of
            Inr plain \<Rightarrow> Inr plain
          | Inl (Some e) \<Rightarrow> Inl e
          | Inl None \<Rightarrow> Inl NoConfiguredKey))))"

section \<open>Webhook signatures\<close>

record Headers =
  Timestamp :: string
  Signature :: string

text \<open>
  \<open>hmacHex secret bytes\<close> is the hex digest of HMAC-SHA256; \<open>now.Unix()\<close> is the time in whole
  seconds, rounded down.
\<close>

definition Sign :: "(string \<Rightarrow> string \<Rightarrow> string) \<Rightarrow> string \<Rightarrow> string \<Rightarrow> time \<Rightarrow> Headers" where
  "Sign hmacHex secret payload now =
    (let timestamp = Itoa (now div Second) in
     \<lparr>Timestamp = timestamp, Signature = ''sha256'' @ ''='' @ hmacHex secret (timestamp @ ''.'' @ payload)\<rparr>)"

section \<open>Key sets keep their bindings\<close>

lemma freeCandidate_free: "gm_get keys (freeCandidate keys i) = None"
  by (induction keys i rule: freeCandidate.induct) (simp add: freeCandidate.simps)

lemma freeCandidate_nonempty: "freeCandidate keys i \<noteq> []"
  by (induction keys i rule: freeCandidate.induct)
    (subst freeCandidate.simps, auto simp: candidate_def rotatedPrimaryKeyID_def)

lemma hd_sortedKeyIDs: "keys \<noteq> [] \<Longrightarrow> gm_get keys (hd (sortedKeyIDs keys)) \<noteq> None"
proof -
  assume "keys \<noteq> []"
  then have "hd (sortedKeyIDs keys) \<in> set (sortedKeyIDs keys)"
    by (intro hd_in_set) (auto simp: sortedKeyIDs_def dest: arg_cong [where f = length])
  then show ?thesis by (simp add: sortedKeyIDs_def map_of_eq_None_iff)
qed

lemma gm_get_hashed: "gm_get (map (\<lambda>(i, m). (i, f m)) keys) i = map_option f (gm_get keys i)"
  by (rule gm_get_map)

text \<open>
  Building a cipher. Whatever key material and key set are configured, the cipher has its primary
  key, so encryption never fails; every id of the key set keeps the key of its own material, in
  particular a legacy \<open>v1\<close> entry is not overwritten; and when key material is given it is the one new
  secrets are encrypted under.
\<close>

theorem keyset_bindings_kept:
  fixes K keyMaterial keysetRaw
  defines "c \<equiv> NewWithKeyset K keyMaterial keysetRaw"
  shows "gm_get (keyByID c) (primaryKeyID c) \<noteq> None \<and>
    (\<forall>i m. gm_get (parseKeyset keysetRaw) i = Some m \<longrightarrow> gm_get (keyByID c) i = Some (Sum256 K m)) \<and>
    (TrimSpace keyMaterial \<noteq> [] \<longrightarrow>
       gm_get (keyByID c) (primaryKeyID c) = Some (Sum256 K (TrimSpace keyMaterial)))"
proof -
  let ?k = "parseKeyset keysetRaw"
  consider (rotated) "TrimSpace keyMaterial \<noteq> []" "gm_get ?k defaultKeyID \<noteq> None"
    | (fresh) "TrimSpace keyMaterial \<noteq> []" "gm_get ?k defaultKeyID = None"
    | (none) "TrimSpace keyMaterial = []" by blast
  then show ?thesis
  proof cases
    case rotated
    then show ?thesis
      using freeCandidate_free [of ?k 0] freeCandidate_nonempty [of ?k 0]
      by (auto simp: c_def NewWithKeyset_def Let_def gm_get_hashed)
  next
    case fresh
    then show ?thesis
      by (auto simp: c_def NewWithKeyset_def Let_def gm_get_hashed defaultKeyID_def)
  next
    case none
    then show ?thesis
      using hd_sortedKeyIDs [of ?k]
      by (cases "?k = []") (auto simp: c_def NewWithKeyset_def Let_def gm_get_hashed)
  qed
qed

section \<open>Round trip and rotation\<close>

lemma decryptWithKey_sealed:
  assumes "aead_ok K" and "length nonce = nonceSize"
  shows "decryptWithKey K (encryptWithKey K key nonce p) key' = (if key' = key then Inr p else Inl OpenFailed)"
  using assms
  by (simp add: decryptWithKey_def encryptWithKey_def DecodeString_Encode aead_ok_def)

lemma tryKeys_finds:
  assumes "aead_ok K" and "length nonce = nonceSize" and "i \<in> set ids" and "key_of c i = key"
  shows "tryKeys K c (encryptWithKey K key nonce p) ids e = Inr p"
  using assms(3,4)
  by (induction ids arbitrary: e) (auto simp: decryptWithKey_sealed [OF assms(1,2)])

lemma set_decryptKeyIDs: "set (decryptKeyIDs c) = fst ` set (keyByID c)"
  by (auto simp: decryptKeyIDs_def map_of_eq_None_iff) force

lemma fallback_finds:
  assumes "aead_ok K" and "length nonce = nonceSize" and "gm_get (keyByID c) i = Some key"
  shows "decryptWithKeyIDFallback K c (encryptWithKey K key nonce p) keyID = Inr p"
proof -
  have i: "i \<in> set (decryptKeyIDs c)" "key_of c i = key"
    using assms(3) by (auto simp: set_decryptKeyIDs key_of_def image_iff dest!: map_of_SomeD)
      (metis fst_conv)
  show ?thesis
  proof (cases "gm_get (keyByID c) keyID")
    case None
    then show ?thesis
      by (simp add: decryptWithKeyIDFallback_def tryKeys_finds [OF assms(1,2) i])
  next
    case (Some k)
    then show ?thesis
      using i assms(3) tryKeys_finds [OF assms(1,2), of i "filter (\<lambda>j. j \<noteq> keyID) (decryptKeyIDs c)"]
      by (cases "i = keyID")
        (auto simp: decryptWithKeyIDFallback_def decryptWithKey_sealed [OF assms(1,2)])
  qed
qed

lemma visible_consts: "visible (CHR ''e'')" "b64_val (CHR '':'') = None" "visible (CHR '':'')"
  by (simp_all add: visible_def b64_val_def)

lemma Decrypt_keyed:
  assumes "TrimSpace (cipher_prefix @ payload) = cipher_prefix @ payload"
    and "splitKeyedPayload payload = Some (keyID, encoded)"
  shows "Decrypt K c (cipher_prefix @ payload) = decryptWithKeyIDFallback K c encoded keyID"
proof -
  have "payload \<noteq> []" using assms(2) by (auto simp: splitKeyedPayload_def SplitN2_def)
  moreover have "cipher_prefix \<noteq> []" by (simp add: cipher_prefix_def)
  ultimately show ?thesis using assms by (simp add: Decrypt_def HasPrefix_def)
qed


text \<open>
  A colon in the key id makes secrets unreadable. If the primary key id contains a colon after a
  part that is not blank, what the cipher encrypts no cipher can decrypt, itself included: the payload
  is cut at the first colon and the rest is no base64.
\<close>

theorem colon_key_id_unreadable:
  assumes "primaryKeyID c = a @ '':'' @ b" and "CHR '':'' \<notin> set a" and "TrimSpace a \<noteq> []"
    and "length nonce = nonceSize" and "Encrypt K c nonce plaintext = Inr ciphertext"
  shows "\<exists>e. Decrypt K c' ciphertext = Inl e"
proof -
  obtain key where ct: "ciphertext = cipher_prefix @ a @ '':'' @ b @ '':'' @ encryptWithKey K key nonce plaintext"
    using assms(1,5) by (auto simp: Encrypt_def split: option.splits)
  let ?e = "encryptWithKey K key nonce plaintext" and ?r = "b @ '':'' @ encryptWithKey K key nonce plaintext"
  have "nonce \<noteq> []" using assms(4) by (auto simp: nonceSize_def)
  then have e: "?e \<noteq> []" "visible (last ?e)"
    using EncodeToString_visible [OF last_in_set]
    by (auto simp: encryptWithKey_def EncodeToString_nonempty)
  have trim: "TrimSpace ciphertext = ciphertext"
    using e unfolding ct by (intro TrimSpace_visible_ends) (auto simp: cipher_prefix_def visible_consts)
  define r where "r = TrimSpace ?r"
  have colon: "CHR '':'' \<in> set r"
    using TrimSpace_keeps [OF visible_consts(3) e, of b] by (simp add: r_def)
  have "TrimSpace r = r" by (simp add: r_def)
  with DecodeString_foreign [OF colon visible_consts(2)]
  have bad: "decryptWithKey K r k = Inl BadBase64" for k by (simp add: decryptWithKey_def)
  have all: "\<exists>e'. tryKeys K c' r ids e = Inl e'" for ids e
    by (induction ids arbitrary: e) (auto simp: bad)
  have split: "splitKeyedPayload (a @ '':'' @ ?r) = Some (TrimSpace a, r)"
    using SplitN2_cut [OF assms(2), of ?r] assms(3) colon
    by (auto simp: splitKeyedPayload_def r_def Let_def)
  have "Decrypt K c' ciphertext = decryptWithKeyIDFallback K c' r (TrimSpace a)"
    unfolding ct by (rule Decrypt_keyed [OF trim [unfolded ct] split])
  also have "\<exists>e. \<dots> = Inl e"
    using all [of "filter (\<lambda>i. i \<noteq> TrimSpace a) (decryptKeyIDs c')" "Some BadBase64"] all [of "decryptKeyIDs c'" None]
    by (auto simp: decryptWithKeyIDFallback_def bad split: option.splits)
  finally show ?thesis .
qed

section \<open>A concrete instance\<close>

text \<open>
  A primitive that meets \<open>aead_ok\<close>: the key is written in front of the text, byte by byte and marked,
  and opening checks it. The old cipher has one key; the new one gets new key material and keeps the
  old key in its key set as \<open>v1\<close>.
\<close>

definition ex_mark :: "string \<Rightarrow> string" where
  "ex_mark k = concat (map (\<lambda>c. [CHR ''k'', c]) k) @ ''p''"

definition ex_crypto :: crypto where
  "ex_crypto = \<lparr>Sum256 = (\<lambda>x. x), Seal = (\<lambda>k n p. ex_mark k @ p),
     Open = (\<lambda>k n s. if prefix (ex_mark k) s then Some (drop (length (ex_mark k)) s) else None)\<rparr>"

lemma ex_mark_prefix: "prefix (ex_mark k') (ex_mark k @ p) \<Longrightarrow> k' = k"
proof (induction k arbitrary: k')
  case Nil
  then show ?case by (cases k') (auto simp: ex_mark_def)
next
  case (Cons c k)
  then show ?case by (cases k') (auto simp: ex_mark_def)
qed

lemma ex_crypto_ok: "aead_ok ex_crypto"
  using ex_mark_prefix by (auto simp: aead_ok_def ex_crypto_def)

definition ex_old :: Cipher where
  "ex_old = New ex_crypto ''old''"

definition ex_new :: Cipher where
  "ex_new = NewWithKeyset ex_crypto ''new'' ''v1=old''"

lemma ex_ciphers:
  "ex_old = \<lparr>primaryKeyID = ''v1'', keyByID = [(''v1'', ''old'')]\<rparr>"
  "ex_new = \<lparr>primaryKeyID = ''current'', keyByID = [(''v1'', ''old''), (''current'', ''new'')]\<rparr>"
  "parseKeyset ''v1=old'' = [(''v1'', ''old'')]" "TrimSpace ''new'' = ''new''"
proof -
  have t: "TrimSpace ''new'' = ''new''" "TrimSpace ''old'' = ''old''" by code_simp+
  have p: "parseKeyset ''v1=old'' = [(''v1'', ''old'')]" "parseKeyset [] = []" by code_simp+
  have "freeCandidate [(''v1'', ''old'')] 0 = ''current''"
    by (simp add: freeCandidate.simps candidate_def rotatedPrimaryKeyID_def)
  with t p show "ex_old = \<lparr>primaryKeyID = ''v1'', keyByID = [(''v1'', ''old'')]\<rparr>"
    "ex_new = \<lparr>primaryKeyID = ''current'', keyByID = [(''v1'', ''old''), (''current'', ''new'')]\<rparr>"
    "parseKeyset ''v1=old'' = [(''v1'', ''old'')]" "TrimSpace ''new'' = ''new''"
    by (simp_all add: ex_old_def ex_new_def New_def NewWithKeyset_def defaultKeyID_def ex_crypto_def Let_def)
qed

theorem keyset_bindings_kept_witness:
  "gm_get (keyByID ex_new) ''v1'' = Some ''old'' \<and> gm_get (keyByID ex_new) (primaryKeyID ex_new) = Some ''new''"
  using keyset_bindings_kept [where K = ex_crypto and keyMaterial = "''new''" and keysetRaw = "''v1=old''"]
  by (simp add: ex_new_def [symmetric] ex_ciphers)


theorem colon_key_id_unreadable_witness:
  "\<exists>ct e. Encrypt ex_crypto \<lparr>primaryKeyID = ''a:b'', keyByID = [(''a:b'', ''k'')]\<rparr>
       (replicate 12 (CHR ''n'')) ''secret'' = Inr ct \<and>
     Decrypt ex_crypto \<lparr>primaryKeyID = ''a:b'', keyByID = [(''a:b'', ''k'')]\<rparr> ct = Inl e"
proof -
  have t: "TrimSpace ''a'' \<noteq> []" by code_simp
  let ?c = "\<lparr>primaryKeyID = ''a:b'', keyByID = [(''a:b'', ''k'')]\<rparr>"
  obtain ct where ct: "Encrypt ex_crypto ?c (replicate 12 (CHR ''n'')) ''secret'' = Inr ct"
    by (simp add: Encrypt_def)
  from colon_key_id_unreadable [of ?c "''a''" "''b''", OF _ _ t _ ct, of ?c] ct show ?thesis
    by (simp add: nonceSize_def)
qed

end
