(* ===== verification/Webhook_Worker.thy ===== *)
theory Webhook_Worker
  imports Contracts Secret_Cipher
begin

text \<open>
  The webhook outbox (the \<open>webhook_outbox\<close> operations of \<open>internal/repository/postgres/store.go\<close>) and
  the delivery worker of \<open>internal/worker/webhooks/worker.go\<close>. The outbox table is a list of rows in
  order of insertion, its ids come from a serial counter. Statements run one at a time: no other
  transaction holds row locks during a claim. What a remote endpoint answers, what the random source
  gives for the jitter and whether a marking statement fails are arguments.
\<close>

section \<open>The outbox\<close>

record outbox_db =
  outbox :: "WebhookOutboxItem list"
  endpoints :: "AgentWebhookEndpoint list"
  outboxSeq :: int

text \<open>\<open>createWebhookOutbox\<close>; the foreign keys are taken to hold.\<close>

definition createWebhookOutbox ::
  "time \<Rightarrow> CreateWebhookOutboxInput \<Rightarrow> outbox_db \<Rightarrow> WebhookOutboxItem \<times> outbox_db" where
  "createWebhookOutbox now inp db =
    (let st = TrimSpace (coi_Status inp);
         st = (if st = [] then ''pending'' else st);
         nextAttemptAt = (if coi_NextAttemptAt inp = zero_time then now else coi_NextAttemptAt inp);
         payload = (if length (coi_Payload inp) = 0 then ''{}'' else coi_Payload inp);
         i = outboxSeq db + 1;
         row = \<lparr>ob_ID = i, ob_RoomID = coi_RoomID inp, ob_RoomEventID = coi_RoomEventID inp,
           ob_TargetAgentID = coi_TargetAgentID inp, ob_EndpointID = coi_EndpointID inp,
           ob_EventType = coi_EventType inp, ob_Payload = payload, ob_Status = st,
           ob_AttemptCount = coi_AttemptCount inp, ob_NextAttemptAt = nextAttemptAt,
           ob_LastError = coi_LastError inp, ob_CreatedAt = now, ob_UpdatedAt = now\<rparr>
     in (row, db\<lparr>outbox := outbox db @ [row], outboxSeq := i\<rparr>))"

definition terminal :: "WebhookOutboxItem \<Rightarrow> bool" where
  "terminal r \<longleftrightarrow> ob_Status r = ''delivered'' \<or> ob_Status r = ''dead_letter''"

text \<open>Rows of one stream: the same room, target agent and endpoint.\<close>

definition same_stream ::
  "('a WebhookOutboxItem_scheme) \<Rightarrow> ('b WebhookOutboxItem_scheme) \<Rightarrow> bool" where
  "same_stream r s \<longleftrightarrow> ob_RoomID r = ob_RoomID s \<and> ob_TargetAgentID r = ob_TargetAgentID s \<and>
     ob_EndpointID r = ob_EndpointID s"

text \<open>The \<open>WHERE\<close> clause of the claim.\<close>

definition claimable :: "outbox_db \<Rightarrow> time \<Rightarrow> time \<Rightarrow> WebhookOutboxItem \<Rightarrow> bool" where
  "claimable db now reclaimBefore r \<longleftrightarrow>
     list_ex (\<lambda>ep. ep_ID ep = ob_EndpointID r) (endpoints db) \<and>
     ((ob_Status r = ''pending'' \<and> ob_NextAttemptAt r \<le> now) \<or>
      (ob_Status r = ''delivering'' \<and> ob_UpdatedAt r \<le> reclaimBefore)) \<and>
     \<not> list_ex (\<lambda>prev. same_stream prev r \<and> ob_ID prev < ob_ID r \<and> \<not> terminal prev) (outbox db)"

definition claim_row :: "time \<Rightarrow> WebhookOutboxItem \<Rightarrow> WebhookOutboxItem" where
  "claim_row dbnow r = r\<lparr>ob_Status := ''delivering'', ob_AttemptCount := ob_AttemptCount r + 1,
     ob_UpdatedAt := dbnow\<rparr>"

definition claimed_delivery :: "WebhookOutboxItem \<Rightarrow> AgentWebhookEndpoint \<Rightarrow> ClaimedWebhookDelivery" where
  "claimed_delivery r ep = \<lparr>ob_ID = ob_ID r, ob_RoomID = ob_RoomID r, ob_RoomEventID = ob_RoomEventID r,
     ob_TargetAgentID = ob_TargetAgentID r, ob_EndpointID = ob_EndpointID r,
     ob_EventType = ob_EventType r, ob_Payload = ob_Payload r, ob_Status = ob_Status r,
     ob_AttemptCount = ob_AttemptCount r, ob_NextAttemptAt = ob_NextAttemptAt r,
     ob_LastError = ob_LastError r, ob_CreatedAt = ob_CreatedAt r, ob_UpdatedAt = ob_UpdatedAt r,
     cl_EndpointURL = ep_URL ep, cl_EndpointSecretCiphertext = ep_SecretCiphertext ep,
     cl_EndpointKeyID = ep_KeyID ep, cl_EndpointEnabled = ep_Enabled ep\<rparr>"

definition claim_limit :: "int \<Rightarrow> nat" where
  "claim_limit limit = nat (if limit \<le> 0 \<or> limit > 100 then 20 else limit)"

definition claimPendingWebhookDeliveries ::
  "time \<Rightarrow> time \<Rightarrow> time \<Rightarrow> int \<Rightarrow> outbox_db \<Rightarrow> ClaimedWebhookDelivery list \<times> outbox_db" where
  "claimPendingWebhookDeliveries dbnow now reclaimBefore limit db =
    (let candidates = take (claim_limit limit)
           (sort_key ob_ID (filter (claimable db now reclaimBefore) (outbox db)));
         claimed = map (claim_row dbnow) candidates;
         rows = map (\<lambda>r. if list_ex (\<lambda>c. ob_ID c = ob_ID r) candidates then claim_row dbnow r else r)
           (outbox db);
         result = concat (map (\<lambda>r. case find (\<lambda>ep. ep_ID ep = ob_EndpointID r) (endpoints db) of
           None \<Rightarrow> [] | Some ep \<Rightarrow> [claimed_delivery r ep]) claimed)
     in (result, db\<lparr>outbox := rows\<rparr>))"

definition update_row :: "int \<Rightarrow> (WebhookOutboxItem \<Rightarrow> WebhookOutboxItem) \<Rightarrow> outbox_db \<Rightarrow> outbox_db" where
  "update_row i f db = db\<lparr>outbox := map (\<lambda>r. if ob_ID r = i then f r else r) (outbox db)\<rparr>"

definition MarkWebhookOutboxDelivered :: "time \<Rightarrow> int \<Rightarrow> outbox_db \<Rightarrow> outbox_db" where
  "MarkWebhookOutboxDelivered dbnow i =
    update_row i (\<lambda>r. r\<lparr>ob_Status := ''delivered'', ob_LastError := [], ob_UpdatedAt := dbnow\<rparr>)"

definition MarkWebhookOutboxPendingRetry :: "time \<Rightarrow> int \<Rightarrow> time \<Rightarrow> string \<Rightarrow> outbox_db \<Rightarrow> outbox_db" where
  "MarkWebhookOutboxPendingRetry dbnow i nextAttemptAt lastError =
    update_row i (\<lambda>r. r\<lparr>ob_Status := ''pending'', ob_NextAttemptAt := nextAttemptAt,
      ob_LastError := lastError, ob_UpdatedAt := dbnow\<rparr>)"

definition MarkWebhookOutboxDeadLetter :: "time \<Rightarrow> int \<Rightarrow> string \<Rightarrow> outbox_db \<Rightarrow> outbox_db" where
  "MarkWebhookOutboxDeadLetter dbnow i lastError =
    update_row i (\<lambda>r. r\<lparr>ob_Status := ''dead_letter'', ob_LastError := lastError, ob_UpdatedAt := dbnow\<rparr>)"

section \<open>The worker\<close>

record worker =
  batchSize :: int
  claimStaleAfter :: duration
  maxAttempts :: int
  baseBackoff :: duration
  maxBackoff :: duration
  wseal :: Cipher

definition newWorker ::
  "crypto \<Rightarrow> int \<Rightarrow> duration \<Rightarrow> int \<Rightarrow> duration \<Rightarrow> duration \<Rightarrow> string \<Rightarrow> string \<Rightarrow> worker" where
  "newWorker K batch stale attempts base maxb secretKey secretKeyset =
    \<lparr>batchSize = (if batch \<le> 0 \<or> batch > 100 then 20 else batch),
     claimStaleAfter = (if stale \<le> 0 then 45 * Second else stale),
     maxAttempts = (if attempts \<le> 0 then 8 else attempts),
     baseBackoff = (if base \<le> 0 then 5 * Second else base),
     maxBackoff = (if maxb \<le> 0 then 5 * Minute else maxb),
     wseal = NewWithKeyset K secretKey secretKeyset\<rparr>"

text \<open>The doubling loop of \<open>nextRetryTime\<close>, \<open>n\<close> rounds left.\<close>

fun backoff_loop :: "duration \<Rightarrow> nat \<Rightarrow> duration \<Rightarrow> duration" where
  "backoff_loop maxb 0 backoff = backoff"
| "backoff_loop maxb (Suc n) backoff =
    (let backoff = wrap64 (backoff * 2) in
     if backoff \<ge> maxb then maxb else backoff_loop maxb n backoff)"

definition retry_backoff :: "worker \<Rightarrow> int \<Rightarrow> duration" where
  "retry_backoff w attempt = backoff_loop (maxBackoff w) (nat (attempt - 1)) (baseBackoff w)"

text \<open>\<open>Int63n(max)\<close> is a number below \<open>max\<close>: the draw \<open>rnd\<close> reduced modulo \<open>max\<close>.\<close>

definition randomJitter :: "duration \<Rightarrow> nat \<Rightarrow> duration" where
  "randomJitter maxj rnd = (if maxj \<le> 0 then 0 else int rnd mod maxj)"

definition nextRetryTime :: "worker \<Rightarrow> int \<Rightarrow> time \<Rightarrow> nat \<Rightarrow> time" where
  "nextRetryTime w attempt now rnd =
    (let backoff = retry_backoff w attempt; jitter = randomJitter (go_div backoff 4) rnd
     in now + wrap64 (backoff + jitter))"

definition clipError :: "string \<Rightarrow> int \<Rightarrow> string" where
  "clipError msg statusCode =
    (let msg = (if statusCode > 0 then
           if msg \<noteq> [] then msg @ '' (status='' @ Itoa statusCode @ '')'' else ''status='' @ Itoa statusCode
         else msg);
         msg = TrimSpace msg
     in if length msg > 512 then take 512 msg else msg)"

record httpRequest =
  reqURL :: string
  reqBody :: string
  reqHeaders :: "(string \<times> string) list"

text \<open>
  The outside of one delivery: whether the URL makes a request, the text of a cipher error, the HMAC,
  the string field of a JSON payload, the answer of the endpoint, the clock readings, the jitter draw
  and whether the marking statement goes through.
\<close>

record delivery_world =
  urlError :: "string \<Rightarrow> string option"
  cipherText :: "cipher_error \<Rightarrow> string"
  hmacHex :: "string \<Rightarrow> string \<Rightarrow> string"
  payloadString :: "string \<Rightarrow> string \<Rightarrow> string"
  answer :: "httpRequest \<Rightarrow> string + int"
  signTime :: time
  retryTime :: time
  markTime :: time
  jitterDraw :: nat
  markOK :: bool

definition buildRequest ::
  "crypto \<Rightarrow> worker \<Rightarrow> delivery_world \<Rightarrow> ClaimedWebhookDelivery \<Rightarrow> string + httpRequest" where
  "buildRequest K w d dl =
    (case urlError d (cl_EndpointURL dl) of
       Some err \<Rightarrow> Inl err
     | None \<Rightarrow>
       (case Decrypt K (wseal w) (cl_EndpointSecretCiphertext dl) of
          Inl err \<Rightarrow> Inl (''decrypt webhook secret: '' @ cipherText d err)
        | Inr secret \<Rightarrow>
          (let headers = Sign (hmacHex d) secret (ob_Payload dl) (signTime d);
               deliveryID = TrimSpace (payloadString d (ob_Payload dl) ''delivery_id'')
           in Inr \<lparr>reqURL = cl_EndpointURL dl, reqBody = ob_Payload dl,
                reqHeaders = [(''Content-Type'', ''application/json''),
                  (''User-Agent'', ''areyouai-webhook-worker/1.0''),
                  (''X-Areyouai-Timestamp'', Timestamp headers),
                  (''X-Areyouai-Signature'', Signature headers),
                  (''X-Areyouai-Key-Id'', cl_EndpointKeyID dl),
                  (''X-Areyouai-Event-Type'', ob_EventType dl)] @
                  (if deliveryID \<noteq> [] then [(''X-Areyouai-Delivery-Id'', deliveryID)] else [])\<rparr>)))"

definition mark :: "delivery_world \<Rightarrow> (outbox_db \<Rightarrow> outbox_db) \<Rightarrow> outbox_db \<Rightarrow> outbox_db" where
  "mark d f db = (if markOK d then f db else db)"

definition failDelivery ::
  "worker \<Rightarrow> delivery_world \<Rightarrow> ClaimedWebhookDelivery \<Rightarrow> string \<Rightarrow> int \<Rightarrow> outbox_db \<Rightarrow> outbox_db" where
  "failDelivery w d dl err statusCode =
    (let lastError = clipError err statusCode in
     if statusCode \<ge> 400 \<and> statusCode < 500 \<and> statusCode \<noteq> 429 \<and> statusCode \<noteq> 408 then
       mark d (MarkWebhookOutboxDeadLetter (markTime d) (ob_ID dl) lastError)
     else if ob_AttemptCount dl \<ge> maxAttempts w then
       mark d (MarkWebhookOutboxDeadLetter (markTime d) (ob_ID dl) lastError)
     else mark d (MarkWebhookOutboxPendingRetry (markTime d) (ob_ID dl)
       (nextRetryTime w (ob_AttemptCount dl) (retryTime d) (jitterDraw d)) lastError))"

definition processDelivery ::
  "crypto \<Rightarrow> worker \<Rightarrow> delivery_world \<Rightarrow> ClaimedWebhookDelivery \<Rightarrow> outbox_db \<Rightarrow> outbox_db" where
  "processDelivery K w d dl =
    (if \<not> cl_EndpointEnabled dl then
       mark d (MarkWebhookOutboxDeadLetter (markTime d) (ob_ID dl) ''endpoint disabled'')
     else (case buildRequest K w d dl of
       Inl err \<Rightarrow> failDelivery w d dl err 0
     | Inr req \<Rightarrow>
       (case answer d req of
          Inl err \<Rightarrow> failDelivery w d dl err 0
        | Inr status \<Rightarrow>
          if status \<ge> 200 \<and> status < 300 then
            mark d (MarkWebhookOutboxDelivered (markTime d) (ob_ID dl))
          else failDelivery w d dl (''remote status '' @ Itoa status) status)))"

text \<open>One round of the worker; \<open>ds\<close> gives the world of the i-th delivery of the batch.\<close>

fun process_all ::
  "crypto \<Rightarrow> worker \<Rightarrow> (nat \<Rightarrow> delivery_world) \<Rightarrow> nat \<Rightarrow> ClaimedWebhookDelivery list \<Rightarrow> outbox_db \<Rightarrow> outbox_db" where
  "process_all K w ds n [] db = db"
| "process_all K w ds n (dl # dls) db = process_all K w ds (Suc n) dls (processDelivery K w (ds n) dl db)"

definition RunOnce ::
  "crypto \<Rightarrow> worker \<Rightarrow> (nat \<Rightarrow> delivery_world) \<Rightarrow> time \<Rightarrow> time \<Rightarrow> outbox_db \<Rightarrow> nat \<times> outbox_db" where
  "RunOnce K w ds dbnow now db =
    (case claimPendingWebhookDeliveries dbnow now (now + - claimStaleAfter w) (batchSize w) db of
       (deliveries, db) \<Rightarrow> (length deliveries, process_all K w ds 0 deliveries db))"

section \<open>Backoff\<close>

lemma backoff_loop_capped:
  assumes "0 < b" and "b \<le> maxb" and "maxb \<le> 4611686018427387903"
  shows "backoff_loop maxb n b = min (b * 2 ^ n) maxb"
  using assms(1,2)
proof (induction n arbitrary: b)
  case (Suc n)
  have w: "wrap64 (b * 2) = b * 2"
    using Suc.prems assms(3) by (intro wrap64_id) (auto simp: in64_def min64_def max64_def)
  show ?case
  proof (cases "b * 2 \<ge> maxb")
    case True
    have "b * 2 \<le> b * 2 ^ Suc n" using Suc.prems by simp
    with True have "maxb \<le> b * 2 ^ Suc n" by linarith
    with True show ?thesis by (simp add: w)
  next
    case False
    then show ?thesis using Suc.IH [of "b * 2"] Suc.prems by (simp add: w mult.assoc)
  qed
qed simp

text \<open>
  C26. Exponential backoff with a cap. When the base delay is at most the maximal one (and that is below
  \<open>2 ^ 62\<close> ns, about 146 years), the delay before the retry after the \<open>n\<close>-th attempt is
  \<open>min (base * 2 ^ (n - 1)) max\<close> plus a jitter of less than a quarter of it; no multiplication wraps
  around, so the retry always lies in the future.
\<close>

theorem retry_backoff_exponential:
  assumes "0 < baseBackoff w" and "baseBackoff w \<le> maxBackoff w"
    and "maxBackoff w \<le> 4611686018427387903" and "1 \<le> n"
  defines "b \<equiv> min (baseBackoff w * 2 ^ nat (n - 1)) (maxBackoff w)"
  shows "now + b \<le> nextRetryTime w n now rnd \<and> nextRetryTime w n now rnd \<le> now + b + b div 4 \<and>
    now < nextRetryTime w n now rnd"
proof -
  have b: "retry_backoff w n = b"
    using backoff_loop_capped [OF assms(1-3)] by (simp add: retry_backoff_def b_def)
  have pos: "0 < b" "b \<le> 4611686018427387903"
    using assms(1-3) by (auto simp: b_def)
  have j: "0 \<le> randomJitter (b div 4) rnd" "randomJitter (b div 4) rnd \<le> b div 4"
    using pos by (auto simp: randomJitter_def order.strict_implies_order)
  have "wrap64 (b + randomJitter (b div 4) rnd) = b + randomJitter (b div 4) rnd"
    using pos j by (intro wrap64_id) (auto simp: in64_def min64_def max64_def)
  then have "nextRetryTime w n now rnd = now + (b + randomJitter (b div 4) rnd)"
    using pos by (simp add: nextRetryTime_def b Let_def)
  with j pos show ?thesis by simp
qed

theorem retry_backoff_exponential_witness:
  "nextRetryTime \<lparr>batchSize = 20, claimStaleAfter = 45 * Second, maxAttempts = 8, baseBackoff = 5 * Second,
     maxBackoff = 5 * Minute, wseal = \<lparr>primaryKeyID = [], keyByID = []\<rparr>\<rparr> 3 0 7 \<ge> 20 * Second"
  using retry_backoff_exponential
    [of "\<lparr>batchSize = 20, claimStaleAfter = 45 * Second, maxAttempts = 8, baseBackoff = 5 * Second,
     maxBackoff = 5 * Minute, wseal = \<lparr>primaryKeyID = [], keyByID = []\<rparr>\<rparr>" 3 0 7]
  by (simp add: duration_units)

section \<open>Claims\<close>

definition outbox_wf :: "outbox_db \<Rightarrow> bool" where
  "outbox_wf db \<longleftrightarrow> distinct (map ob_ID (outbox db)) \<and>
     (\<forall>r \<in> set (outbox db). ob_ID r \<le> outboxSeq db \<and> 0 \<le> ob_AttemptCount r)"

definition claim_set :: "time \<Rightarrow> time \<Rightarrow> int \<Rightarrow> outbox_db \<Rightarrow> WebhookOutboxItem list" where
  "claim_set now reclaimBefore limit db =
    take (claim_limit limit) (sort_key ob_ID (filter (claimable db now reclaimBefore) (outbox db)))"

lemma claim_set_claimable:
  "r \<in> set (claim_set now rb limit db) \<Longrightarrow> r \<in> set (outbox db) \<and> claimable db now rb r"
  by (auto simp: claim_set_def dest!: in_set_takeD)

lemma claimable_not_terminal: "claimable db now rb r \<Longrightarrow> \<not> terminal r"
  by (auto simp: claimable_def terminal_def)

lemma claimable_oldest:
  "claimable db now rb r \<Longrightarrow> prev \<in> set (outbox db) \<Longrightarrow> same_stream prev r \<Longrightarrow>
   ob_ID prev < ob_ID r \<Longrightarrow> terminal prev"
  by (auto simp: claimable_def list_ex_iff)

lemma same_stream_sym: "same_stream r s \<Longrightarrow> same_stream s r"
  by (simp add: same_stream_def)

lemma ids_inj:
  "outbox_wf db \<Longrightarrow> r \<in> set (outbox db) \<Longrightarrow> s \<in> set (outbox db) \<Longrightarrow> ob_ID r = ob_ID s \<Longrightarrow> r = s"
  by (auto simp: outbox_wf_def distinct_map dest: inj_onD)

text \<open>Two claimable rows of one stream are the same row.\<close>

lemma claimable_one_per_stream:
  assumes "outbox_wf db" and "r \<in> set (outbox db)" "claimable db now rb r"
    and "s \<in> set (outbox db)" "claimable db now rb s" and "same_stream r s"
  shows "r = s"
proof (rule ids_inj [OF assms(1,2,4)])
  show "ob_ID r = ob_ID s"
    using claimable_oldest [OF assms(5,2,6)] claimable_oldest [OF assms(3,4) same_stream_sym [OF assms(6)]]
      claimable_not_terminal [OF assms(3)] claimable_not_terminal [OF assms(5)]
    by (meson linorder_neqE)
qed

lemma claim_rows:
  "outbox (snd (claimPendingWebhookDeliveries dbnow now rb limit db)) =
    map (\<lambda>r. if ob_ID r \<in> ob_ID ` set (claim_set now rb limit db) then claim_row dbnow r else r) (outbox db)"
  "outboxSeq (snd (claimPendingWebhookDeliveries dbnow now rb limit db)) = outboxSeq db"
  "endpoints (snd (claimPendingWebhookDeliveries dbnow now rb limit db)) = endpoints db"
  by (auto simp: claimPendingWebhookDeliveries_def claim_set_def [symmetric] Let_def list_ex_iff
      image_iff intro!: map_cong)

lemma claim_result:
  "fst (claimPendingWebhookDeliveries dbnow now rb limit db) =
    concat (map (\<lambda>r. case find (\<lambda>ep. ep_ID ep = ob_EndpointID r) (endpoints db) of
      None \<Rightarrow> [] | Some ep \<Rightarrow> [claimed_delivery r ep]) (map (claim_row dbnow) (claim_set now rb limit db)))"
  by (simp add: claimPendingWebhookDeliveries_def claim_set_def Let_def)

lemma claim_set_endpoint:
  assumes "r \<in> set (claim_set now rb limit db)"
  shows "\<exists>ep. find (\<lambda>ep. ep_ID ep = ob_EndpointID r) (endpoints db) = Some ep"
proof -
  have "\<exists>ep \<in> set (endpoints db). ep_ID ep = ob_EndpointID r"
    using claim_set_claimable [OF assms] by (auto simp: claimable_def list_ex_iff)
  then show ?thesis
    by (cases "find (\<lambda>ep. ep_ID ep = ob_EndpointID r) (endpoints db)") (auto simp: find_None_iff)
qed

text \<open>The deliveries of a claim are its rows, in the same order.\<close>

lemma claim_result_rows:
  "map (\<lambda>dl. (ob_ID dl, ob_RoomID dl, ob_TargetAgentID dl, ob_EndpointID dl, ob_AttemptCount dl))
     (fst (claimPendingWebhookDeliveries dbnow now rb limit db)) =
   map (\<lambda>r. (ob_ID r, ob_RoomID r, ob_TargetAgentID r, ob_EndpointID r, ob_AttemptCount r + 1))
     (claim_set now rb limit db)"
proof -
  have "map (\<lambda>dl. (ob_ID dl, ob_RoomID dl, ob_TargetAgentID dl, ob_EndpointID dl, ob_AttemptCount dl))
     (concat (map (\<lambda>r. case find (\<lambda>ep. ep_ID ep = ob_EndpointID r) (endpoints db) of
      None \<Rightarrow> [] | Some ep \<Rightarrow> [claimed_delivery r ep]) (map (claim_row dbnow) rs))) =
    map (\<lambda>r. (ob_ID r, ob_RoomID r, ob_TargetAgentID r, ob_EndpointID r, ob_AttemptCount r + 1)) rs"
    if "\<forall>r \<in> set rs. \<exists>ep. find (\<lambda>ep. ep_ID ep = ob_EndpointID r) (endpoints db) = Some ep" for rs
    using that by (induction rs) (auto simp: claim_row_def claimed_delivery_def)
  from this [of "claim_set now rb limit db"] show ?thesis
    unfolding claim_result using claim_set_endpoint by blast
qed

lemma claim_set_sorted: "sorted (map ob_ID (claim_set now rb limit db))"
  by (simp add: claim_set_def sorted_wrt_take flip: take_map)

lemma claim_set_distinct:
  assumes "outbox_wf db"
  shows "distinct (map ob_ID (claim_set now rb limit db))"
proof -
  have "distinct (map ob_ID (filter (claimable db now rb) (outbox db)))"
    using assms by (simp add: outbox_wf_def distinct_map_filter)
  then have "distinct (map ob_ID (sort_key ob_ID (filter (claimable db now rb) (outbox db))))"
    by (simp add: distinct_map)
  then show ?thesis by (simp add: claim_set_def distinct_take flip: take_map)
qed

lemma claim_limit_bound: "claim_limit limit \<le> 100"
  by (simp add: claim_limit_def nat_le_iff)

text \<open>
  A claim takes the oldest unfinished delivery of a stream. Each claim returns at most 100 deliveries
  in ascending id order, no two of the same room, agent and endpoint; each is a row of the outbox that
  was not finished, whose predecessors in its stream are all delivered or dead-lettered, and its attempt
  counter has gone up by one.
\<close>

theorem claim_oldest_of_stream:
  assumes wf: "outbox_wf db"
    and dls: "dls = fst (claimPendingWebhookDeliveries dbnow now rb limit db)"
  shows "length dls \<le> 100 \<and> sorted_wrt (<) (map ob_ID dls) \<and>
    (\<forall>i j. i < j \<and> j < length dls \<longrightarrow> \<not> same_stream (dls ! i) (dls ! j)) \<and>
    (\<forall>i. i < length dls \<longrightarrow> (\<exists>r \<in> set (outbox db). ob_ID r = ob_ID (dls ! i) \<and> same_stream r (dls ! i) \<and>
       \<not> terminal r \<and> ob_AttemptCount (dls ! i) = ob_AttemptCount r + 1 \<and>
       (\<forall>prev \<in> set (outbox db). same_stream prev r \<and> ob_ID prev < ob_ID r \<longrightarrow> terminal prev)))"
proof -
  let ?rs = "claim_set now rb limit db"
  note rows = claim_result_rows [of dbnow now rb limit db, folded dls]
  have len: "length dls = length ?rs" using arg_cong [OF rows, of length] by (simp only: length_map)
  have nth: "ob_ID (dls ! i) = ob_ID (?rs ! i) \<and> same_stream (?rs ! i) (dls ! i) \<and>
      ob_AttemptCount (dls ! i) = ob_AttemptCount (?rs ! i) + 1" if "i < length dls" for i
  proof -
    have "map (\<lambda>dl. (ob_ID dl, ob_RoomID dl, ob_TargetAgentID dl, ob_EndpointID dl, ob_AttemptCount dl)) dls ! i =
      map (\<lambda>r. (ob_ID r, ob_RoomID r, ob_TargetAgentID r, ob_EndpointID r, ob_AttemptCount r + 1)) ?rs ! i"
      by (simp only: rows)
    then show ?thesis using that len by (auto simp: same_stream_def)
  qed
  have ids: "map ob_ID dls = map ob_ID ?rs"
    using nth len by (intro nth_equalityI) auto
  have lt: "sorted_wrt (<) (map ob_ID dls)"
    using claim_set_sorted claim_set_distinct [OF wf] unfolding ids by (simp add: strict_sorted_iff)
  have r: "?rs ! i \<in> set (outbox db)" "claimable db now rb (?rs ! i)" if "i < length dls" for i
    using claim_set_claimable [OF nth_mem] that len by auto
  have "\<not> same_stream (dls ! i) (dls ! j)" if ij: "i < j" "j < length dls" for i j
  proof
    assume "same_stream (dls ! i) (dls ! j)"
    then have "same_stream (?rs ! i) (?rs ! j)"
      using nth [of i] nth [of j] ij by (auto simp: same_stream_def)
    with claimable_one_per_stream [OF wf r [of i] r [of j]] ij have "?rs ! i = ?rs ! j" by auto
    moreover have "map ob_ID dls ! i < map ob_ID dls ! j"
      using lt ij by (auto simp: sorted_wrt_iff_nth_less)
    ultimately show False using ij nth [of i] nth [of j] by auto
  qed
  moreover have "length dls \<le> 100"
    using claim_limit_bound [of limit] by (simp add: len claim_set_def)
  moreover have "\<exists>r \<in> set (outbox db). ob_ID r = ob_ID (dls ! i) \<and> same_stream r (dls ! i) \<and>
       \<not> terminal r \<and> ob_AttemptCount (dls ! i) = ob_AttemptCount r + 1 \<and>
       (\<forall>prev \<in> set (outbox db). same_stream prev r \<and> ob_ID prev < ob_ID r \<longrightarrow> terminal prev)"
    if i: "i < length dls" for i
    using r [OF i] nth [OF i] claimable_not_terminal [OF r(2) [OF i]] claimable_oldest [OF r(2) [OF i]]
    by (intro bexI [of _ "?rs ! i"]) auto
  ultimately show ?thesis using lt by blast
qed

section \<open>Processing\<close>

text \<open>What processing a delivery may do to its row.\<close>

definition outcome_ok :: "worker \<Rightarrow> delivery_world \<Rightarrow> int \<Rightarrow> WebhookOutboxItem \<Rightarrow> WebhookOutboxItem \<Rightarrow> bool" where
  "outcome_ok w d attempts r r' \<longleftrightarrow> ob_ID r' = ob_ID r \<and> same_stream r r' \<and>
     ob_AttemptCount r' = ob_AttemptCount r \<and>
     (if markOK d then terminal r' \<or> (ob_Status r' = ''pending'' \<and> attempts < maxAttempts w) else r' = r)"

lemma processDelivery_row:
  "\<exists>f. processDelivery K w d dl db = update_row (ob_ID dl) f db \<and>
    (\<forall>r. outcome_ok w d (ob_AttemptCount dl) r (f r))"
proof (cases "markOK d")
  case False
  then have "processDelivery K w d dl db = update_row (ob_ID dl) (\<lambda>r. r) db"
    by (simp add: processDelivery_def failDelivery_def mark_def update_row_def Let_def
        split: sum.splits)
  with False show ?thesis
    by (intro exI [of _ "\<lambda>r. r"]) (simp add: outcome_ok_def same_stream_def)
next
  case True
  have dead: "\<exists>f. MarkWebhookOutboxDeadLetter t i e db = update_row i f db \<and>
      (\<forall>r. outcome_ok w d n r (f r))" for t i e n
    using True by (intro exI) (auto simp: MarkWebhookOutboxDeadLetter_def outcome_ok_def same_stream_def terminal_def)
  have deliv: "\<exists>f. MarkWebhookOutboxDelivered t i db = update_row i f db \<and>
      (\<forall>r. outcome_ok w d n r (f r))" for t i n
    using True by (intro exI) (auto simp: MarkWebhookOutboxDelivered_def outcome_ok_def same_stream_def terminal_def)
  have retry: "\<exists>f. MarkWebhookOutboxPendingRetry t i u e db = update_row i f db \<and>
      (\<forall>r. outcome_ok w d n r (f r))" if "n < maxAttempts w" for t i u e n
    using True that by (intro exI) (auto simp: MarkWebhookOutboxPendingRetry_def outcome_ok_def same_stream_def)
  have fail: "\<exists>f. failDelivery w d dl e st db = update_row (ob_ID dl) f db \<and>
      (\<forall>r. outcome_ok w d (ob_AttemptCount dl) r (f r))" for e st
    using True dead retry by (simp add: failDelivery_def mark_def Let_def)
  show ?thesis
    using True dead deliv fail by (simp add: processDelivery_def mark_def split: sum.splits)
qed

section \<open>Invariants of the outbox\<close>

text \<open>A delivery has been attempted only if everything before it in its stream is finished.\<close>

definition in_order :: "outbox_db \<Rightarrow> bool" where
  "in_order db \<longleftrightarrow> outbox_wf db \<and>
     (\<forall>r \<in> set (outbox db). \<forall>s \<in> set (outbox db). same_stream r s \<and> ob_ID r < ob_ID s \<and>
        0 < ob_AttemptCount s \<longrightarrow> terminal r)"

text \<open>Between rounds with working marks: no row is left claimed, and none has used up its attempts.\<close>

definition within_attempts :: "worker \<Rightarrow> outbox_db \<Rightarrow> bool" where
  "within_attempts w db \<longleftrightarrow> (\<forall>r \<in> set (outbox db). ob_AttemptCount r \<le> maxAttempts w \<and>
     (terminal r \<or> (ob_Status r = ''pending'' \<and> ob_AttemptCount r < maxAttempts w)))"

lemma in_order_map:
  assumes wf: "outbox_wf db" and db': "outbox db' = map g (outbox db)" "outboxSeq db' = outboxSeq db"
    and g: "\<And>r. ob_ID (g r) = ob_ID r \<and> same_stream r (g r) \<and> (0 \<le> ob_AttemptCount r \<longrightarrow> 0 \<le> ob_AttemptCount (g r))"
    and ord: "\<And>r s. r \<in> set (outbox db) \<Longrightarrow> s \<in> set (outbox db) \<Longrightarrow> same_stream r s \<Longrightarrow>
      ob_ID r < ob_ID s \<Longrightarrow> 0 < ob_AttemptCount (g s) \<Longrightarrow> terminal (g r)"
  shows "in_order db'"
proof -
  have ids: "map ob_ID (outbox db') = map ob_ID (outbox db)"
    using g by (simp add: db')
  have "outbox_wf db'"
    using wf g unfolding outbox_wf_def ids by (auto simp: db')
  moreover have "same_stream r s \<longleftrightarrow> same_stream (g r) (g s)" for r s
    using g [of r] g [of s] by (auto simp: same_stream_def)
  ultimately show ?thesis
    using ord g unfolding in_order_def by (auto simp: db')
qed

lemma in_order_claim:
  assumes "in_order db"
  shows "in_order (snd (claimPendingWebhookDeliveries dbnow now rb limit db))"
proof -
  let ?C = "ob_ID ` set (claim_set now rb limit db)"
  let ?g = "\<lambda>r. if ob_ID r \<in> ?C then claim_row dbnow r else r"
  have wf: "outbox_wf db" using assms by (simp add: in_order_def)
  have claimed: "claimable db now rb r" if r: "r \<in> set (outbox db)" "ob_ID r \<in> ?C" for r
  proof -
    from r(2) obtain c where c: "c \<in> set (claim_set now rb limit db)" "ob_ID r = ob_ID c" by blast
    with claim_set_claimable [OF c(1)] ids_inj [OF wf r(1)] show ?thesis by auto
  qed
  show ?thesis
  proof (rule in_order_map [OF wf claim_rows(1,2)])
    show "ob_ID (?g r) = ob_ID r \<and> same_stream r (?g r) \<and>
        (0 \<le> ob_AttemptCount r \<longrightarrow> 0 \<le> ob_AttemptCount (?g r))" for r
      by (simp add: claim_row_def same_stream_def)
    fix r s
    assume rs: "r \<in> set (outbox db)" "s \<in> set (outbox db)" "same_stream r s"
      "ob_ID r < ob_ID s" "0 < ob_AttemptCount (?g s)"
    have t: "terminal r"
    proof (cases "ob_ID s \<in> ?C")
      case True
      show ?thesis by (rule claimable_oldest [OF claimed [OF rs(2) True] rs(1,3,4)])
    next
      case False
      then have "0 < ob_AttemptCount s" using rs(5) by simp
      with rs assms show ?thesis unfolding in_order_def by blast
    qed
    with claimed [OF rs(1)] claimable_not_terminal have "ob_ID r \<notin> ?C" by blast
    with t show "terminal (?g r)" by simp
  qed
qed

text \<open>Changing an unfinished row as processing does keeps the order.\<close>

lemma in_order_update:
  assumes "in_order db" and "\<And>r. r \<in> set (outbox db) \<Longrightarrow> ob_ID r = i \<Longrightarrow> \<not> terminal r"
    and f: "\<And>r. ob_ID (f r) = ob_ID r \<and> same_stream r (f r) \<and> ob_AttemptCount (f r) = ob_AttemptCount r"
  shows "in_order (update_row i f db)"
proof -
  have wf: "outbox_wf db" using assms(1) by (simp add: in_order_def)
  show ?thesis
  proof (rule in_order_map [OF wf, of _ "\<lambda>r. if ob_ID r = i then f r else r"])
    fix r s
    assume rs: "r \<in> set (outbox db)" "s \<in> set (outbox db)" "same_stream r s" "ob_ID r < ob_ID s"
      "0 < ob_AttemptCount (if ob_ID s = i then f s else s)"
    then have "0 < ob_AttemptCount s" using f by (auto split: if_splits)
    then have "terminal r" using rs assms(1) unfolding in_order_def by blast
    with assms(2) rs(1) show "terminal (if ob_ID r = i then f r else r)" by auto
  qed (use f in \<open>auto simp: update_row_def same_stream_def\<close>)
qed

text \<open>The batch that is still to be processed: its rows are claimed and carry the delivery's counter.\<close>

definition batch_ok :: "ClaimedWebhookDelivery list \<Rightarrow> outbox_db \<Rightarrow> bool" where
  "batch_ok dls db \<longleftrightarrow> distinct (map ob_ID dls) \<and>
     (\<forall>dl \<in> set dls. \<forall>r \<in> set (outbox db). ob_ID r = ob_ID dl \<longrightarrow>
        ob_Status r = ''delivering'' \<and> ob_AttemptCount r = ob_AttemptCount dl)"

lemma process_step:
  assumes "batch_ok (dl # dls) db" and "in_order db"
  shows "batch_ok dls (processDelivery K w d dl db) \<and> in_order (processDelivery K w d dl db)"
proof -
  obtain f where f: "processDelivery K w d dl db = update_row (ob_ID dl) f db"
    "\<forall>r. outcome_ok w d (ob_AttemptCount dl) r (f r)"
    using processDelivery_row by blast
  have "in_order (update_row (ob_ID dl) f db)"
  proof (rule in_order_update [OF assms(2)])
    show "\<not> terminal r" if "r \<in> set (outbox db)" "ob_ID r = ob_ID dl" for r
      using assms(1) that by (auto simp: batch_ok_def terminal_def)
    show "ob_ID (f r) = ob_ID r \<and> same_stream r (f r) \<and> ob_AttemptCount (f r) = ob_AttemptCount r" for r
      using f(2) by (simp add: outcome_ok_def)
  qed
  moreover have "batch_ok dls (update_row (ob_ID dl) f db)"
    using assms(1) f(2) by (auto simp: batch_ok_def update_row_def outcome_ok_def)
  ultimately show ?thesis by (simp add: f)
qed

lemma in_order_process: "batch_ok dls db \<Longrightarrow> in_order db \<Longrightarrow> in_order (process_all K w ds n dls db)"
proof (induction K w ds n dls db rule: process_all.induct)
  case (2 K w ds n dl dls db)
  then show ?case using process_step [OF "2.prems", of K w "ds n"] by simp
qed simp

lemma batch_ok_claim:
  assumes wf: "outbox_wf db"
  shows "batch_ok (fst (claimPendingWebhookDeliveries dbnow now rb limit db))
    (snd (claimPendingWebhookDeliveries dbnow now rb limit db))"
proof -
  let ?rs = "claim_set now rb limit db"
  let ?dls = "fst (claimPendingWebhookDeliveries dbnow now rb limit db)"
  have ids: "map ob_ID ?dls = map ob_ID ?rs"
    using arg_cong [OF claim_result_rows [of dbnow now rb limit db], of "map fst"] by (simp add: comp_def)
  have "ob_Status r = ''delivering'' \<and> ob_AttemptCount r = ob_AttemptCount dl"
    if dl: "dl \<in> set ?dls" and r: "r \<in> set (outbox (snd (claimPendingWebhookDeliveries dbnow now rb limit db)))"
      "ob_ID r = ob_ID dl" for dl r
  proof -
    have "(ob_ID dl, ob_RoomID dl, ob_TargetAgentID dl, ob_EndpointID dl, ob_AttemptCount dl) \<in>
        set (map (\<lambda>dl. (ob_ID dl, ob_RoomID dl, ob_TargetAgentID dl, ob_EndpointID dl, ob_AttemptCount dl)) ?dls)"
      using dl by simp
    then have "(ob_ID dl, ob_RoomID dl, ob_TargetAgentID dl, ob_EndpointID dl, ob_AttemptCount dl) \<in>
        set (map (\<lambda>r. (ob_ID r, ob_RoomID r, ob_TargetAgentID r, ob_EndpointID r, ob_AttemptCount r + 1)) ?rs)"
      by (simp only: claim_result_rows)
    then obtain c where c: "c \<in> set ?rs" and eq: "(ob_ID dl, ob_RoomID dl, ob_TargetAgentID dl,
        ob_EndpointID dl, ob_AttemptCount dl) =
      (ob_ID c, ob_RoomID c, ob_TargetAgentID c, ob_EndpointID c, ob_AttemptCount c + 1)"
      by (simp only: set_map image_iff) blast
    have c: "c \<in> set ?rs" "ob_ID dl = ob_ID c" "ob_AttemptCount dl = ob_AttemptCount c + 1"
      using c eq by simp_all
    obtain r0 where r0: "r0 \<in> set (outbox db)"
      "r = (if ob_ID r0 \<in> ob_ID ` set ?rs then claim_row dbnow r0 else r0)"
      using r(1) by (simp only: claim_rows set_map image_iff) blast
    then have "ob_ID r0 = ob_ID c" using c(2) r(2) by (auto simp: claim_row_def split: if_splits)
    then have "r0 = c" using claim_set_claimable [OF c(1)] ids_inj [OF wf r0(1)] by blast
    with r0 c show ?thesis by (auto simp: claim_row_def)
  qed
  then show ?thesis
    using claim_set_distinct [OF wf] by (simp add: batch_ok_def ids)
qed

lemma in_order_RunOnce: "in_order db \<Longrightarrow> in_order (snd (RunOnce K w ds dbnow now db))"
  using in_order_process [OF batch_ok_claim in_order_claim]
  by (simp add: RunOnce_def case_prod_beta in_order_def [of db])

section \<open>Runs of the worker\<close>

text \<open>Events are queued with no attempt made, as the service does; rounds of the worker come in between.\<close>

datatype outbox_step = Enqueue time CreateWebhookOutboxInput
  | Round "nat \<Rightarrow> delivery_world" time time

fun step_ok :: "outbox_step \<Rightarrow> bool" where
  "step_ok (Enqueue now inp) \<longleftrightarrow> coi_AttemptCount inp = 0 \<and> TrimSpace (coi_Status inp) \<in> {[], ''pending''}"
| "step_ok (Round ds dbnow now) \<longleftrightarrow> True"

fun outbox_do :: "crypto \<Rightarrow> worker \<Rightarrow> outbox_step \<Rightarrow> outbox_db \<Rightarrow> outbox_db" where
  "outbox_do K w (Enqueue now inp) db = snd (createWebhookOutbox now inp db)"
| "outbox_do K w (Round ds dbnow now) db = snd (RunOnce K w ds dbnow now db)"

definition outbox_run :: "crypto \<Rightarrow> worker \<Rightarrow> outbox_step list \<Rightarrow> outbox_db \<Rightarrow> outbox_db" where
  "outbox_run K w steps db = fold (outbox_do K w) steps db"

text \<open>
  The loop of the worker. An entry is one turn of it: what the round meets (\<open>None\<close> when claiming fails, which
  is only logged) and whether the ticker comes next or the end of the context.
\<close>

fun worker_Run ::
  "crypto \<Rightarrow> worker \<Rightarrow> (((nat \<Rightarrow> delivery_world) \<times> time \<times> time) option \<times> bool) list \<Rightarrow> outbox_db \<Rightarrow> outbox_db" where
  "worker_Run K w [] db = db"
| "worker_Run K w ((round, tick) # rest) db =
    (let db = (case round of None \<Rightarrow> db | Some (ds, dbnow, now) \<Rightarrow> snd (RunOnce K w ds dbnow now db)) in
     if tick then worker_Run K w rest db else db)"

text \<open>So what holds of rounds holds of the running worker.\<close>

lemma worker_Run_rounds: "\<exists>steps. list_all step_ok steps \<and> worker_Run K w rs db = outbox_run K w steps db"
proof (induction rs arbitrary: db)
  case Nil
  show ?case by (rule exI [of _ "[]"]) (simp add: outbox_run_def)
next
  case (Cons r rs)
  obtain round tick where r: "r = (round, tick)" by fastforce
  define first where "first = (case round of None \<Rightarrow> [] | Some (ds, dbnow, now) \<Rightarrow> [Round ds dbnow now])"
  obtain steps where steps: "list_all step_ok steps"
    "worker_Run K w rs (outbox_run K w first db) = outbox_run K w steps (outbox_run K w first db)"
    using Cons.IH by blast
  have "worker_Run K w (r # rs) db = outbox_run K w (if tick then first @ steps else first) db"
    using steps(2) by (auto simp: r first_def outbox_run_def Let_def split: option.splits prod.splits)
  moreover have "list_all step_ok first" by (auto simp: first_def split: option.splits prod.splits)
  ultimately show ?case using steps(1) by (intro exI [of _ "if tick then first @ steps else first"]) simp
qed

definition emptyOutbox :: "AgentWebhookEndpoint list \<Rightarrow> outbox_db" where
  "emptyOutbox eps = \<lparr>outbox = [], endpoints = eps, outboxSeq = 0\<rparr>"

lemma in_order_enqueue:
  assumes "in_order db" and "coi_AttemptCount inp = 0"
  shows "in_order (snd (createWebhookOutbox now inp db))"
proof -
  obtain row where row: "outbox (snd (createWebhookOutbox now inp db)) = outbox db @ [row]"
    "ob_ID row = outboxSeq db + 1" "ob_AttemptCount row = 0"
    using assms(2) by (simp add: createWebhookOutbox_def Let_def)
  have seq: "outboxSeq (snd (createWebhookOutbox now inp db)) = outboxSeq db + 1"
    by (simp add: createWebhookOutbox_def Let_def)
  have old: "\<forall>r \<in> set (outbox db). ob_ID r \<le> outboxSeq db \<and> 0 \<le> ob_AttemptCount r"
    using assms(1) by (simp add: in_order_def outbox_wf_def)
  then have "ob_ID row \<notin> ob_ID ` set (outbox db)" using row by force
  with assms(1) old row seq have "outbox_wf (snd (createWebhookOutbox now inp db))"
    by (fastforce simp: in_order_def outbox_wf_def)
  with assms(1) row old show ?thesis
    unfolding in_order_def by fastforce
qed

text \<open>
  C23. Webhooks are delivered in order. Whatever is queued, whatever the endpoints answer and even if
  marking statements fail, after any sequence of queued events and worker rounds a delivery of a stream
  (one room, agent and endpoint) has been attempted only if every earlier event of the stream is
  already delivered or dead-lettered.
\<close>

theorem webhooks_in_order:
  assumes "list_all step_ok steps"
    and "r \<in> set (outbox (outbox_run K w steps (emptyOutbox eps)))"
    and "s \<in> set (outbox (outbox_run K w steps (emptyOutbox eps)))"
    and "same_stream r s" and "ob_ID r < ob_ID s" and "0 < ob_AttemptCount s"
  shows "terminal r"
proof -
  have "in_order db \<Longrightarrow> in_order (outbox_run K w steps db)" for db
    using assms(1)
  proof (induction steps arbitrary: db)
    case (Cons x steps)
    then have "in_order (outbox_do K w x db)"
      by (cases x) (auto intro: in_order_RunOnce in_order_enqueue)
    with Cons show ?case by (simp add: outbox_run_def)
  qed (simp add: outbox_run_def)
  moreover have "in_order (emptyOutbox eps)"
    by (simp add: in_order_def outbox_wf_def emptyOutbox_def)
  ultimately show ?thesis using assms(2-6) unfolding in_order_def by blast
qed

definition ex_input :: CreateWebhookOutboxInput where
  "ex_input = \<lparr>coi_RoomID = ''r'', coi_RoomEventID = 1, coi_TargetAgentID = ''a'', coi_EndpointID = ''e'',
     coi_EventType = ''message.created'', coi_Payload = [], coi_Status = [], coi_AttemptCount = 0,
     coi_NextAttemptAt = 0, coi_LastError = []\<rparr>"

definition ex_endpoint :: AgentWebhookEndpoint where
  "ex_endpoint = \<lparr>ep_ID = ''e'', ep_AgentID = ''a'', ep_URL = ''u'', ep_SecretCiphertext = [], ep_KeyID = [],
     ep_Enabled = False, ep_CreatedAt = 0, ep_UpdatedAt = 0\<rparr>"

definition ex_worker :: worker where
  "ex_worker = newWorker ex_crypto 0 0 0 0 0 [] []"

definition ex_world :: delivery_world where
  "ex_world = \<lparr>urlError = (\<lambda>_. None), cipherText = (\<lambda>_. []), hmacHex = (\<lambda>_ _. []),
     payloadString = (\<lambda>_ _. []), answer = (\<lambda>_. Inr 500), signTime = 0, retryTime = 0, markTime = 0,
     jitterDraw = 0, markOK = True\<rparr>"

definition ex_steps :: "outbox_step list" where
  "ex_steps = [Enqueue 0 ex_input, Enqueue 0 ex_input, Round (\<lambda>_. ex_world) 1 1, Round (\<lambda>_. ex_world) 2 2]"

definition ex_row :: "int \<Rightarrow> string \<Rightarrow> int \<Rightarrow> time \<Rightarrow> string \<Rightarrow> WebhookOutboxItem" where
  "ex_row i st n t err = \<lparr>ob_ID = i, ob_RoomID = ''r'', ob_RoomEventID = 1, ob_TargetAgentID = ''a'',
     ob_EndpointID = ''e'', ob_EventType = ''message.created'', ob_Payload = ''{}'', ob_Status = st,
     ob_AttemptCount = n, ob_NextAttemptAt = 0, ob_LastError = err, ob_CreatedAt = 0, ob_UpdatedAt = t\<rparr>"

definition ex_db :: "WebhookOutboxItem list \<Rightarrow> outbox_db" where
  "ex_db rows = \<lparr>outbox = rows, endpoints = [ex_endpoint], outboxSeq = int (length rows)\<rparr>"

lemma ex_enqueue: "outbox_do K w (Enqueue 0 ex_input) (ex_db rows) =
    ex_db (rows @ [ex_row (int (length rows) + 1) ''pending'' 0 0 []])"
  by (simp add: createWebhookOutbox_def ex_input_def ex_db_def ex_row_def zero_time_def Let_def)

text \<open>A round that claims the only claimable row, whose endpoint is disabled.\<close>

lemma ex_round:
  assumes "filter (claimable (ex_db rows) t (t - 45 * Second)) rows = [ex_row i ''pending'' n u []]"
  shows "outbox_do ex_crypto ex_worker (Round (\<lambda>_. ex_world) t t) (ex_db rows) =
    ex_db (map (\<lambda>r. if ob_ID r = i then (claim_row t r)\<lparr>ob_Status := ''dead_letter'',
      ob_LastError := ''endpoint disabled'', ob_UpdatedAt := 0\<rparr> else r) rows)"
proof -
  have "claimPendingWebhookDeliveries t t (t - 45 * Second) 20 (ex_db rows) =
    ([claimed_delivery (claim_row t (ex_row i ''pending'' n u [])) ex_endpoint],
     ex_db (map (\<lambda>r. if i = ob_ID r then claim_row t r else r) rows))"
    using assms by (simp add: claimPendingWebhookDeliveries_def claim_limit_def ex_db_def)
      (simp add: ex_row_def ex_endpoint_def claim_row_def)
  moreover have "ob_ID (claimed_delivery (claim_row t (ex_row i ''pending'' n u [])) ex_endpoint) = i"
    "\<not> cl_EndpointEnabled (claimed_delivery (claim_row t (ex_row i ''pending'' n u [])) ex_endpoint)"
    by (simp_all add: claimed_delivery_def claim_row_def ex_row_def ex_endpoint_def)
  ultimately show ?thesis
    by (simp add: RunOnce_def ex_worker_def newWorker_def processDelivery_def mark_def ex_world_def
        MarkWebhookOutboxDeadLetter_def update_row_def ex_db_def)
      (auto simp: claim_row_def)
qed

lemma ex_outbox:
  "outbox_run ex_crypto ex_worker ex_steps (emptyOutbox [ex_endpoint]) =
     ex_db [ex_row 1 ''dead_letter'' 1 0 ''endpoint disabled'', ex_row 2 ''dead_letter'' 1 0 ''endpoint disabled'']"
proof -
  have "emptyOutbox [ex_endpoint] = ex_db []" by (simp add: emptyOutbox_def ex_db_def)
  moreover have "outbox_do ex_crypto ex_worker (Round (\<lambda>_. ex_world) 1 1)
      (ex_db [ex_row 1 ''pending'' 0 0 [], ex_row 2 ''pending'' 0 0 []]) =
    ex_db [ex_row 1 ''dead_letter'' 1 0 ''endpoint disabled'', ex_row 2 ''pending'' 0 0 []]"
    by (subst ex_round [where i = 1 and n = 0 and u = 0])
      (simp_all add: claimable_def ex_db_def ex_row_def ex_endpoint_def same_stream_def terminal_def claim_row_def)
  moreover have "outbox_do ex_crypto ex_worker (Round (\<lambda>_. ex_world) 2 2)
      (ex_db [ex_row 1 ''dead_letter'' 1 0 ''endpoint disabled'', ex_row 2 ''pending'' 0 0 []]) =
    ex_db [ex_row 1 ''dead_letter'' 1 0 ''endpoint disabled'', ex_row 2 ''dead_letter'' 1 0 ''endpoint disabled'']"
    by (subst ex_round [where i = 2 and n = 0 and u = 0])
      (simp_all add: claimable_def ex_db_def ex_row_def ex_endpoint_def same_stream_def terminal_def claim_row_def)
  ultimately show ?thesis
    by (simp add: outbox_run_def ex_steps_def ex_enqueue del: outbox_do.simps)
qed

theorem webhooks_in_order_witness:
  "list_all step_ok ex_steps \<and> terminal (ex_row 1 ''dead_letter'' 1 0 ''endpoint disabled'')"
proof -
  have ok: "list_all step_ok ex_steps" by (simp add: ex_steps_def ex_input_def)
  have "terminal (ex_row 1 ''dead_letter'' 1 0 ''endpoint disabled'')"
    by (rule webhooks_in_order [OF ok, of _ ex_crypto ex_worker "[ex_endpoint]"
          "ex_row 2 ''dead_letter'' 1 0 ''endpoint disabled''"])
      (simp_all add: ex_outbox ex_db_def, simp_all add: ex_row_def same_stream_def)
  with ok show ?thesis by simp
qed

theorem claim_oldest_of_stream_witness:
  "length (fst (claimPendingWebhookDeliveries 1 1 0 20
     (ex_db [ex_row 1 ''pending'' 0 0 [], ex_row 2 ''pending'' 0 0 []]))) \<le> 100"
proof -
  have "outbox_wf (ex_db [ex_row 1 ''pending'' 0 0 [], ex_row 2 ''pending'' 0 0 []])"
    by (simp add: outbox_wf_def ex_db_def ex_row_def)
  from claim_oldest_of_stream [OF this refl, of 1 1 0 20] show ?thesis by blast
qed

section \<open>Attempts are bounded\<close>

text \<open>In the middle of a batch the rows still to be processed are claimed.\<close>

definition batch_attempts :: "worker \<Rightarrow> ClaimedWebhookDelivery list \<Rightarrow> outbox_db \<Rightarrow> bool" where
  "batch_attempts w dls db \<longleftrightarrow> (\<forall>r \<in> set (outbox db). ob_AttemptCount r \<le> maxAttempts w \<and>
     (terminal r \<or> (ob_Status r = ''pending'' \<and> ob_AttemptCount r < maxAttempts w) \<or>
      ob_ID r \<in> ob_ID ` set dls))"

lemma batch_attempts_step:
  assumes "batch_ok (dl # dls) db" and "batch_attempts w (dl # dls) db" and "markOK d"
  shows "batch_attempts w dls (processDelivery K w d dl db)"
proof -
  obtain f where f: "processDelivery K w d dl db = update_row (ob_ID dl) f db"
    "\<forall>r. outcome_ok w d (ob_AttemptCount dl) r (f r)"
    using processDelivery_row by blast
  have "ob_AttemptCount (f r) \<le> maxAttempts w \<and>
      (terminal (f r) \<or> ob_Status (f r) = ''pending'' \<and> ob_AttemptCount (f r) < maxAttempts w)"
    if r: "r \<in> set (outbox db)" "ob_ID r = ob_ID dl" for r
  proof -
    have "ob_AttemptCount r = ob_AttemptCount dl" using r assms(1) by (auto simp: batch_ok_def)
    moreover have "ob_AttemptCount r \<le> maxAttempts w" using r assms(2) by (simp add: batch_attempts_def)
    moreover have "outcome_ok w d (ob_AttemptCount dl) r (f r)" using f(2) by blast
    ultimately show ?thesis using assms(3) by (auto simp: outcome_ok_def)
  qed
  then show ?thesis
    using assms(2) by (auto simp: f(1) batch_attempts_def update_row_def)
qed

lemma batch_attempts_all:
  "batch_ok dls db \<Longrightarrow> in_order db \<Longrightarrow> batch_attempts w dls db \<Longrightarrow> (\<And>n. markOK (ds n)) \<Longrightarrow>
   within_attempts w (process_all K w ds n dls db)"
proof (induction K w ds n dls db rule: process_all.induct)
  case (2 K w ds n dl dls db)
  then show ?case
    using process_step [OF "2.prems"(1,2), of K w "ds n"]
      batch_attempts_step [OF "2.prems"(1,3,4), of K n] by simp
qed (simp add: batch_attempts_def within_attempts_def)

lemma batch_attempts_claim:
  assumes "outbox_wf db" and "within_attempts w db"
  shows "batch_attempts w (fst (claimPendingWebhookDeliveries dbnow now rb limit db))
    (snd (claimPendingWebhookDeliveries dbnow now rb limit db))"
proof -
  let ?rs = "claim_set now rb limit db"
  let ?dls = "fst (claimPendingWebhookDeliveries dbnow now rb limit db)"
  have "map ob_ID ?dls = map ob_ID ?rs"
    using arg_cong [OF claim_result_rows [of dbnow now rb limit db], of "map fst"] by (simp add: comp_def)
  then have ids: "ob_ID ` set ?dls = ob_ID ` set ?rs" by (metis set_map)
  have open_rows: "ob_AttemptCount r < maxAttempts w" if r: "r \<in> set (outbox db)" "ob_ID r \<in> ob_ID ` set ?rs" for r
  proof -
    from r(2) obtain c where c: "c \<in> set ?rs" "ob_ID r = ob_ID c" by blast
    with claim_set_claimable [OF c(1)] ids_inj [OF assms(1) r(1)] claimable_not_terminal
    have "\<not> terminal r" by blast
    with assms(2) r(1) show ?thesis by (auto simp: within_attempts_def)
  qed
  show ?thesis
    unfolding batch_attempts_def claim_rows ids set_map
    using assms(2) open_rows by (fastforce simp: within_attempts_def claim_row_def)
qed

fun marks_ok :: "outbox_step \<Rightarrow> bool" where
  "marks_ok (Enqueue now inp) = True"
| "marks_ok (Round ds dbnow now) \<longleftrightarrow> (\<forall>n. markOK (ds n))"



section \<open>What an answer does\<close>

lemma update_row_mem:
  assumes "r \<in> set (outbox (update_row i f db))" and "ob_ID r = i" and "\<And>q. ob_ID (f q) = ob_ID q"
  shows "\<exists>q. r = f q"
  using assms by (auto simp: update_row_def split: if_splits)

lemma failDelivery_outcome:
  assumes "markOK d" and "r \<in> set (outbox (failDelivery w d dl e st db))" and "ob_ID r = ob_ID dl"
  shows "ob_Status r =
      (if 400 \<le> st \<and> st < 500 \<and> st \<noteq> 408 \<and> st \<noteq> 429 \<or> ob_AttemptCount dl \<ge> maxAttempts w
       then ''dead_letter'' else ''pending'') \<and>
    (ob_Status r = ''pending'' \<longrightarrow>
       ob_NextAttemptAt r = nextRetryTime w (ob_AttemptCount dl) (retryTime d) (jitterDraw d))"
proof (cases "400 \<le> st \<and> st < 500 \<and> st \<noteq> 408 \<and> st \<noteq> 429 \<or> ob_AttemptCount dl \<ge> maxAttempts w")
  case True
  then have "failDelivery w d dl e st db = MarkWebhookOutboxDeadLetter (markTime d) (ob_ID dl) (clipError e st) db"
    using assms(1) by (auto simp: failDelivery_def mark_def Let_def)
  then have "ob_Status r = ''dead_letter''"
    using assms(2,3) unfolding MarkWebhookOutboxDeadLetter_def by (auto dest!: update_row_mem)
  with True show ?thesis by simp
next
  case False
  then have "failDelivery w d dl e st db = MarkWebhookOutboxPendingRetry (markTime d) (ob_ID dl)
      (nextRetryTime w (ob_AttemptCount dl) (retryTime d) (jitterDraw d)) (clipError e st) db"
    using assms(1) by (auto simp: failDelivery_def mark_def Let_def)
  then have "ob_Status r = ''pending'' \<and>
      ob_NextAttemptAt r = nextRetryTime w (ob_AttemptCount dl) (retryTime d) (jitterDraw d)"
    using assms(2,3) unfolding MarkWebhookOutboxPendingRetry_def by (auto dest!: update_row_mem)
  with False show ?thesis by simp
qed

text \<open>
  C25. How an answer is judged. With a working marking statement, an enabled endpoint and a request that
  could be built: an answer in the 200 range marks the row delivered; an answer in the 400 range other
  than 408 and 429 dead-letters it at once; any other answer, or no answer, dead-letters it if the
  attempts are used up and otherwise puts it back as pending with a later attempt time.
\<close>

theorem delivery_outcome:
  assumes "markOK d" and "cl_EndpointEnabled dl" and "buildRequest K w d dl = Inr req"
    and "r \<in> set (outbox (processDelivery K w d dl db))" and "ob_ID r = ob_ID dl"
  shows "ob_Status r = (case answer d req of
       Inr st \<Rightarrow> if 200 \<le> st \<and> st < 300 then ''delivered''
         else if 400 \<le> st \<and> st < 500 \<and> st \<noteq> 408 \<and> st \<noteq> 429 then ''dead_letter''
         else if ob_AttemptCount dl \<ge> maxAttempts w then ''dead_letter'' else ''pending''
     | Inl _ \<Rightarrow> if ob_AttemptCount dl \<ge> maxAttempts w then ''dead_letter'' else ''pending'') \<and>
    (ob_Status r = ''pending'' \<longrightarrow>
       ob_NextAttemptAt r = nextRetryTime w (ob_AttemptCount dl) (retryTime d) (jitterDraw d))"
proof (cases "\<exists>st. answer d req = Inr st \<and> 200 \<le> st \<and> st < 300")
  case True
  then obtain st where st: "answer d req = Inr st" "200 \<le> st" "st < 300" by blast
  then have "processDelivery K w d dl db = MarkWebhookOutboxDelivered (markTime d) (ob_ID dl) db"
    using assms(1-3) by (simp add: processDelivery_def mark_def)
  then have "ob_Status r = ''delivered''"
    using assms(4,5) unfolding MarkWebhookOutboxDelivered_def by (auto dest!: update_row_mem)
  with st show ?thesis by simp
next
  case False
  show ?thesis
  proof (cases "answer d req")
    case (Inl e)
    with assms have "r \<in> set (outbox (failDelivery w d dl e 0 db))" by (simp add: processDelivery_def)
    from failDelivery_outcome [OF assms(1) this assms(5)] Inl show ?thesis by simp
  next
    case (Inr st)
    with False have "\<not> (200 \<le> st \<and> st < 300)" by blast
    with Inr assms have "r \<in> set (outbox (failDelivery w d dl (''remote status '' @ Itoa st) st db))"
      unfolding processDelivery_def by (simp only: if_False not_True_eq_False sum.case)
    from failDelivery_outcome [OF assms(1) this assms(5)] Inr False show ?thesis by auto
  qed
qed

text \<open>A delivery to an enabled endpoint whose secret is stored as plain text and which answers 500.\<close>

definition ex_delivery :: ClaimedWebhookDelivery where
  "ex_delivery = claimed_delivery (ex_row 1 ''delivering'' 1 0 [])
     (ex_endpoint\<lparr>ep_Enabled := True, ep_SecretCiphertext := ''s''\<rparr>)"

theorem delivery_outcome_witness:
  "\<exists>r \<in> set (outbox (processDelivery ex_crypto ex_worker ex_world ex_delivery
      (ex_db [ex_row 1 ''delivering'' 1 0 []]))). ob_Status r = ''pending''"
proof -
  have "TrimSpace ''s'' = ''s''" "\<not> HasPrefix ''s'' cipher_prefix" by code_simp+
  then have dec: "Decrypt K c ''s'' = Inr ''s''" for K c by (simp add: Decrypt_def)
  then obtain req where req: "buildRequest ex_crypto ex_worker ex_world ex_delivery = Inr req"
    by (simp add: buildRequest_def ex_world_def ex_delivery_def claimed_delivery_def ex_endpoint_def Let_def)
  have d: "markOK ex_world" "answer ex_world req = Inr 500" "cl_EndpointEnabled ex_delivery"
    "ob_ID ex_delivery = 1" "ob_AttemptCount ex_delivery = 1" "maxAttempts ex_worker = 8"
    by (simp_all add: ex_world_def ex_delivery_def claimed_delivery_def ex_endpoint_def ex_row_def
        ex_worker_def newWorker_def)
  obtain f where f: "processDelivery ex_crypto ex_worker ex_world ex_delivery
      (ex_db [ex_row 1 ''delivering'' 1 0 []]) = update_row 1 f (ex_db [ex_row 1 ''delivering'' 1 0 []])"
    "ob_ID (f (ex_row 1 ''delivering'' 1 0 [])) = 1"
    using processDelivery_row [of ex_crypto ex_worker ex_world ex_delivery] d(4)
    by (fastforce simp: outcome_ok_def ex_row_def)
  then have r: "f (ex_row 1 ''delivering'' 1 0 []) \<in> set (outbox (processDelivery ex_crypto ex_worker ex_world
      ex_delivery (ex_db [ex_row 1 ''delivering'' 1 0 []])))"
    by (simp add: update_row_def ex_db_def ex_row_def)
  from delivery_outcome [OF d(1,3) req r] f(2) d have "ob_Status (f (ex_row 1 ''delivering'' 1 0 [])) = ''pending''"
    by simp
  with r show ?thesis by blast
qed

end
