(* ===== verification/Sql_Store.thy ===== *)
theory Sql_Store
  imports Webhook_Worker
begin

text \<open>
  The PostgreSQL store (\<open>internal/repository/postgres/store.go\<close>). The tables are lists of rows in
  order of insertion, with the keys and foreign keys of \<open>migrations/\<close>; each statement is one
  \<open>stmt\<close>. A statement may fail for reasons outside the program (connection, server): \<open>faults\<close>
  says which ones do. \<open>NOW()\<close> is the server clock at the statement, or at the start of the
  transaction inside one. Serial counters do not go back when a transaction is rolled back. Row
  locks and advisory locks only order concurrent transactions; the statements of one transaction
  run without others in between.
\<close>

section \<open>Tables\<close>

record policy_row =
  pol_AgentID :: string
  pol_WindowStartedAt :: time
  pol_ViolationCount :: int
  pol_BlockedUntil :: "time option"

record lease_row =
  ls_LeaseID :: string
  ls_RoomID :: string
  ls_AgentID :: string
  ls_RemoteIP :: string
  ls_OpenedAt :: time
  ls_ExpiresAt :: time

record open_row =
  op_RoomID :: string
  op_AgentID :: string
  op_RemoteIP :: string
  op_OpenedAt :: time

record db =
  t_agents :: "Agent list"
  t_sessions :: "Session list"
  t_listings :: "Listing list"
  t_rooms :: "Room list"
  t_messages :: "Message list"
  t_contexts :: "RoomContextState list"
  t_viewers :: "Viewer list"
  t_events :: "RoomEvent list"
  t_deliveries :: "AgentStreamDelivery list"
  t_tokens :: "RoomScopedToken list"
  t_policy :: "policy_row list"
  t_leases :: "lease_row list"
  t_opens :: "open_row list"
  t_hooks :: outbox_db
  eventSeq :: int
  deliverySeq :: int

text \<open>The connection: the tables, the audit table (only ever written outside transactions), and the world.\<close>

record pg =
  tables :: db
  auditRows :: "AuditEvent list"
  faults :: "nat \<Rightarrow> bool"
  dbClock :: "nat \<Rightarrow> time"
  stmts :: nat
  txTime :: "time option"

section \<open>Statements and transactions\<close>

definition driver_error :: repo_error where
  "driver_error = ErrOther ''driver''"

definition db_now :: "'z pg_scheme \<Rightarrow> time" where
  "db_now s = (case txTime s of None \<Rightarrow> dbClock s (stmts s) | Some t \<Rightarrow> t)"

definition stmt :: "(time \<Rightarrow> db \<Rightarrow> repo_error + ('a \<times> db)) \<Rightarrow> ('z pg_scheme, repo_error + 'a) state" where
  "stmt f = State (\<lambda>s.
     let s' = s\<lparr>stmts := Suc (stmts s)\<rparr> in
     if faults s (stmts s) then (Inl driver_error, s')
     else (case f (db_now s) (tables s) of
       Inl err \<Rightarrow> (Inl err, s')
     | Inr (x, d) \<Rightarrow> (Inr x, s'\<lparr>tables := d\<rparr>)))"

definition query :: "(db \<Rightarrow> repo_error + 'a) \<Rightarrow> ('z pg_scheme, repo_error + 'a) state" where
  "query f = stmt (\<lambda>now d. case f d of Inl err \<Rightarrow> Inl err | Inr x \<Rightarrow> Inr (x, d))"

definition exec :: "(db \<Rightarrow> db) \<Rightarrow> ('z pg_scheme, repo_error + unit) state" where
  "exec f = stmt (\<lambda>now d. Inr ((), f d))"

text \<open>\<open>QueryRow\<close> with \<open>normalizeErr\<close>: no row is \<open>ErrNotFound\<close>.\<close>

definition normalizeErr_row :: "'a option \<Rightarrow> repo_error + 'a" where
  "normalizeErr_row r = (case r of None \<Rightarrow> Inl ErrNotFound | Some x \<Rightarrow> Inr x)"

text \<open>Sequencing of fallible programs: stop at the first error.\<close>

definition attempt :: "('s, 'e + 'a) state \<Rightarrow> ('a \<Rightarrow> ('s, 'e + 'b) state) \<Rightarrow> ('s, 'e + 'b) state" where
  "attempt m f = do { r \<leftarrow> m; case r of Inl err \<Rightarrow> State_Monad.return (Inl err) | Inr x \<Rightarrow> f x }"

definition fail :: "'e \<Rightarrow> ('s, 'e + 'a) state" where
  "fail err = State_Monad.return (Inl err)"

definition ok :: "'a \<Rightarrow> ('s, 'e + 'a) state" where
  "ok x = State_Monad.return (Inr x)"

text \<open>The error of a program carried into another error type, and an error turned into something else.\<close>

definition mapErr :: "('e \<Rightarrow> 'f) \<Rightarrow> ('s, 'e + 'a) state \<Rightarrow> ('s, 'f + 'a) state" where
  "mapErr g m = do { r \<leftarrow> m; State_Monad.return (case r of Inl err \<Rightarrow> Inl (g err) | Inr x \<Rightarrow> Inr x) }"

definition rescue :: "('s, 'e + 'a) state \<Rightarrow> ('e \<Rightarrow> ('s, 'f + 'a) state) \<Rightarrow> ('s, 'f + 'a) state" where
  "rescue m h = do { r \<leftarrow> m; case r of Inl err \<Rightarrow> h err | Inr x \<Rightarrow> State_Monad.return (Inr x) }"

text \<open>Rolling back restores the rows, not the serial counters.\<close>

definition rolled_back :: "db \<Rightarrow> db \<Rightarrow> db" where
  "rolled_back saved cur = saved\<lparr>eventSeq := eventSeq cur, deliverySeq := deliverySeq cur,
     t_hooks := (t_hooks saved)\<lparr>outboxSeq := outboxSeq (t_hooks cur)\<rparr>\<rparr>"

definition BeginTx :: "('z pg_scheme, repo_error + unit) state" where
  "BeginTx = State (\<lambda>s.
     if faults s (stmts s) then (Inl driver_error, s\<lparr>stmts := Suc (stmts s)\<rparr>)
     else (Inr (), s\<lparr>stmts := Suc (stmts s), txTime := Some (dbClock s (stmts s))\<rparr>))"

definition Rollback :: "db \<Rightarrow> ('z pg_scheme, unit) state" where
  "Rollback saved = modify (\<lambda>s. s\<lparr>tables := rolled_back saved (tables s), txTime := None\<rparr>)"

definition Commit :: "db \<Rightarrow> ('z pg_scheme, repo_error + unit) state" where
  "Commit saved = State (\<lambda>s.
     if faults s (stmts s) then
       (Inl driver_error, s\<lparr>stmts := Suc (stmts s), tables := rolled_back saved (tables s), txTime := None\<rparr>)
     else (Inr (), s\<lparr>stmts := Suc (stmts s), txTime := None\<rparr>))"

text \<open>\<open>WithTx\<close>; \<open>wrap\<close> injects the store's errors into the errors of the callback.\<close>

definition WithTx ::
  "(repo_error \<Rightarrow> 'e) \<Rightarrow> ('z pg_scheme, 'e + 'a) state \<Rightarrow> ('z pg_scheme, 'e + 'a) state" where
  "WithTx wrap fn = do {
     saved \<leftarrow> gets tables;
     b \<leftarrow> BeginTx;
     case b of
       Inl err \<Rightarrow> State_Monad.return (Inl (wrap err))
     | Inr _ \<Rightarrow> do {
         r \<leftarrow> fn;
         case r of
           Inl err \<Rightarrow> do { Rollback saved; State_Monad.return (Inl err) }
         | Inr x \<Rightarrow> do {
             c \<leftarrow> Commit saved;
             case c of
               Inl err \<Rightarrow> State_Monad.return (Inl (wrap err))
             | Inr _ \<Rightarrow> State_Monad.return (Inr x) } } }"

section \<open>Agents, sessions, listings\<close>

definition nullableText :: "string \<Rightarrow> string" where
  "nullableText value = TrimSpace value"

definition has_agent :: "db \<Rightarrow> string \<Rightarrow> bool" where
  "has_agent d i \<longleftrightarrow> (\<exists>a \<in> set (t_agents d). agt_ID a = i)"

definition has_room :: "db \<Rightarrow> string \<Rightarrow> bool" where
  "has_room d i \<longleftrightarrow> (\<exists>r \<in> set (t_rooms d). room_ID r = i)"

definition fk_error :: repo_error where
  "fk_error = ErrOther ''foreign key''"

definition CreateAgent :: "CreateAgentInput \<Rightarrow> ('z pg_scheme, repo_error + Agent) state" where
  "CreateAgent inp = stmt (\<lambda>now d.
     if \<exists>a \<in> set (t_agents d). agt_ID a = cai_ID inp \<or> agt_APIKeyHash a = cai_APIKeyHash inp then Inl ErrConflict
     else let row = \<lparr>agt_ID = cai_ID inp, agt_Name = cai_Name inp, agt_APIKeyHash = cai_APIKeyHash inp,
                     agt_CreatedAt = now\<rparr>
          in Inr (row, d\<lparr>t_agents := t_agents d @ [row]\<rparr>))"

definition FindAgentByAPIKeyHash :: "string \<Rightarrow> ('z pg_scheme, repo_error + Agent) state" where
  "FindAgentByAPIKeyHash h = query (\<lambda>d. normalizeErr_row (find (\<lambda>a. agt_APIKeyHash a = h) (t_agents d)))"

definition CreateSession :: "CreateSessionInput \<Rightarrow> ('z pg_scheme, repo_error + Session) state" where
  "CreateSession inp = stmt (\<lambda>now d.
     if \<exists>x \<in> set (t_sessions d). ses_Token x = csi_Token inp then Inl ErrConflict
     else if \<not> has_agent d (csi_AgentID inp) then Inl fk_error
     else let row = \<lparr>ses_Token = csi_Token inp, ses_AgentID = csi_AgentID inp, ses_CreatedAt = now,
                     ses_ExpiresAt = csi_ExpiresAt inp\<rparr>
          in Inr (row, d\<lparr>t_sessions := t_sessions d @ [row]\<rparr>))"

definition FindSession :: "string \<Rightarrow> ('z pg_scheme, repo_error + Session) state" where
  "FindSession token = query (\<lambda>d. normalizeErr_row (find (\<lambda>x. ses_Token x = token) (t_sessions d)))"

definition CreateListing_row :: "CreateListingInput \<Rightarrow> ('z pg_scheme, repo_error + Listing) state" where
  "CreateListing_row inp = stmt (\<lambda>now d.
     let roomID = nullableText (cli_RoomID inp) in
     if \<exists>l \<in> set (t_listings d). lst_ID l = cli_ID inp \<or> (roomID \<noteq> [] \<and> lst_RoomID l = roomID) then Inl ErrConflict
     else if \<not> has_agent d (cli_AgentID inp) \<or> (roomID \<noteq> [] \<and> \<not> has_room d roomID) then Inl fk_error
     else let row = \<lparr>lst_ID = cli_ID inp, lst_AgentID = cli_AgentID inp, lst_Topic = cli_Topic inp,
                     lst_Tags = cli_Tags inp, lst_MaxTurns = cli_MaxTurns inp, lst_TTLSeconds = cli_TTLSeconds inp,
                     lst_Connected = False, lst_CreatedAt = now, lst_RoomID = roomID\<rparr>
          in Inr (row, d\<lparr>t_listings := t_listings d @ [row]\<rparr>))"

definition GetListing :: "string \<Rightarrow> ('z pg_scheme, repo_error + Listing) state" where
  "GetListing i = query (\<lambda>d. normalizeErr_row (find (\<lambda>l. lst_ID l = i) (t_listings d)))"

definition MarkListingConnected :: "string \<Rightarrow> ('z pg_scheme, repo_error + unit) state" where
  "MarkListingConnected i = stmt (\<lambda>now d.
     if \<not> (\<exists>l \<in> set (t_listings d). lst_ID l = i) then Inl ErrNotFound
     else Inr ((), d\<lparr>t_listings := map (\<lambda>l. if lst_ID l = i then l\<lparr>lst_Connected := True\<rparr> else l) (t_listings d)\<rparr>))"

section \<open>Rooms and messages\<close>

definition CreateRoom :: "CreateRoomInput \<Rightarrow> ('z pg_scheme, repo_error + Room) state" where
  "CreateRoom inp = stmt (\<lambda>now d.
     let agentB = nullableText (cri_AgentBID inp) in
     if has_room d (cri_ID inp) then Inl ErrConflict
     else if \<not> has_agent d (cri_AgentAID inp) \<or> (agentB \<noteq> [] \<and> \<not> has_agent d agentB) then Inl fk_error
     else let row = \<lparr>room_ID = cri_ID inp, room_Topic = cri_Topic inp, room_AgentAID = cri_AgentAID inp,
                     room_AgentBID = agentB, room_State = cri_State inp, room_TurnIndex = cri_TurnIndex inp,
                     room_MaxTurns = cri_MaxTurns inp, room_TTLAt = cri_TTLAt inp, room_CreatedAt = now,
                     room_ClosedAt = None, room_PurgedAt = None, room_HumanCodeHash = cri_HumanCodeHash inp,
                     room_HumanCodeExpiresAt = cri_HumanCodeExpiresAt inp,
                     room_MessageKeyCiphertext = nullableText (cri_MessageKeyCiphertext inp)\<rparr>
          in Inr (row, d\<lparr>t_rooms := t_rooms d @ [row]\<rparr>))"

definition find_room :: "db \<Rightarrow> string \<Rightarrow> Room option" where
  "find_room d i = find (\<lambda>r. room_ID r = i) (t_rooms d)"

definition GetRoom :: "string \<Rightarrow> ('z pg_scheme, repo_error + Room) state" where
  "GetRoom i = query (\<lambda>d. normalizeErr_row (find_room d i))"

text \<open>The struct with the non-nil fields of the input written into it, as \<open>UpdateRoom\<close> binds it.\<close>

definition merge_update :: "UpdateRoomInput \<Rightarrow> Room \<Rightarrow> Room" where
  "merge_update inp r = r\<lparr>
     room_State := (case uri_State inp of None \<Rightarrow> room_State r | Some x \<Rightarrow> x),
     room_AgentBID := (case uri_AgentBID inp of None \<Rightarrow> room_AgentBID r | Some x \<Rightarrow> x),
     room_TurnIndex := (case uri_TurnIndex inp of None \<Rightarrow> room_TurnIndex r | Some x \<Rightarrow> x),
     room_ClosedAt := (case uri_ClosedAt inp of None \<Rightarrow> room_ClosedAt r | Some x \<Rightarrow> Some x),
     room_PurgedAt := (case uri_PurgedAt inp of None \<Rightarrow> room_PurgedAt r | Some x \<Rightarrow> Some x),
     room_MessageKeyCiphertext := (case uri_MessageKeyCiphertext inp of None \<Rightarrow> room_MessageKeyCiphertext r | Some x \<Rightarrow> x),
     room_Topic := (case uri_Topic inp of None \<Rightarrow> room_Topic r | Some x \<Rightarrow> x)\<rparr>"

definition write_room :: "Room \<Rightarrow> Room \<Rightarrow> Room" where
  "write_room current r = r\<lparr>
     room_Topic := (if nullableText (room_Topic current) = [] then room_Topic r else nullableText (room_Topic current)),
     room_AgentBID := nullableText (room_AgentBID current), room_State := room_State current,
     room_TurnIndex := room_TurnIndex current, room_ClosedAt := room_ClosedAt current,
     room_PurgedAt := room_PurgedAt current,
     room_MessageKeyCiphertext := nullableText (room_MessageKeyCiphertext current)\<rparr>"

definition UpdateRoom :: "UpdateRoomInput \<Rightarrow> ('z pg_scheme, repo_error + Room) state" where
  "UpdateRoom inp =
    attempt (GetRoom (uri_ID inp)) (\<lambda>r.
    stmt (\<lambda>now d.
      let current = merge_update inp r in
      if nullableText (room_AgentBID current) \<noteq> [] \<and> \<not> has_agent d (nullableText (room_AgentBID current)) then Inl fk_error
      else (let d' = d\<lparr>t_rooms := map (\<lambda>x. if room_ID x = room_ID current then write_room current x else x) (t_rooms d)\<rparr>
            in (case find_room d' (room_ID current) of
                  None \<Rightarrow> Inl ErrNotFound
                | Some x \<Rightarrow> Inr (x, d')))))"

definition update_room_input :: "string \<Rightarrow> UpdateRoomInput" where
  "update_room_input i = \<lparr>uri_ID = i, uri_Topic = None, uri_AgentBID = None, uri_State = None,
     uri_TurnIndex = None, uri_ClosedAt = None, uri_PurgedAt = None, uri_MessageKeyCiphertext = None\<rparr>"

definition AppendMessage :: "AppendMessageInput \<Rightarrow> ('z pg_scheme, repo_error + Message) state" where
  "AppendMessage inp = stmt (\<lambda>now d.
     if \<exists>m \<in> set (t_messages d). msg_ID m = ami_ID inp \<or>
          (msg_RoomID m = ami_RoomID inp \<and> msg_Turn m = ami_Turn inp) then Inl ErrConflict
     else if \<not> has_room d (ami_RoomID inp) \<or> \<not> has_agent d (ami_SenderID inp) then Inl fk_error
     else let row = \<lparr>msg_ID = ami_ID inp, msg_RoomID = ami_RoomID inp, msg_SenderID = ami_SenderID inp,
                     msg_SenderName = [], msg_Turn = ami_Turn inp, msg_Ciphertext = ami_Ciphertext inp,
                     msg_CreatedAt = now\<rparr>
          in Inr (row, d\<lparr>t_messages := t_messages d @ [row]\<rparr>))"

definition room_messages :: "db \<Rightarrow> string \<Rightarrow> Message list" where
  "room_messages d i = sort_key msg_Turn (filter (\<lambda>m. msg_RoomID m = i) (t_messages d))"

text \<open>The join with \<open>agents\<close> fills in the sender's name.\<close>

definition with_sender_name :: "db \<Rightarrow> Message \<Rightarrow> Message" where
  "with_sender_name d m = (case find (\<lambda>a. agt_ID a = msg_SenderID m) (t_agents d) of
     None \<Rightarrow> m | Some a \<Rightarrow> m\<lparr>msg_SenderName := agt_Name a\<rparr>)"

definition ListRoomMessages :: "string \<Rightarrow> ('z pg_scheme, repo_error + Message list) state" where
  "ListRoomMessages i = query (\<lambda>d. Inr (map (with_sender_name d) (room_messages d i)))"

definition ListRecentRoomMessages :: "string \<Rightarrow> int \<Rightarrow> ('z pg_scheme, repo_error + Message list) state" where
  "ListRecentRoomMessages i limit = query (\<lambda>d.
     let limit = (if limit \<le> 0 then 1 else limit);
         desc = take (nat limit) (rev (room_messages d i))
     in Inr (map (with_sender_name d) (sort_key msg_Turn desc)))"

definition CountMessagesBySenderSince :: "string \<Rightarrow> time \<Rightarrow> ('z pg_scheme, repo_error + int) state" where
  "CountMessagesBySenderSince senderID since = query (\<lambda>d. Inr (int (length
     (filter (\<lambda>m. msg_SenderID m = TrimSpace senderID \<and> msg_CreatedAt m \<ge> since) (t_messages d)))))"

definition CountMessagesByRoomSince :: "string \<Rightarrow> time \<Rightarrow> ('z pg_scheme, repo_error + int) state" where
  "CountMessagesByRoomSince roomID since = query (\<lambda>d. Inr (int (length
     (filter (\<lambda>m. msg_RoomID m = TrimSpace roomID \<and> msg_CreatedAt m \<ge> since) (t_messages d)))))"

definition LockRoom :: "string \<Rightarrow> ('z pg_scheme, repo_error + unit) state" where
  "LockRoom roomID = (let roomID = TrimSpace roomID in
     if roomID = [] then fail (ErrOther ''invalid room lock key'')
     else query (\<lambda>d. case find_room d roomID of None \<Rightarrow> Inl ErrNotFound | Some _ \<Rightarrow> Inr ()))"

definition LockAdvisory :: "string \<Rightarrow> ('z pg_scheme, repo_error + unit) state" where
  "LockAdvisory key = (if TrimSpace key = [] then fail (ErrOther ''invalid advisory lock key'')
     else query (\<lambda>d. Inr ()))"

section \<open>Contexts and viewers\<close>

definition find_context :: "db \<Rightarrow> string \<Rightarrow> RoomContextState option" where
  "find_context d i = find (\<lambda>c. rc_RoomID c = i) (t_contexts d)"

definition GetRoomContext :: "string \<Rightarrow> ('z pg_scheme, repo_error + RoomContextState) state" where
  "GetRoomContext i = query (\<lambda>d. normalizeErr_row (find_context d i))"

definition UpsertRoomContext :: "UpsertRoomContextInput \<Rightarrow> ('z pg_scheme, repo_error + RoomContextState) state" where
  "UpsertRoomContext inp = stmt (\<lambda>now d.
     case find_context d (uci_RoomID inp) of
       None \<Rightarrow>
         if \<not> has_room d (uci_RoomID inp) then Inl fk_error
         else let row = \<lparr>rc_RoomID = uci_RoomID inp, rc_Context = uci_Context inp, rc_Version = uci_Version inp,
                         rc_UpdatedAt = now, rc_CreatedAt = now\<rparr>
              in Inr (row, d\<lparr>t_contexts := t_contexts d @ [row]\<rparr>)
     | Some c \<Rightarrow>
         if rc_Version c \<noteq> uci_Version inp - 1 then Inl ErrConflict
         else let row = c\<lparr>rc_Context := uci_Context inp, rc_Version := uci_Version inp, rc_UpdatedAt := now\<rparr>
              in Inr (row, d\<lparr>t_contexts := map (\<lambda>x. if rc_RoomID x = uci_RoomID inp then row else x) (t_contexts d)\<rparr>))"

definition UpsertViewer :: "UpsertViewerInput \<Rightarrow> ('z pg_scheme, repo_error + Viewer) state" where
  "UpsertViewer inp = stmt (\<lambda>now d.
     case find (\<lambda>x. vw_ViewerToken x = uvi_ViewerToken inp) (t_viewers d) of
       None \<Rightarrow>
         if \<exists>x \<in> set (t_viewers d). vw_ID x = uvi_ID inp then Inl ErrConflict
         else if \<not> has_room d (uvi_RoomID inp) then Inl fk_error
         else let row = \<lparr>vw_ID = uvi_ID inp, vw_RoomID = uvi_RoomID inp, vw_ViewerToken = uvi_ViewerToken inp,
                         vw_JoinedAt = uvi_JoinedAt inp, vw_LastHeartbeatAt = uvi_LastHeartbeatAt inp,
                         vw_LeftAt = uvi_LeftAt inp\<rparr>
              in Inr (row, d\<lparr>t_viewers := t_viewers d @ [row]\<rparr>)
     | Some x \<Rightarrow>
         let row = x\<lparr>vw_LastHeartbeatAt := uvi_LastHeartbeatAt inp, vw_LeftAt := uvi_LeftAt inp\<rparr>
         in Inr (row, d\<lparr>t_viewers := map (\<lambda>y. if vw_ViewerToken y = uvi_ViewerToken inp then row else y) (t_viewers d)\<rparr>))"

definition GetViewer :: "string \<Rightarrow> ('z pg_scheme, repo_error + Viewer) state" where
  "GetViewer token = query (\<lambda>d. normalizeErr_row (find (\<lambda>x. vw_ViewerToken x = token) (t_viewers d)))"

definition active_viewers :: "db \<Rightarrow> string \<Rightarrow> time \<Rightarrow> Viewer list" where
  "active_viewers d roomID since =
    filter (\<lambda>x. vw_RoomID x = roomID \<and> vw_LeftAt x = None \<and> vw_LastHeartbeatAt x \<ge> since) (t_viewers d)"

definition CountActiveViewers :: "string \<Rightarrow> time \<Rightarrow> ('z pg_scheme, repo_error + int) state" where
  "CountActiveViewers roomID since = query (\<lambda>d. Inr (int (length (active_viewers d roomID since))))"

section \<open>Audit and events\<close>

definition AppendAuditEvent :: "AppendAuditEventInput \<Rightarrow> ('z pg_scheme, repo_error + unit) state" where
  "AppendAuditEvent inp = State (\<lambda>s.
     let s' = s\<lparr>stmts := Suc (stmts s)\<rparr> in
     if faults s (stmts s) then (Inl driver_error, s')
     else (Inr (), s'\<lparr>auditRows := auditRows s @
       [\<lparr>au_ID = int (length (auditRows s)) + 1, au_RoomID = aai_RoomID inp, au_Event = aai_Event inp,
         au_Meta = aai_Meta inp, au_MessageCount = aai_MessageCount inp, au_CreatedAt = dbClock s (stmts s)\<rparr>]\<rparr>))"

text \<open>The stored row keeps no ciphertext; the returned one gets it from the message or the input.\<close>

definition event_ciphertext :: "db \<Rightarrow> string option \<Rightarrow> string option" where
  "event_ciphertext d mid = (case mid of None \<Rightarrow> None
     | Some i \<Rightarrow> map_option msg_Ciphertext (find (\<lambda>m. msg_ID m = i) (t_messages d)))"

definition AppendRoomEvent :: "AppendRoomEventInput \<Rightarrow> ('z pg_scheme, repo_error + RoomEvent) state" where
  "AppendRoomEvent inp = stmt (\<lambda>now d.
     if \<not> has_room d (aei_RoomID inp) then Inl fk_error
     else let i = eventSeq d + 1;
              row = \<lparr>ev_ID = i, ev_RoomID = aei_RoomID inp, ev_EventType = aei_EventType inp,
                     ev_MessageID = aei_MessageID inp, ev_Turn = aei_Turn inp, ev_SenderID = aei_SenderID inp,
                     ev_Ciphertext = None, ev_CreatedAt = now\<rparr>;
              c = (case event_ciphertext d (aei_MessageID inp) of None \<Rightarrow> aei_Ciphertext inp | Some x \<Rightarrow> Some x)
          in Inr (row\<lparr>ev_Ciphertext := c\<rparr>, d\<lparr>t_events := t_events d @ [row], eventSeq := i\<rparr>))"

definition joined_event :: "db \<Rightarrow> RoomEvent \<Rightarrow> RoomEvent" where
  "joined_event d e = e\<lparr>ev_Ciphertext := event_ciphertext d (ev_MessageID e)\<rparr>"

definition GetRoomEvent :: "int \<Rightarrow> ('z pg_scheme, repo_error + RoomEvent) state" where
  "GetRoomEvent i = query (\<lambda>d. normalizeErr_row (map_option (joined_event d) (find (\<lambda>e. ev_ID e = i) (t_events d))))"

definition ListRoomEvents :: "ListRoomEventsInput \<Rightarrow> ('z pg_scheme, repo_error + RoomEvent list) state" where
  "ListRoomEvents inp = query (\<lambda>d.
     let limit = (if lei_Limit inp \<le> 0 \<or> lei_Limit inp > 500 then 200 else lei_Limit inp)
     in Inr (map (joined_event d) (take (nat limit) (sort_key ev_ID
          (filter (\<lambda>e. ev_RoomID e = lei_RoomID inp \<and> ev_ID e > lei_SinceID inp) (t_events d))))))"

section \<open>Agent stream deliveries\<close>

definition createAgentStreamDelivery ::
  "CreateAgentStreamDeliveryInput \<Rightarrow> ('z pg_scheme, repo_error + AgentStreamDelivery) state" where
  "createAgentStreamDelivery inp = stmt (\<lambda>now d.
     let st = (if TrimSpace (cdi_Status inp) = [] then ''pending'' else TrimSpace (cdi_Status inp));
         payload = (if length (cdi_Payload inp) = 0 then ''{}'' else cdi_Payload inp);
         expiresAt = (if cdi_ExpiresAt inp = zero_time then now + 30 * Minute else cdi_ExpiresAt inp);
         i = deliverySeq d + 1
     in if \<exists>x \<in> set (t_deliveries d). asd_DeliveryID x = cdi_DeliveryID inp then Inl ErrConflict
        else if \<not> has_agent d (cdi_AgentID inp) \<or> \<not> has_room d (cdi_RoomID inp) then Inl fk_error
        else let row = \<lparr>asd_Seq = i, asd_DeliveryID = cdi_DeliveryID inp, asd_AgentID = cdi_AgentID inp,
                        asd_RoomID = cdi_RoomID inp, asd_Type = cdi_Type inp, asd_Reason = cdi_Reason inp,
                        asd_Payload = payload, asd_Status = st, asd_CreatedAt = now, asd_AckedAt = None,
                        asd_ExpiresAt = expiresAt\<rparr>
             in Inr (row, d\<lparr>t_deliveries := t_deliveries d @ [row], deliverySeq := i\<rparr>))"

definition GetAgentStreamDelivery :: "string \<Rightarrow> string \<Rightarrow> ('z pg_scheme, repo_error + AgentStreamDelivery) state" where
  "GetAgentStreamDelivery agentID deliveryID = query (\<lambda>d. normalizeErr_row
     (find (\<lambda>x. asd_AgentID x = agentID \<and> asd_DeliveryID x = deliveryID) (t_deliveries d)))"

definition ListPendingAgentStreamDeliveries ::
  "string \<Rightarrow> int \<Rightarrow> time \<Rightarrow> int \<Rightarrow> ('z pg_scheme, repo_error + AgentStreamDelivery list) state" where
  "ListPendingAgentStreamDeliveries agentID afterSeq now limit = query (\<lambda>d.
     let limit = (if limit \<le> 0 \<or> limit > 200 then 100 else limit)
     in Inr (take (nat limit) (sort_key asd_Seq (filter (\<lambda>x. asd_AgentID x = agentID \<and> asd_Seq x > afterSeq \<and>
          asd_Status x = ''pending'' \<and> asd_ExpiresAt x > now) (t_deliveries d)))))"

definition AckAgentStreamDelivery :: "string \<Rightarrow> string \<Rightarrow> time \<Rightarrow> ('z pg_scheme, repo_error + unit) state" where
  "AckAgentStreamDelivery agentID deliveryID ackedAt = stmt (\<lambda>now d.
     let hit = (\<lambda>x. asd_AgentID x = agentID \<and> asd_DeliveryID x = deliveryID) in
     if \<not> (\<exists>x \<in> set (t_deliveries d). hit x) then Inl ErrNotFound
     else Inr ((), d\<lparr>t_deliveries := map (\<lambda>x. if hit x then x\<lparr>asd_Status := ''acked'',
            asd_AckedAt := (case asd_AckedAt x of None \<Rightarrow> Some ackedAt | Some t \<Rightarrow> Some t)\<rparr> else x) (t_deliveries d)\<rparr>))"

section \<open>Webhook endpoints\<close>

definition CreateAgentWebhookEndpoint ::
  "CreateAgentWebhookEndpointInput \<Rightarrow> ('z pg_scheme, repo_error + AgentWebhookEndpoint) state" where
  "CreateAgentWebhookEndpoint inp = stmt (\<lambda>now d.
     if \<exists>x \<in> set (endpoints (t_hooks d)). ep_ID x = cei_ID inp then Inl ErrConflict
     else if \<not> has_agent d (cei_AgentID inp) then Inl fk_error
     else let row = \<lparr>ep_ID = cei_ID inp, ep_AgentID = cei_AgentID inp, ep_URL = cei_URL inp,
                     ep_SecretCiphertext = cei_SecretCiphertext inp, ep_KeyID = cei_KeyID inp,
                     ep_Enabled = cei_Enabled inp, ep_CreatedAt = now, ep_UpdatedAt = now\<rparr>
          in Inr (row, d\<lparr>t_hooks := (t_hooks d)\<lparr>endpoints := endpoints (t_hooks d) @ [row]\<rparr>\<rparr>))"

definition ListAgentWebhookEndpoints :: "string \<Rightarrow> ('z pg_scheme, repo_error + AgentWebhookEndpoint list) state" where
  "ListAgentWebhookEndpoints agentID = query (\<lambda>d. Inr (rev (sort_key ep_CreatedAt
     (filter (\<lambda>x. ep_AgentID x = agentID) (endpoints (t_hooks d))))))"

text \<open>The data-modifying subqueries of \<open>DeleteAgentWebhookEndpoint\<close> both run, whatever the other finds.\<close>

definition DeleteAgentWebhookEndpoint :: "string \<Rightarrow> string \<Rightarrow> ('z pg_scheme, repo_error + unit) state" where
  "DeleteAgentWebhookEndpoint agentID endpointID = attempt
     (stmt (\<lambda>now d.
        let hit = (\<lambda>x. ep_ID x = endpointID \<and> ep_AgentID x = agentID);
            deleted = length (filter hit (endpoints (t_hooks d)))
        in Inr (deleted, d\<lparr>t_hooks := (t_hooks d)\<lparr>
             outbox := filter (\<lambda>r. ob_EndpointID r \<noteq> endpointID) (outbox (t_hooks d)),
             endpoints := filter (\<lambda>x. \<not> hit x) (endpoints (t_hooks d))\<rparr>\<rparr>)))
     (\<lambda>deleted. if deleted = 0 then fail ErrNotFound else ok ())"

definition CreateWebhookOutbox :: "CreateWebhookOutboxInput \<Rightarrow> ('z pg_scheme, repo_error + WebhookOutboxItem) state" where
  "CreateWebhookOutbox inp = stmt (\<lambda>now d.
     if \<not> has_room d (coi_RoomID inp) \<or> \<not> has_agent d (coi_TargetAgentID inp) \<or>
        \<not> (\<exists>e \<in> set (t_events d). ev_ID e = coi_RoomEventID inp) \<or>
        \<not> (\<exists>x \<in> set (endpoints (t_hooks d)). ep_ID x = coi_EndpointID inp) then Inl fk_error
     else (case createWebhookOutbox now inp (t_hooks d) of (row, h) \<Rightarrow> Inr (row, d\<lparr>t_hooks := h\<rparr>)))"

section \<open>Room tokens\<close>

definition CreateRoomScopedToken :: "CreateRoomScopedTokenInput \<Rightarrow> ('z pg_scheme, repo_error + RoomScopedToken) state" where
  "CreateRoomScopedToken inp = stmt (\<lambda>now d.
     if \<exists>x \<in> set (t_tokens d). rt_ID x = cti_ID inp \<or> rt_TokenHash x = cti_TokenHash inp then Inl ErrConflict
     else if \<not> has_room d (cti_RoomID inp) \<or> \<not> has_agent d (cti_AgentID inp) then Inl fk_error
     else let row = \<lparr>rt_ID = cti_ID inp, rt_RoomID = cti_RoomID inp, rt_AgentID = cti_AgentID inp,
                     rt_TokenHash = cti_TokenHash inp, rt_Scope = cti_Scope inp, rt_ExpiresAt = cti_ExpiresAt inp,
                     rt_RevokedAt = None, rt_CreatedAt = now\<rparr>
          in Inr (row, d\<lparr>t_tokens := t_tokens d @ [row]\<rparr>))"

definition FindRoomScopedTokenByHash :: "string \<Rightarrow> ('z pg_scheme, repo_error + RoomScopedToken) state" where
  "FindRoomScopedTokenByHash h = query (\<lambda>d. normalizeErr_row (find (\<lambda>x. rt_TokenHash x = h) (t_tokens d)))"

definition TouchRoomScopedToken :: "string \<Rightarrow> time \<Rightarrow> time \<Rightarrow> ('z pg_scheme, repo_error + unit) state" where
  "TouchRoomScopedToken h lastUsedAt expiresAt = exec (\<lambda>d. d\<lparr>t_tokens :=
     map (\<lambda>x. if rt_TokenHash x = h \<and> rt_RevokedAt x = None then x\<lparr>rt_ExpiresAt := expiresAt\<rparr> else x) (t_tokens d)\<rparr>)"

definition revoke_tokens :: "string \<Rightarrow> string \<Rightarrow> time \<Rightarrow> RoomScopedToken list \<Rightarrow> RoomScopedToken list" where
  "revoke_tokens roomID agentID revokedAt = map (\<lambda>x.
     if rt_RoomID x = roomID \<and> rt_AgentID x = agentID \<and> rt_RevokedAt x = None
     then x\<lparr>rt_RevokedAt := Some revokedAt\<rparr> else x)"

definition RevokeRoomScopedTokens :: "string \<Rightarrow> string \<Rightarrow> time \<Rightarrow> ('z pg_scheme, repo_error + unit) state" where
  "RevokeRoomScopedTokens roomID agentID revokedAt =
     exec (\<lambda>d. d\<lparr>t_tokens := revoke_tokens roomID agentID revokedAt (t_tokens d)\<rparr>)"

section \<open>Policy violations\<close>

definition find_policy :: "db \<Rightarrow> string \<Rightarrow> policy_row option" where
  "find_policy d agentID = find (\<lambda>p. pol_AgentID p = agentID) (t_policy d)"

definition GetAgentPolicyBlock :: "string \<Rightarrow> time \<Rightarrow> ('z pg_scheme, repo_error + time option) state" where
  "GetAgentPolicyBlock agentID now = query (\<lambda>d. Inr
     (case find_policy d (TrimSpace agentID) of
        None \<Rightarrow> None
      | Some p \<Rightarrow> (case pol_BlockedUntil p of None \<Rightarrow> None | Some t \<Rightarrow> if now < t then Some t else None)))"

text \<open>The new row of \<open>RecordAgentPolicyViolation\<close>, from the row read (if any).\<close>

definition next_policy :: "string \<Rightarrow> time \<Rightarrow> duration \<Rightarrow> duration \<Rightarrow> int \<Rightarrow> policy_row option \<Rightarrow> policy_row" where
  "next_policy agentID now window blockDuration maxViolations row =
    (let maxViolations = (if maxViolations \<le> 0 then 1 else maxViolations);
         window = (if window \<le> 0 then 5 * Minute else window);
         (start, count, blocked) = (case row of
            None \<Rightarrow> (None, 0, None)
          | Some p \<Rightarrow> (Some (pol_WindowStartedAt p), pol_ViolationCount p, pol_BlockedUntil p));
         (start, count, blocked) = (case start of
            None \<Rightarrow> (start, count, blocked)
          | Some t \<Rightarrow> if time_sub now t > window then (Some now, 0, None) else (start, count, blocked));
         count = count + 1;
         start = (case start of None \<Rightarrow> now | Some t \<Rightarrow> t);
         blocked = (if count \<ge> maxViolations \<and> blockDuration > 0 then Some (now + blockDuration) else blocked)
     in \<lparr>pol_AgentID = agentID, pol_WindowStartedAt = start, pol_ViolationCount = count, pol_BlockedUntil = blocked\<rparr>)"

definition RecordAgentPolicyViolation ::
  "string \<Rightarrow> time \<Rightarrow> duration \<Rightarrow> duration \<Rightarrow> int \<Rightarrow> ('z pg_scheme, repo_error + PolicyState) state" where
  "RecordAgentPolicyViolation agentID now window blockDuration maxViolations =
    (let agentID = TrimSpace agentID in
     if agentID = [] then fail (ErrOther ''invalid agent id'')
     else attempt (query (\<lambda>d. Inr (find_policy d agentID))) (\<lambda>row.
       let p = next_policy agentID now window blockDuration maxViolations row in
       attempt (stmt (\<lambda>t d.
         if \<not> has_agent d agentID then Inl fk_error
         else Inr ((), d\<lparr>t_policy := (if find_policy d agentID = None then t_policy d @ [p]
                else map (\<lambda>x. if pol_AgentID x = agentID then p else x) (t_policy d))\<rparr>))) (\<lambda>_.
       ok \<lparr>ps_ViolationCount = pol_ViolationCount p, ps_BlockedUntil = pol_BlockedUntil p\<rparr>)))"

section \<open>Lifecycle\<close>

text \<open>Deleting the events of a room deletes the webhook deliveries that refer to them.\<close>

definition delete_events :: "string \<Rightarrow> db \<Rightarrow> db" where
  "delete_events roomID d =
    (let gone = ev_ID ` set (filter (\<lambda>e. ev_RoomID e = roomID) (t_events d))
     in d\<lparr>t_events := filter (\<lambda>e. ev_RoomID e \<noteq> roomID) (t_events d),
          t_hooks := (t_hooks d)\<lparr>outbox := filter (\<lambda>r. ob_RoomEventID r \<notin> gone) (outbox (t_hooks d))\<rparr>\<rparr>)"

definition PurgeRoomContent :: "string \<Rightarrow> time \<Rightarrow> ('z pg_scheme, repo_error + unit) state" where
  "PurgeRoomContent roomID purgedAt =
     attempt (exec (\<lambda>d. d\<lparr>t_messages := filter (\<lambda>m. msg_RoomID m \<noteq> roomID) (t_messages d)\<rparr>)) (\<lambda>_.
     attempt (exec (\<lambda>d. d\<lparr>t_contexts := filter (\<lambda>c. rc_RoomID c \<noteq> roomID) (t_contexts d)\<rparr>)) (\<lambda>_.
     attempt (exec (\<lambda>d. d\<lparr>t_viewers := filter (\<lambda>x. vw_RoomID x \<noteq> roomID) (t_viewers d)\<rparr>)) (\<lambda>_.
     attempt (exec (delete_events roomID)) (\<lambda>_.
     exec (\<lambda>d. d\<lparr>t_rooms := map (\<lambda>r. if room_ID r = roomID
       then r\<lparr>room_State := RoomStatePurged, room_PurgedAt := Some purgedAt\<rparr> else r) (t_rooms d)\<rparr>)))))"

definition sweep_due :: "time \<Rightarrow> Room \<Rightarrow> bool" where
  "sweep_due now r \<longleftrightarrow> room_State r = RoomStateClosed \<or>
     (room_State r \<in> {RoomStateOpen, RoomStateActive} \<and> room_TTLAt r \<le> now)"

definition sweep_order :: "Room \<Rightarrow> time" where
  "sweep_order r = (case room_ClosedAt r of Some t \<Rightarrow> t | None \<Rightarrow> room_TTLAt r)"

definition ListRoomsForLifecycleSweep :: "time \<Rightarrow> int \<Rightarrow> ('z pg_scheme, repo_error + Room list) state" where
  "ListRoomsForLifecycleSweep now limit = stmt (\<lambda>t d.
     let now = (if now = zero_time then t else now);
         limit = (if limit \<le> 0 \<or> limit > 1000 then 200 else limit)
     in Inr (take (nat limit) (sort_key sweep_order (filter (sweep_due now) (t_rooms d))), d))"

definition ListRecoverableRoomsForAgent :: "string \<Rightarrow> time \<Rightarrow> ('z pg_scheme, repo_error + Room list) state" where
  "ListRecoverableRoomsForAgent agentID since = query (\<lambda>d.
     let hit = (\<lambda>r. (room_AgentAID r = agentID \<or> room_AgentBID r = agentID) \<and>
           (room_State r = RoomStateActive \<or>
            (case room_ClosedAt r of None \<Rightarrow> False | Some t \<Rightarrow> t \<ge> since) \<or>
            (case room_PurgedAt r of None \<Rightarrow> False | Some t \<Rightarrow> t \<ge> since)));
         age = (\<lambda>r. case room_PurgedAt r of Some t \<Rightarrow> t | None \<Rightarrow>
           (case room_ClosedAt r of Some t \<Rightarrow> t | None \<Rightarrow> room_CreatedAt r));
         rows = rev (sort_key age (filter hit (t_rooms d)))
     in Inr (filter (\<lambda>r. room_State r = RoomStateActive) rows @ filter (\<lambda>r. room_State r \<noteq> RoomStateActive) rows))"

end
