(* ===== verification/Sql_Rules.thy ===== *)
theory Sql_Rules
  imports Sql_Store
begin

text \<open>
  Proof rules for programs over the store: a Hoare rule for every way of composing statements, for
  predicates of the tables, and what a transaction leaves behind.
\<close>

named_theorems sql_intros \<open>rules that keep a predicate of the tables\<close>

section \<open>Sequencing\<close>

lemma hoare_attempt:
  assumes "hoare P m R" and "\<And>x. hoare (R (Inr x)) (f x) Q" and "\<And>e s. R (Inl e) s \<Longrightarrow> Q (Inl e) s"
  shows "hoare P (attempt m f) Q"
  unfolding attempt_def
proof (rule hoare_bind [OF assms(1)])
  fix r
  show "hoare (R r) (case r of Inl err \<Rightarrow> State_Monad.return (Inl err) | Inr x \<Rightarrow> f x) Q"
    using assms(2,3) by (cases r) (auto intro: hoare_return)
qed

lemma hoare_fail: "(\<And>s. P s \<Longrightarrow> Q (Inl e) s) \<Longrightarrow> hoare P (fail e) Q"
  by (simp add: fail_def hoare_return)

lemma hoare_ok: "(\<And>s. P s \<Longrightarrow> Q (Inr x) s) \<Longrightarrow> hoare P (ok x) Q"
  by (simp add: ok_def hoare_return)

lemma keeps_attempt [sql_intros, hoare_intros]:
  "keeps I m \<Longrightarrow> (\<And>x. keeps I (f x)) \<Longrightarrow> keeps I (attempt m f)"
  by (rule hoare_attempt)

lemma keeps_fail [sql_intros, hoare_intros]: "keeps I (fail e)"
  by (rule hoare_fail)

lemma keeps_ok [sql_intros, hoare_intros]: "keeps I (ok x)"
  by (rule hoare_ok)

text \<open>Programs that keep a fixed part of the state unchanged.\<close>

lemma keeps_const: "(\<And>c. keeps (\<lambda>s. g s = c) m) \<Longrightarrow> g (snd (run_state m s)) = g s"
  by (auto simp: hoare_def)

section \<open>Statements\<close>

lemma hoare_stmt:
  assumes "\<And>now d e. P d \<Longrightarrow> f now d = Inl e \<Longrightarrow> Q (Inl e) d"
    and "\<And>now d x d'. P d \<Longrightarrow> f now d = Inr (x, d') \<Longrightarrow> Q (Inr x) d'"
    and "\<And>d. P d \<Longrightarrow> Q (Inl driver_error) d"
  shows "hoare (\<lambda>s. P (tables s)) (stmt f) (\<lambda>r s. Q r (tables s))"
  using assms by (auto simp: hoare_def stmt_def Let_def split: sum.splits prod.splits)

lemma hoare_query:
  "hoare (\<lambda>s. P (tables s)) (query f) (\<lambda>r s. P (tables s) \<and> (\<forall>x. r = Inr x \<longrightarrow> f (tables s) = Inr x))"
  unfolding query_def
  by (rule hoare_stmt) (auto simp: driver_error_def split: sum.splits)

lemma hoare_exec:
  assumes "\<And>d. P d \<Longrightarrow> Q (Inr ()) (f d)" and "\<And>d. P d \<Longrightarrow> Q (Inl driver_error) d"
  shows "hoare (\<lambda>s. P (tables s)) (exec f) (\<lambda>r s. Q r (tables s))"
  unfolding exec_def using assms by (intro hoare_stmt) auto

lemma keeps_stmt [sql_intros]:
  "(\<And>now d x d'. I d \<Longrightarrow> f now d = Inr (x, d') \<Longrightarrow> I d') \<Longrightarrow> keeps (\<lambda>s. I (tables s)) (stmt f)"
  by (rule hoare_stmt)

lemma keeps_query [sql_intros]: "keeps (\<lambda>s. I (tables s)) (query f)"
  by (rule hoare_conseq [OF hoare_query [where P = I]]) auto

lemma keeps_exec [sql_intros]: "(\<And>d. I d \<Longrightarrow> I (f d)) \<Longrightarrow> keeps (\<lambda>s. I (tables s)) (exec f)"
  by (rule hoare_exec)

section \<open>Transactions\<close>

text \<open>Equal rows in every table; serial counters may have advanced.\<close>

definition same_rows :: "db \<Rightarrow> db \<Rightarrow> bool" where
  "same_rows d d' \<longleftrightarrow> (\<exists>e v q. d' = d\<lparr>eventSeq := e, deliverySeq := v, t_hooks := (t_hooks d)\<lparr>outboxSeq := q\<rparr>\<rparr>)"

lemma same_rows_rolled_back [simp]: "same_rows saved (rolled_back saved cur)"
  by (auto simp: same_rows_def rolled_back_def)

lemma same_rows_refl [simp]: "same_rows d d"
proof -
  have "d = d\<lparr>eventSeq := eventSeq d, deliverySeq := deliverySeq d, t_hooks := (t_hooks d)\<lparr>outboxSeq := outboxSeq (t_hooks d)\<rparr>\<rparr>"
    by simp
  then show ?thesis unfolding same_rows_def by blast
qed

lemma same_rows_tables:
  assumes "same_rows d d'"
  shows "t_agents d' = t_agents d" "t_sessions d' = t_sessions d" "t_listings d' = t_listings d"
    "t_rooms d' = t_rooms d" "t_messages d' = t_messages d" "t_contexts d' = t_contexts d"
    "t_viewers d' = t_viewers d" "t_events d' = t_events d" "t_deliveries d' = t_deliveries d"
    "t_tokens d' = t_tokens d" "t_policy d' = t_policy d" "t_leases d' = t_leases d" "t_opens d' = t_opens d"
    "outbox (t_hooks d') = outbox (t_hooks d)" "endpoints (t_hooks d') = endpoints (t_hooks d)"
  using assms by (auto simp: same_rows_def)

text \<open>
  A transaction either returns the callback's value with the tables the callback left, or an error
  with every row as before.
\<close>

lemma hoare_WithTx:
  assumes body: "\<And>saved. hoare (\<lambda>s. P (tables s) \<and> tables s = saved) fn (\<lambda>r s. \<forall>x. r = Inr x \<longrightarrow> Q x (tables s))"
    and err: "\<And>e d d'. P d \<Longrightarrow> same_rows d d' \<Longrightarrow> R e d'"
  shows "hoare (\<lambda>s. P (tables s)) (WithTx wrap fn)
    (\<lambda>r s. case r of Inl e \<Rightarrow> R e (tables s) | Inr x \<Rightarrow> Q x (tables s))"
proof (rule hoareI)
  fix s :: "'a pg_scheme"
  assume P: "P (tables s)"
  let ?s1 = "s\<lparr>stmts := Suc (stmts s), txTime := Some (dbClock s (stmts s))\<rparr>"
  obtain r s2 where run: "run_state fn ?s1 = (r, s2)" by fastforce
  have Q: "Q x (tables s2)" if "r = Inr x" for x
    using hoareD [OF body [of "tables s"] _ run] P that by simp
  show "case fst (run_state (WithTx wrap fn) s) of
      Inl e \<Rightarrow> R e (tables (snd (run_state (WithTx wrap fn) s)))
    | Inr x \<Rightarrow> Q x (tables (snd (run_state (WithTx wrap fn) s)))"
    using run Q err [OF P]
    by (cases r) (auto simp: WithTx_def BeginTx_def Commit_def Rollback_def)
qed

lemma keeps_WithTx [sql_intros]:
  assumes "keeps (\<lambda>s. I (tables s)) fn" and "\<And>d d'. I d \<Longrightarrow> same_rows d d' \<Longrightarrow> I d'"
  shows "keeps (\<lambda>s. I (tables s)) (WithTx wrap fn)"
proof -
  have "hoare (\<lambda>s. I (tables s) \<and> tables s = saved) fn (\<lambda>r s. \<forall>x. r = Inr x \<longrightarrow> I (tables s))" for saved
    by (rule hoare_conseq [OF assms(1)]) auto
  from hoare_WithTx [where Q = "\<lambda>_. I" and R = "\<lambda>_. I", OF this assms(2)] show ?thesis
    by (rule hoare_conseq) (auto split: sum.splits)
qed

section \<open>Success triples\<close>

text \<open>
  \<open>succ P m Q\<close>: when the program starts with tables satisfying \<open>P\<close> and returns a value \<open>x\<close>, the
  tables satisfy \<open>Q x\<close>. What holds after an error is stated by the \<open>keeps\<close> rules.
\<close>

definition succ :: "(db \<Rightarrow> bool) \<Rightarrow> ('z pg_scheme, 'e + 'a) state \<Rightarrow> ('a \<Rightarrow> db \<Rightarrow> bool) \<Rightarrow> bool" where
  "succ P m Q \<longleftrightarrow> hoare (\<lambda>s. P (tables s)) m (\<lambda>r s. \<forall>x. r = Inr x \<longrightarrow> Q x (tables s))"

named_theorems succ_intros \<open>rules for success triples\<close>

lemma succD: "succ P m Q \<Longrightarrow> P (tables s) \<Longrightarrow> run_state m s = (Inr x, s') \<Longrightarrow> Q x (tables s')"
  by (auto simp: succ_def hoare_def)

lemma succ_conseq: "succ P m Q \<Longrightarrow> (\<And>d. P' d \<Longrightarrow> P d) \<Longrightarrow> (\<And>x d. Q x d \<Longrightarrow> Q' x d) \<Longrightarrow> succ P' m Q'"
  by (auto simp: succ_def hoare_def)

lemma succ_keeps: "keeps (\<lambda>s. P (tables s)) m \<Longrightarrow> succ P m (\<lambda>_. P)"
  by (simp add: succ_def hoare_def)

lemma succ_attempt:
  "succ P m R \<Longrightarrow> (\<And>x. succ (R x) (f x) Q) \<Longrightarrow> succ P (attempt m f) Q"
  unfolding succ_def by (rule hoare_attempt) auto

lemma succ_bind:
  assumes "hoare (\<lambda>s. P (tables s)) m (\<lambda>r s. R r (tables s))" and "\<And>r. succ (R r) (f r) Q"
  shows "succ P (State_Monad.bind m f) Q"
  using assms unfolding succ_def by (rule hoare_bind)

lemma succ_fail [succ_intros]: "succ P (fail e) Q"
  by (simp add: succ_def hoare_def fail_def)

lemma succ_return_Inl [succ_intros]: "succ P (State_Monad.return (Inl e)) Q"
  by (simp add: succ_def hoare_def)

lemma succ_ok: "(\<And>d. P d \<Longrightarrow> Q x d) \<Longrightarrow> succ P (ok x) Q"
  by (simp add: succ_def hoare_def ok_def)

lemma succ_stmt:
  "(\<And>now d x d'. P d \<Longrightarrow> f now d = Inr (x, d') \<Longrightarrow> Q x d') \<Longrightarrow> succ P (stmt f) Q"
  unfolding succ_def by (rule hoare_stmt) (auto simp: driver_error_def)

lemma succ_query: "(\<And>d x. P d \<Longrightarrow> f d = Inr x \<Longrightarrow> Q x d) \<Longrightarrow> succ P (query f) Q"
  unfolding query_def by (rule succ_stmt) (auto split: sum.splits)

lemma succ_exec: "(\<And>d. P d \<Longrightarrow> Q () (f d)) \<Longrightarrow> succ P (exec f) Q"
  unfolding exec_def by (rule succ_stmt) auto

lemma succ_if: "(b \<Longrightarrow> succ P m Q) \<Longrightarrow> (\<not> b \<Longrightarrow> succ P n Q) \<Longrightarrow> succ P (if b then m else n) Q"
  by simp

lemma succ_let: "succ P (f x) Q \<Longrightarrow> succ P (Let x f) Q"
  by simp

lemma succ_case_option:
  "(x = None \<Longrightarrow> succ P m Q) \<Longrightarrow> (\<And>a. x = Some a \<Longrightarrow> succ P (f a) Q) \<Longrightarrow>
   succ P (case x of None \<Rightarrow> m | Some a \<Rightarrow> f a) Q"
  by (cases x) auto

lemma succ_mapErr: "succ P m Q \<Longrightarrow> succ P (mapErr g m) Q"
  unfolding succ_def mapErr_def
  by (rule hoare_bind, assumption) (auto intro: hoare_return split: sum.splits)

lemma succ_WithTx:
  assumes "succ P fn Q"
  shows "succ P (WithTx wrap fn) Q"
proof -
  have "hoare (\<lambda>s. P (tables s) \<and> tables s = saved) fn (\<lambda>r s. \<forall>x. r = Inr x \<longrightarrow> Q x (tables s))" for saved
    using assms unfolding succ_def by (rule hoare_conseq) auto
  from hoare_WithTx [where R = "\<lambda>_ _. True", OF this] show ?thesis
    unfolding succ_def by (rule hoare_conseq) auto
qed

text \<open>A transaction keeps a predicate of the rows when its successful runs do.\<close>

lemma keeps_WithTx_succ:
  assumes "succ I fn (\<lambda>_. I)" and "\<And>d d'. I d \<Longrightarrow> same_rows d d' \<Longrightarrow> I d'"
  shows "keeps (\<lambda>s. I (tables s)) (WithTx wrap fn)"
proof -
  have "hoare (\<lambda>s. I (tables s) \<and> tables s = saved) fn (\<lambda>r s. \<forall>x. r = Inr x \<longrightarrow> I (tables s))" for saved
    using assms(1) unfolding succ_def by (rule hoare_conseq) auto
  from hoare_WithTx [where Q = "\<lambda>_. I" and R = "\<lambda>_. I", OF this assms(2)] show ?thesis
    by (rule hoare_conseq) (auto split: sum.splits)
qed

lemma keeps_mapErr [sql_intros, hoare_intros]: "keeps I m \<Longrightarrow> keeps I (mapErr g m)"
  unfolding mapErr_def by (rule keeps_bind) (auto intro: keeps_return)

lemma keeps_rescue [sql_intros, hoare_intros]:
  "keeps I m \<Longrightarrow> (\<And>e. keeps I (h e)) \<Longrightarrow> keeps I (rescue m h)"
  unfolding rescue_def by (rule keeps_bind) (auto intro: keeps_return split: sum.splits)

end
