(* ===== verification/Stream_Leases.thy ===== *)
theory Stream_Leases
  imports Sql_Rules
begin

text \<open>
  The leases that bound the number of room event streams an agent keeps open
  (\<open>AcquireRoomEventStreamLease\<close> and \<open>ReleaseRoomEventStreamLease\<close> of
  \<open>internal/repository/postgres/store.go\<close>). A denial leaves the function without a commit, so the
  deferred \<open>Rollback\<close> undoes the clean-up as well.
\<close>

section \<open>Operations\<close>

text \<open>The defaults the function fills in; \<open>wall\<close> is \<open>time.Now()\<close>.\<close>

definition lease_defaults ::
  "time \<Rightarrow> AcquireRoomEventStreamLeaseInput \<Rightarrow> AcquireRoomEventStreamLeaseInput" where
  "lease_defaults wall inp =
    (let inp = inp\<lparr>li_LeaseID := TrimSpace (li_LeaseID inp), li_RoomID := TrimSpace (li_RoomID inp),
           li_AgentID := TrimSpace (li_AgentID inp), li_RemoteIP := TrimSpace (li_RemoteIP inp)\<rparr>;
         inp = (if li_Now inp = zero_time then inp\<lparr>li_Now := wall\<rparr> else inp);
         inp = (if li_LeaseExpiresAt inp = zero_time \<or> \<not> li_LeaseExpiresAt inp > li_Now inp
                then inp\<lparr>li_LeaseExpiresAt := li_Now inp + 90 * Second\<rparr> else inp);
         inp = (if li_MaxActivePerRoomAgent inp \<le> 0 then inp\<lparr>li_MaxActivePerRoomAgent := 5\<rparr> else inp);
         inp = (if li_MaxConnectsPerMinuteKey inp \<le> 0 then inp\<lparr>li_MaxConnectsPerMinuteKey := 30\<rparr> else inp)
     in if li_MaxConnectsPerMinuteIP inp \<le> 0 then inp\<lparr>li_MaxConnectsPerMinuteIP := 120\<rparr> else inp)"

definition key_leases :: "db \<Rightarrow> string \<Rightarrow> string \<Rightarrow> lease_row list" where
  "key_leases d roomID agentID = filter (\<lambda>x. ls_RoomID x = roomID \<and> ls_AgentID x = agentID) (t_leases d)"

definition key_opens :: "db \<Rightarrow> string \<Rightarrow> string \<Rightarrow> time \<Rightarrow> open_row list" where
  "key_opens d roomID agentID since =
    filter (\<lambda>x. op_RoomID x = roomID \<and> op_AgentID x = agentID \<and> op_OpenedAt x > since) (t_opens d)"

definition ip_opens :: "db \<Rightarrow> string \<Rightarrow> time \<Rightarrow> open_row list" where
  "ip_opens d ip since = filter (\<lambda>x. op_RemoteIP x = ip \<and> op_OpenedAt x > since) (t_opens d)"

definition lease_out :: "bool \<Rightarrow> string \<Rightarrow> int \<Rightarrow> int \<Rightarrow> int \<Rightarrow> AcquireRoomEventStreamLeaseResult" where
  "lease_out acquired reason active perKey perIP =
    \<lparr>lr_Acquired = acquired, lr_DeniedReason = reason, lr_ActivePerRoomAgent = active,
     lr_ConnectsPerMinuteKey = perKey, lr_ConnectsPerMinuteIP = perIP\<rparr>"

definition insert_lease :: "AcquireRoomEventStreamLeaseInput \<Rightarrow> db \<Rightarrow> repo_error + (unit \<times> db)" where
  "insert_lease inp d =
    (if \<exists>x \<in> set (t_leases d). ls_LeaseID x = li_LeaseID inp then Inl ErrConflict
     else if \<not> has_room d (li_RoomID inp) \<or> \<not> has_agent d (li_AgentID inp) then Inl fk_error
     else Inr ((), d\<lparr>t_leases := t_leases d @
       [\<lparr>ls_LeaseID = li_LeaseID inp, ls_RoomID = li_RoomID inp, ls_AgentID = li_AgentID inp,
         ls_RemoteIP = li_RemoteIP inp, ls_OpenedAt = li_Now inp, ls_ExpiresAt = li_LeaseExpiresAt inp\<rparr>]\<rparr>))"

definition insert_open :: "AcquireRoomEventStreamLeaseInput \<Rightarrow> db \<Rightarrow> db" where
  "insert_open inp d = d\<lparr>t_opens := t_opens d @
     [\<lparr>op_RoomID = li_RoomID inp, op_AgentID = li_AgentID inp, op_RemoteIP = li_RemoteIP inp,
       op_OpenedAt = li_Now inp\<rparr>]\<rparr>"

text \<open>
  The body of the transaction. Its error is either a store error or the result of a denial, which
  is returned after the rollback.
\<close>

definition lease_tx :: "AcquireRoomEventStreamLeaseInput \<Rightarrow>
  ('z pg_scheme, (repo_error + AcquireRoomEventStreamLeaseResult) + AcquireRoomEventStreamLeaseResult) state" where
  "lease_tx inp =
     attempt (mapErr Inl (query (\<lambda>d. Inr ()))) (\<lambda>_.
     attempt (if li_RemoteIP inp \<noteq> [] then mapErr Inl (query (\<lambda>d. Inr ())) else ok ()) (\<lambda>_.
     attempt (mapErr Inl (exec (\<lambda>d. d\<lparr>t_leases := filter (\<lambda>x. \<not> ls_ExpiresAt x \<le> li_Now inp) (t_leases d)\<rparr>))) (\<lambda>_.
     attempt (mapErr Inl (exec (\<lambda>d. d\<lparr>t_opens := filter (\<lambda>x. \<not> op_OpenedAt x \<le> li_Now inp + - (2 * Minute)) (t_opens d)\<rparr>))) (\<lambda>_.
     attempt (mapErr Inl (query (\<lambda>d. Inr (int (length (filter (\<lambda>x. ls_ExpiresAt x > li_Now inp)
         (key_leases d (li_RoomID inp) (li_AgentID inp)))))))) (\<lambda>active.
     if active \<ge> li_MaxActivePerRoomAgent inp
     then fail (Inr (lease_out False ''max_active_streams_per_agent_room'' active 0 0))
     else
     attempt (mapErr Inl (query (\<lambda>d. Inr (int (length (key_opens d (li_RoomID inp) (li_AgentID inp)
         (li_Now inp + - Minute))))))) (\<lambda>perKey.
     if perKey \<ge> li_MaxConnectsPerMinuteKey inp
     then fail (Inr (lease_out False ''reconnect_rate_limited_room_agent'' active perKey 0))
     else
     attempt (if li_RemoteIP inp \<noteq> []
       then mapErr Inl (query (\<lambda>d. Inr (int (length (ip_opens d (li_RemoteIP inp) (li_Now inp + - Minute))))))
       else ok 0) (\<lambda>perIP.
     if li_RemoteIP inp \<noteq> [] \<and> perIP \<ge> li_MaxConnectsPerMinuteIP inp
     then fail (Inr (lease_out False ''reconnect_rate_limited_ip'' active perKey perIP))
     else
     attempt (mapErr Inl (stmt (\<lambda>t d. insert_lease inp d))) (\<lambda>_.
     attempt (mapErr Inl (exec (insert_open inp))) (\<lambda>_.
     ok (lease_out True [] (active + 1) (perKey + 1) (if li_RemoteIP inp \<noteq> [] then perIP + 1 else perIP)))))))))))"

definition AcquireRoomEventStreamLease :: "time \<Rightarrow> AcquireRoomEventStreamLeaseInput \<Rightarrow>
  ('z pg_scheme, repo_error + AcquireRoomEventStreamLeaseResult) state" where
  "AcquireRoomEventStreamLease wall inp =
    (let inp = lease_defaults wall inp in
     if li_LeaseID inp = [] \<or> li_RoomID inp = [] \<or> li_AgentID inp = []
     then fail (ErrOther ''invalid stream lease input'')
     else do {
       r \<leftarrow> WithTx Inl (lease_tx inp);
       State_Monad.return (case r of Inl (Inl err) \<Rightarrow> Inl err | Inl (Inr denied) \<Rightarrow> Inr denied | Inr out \<Rightarrow> Inr out) })"

definition ReleaseRoomEventStreamLease :: "string \<Rightarrow> ('z pg_scheme, repo_error + unit) state" where
  "ReleaseRoomEventStreamLease leaseID =
    (let leaseID = TrimSpace leaseID in
     if leaseID = [] then ok ()
     else exec (\<lambda>d. d\<lparr>t_leases := filter (\<lambda>x. ls_LeaseID x \<noteq> leaseID) (t_leases d)\<rparr>))"

section \<open>The number of leases is bounded\<close>

definition leases_within :: "int \<Rightarrow> db \<Rightarrow> bool" where
  "leases_within M d \<longleftrightarrow> (\<forall>roomID agentID. int (length (key_leases d roomID agentID)) \<le> M)"

definition alive_leases :: "time \<Rightarrow> db \<Rightarrow> bool" where
  "alive_leases now d \<longleftrightarrow> (\<forall>x \<in> set (t_leases d). ls_ExpiresAt x > now)"

lemma length_filter_le2: "length (filter (\<lambda>x. Q x \<and> P x) xs) \<le> length (filter P xs)"
  by (induction xs) auto

lemma leases_within_filter:
  assumes "leases_within M d" and "t_leases d' = filter P (t_leases d)"
  shows "leases_within M d'"
  unfolding leases_within_def
proof (intro allI)
  fix roomID agentID
  have "length (key_leases d' roomID agentID) \<le> length (key_leases d roomID agentID)"
    unfolding key_leases_def assms(2) filter_filter by (rule length_filter_le2)
  with assms(1) show "int (length (key_leases d' roomID agentID)) \<le> M"
    unfolding leases_within_def by (meson dual_order.trans of_nat_le_iff)
qed

lemma leases_within_insert:
  assumes "leases_within M d" and "int (length (key_leases d (li_RoomID inp) (li_AgentID inp))) < M"
    and "insert_lease inp d = Inr (x, d')"
  shows "leases_within M d'"
  using assms by (auto simp: insert_lease_def leases_within_def key_leases_def split: if_splits)

lemma alive_leases_filter: "alive_leases now d \<Longrightarrow> filter (\<lambda>x. ls_ExpiresAt x > now) (key_leases d r a) = key_leases d r a"
  unfolding alive_leases_def key_leases_def filter_filter by (rule filter_cong) auto

lemma lease_tx_bound:
  assumes "li_MaxActivePerRoomAgent inp \<le> M"
  shows "succ (leases_within M) (lease_tx inp) (\<lambda>_. leases_within M)"
proof -
  let ?B = "\<lambda>d. leases_within M d \<and> alive_leases (li_Now inp) d"
  let ?C = "\<lambda>active d. ?B d \<and> active = int (length (key_leases d (li_RoomID inp) (li_AgentID inp)))"
  have lock: "succ P (mapErr Inl (query (\<lambda>d. Inr ()))) (\<lambda>_. P)" for P
    by (intro succ_mapErr succ_query)
  have del: "succ (leases_within M) (mapErr Inl (exec (\<lambda>d. d\<lparr>t_leases := filter (\<lambda>x. \<not> ls_ExpiresAt x \<le> li_Now inp) (t_leases d)\<rparr>)))
      (\<lambda>_. ?B)"
    by (intro succ_mapErr succ_exec conjI, erule leases_within_filter) (auto simp: alive_leases_def)
  have del2: "succ ?B (mapErr Inl (exec (\<lambda>d. d\<lparr>t_opens := filter P (t_opens d)\<rparr>))) (\<lambda>_. ?B)" for P
    by (intro succ_mapErr succ_exec) (auto simp: leases_within_def alive_leases_def key_leases_def)
  have count: "succ ?B (mapErr Inl (query (\<lambda>d. Inr (int (length (filter (\<lambda>x. ls_ExpiresAt x > li_Now inp)
         (key_leases d (li_RoomID inp) (li_AgentID inp)))))))) ?C"
    by (intro succ_mapErr succ_query) (auto simp: alive_leases_filter)
  have opens: "succ (?C active) (mapErr Inl (query f)) (\<lambda>_. ?C active)" for active and f :: "db \<Rightarrow> repo_error + int"
    by (intro succ_mapErr succ_query)
  have ins: "succ (?C active) (mapErr Inl (stmt (\<lambda>t d. insert_lease inp d))) (\<lambda>_. leases_within M)"
    if "active < li_MaxActivePerRoomAgent inp" for active
    using that assms by (intro succ_mapErr succ_stmt) (auto elim!: leases_within_insert [rotated 2])
  have op: "succ (leases_within M) (mapErr Inl (exec (insert_open inp))) (\<lambda>_. leases_within M)"
    by (intro succ_mapErr succ_exec) (auto simp: leases_within_def key_leases_def insert_open_def)
  have iplock: "succ P (if b then mapErr Inl (query (\<lambda>d. Inr ())) else ok ()) (\<lambda>_. P)" for P b
    by (intro succ_if lock succ_ok)
  have ipopens: "succ (?C active) (if b then mapErr Inl (query f) else ok 0) (\<lambda>_. ?C active)" for active b and f :: "db \<Rightarrow> repo_error + int"
    by (intro succ_if opens succ_ok)
  show ?thesis
    unfolding lease_tx_def
    by (rule succ_attempt [OF lock], rule succ_attempt [OF iplock], rule succ_attempt [OF del],
        rule succ_attempt [OF del2], rule succ_attempt [OF count], rule succ_if, rule succ_fail,
        rule succ_attempt [OF opens], rule succ_if, rule succ_fail, rule succ_attempt [OF ipopens],
        rule succ_if, rule succ_fail, rule succ_attempt [OF ins], simp, rule succ_attempt [OF op], rule succ_ok)
qed

lemma leases_within_same_rows: "leases_within M d \<Longrightarrow> same_rows d d' \<Longrightarrow> leases_within M d'"
  by (simp add: leases_within_def key_leases_def same_rows_tables)

lemma lease_defaults_limit:
  "li_MaxActivePerRoomAgent (lease_defaults wall inp) =
    (if li_MaxActivePerRoomAgent inp \<le> 0 then 5 else li_MaxActivePerRoomAgent inp)"
  by (simp add: lease_defaults_def Let_def)

lemma keeps_Acquire:
  assumes "5 \<le> M" and "li_MaxActivePerRoomAgent inp \<le> M"
  shows "keeps (\<lambda>s. leases_within M (tables s)) (AcquireRoomEventStreamLease wall inp)"
proof -
  let ?in = "lease_defaults wall inp"
  have "succ (leases_within M) (lease_tx ?in) (\<lambda>_. leases_within M)"
    using assms by (intro lease_tx_bound) (simp add: lease_defaults_limit)
  from keeps_WithTx_succ [OF this leases_within_same_rows]
  have "keeps (\<lambda>s. leases_within M (tables s)) (WithTx Inl (lease_tx ?in))" .
  then show ?thesis
    unfolding AcquireRoomEventStreamLease_def Let_def
    by (intro keeps_if keeps_fail keeps_bind keeps_return)
qed

lemma keeps_Release: "keeps (\<lambda>s. leases_within M (tables s)) (ReleaseRoomEventStreamLease i)"
  unfolding ReleaseRoomEventStreamLease_def Let_def
  by (intro keeps_if keeps_ok keeps_exec) (erule leases_within_filter, simp)

datatype lease_op = Acquire time AcquireRoomEventStreamLeaseInput | Release string

fun lease_step :: "lease_op \<Rightarrow> pg \<Rightarrow> pg" where
  "lease_step (Acquire wall inp) s = snd (run_state (AcquireRoomEventStreamLease wall inp) s)"
| "lease_step (Release i) s = snd (run_state (ReleaseRoomEventStreamLease i) s)"

fun lease_op_within :: "int \<Rightarrow> lease_op \<Rightarrow> bool" where
  "lease_op_within M (Acquire wall inp) \<longleftrightarrow> li_MaxActivePerRoomAgent inp \<le> M"
| "lease_op_within M (Release i) \<longleftrightarrow> True"

text \<open>
  C27. An agent never holds more streams of a room than allowed. Start from tables where every agent has at
  most \<open>M\<close> leases of a room (none, for instance), with \<open>M\<close> at least the default of 5. After any
  sequence of acquisitions whose limit is at most \<open>M\<close> and of releases, whatever statements fail and
  whatever the clocks show, every agent has at most \<open>M\<close> leases of a room, expired ones included.
\<close>

theorem stream_leases_bounded:
  assumes "5 \<le> M" and "list_all (lease_op_within M) ops"
    and "\<forall>roomID agentID. int (length (key_leases (tables s) roomID agentID)) \<le> M"
  shows "int (length (key_leases (tables (fold lease_step ops s)) roomID agentID)) \<le> M"
proof -
  have "leases_within M (tables s) \<Longrightarrow> leases_within M (tables (fold lease_step ops s))"
    using assms(2)
  proof (induction ops arbitrary: s)
    case (Cons op ops)
    then have "leases_within M (tables (lease_step op s))"
      using hoare_snd [OF keeps_Acquire [OF assms(1)]] hoare_snd [OF keeps_Release] by (cases op) auto
    with Cons show ?case by simp
  qed simp
  with assms(3) show ?thesis by (simp add: leases_within_def)
qed

text \<open>A server with one agent and one room.\<close>

definition ex_lease :: "string \<Rightarrow> AcquireRoomEventStreamLeaseInput" where
  "ex_lease i = \<lparr>li_LeaseID = i, li_RoomID = ''r'', li_AgentID = ''a'', li_RemoteIP = [], li_Now = 1,
     li_LeaseExpiresAt = 0, li_MaxActivePerRoomAgent = 1, li_MaxConnectsPerMinuteKey = 0, li_MaxConnectsPerMinuteIP = 0\<rparr>"

definition ex_tables :: db where
  "ex_tables = \<lparr>t_agents = [\<lparr>agt_ID = ''a'', agt_Name = ''n'', agt_APIKeyHash = ''h'', agt_CreatedAt = 0\<rparr>],
     t_sessions = [], t_listings = [],
     t_rooms = [\<lparr>room_ID = ''r'', room_Topic = ''t'', room_AgentAID = ''a'', room_AgentBID = [],
       room_State = RoomStateOpen, room_TurnIndex = 0, room_MaxTurns = 2, room_TTLAt = 100, room_CreatedAt = 0,
       room_ClosedAt = None, room_PurgedAt = None, room_HumanCodeHash = [], room_HumanCodeExpiresAt = None,
       room_MessageKeyCiphertext = []\<rparr>],
     t_messages = [], t_contexts = [], t_viewers = [], t_events = [], t_deliveries = [], t_tokens = [],
     t_policy = [], t_leases = [], t_opens = [], t_hooks = emptyOutbox [], eventSeq = 0, deliverySeq = 0\<rparr>"

definition ex_pg :: pg where
  "ex_pg = \<lparr>tables = ex_tables, auditRows = [], faults = (\<lambda>_. False), dbClock = int, stmts = 0, txTime = None\<rparr>"

theorem stream_leases_bounded_witness:
  "int (length (key_leases (tables (fold lease_step [Acquire 0 (ex_lease ''x''), Acquire 0 (ex_lease ''y'')] ex_pg))
     ''r'' ''a'')) \<le> 5"
  by (rule stream_leases_bounded) (simp_all add: ex_lease_def ex_pg_def ex_tables_def key_leases_def)

end
