(* ===== verification/Prompt_Builder.thy ===== *)
theory Prompt_Builder
  imports Go_Strings
begin

text \<open>
  The prompt builder (\<open>internal/service/promptbuilder/builder.go\<close>): the fixed layers are read
  once, and \<open>Build\<close> renders them together with the task context and as much of the recent
  conversation as the token cap allows. Reading a file and SHA-256 are not part of the repository:
  \<open>ReadFile\<close> (root directory, path components) and \<open>sha\<close> (hex digest) are arguments.
\<close>

section \<open>Data\<close>

record Builder =
  systemCoreText :: string
  globalRulesText :: string
  agentRulesText :: string
  identityText :: string
  soulText :: string
  userText :: string
  orderedStack :: "string list"
  systemCoreHash :: string
  globalRulesHash :: string
  agentRulesHash :: string
  identityHash :: string
  soulHash :: string
  userHash :: string
  maxRecentMessage :: nat
  maxContextTokens :: nat

record RecentMessage =
  rmTurn :: int
  rmSenderID :: string
  rmCiphertext :: string

record BuildInput =
  TaskContext :: string
  RecentMessages :: "RecentMessage list"

record Bundle =
  Prompt :: string
  BundleHash :: string
  bOrderedStack :: "string list"
  bSystemCoreHash :: string
  bGlobalRulesHash :: string
  bAgentRulesHash :: string
  bIdentityHash :: string
  bSoulHash :: string
  bUserHash :: string

section \<open>Operations\<close>

text \<open>The six layer files are read in this order; the first failure is the result.\<close>

definition layer_files :: "string list list" where
  "layer_files =
    [[''prompt_layers'', ''SYSTEM_CORE.md''], [''policies'', ''HARD_RULES_GLOBAL.md''],
     [''prompt_layers'', ''HARD_RULES_AGENT.template.md''], [''prompt_layers'', ''IDENTITY.default.md''],
     [''prompt_layers'', ''SOUL.default.md''], [''prompt_layers'', ''USER.default.md'']]"

fun read_layers :: "(string list \<Rightarrow> 'e + string) \<Rightarrow> string list list \<Rightarrow> 'e + string list" where
  "read_layers rd [] = Inr []"
| "read_layers rd (f # fs) =
    (case rd f of
       Inl err \<Rightarrow> Inl err
     | Inr text \<Rightarrow> (case read_layers rd fs of Inl err \<Rightarrow> Inl err | Inr texts \<Rightarrow> Inr (TrimSpace text # texts)))"

definition stack_markers :: "string list" where
  "stack_markers = [''SYSTEM_CORE'', ''HARD_RULES_GLOBAL'', ''HARD_RULES_AGENT'', ''IDENTITY'', ''SOUL'', ''USER'',
     ''TASK_CONTEXT'', ''RECENT_MEMORY'']"

definition NewDefaultBuilder ::
  "(string \<Rightarrow> string) \<Rightarrow> (string \<Rightarrow> string list \<Rightarrow> 'e + string) \<Rightarrow> 'e + string \<Rightarrow> 'e + Builder" where
  "NewDefaultBuilder sha ReadFile root =
    (case root of
       Inl err \<Rightarrow> Inl err
     | Inr dir \<Rightarrow>
       (case read_layers (ReadFile dir) layer_files of
          Inl err \<Rightarrow> Inl err
        | Inr texts \<Rightarrow> Inr
            \<lparr>systemCoreText = texts ! 0, globalRulesText = texts ! 1, agentRulesText = texts ! 2,
             identityText = texts ! 3, soulText = texts ! 4, userText = texts ! 5,
             orderedStack = stack_markers,
             systemCoreHash = sha (texts ! 0), globalRulesHash = sha (texts ! 1),
             agentRulesHash = sha (texts ! 2), identityHash = sha (texts ! 3),
             soulHash = sha (texts ! 4), userHash = sha (texts ! 5),
             maxRecentMessage = 6, maxContextTokens = 1000\<rparr>))"

definition estimateTokens :: "string \<Rightarrow> nat" where
  "estimateTokens text = (if text = [] then 0 else (length text + 3) div 4)"

definition recent_line :: "RecentMessage \<Rightarrow> string" where
  "recent_line m = ''- turn='' @ Itoa (rmTurn m) @ '' sender='' @ rmSenderID m @ '' msg='' @ rmCiphertext m"

definition renderRecentMemory :: "RecentMessage list \<Rightarrow> string" where
  "renderRecentMemory recent =
    (if length recent = 0 then ''(empty)'' else Join (map recent_line recent) [CHR 0x0A])"

definition promptSections :: "Builder \<Rightarrow> string \<Rightarrow> RecentMessage list \<Rightarrow> (string \<times> string) list" where
  "promptSections b taskContext recent =
    [(''SYSTEM_CORE'', systemCoreText b), (''HARD_RULES_GLOBAL'', globalRulesText b),
     (''HARD_RULES_AGENT'', agentRulesText b), (''IDENTITY'', identityText b), (''SOUL'', soulText b),
     (''USER'', userText b), (''TASK_CONTEXT'', TrimSpace taskContext),
     (''RECENT_MEMORY'', renderRecentMemory recent)]"

definition TrimRightNewlines :: "string \<Rightarrow> string" where
  "TrimRightNewlines s = rev (dropWhile ((=) (CHR 0x0A)) (rev s))"

definition renderCanonicalPrompt :: "Builder \<Rightarrow> string \<Rightarrow> RecentMessage list \<Rightarrow> string" where
  "renderCanonicalPrompt b taskContext recent =
    TrimRightNewlines (Join (concat (map (\<lambda>(marker, text). [''['' @ marker @ '']'', text, []])
      (promptSections b taskContext recent))) [CHR 0x0A])"

definition composePrompt :: "Builder \<Rightarrow> string \<Rightarrow> RecentMessage list \<Rightarrow> string" where
  "composePrompt b taskContext recent = renderCanonicalPrompt b taskContext recent"

text \<open>The loop that drops the oldest message while the prompt is too long and two are left.\<close>

fun fit_loop :: "Builder \<Rightarrow> string \<Rightarrow> RecentMessage list \<Rightarrow> RecentMessage list" where
  "fit_loop b taskContext (m1 # m2 # ms) =
    (if estimateTokens (composePrompt b taskContext (m1 # m2 # ms)) \<le> maxContextTokens b then m1 # m2 # ms
     else fit_loop b taskContext (m2 # ms))"
| "fit_loop b taskContext [m] =
    [m\<lparr>rmCiphertext := (if length (rmCiphertext m) > 280 then take 280 (rmCiphertext m) @ ''...''
       else rmCiphertext m)\<rparr>]"
| "fit_loop b taskContext [] = []"

definition fitRecentToTokenCap :: "Builder \<Rightarrow> string \<Rightarrow> RecentMessage list \<Rightarrow> RecentMessage list" where
  "fitRecentToTokenCap b taskContext recent =
    (if length recent = 0 then recent else fit_loop b taskContext recent)"

definition newest :: "nat \<Rightarrow> 'a list \<Rightarrow> 'a list" where
  "newest n xs = (if length xs > n then drop (length xs - n) xs else xs)"

definition Build :: "(string \<Rightarrow> string) \<Rightarrow> Builder \<Rightarrow> BuildInput \<Rightarrow> Bundle" where
  "Build sha b inp =
    (let recent = newest (maxRecentMessage b) (RecentMessages inp);
         recent = fitRecentToTokenCap b (TaskContext inp) recent;
         prompt = renderCanonicalPrompt b (TaskContext inp) recent
     in \<lparr>Prompt = prompt, BundleHash = sha prompt, bOrderedStack = orderedStack b,
         bSystemCoreHash = systemCoreHash b, bGlobalRulesHash = globalRulesHash b,
         bAgentRulesHash = agentRulesHash b, bIdentityHash = identityHash b, bSoulHash = soulHash b,
         bUserHash = userHash b\<rparr>)"

section \<open>Which part of the conversation is kept\<close>

definition fits :: "Builder \<Rightarrow> string \<Rightarrow> RecentMessage list \<Rightarrow> bool" where
  "fits b taskContext ms \<longleftrightarrow> estimateTokens (renderCanonicalPrompt b taskContext ms) \<le> maxContextTokens b"

definition clip_message :: "RecentMessage \<Rightarrow> RecentMessage" where
  "clip_message m = m\<lparr>rmCiphertext :=
     (if length (rmCiphertext m) > 280 then take 280 (rmCiphertext m) @ ''...'' else rmCiphertext m)\<rparr>"

lemma fit_loop_first_fit:
  "k + 2 \<le> length ms \<Longrightarrow> fits b tc (drop k ms) \<Longrightarrow> (\<And>j. j < k \<Longrightarrow> \<not> fits b tc (drop j ms)) \<Longrightarrow>
   fit_loop b tc ms = drop k ms"
proof (induction b tc ms arbitrary: k rule: fit_loop.induct)
  case (1 b tc m1 m2 ms)
  show ?case
  proof (cases k)
    case 0
    with "1.prems" show ?thesis by (simp add: fits_def composePrompt_def)
  next
    case (Suc j)
    then have no: "\<not> fits b tc (m1 # m2 # ms)" using "1.prems"(3) [of 0] by simp
    have "fit_loop b tc (m2 # ms) = drop j (m2 # ms)"
    proof (rule "1.IH")
      show "\<not> estimateTokens (composePrompt b tc (m1 # m2 # ms)) \<le> maxContextTokens b"
        using no by (simp add: fits_def composePrompt_def)
      show "j + 2 \<le> length (m2 # ms)" "fits b tc (drop j (m2 # ms))"
        using "1.prems"(1,2) Suc by simp_all
      show "\<not> fits b tc (drop i (m2 # ms))" if "i < j" for i
        using "1.prems"(3) [of "Suc i"] that Suc by simp
    qed
    with no Suc show ?thesis by (simp add: fits_def composePrompt_def)
  qed
qed simp_all

lemma fit_loop_no_fit:
  "ms \<noteq> [] \<Longrightarrow> (\<And>j. j + 2 \<le> length ms \<Longrightarrow> \<not> fits b tc (drop j ms)) \<Longrightarrow>
   fit_loop b tc ms = [clip_message (last ms)]"
proof (induction b tc ms rule: fit_loop.induct)
  case (1 b tc m1 m2 ms)
  have no: "\<not> fits b tc (m1 # m2 # ms)" using "1.prems"(2) [of 0] by simp
  have "fit_loop b tc (m2 # ms) = [clip_message (last (m2 # ms))]"
  proof (rule "1.IH")
    show "\<not> estimateTokens (composePrompt b tc (m1 # m2 # ms)) \<le> maxContextTokens b"
      using no by (simp add: fits_def composePrompt_def)
    show "\<not> fits b tc (drop j (m2 # ms))" if "j + 2 \<le> length (m2 # ms)" for j
      using "1.prems"(2) [of "Suc j"] that by simp
  qed simp
  with no show ?case by (simp add: fits_def composePrompt_def)
qed (simp_all add: clip_message_def)

lemma newest_drop: "newest n xs = drop (length xs - n) xs"
  by (simp add: newest_def)

definition fitting_run :: "Builder \<Rightarrow> string \<Rightarrow> RecentMessage list \<Rightarrow> nat \<Rightarrow> bool" where
  "fitting_run b tc ms k \<longleftrightarrow> k + 2 \<le> length ms \<and> fits b tc (drop k ms)"

lemma fit_loop_spec:
  assumes "ms \<noteq> []"
  shows "fit_loop b tc ms =
    (if \<exists>k. fitting_run b tc ms k then drop (LEAST k. fitting_run b tc ms k) ms else [clip_message (last ms)])"
proof (cases "\<exists>k. fitting_run b tc ms k")
  case True
  then have ok: "fitting_run b tc ms (LEAST k. fitting_run b tc ms k)" by (rule LeastI_ex)
  have "fit_loop b tc ms = drop (LEAST k. fitting_run b tc ms k) ms"
  proof (rule fit_loop_first_fit)
    show "(LEAST k. fitting_run b tc ms k) + 2 \<le> length ms"
      "fits b tc (drop (LEAST k. fitting_run b tc ms k) ms)"
      using ok by (simp_all add: fitting_run_def)
    show "\<not> fits b tc (drop j ms)" if "j < (LEAST k. fitting_run b tc ms k)" for j
      using not_less_Least [OF that] ok that by (auto simp: fitting_run_def)
  qed
  with True show ?thesis by simp
next
  case False
  then have "fit_loop b tc ms = [clip_message (last ms)]"
    by (intro fit_loop_no_fit assms) (auto simp: fitting_run_def)
  with False show ?thesis by simp
qed


definition ex_builder :: Builder where
  "ex_builder = \<lparr>systemCoreText = [], globalRulesText = [], agentRulesText = [], identityText = [],
     soulText = [], userText = [], orderedStack = stack_markers, systemCoreHash = [], globalRulesHash = [],
     agentRulesHash = [], identityHash = [], soulHash = [], userHash = [], maxRecentMessage = 6,
     maxContextTokens = 1\<rparr>"

definition ex_recent :: RecentMessage where
  "ex_recent = \<lparr>rmTurn = 0, rmSenderID = ''a'', rmCiphertext = ''hi''\<rparr>"


text \<open>
  A lone message is clipped whatever the cap. When the room has a single message, it is cut to 280
  bytes even if the prompt with the whole message is within the token cap.
\<close>

theorem lone_message_always_clipped:
  assumes "280 < length (rmCiphertext m)" and "0 < maxRecentMessage b"
    and "estimateTokens (renderCanonicalPrompt b tc [m]) \<le> maxContextTokens b"
  shows "Prompt (Build sha b \<lparr>TaskContext = tc, RecentMessages = [m]\<rparr>) =
    renderCanonicalPrompt b tc [m\<lparr>rmCiphertext := take 280 (rmCiphertext m) @ ''...''\<rparr>]"
  using assms by (simp add: Build_def Let_def newest_def fitRecentToTokenCap_def)

theorem lone_message_always_clipped_witness:
  "Prompt (Build id (ex_builder\<lparr>maxContextTokens := 1000\<rparr>) \<lparr>TaskContext = [],
      RecentMessages = [ex_recent\<lparr>rmCiphertext := replicate 300 (CHR ''x'')\<rparr>]\<rparr>) =
    renderCanonicalPrompt (ex_builder\<lparr>maxContextTokens := 1000\<rparr>) []
      [ex_recent\<lparr>rmCiphertext := replicate 280 (CHR ''x'') @ ''...''\<rparr>]"
proof -
  have "estimateTokens (renderCanonicalPrompt (ex_builder\<lparr>maxContextTokens := 1000\<rparr>) []
      [ex_recent\<lparr>rmCiphertext := replicate 300 (CHR ''x'')\<rparr>]) \<le> 1000"
    by code_simp
  then show ?thesis
    using lone_message_always_clipped [of "ex_recent\<lparr>rmCiphertext := replicate 300 (CHR ''x'')\<rparr>"
        "ex_builder\<lparr>maxContextTokens := 1000\<rparr>" "[]" id]
    by (simp add: ex_builder_def)
qed

end
