(* ===== verification/A2A_Base.thy ===== *)
theory A2A_Base
  imports Sql_Rules Prompt_Builder Message_Policy Rate_Window
begin

text \<open>
  The ground of the service of \<open>internal/service/a2a/service.go\<close>: its configuration and state, its
  errors, the pure helpers on rooms, and the operations that queue webhooks and stream deliveries.

  \<^item> The state is the store's state extended by the fields of \<open>Service\<close> that change, the clock and the
    random source (streams, one element per call), and the room events handed to \<open>emit\<close>.
  \<^item> \<open>Blocked\<close> is the outcome of a call that never returns because it locks a mutex its own goroutine
    already holds; no error handler of the source sees it, so every handler here passes it on.
  \<^item> SHA-256, AES-GCM, the formats of \<open>time.Format\<close>, JSON text and the Unicode tables are functions of
    the configuration.
\<close>

section \<open>Errors, configuration and state\<close>

datatype svc_error =
    ErrBadRequest | ErrUnauthorized | ErrForbidden | ErrSvcNotFound | ErrSvcConflict | ErrTurnMismatch
  | ErrStaleBundleHash | ErrRoomNotActive | ErrGone | ErrRateLimit | ErrPolicyBlocked | ErrPayloadTooLarge
  | RepoErr repo_error
  | CipherErr cipher_error
  | Blocked

datatype jval = JStr string | JInt int | JBool bool

record recentMemoryEntry =
  me_Turn :: int
  me_SenderID :: string

record roomContextPayload =
  cx_RoomID :: string
  cx_Topic :: string
  cx_ConversationMode :: string
  cx_ConversationSummary :: string
  cx_AgentAID :: string
  cx_AgentBID :: string
  cx_LastActorID :: string
  cx_LastFetch :: "(string, int) gomap"
  cx_State :: string
  cx_TurnIndex :: int
  cx_MaxTurns :: int
  cx_TTLAt :: string
  cx_ClosedAt :: "string option"
  cx_RecentMemory :: "recentMemoryEntry list"

record svc_conf =
  crypt :: crypto
  sealC :: Cipher
  roomSealC :: Cipher
  builder :: Builder
  heartbeatTimeout :: duration
  graceDelay :: duration
  closedRetention :: duration
  shared :: bool
  rfc3339 :: "time \<Rightarrow> string"
  rfc3339nano :: "time \<Rightarrow> string"
  marshalMap :: "(string \<times> jval) list \<Rightarrow> string"
  marshalCtx :: "roomContextPayload \<Rightarrow> string"
  unmarshalCtx :: "string \<Rightarrow> roomContextPayload option"
  errText :: "svc_error \<Rightarrow> string"
  uniLower :: "string \<Rightarrow> string"
  uniFold :: "string \<Rightarrow> string \<Rightarrow> bool"

record svc = pg +
  joinedBy :: "string \<Rightarrow> string \<Rightarrow> bool"
  agentWindows :: "string \<rightharpoonup> time list"
  roomWindows :: "string \<rightharpoonup> time list"
  policyWindows :: "string \<rightharpoonup> time list"
  blockedAgents :: "string \<rightharpoonup> time"
  locksHeld :: "string list"
  published :: "RoomEvent list"
  wallClock :: "nat \<Rightarrow> time"
  wallTicks :: nat
  randoms :: "nat \<Rightarrow> string"
  randomDraws :: nat

type_synonym 'a prog = "(svc, svc_error + 'a) state"

definition s_now :: "(svc, time) state" where
  "s_now = State (\<lambda>s. (wallClock s (wallTicks s), s\<lparr>wallTicks := Suc (wallTicks s)\<rparr>))"

definition svc_random :: "(svc, string) state" where
  "svc_random = State (\<lambda>s. (randoms s (randomDraws s), s\<lparr>randomDraws := Suc (randomDraws s)\<rparr>))"

definition svc_newID :: "string \<Rightarrow> (svc, string) state" where
  "svc_newID pre = do { t \<leftarrow> svc_random; State_Monad.return (pre @ ''_'' @ t) }"

definition hex_digit :: "nat \<Rightarrow> char" where
  "hex_digit n = (if n < 10 then char_of (48 + n) else char_of (87 + n))"

definition hexEncode :: "string \<Rightarrow> string" where
  "hexEncode s = concat (map (\<lambda>c. [hex_digit (of_char c div 16), hex_digit (of_char c mod 16)]) s)"

definition hashText :: "svc_conf \<Rightarrow> string \<Rightarrow> string" where
  "hashText C s = hexEncode (Sum256 (crypt C) s)"

text \<open>A store operation in the service, with its errors passed on.\<close>

definition store :: "(svc, repo_error + 'a) state \<Rightarrow> 'a prog" where
  "store m = mapErr RepoErr m"

text \<open>A store operation whose \<open>ErrNotFound\<close> the service turns into an error of its own.\<close>

definition store_nf :: "svc_error \<Rightarrow> (svc, repo_error + 'a) state \<Rightarrow> 'a prog" where
  "store_nf err m = mapErr (\<lambda>e. if e = ErrNotFound then err else RepoErr e) m"

text \<open>\<open>if err := ...; err != nil { handle }\<close> for an error that does not end the caller.\<close>

definition besteffort :: "'a prog \<Rightarrow> (svc_error \<Rightarrow> unit prog) \<Rightarrow> unit prog" where
  "besteffort m h = do {
     r \<leftarrow> m;
     case r of
       Inr _ \<Rightarrow> ok ()
     | Inl err \<Rightarrow> if err = Blocked then fail Blocked else h err }"

definition appendAuditEventBestEffort ::
  "svc_conf \<Rightarrow> string \<Rightarrow> string \<Rightarrow> (string \<times> jval) list \<Rightarrow> int \<Rightarrow> unit prog" where
  "appendAuditEventBestEffort C roomID event meta messageCount =
    (if TrimSpace roomID = [] \<or> TrimSpace event = [] then ok ()
     else do {
       r \<leftarrow> AppendAuditEvent \<lparr>aai_RoomID = roomID, aai_Event = event, aai_Meta = marshalMap C meta,
              aai_MessageCount = messageCount\<rparr>;
       ok () })"

definition publishRoomEvents :: "RoomEvent list \<Rightarrow> unit prog" where
  "publishRoomEvents events = do {
     modify (\<lambda>s. s\<lparr>published := published s @
       filter (\<lambda>ev. \<not> (ev_ID ev = 0 \<or> TrimSpace (ev_RoomID ev) = [])) events\<rparr>);
     ok () }"

section \<open>Helpers on rooms\<close>

definition nextActorIDForRoom :: "Room \<Rightarrow> string" where
  "nextActorIDForRoom rm =
    (if room_State rm \<noteq> RoomStateOpen \<and> room_State rm \<noteq> RoomStateActive then []
     else if go_rem (room_TurnIndex rm) 2 = 0 then room_AgentAID rm else room_AgentBID rm)"

definition roomParticipantJoined :: "Room \<Rightarrow> string \<Rightarrow> (string \<Rightarrow> bool) \<Rightarrow> bool" where
  "roomParticipantJoined rm agentID joined =
    (let agentID = TrimSpace agentID in
     if agentID = [] then False
     else if joined agentID then True
     else if TrimSpace (room_AgentBID rm) = [] then room_State rm = RoomStateOpen \<and> agentID = room_AgentAID rm
     else room_State rm = RoomStateActive \<and> (agentID = room_AgentAID rm \<or> agentID = room_AgentBID rm))"

definition buildJoinedMap :: "Room \<Rightarrow> (string \<Rightarrow> bool) \<Rightarrow> (string, bool) gomap" where
  "buildJoinedMap rm joined =
    (let out = (if TrimSpace (room_AgentAID rm) \<noteq> []
           then gm_put (room_AgentAID rm) (roomParticipantJoined rm (room_AgentAID rm) joined) [] else [])
     in if TrimSpace (room_AgentBID rm) \<noteq> []
        then gm_put (room_AgentBID rm) (roomParticipantJoined rm (room_AgentBID rm) joined) out else out)"

definition roomScopeAutomation :: string where
  "roomScopeAutomation = ''room:automation''"

definition roomScopeReadOnly :: string where
  "roomScopeReadOnly = ''room:read_only''"

definition roomScopedTokenAllows :: "string \<Rightarrow> string \<Rightarrow> bool" where
  "roomScopedTokenAllows scope action =
    (if TrimSpace scope = roomScopeAutomation then True
     else if TrimSpace scope = roomScopeReadOnly then TrimSpace action = ''room:state'' \<or> TrimSpace action = ''room:context''
     else False)"

definition roomScopedTokenRefreshThreshold :: duration where
  "roomScopedTokenRefreshThreshold = 60 * Second"

definition shouldRefreshRoomScopedToken :: "time \<Rightarrow> time \<Rightarrow> bool" where
  "shouldRefreshRoomScopedToken expiresAt now =
    (if expiresAt = zero_time then True else time_sub expiresAt now \<le> roomScopedTokenRefreshThreshold)"

definition eventTime :: "RoomEvent \<Rightarrow> time \<Rightarrow> time" where
  "eventTime ev fallback = (if ev_CreatedAt ev \<noteq> zero_time then ev_CreatedAt ev else fallback)"

fun uniqueAgentIDs :: "string list \<Rightarrow> string list \<Rightarrow> string list" where
  "uniqueAgentIDs seen [] = []"
| "uniqueAgentIDs seen (raw # ids) =
    (let i = TrimSpace raw in
     if i = [] \<or> i \<in> set seen then uniqueAgentIDs seen ids else i # uniqueAgentIDs (i # seen) ids)"

definition webhookTargetAgentIDs :: "Room \<Rightarrow> string \<Rightarrow> string list" where
  "webhookTargetAgentIDs rm actorID =
    filter (\<lambda>c. c \<noteq> TrimSpace actorID) (uniqueAgentIDs [] [room_AgentAID rm, room_AgentBID rm])"

definition otherAgentIDForWebhook :: "Room \<Rightarrow> string \<Rightarrow> string" where
  "otherAgentIDForWebhook rm targetAgentID =
    (let t = TrimSpace targetAgentID in
     if t = [] then []
     else if t = TrimSpace (room_AgentAID rm) then TrimSpace (room_AgentBID rm)
     else if t = TrimSpace (room_AgentBID rm) then TrimSpace (room_AgentAID rm)
     else [])"

definition supportsWebhookOutbox :: "string \<Rightarrow> bool" where
  "supportsWebhookOutbox eventType \<longleftrightarrow>
     eventType \<in> {''room.joined'', ''message.created'', ''room.closed'', ''room.purged''}"

definition webhookEventReason :: "string \<Rightarrow> string" where
  "webhookEventReason eventType = ReplaceByte (CHR ''.'') (CHR ''_'') (TrimSpace eventType)"

section \<open>Room message keys\<close>

definition newRoomMessageCipher :: "svc_conf \<Rightarrow> (string \<times> Cipher) prog" where
  "newRoomMessageCipher C = do {
     t \<leftarrow> svc_random;
     nonce \<leftarrow> svc_random;
     (case Encrypt (crypt C) (roomSealC C) nonce (''mk_'' @ t) of
        Inl err \<Rightarrow> fail (CipherErr err)
      | Inr wrapped \<Rightarrow> ok (wrapped, New (crypt C) (''mk_'' @ t))) }"

definition roomMessageCipher :: "svc_conf \<Rightarrow> Room \<Rightarrow> cipher_error + Cipher option" where
  "roomMessageCipher C rm =
    (if TrimSpace (room_MessageKeyCiphertext rm) = [] then Inr None
     else (case Decrypt (crypt C) (roomSealC C) (room_MessageKeyCiphertext rm) of
             Inl err \<Rightarrow> Inl err
           | Inr keyMaterial \<Rightarrow> Inr (Some (New (crypt C) keyMaterial))))"

definition ensureRoomMessageCipher :: "svc_conf \<Rightarrow> Room \<Rightarrow> (Room \<times> Cipher option) prog" where
  "ensureRoomMessageCipher C rm =
    (if TrimSpace (room_MessageKeyCiphertext rm) \<noteq> []
     then (case roomMessageCipher C rm of Inl err \<Rightarrow> fail (CipherErr err) | Inr c \<Rightarrow> ok (rm, c))
     else attempt (newRoomMessageCipher C) (\<lambda>(wrapped, c).
       attempt (store (UpdateRoom ((update_room_input (room_ID rm))\<lparr>uri_MessageKeyCiphertext := Some wrapped\<rparr>))) (\<lambda>updated.
       ok (updated, Some c))))"

fun decrypt_messages :: "svc_conf \<Rightarrow> Cipher \<Rightarrow> Message list \<Rightarrow> cipher_error + Message list" where
  "decrypt_messages C c [] = Inr []"
| "decrypt_messages C c (m # ms) =
    (if TrimSpace (msg_Ciphertext m) = []
     then map_sum id ((#) m) (decrypt_messages C c ms)
     else (case Decrypt (crypt C) c (msg_Ciphertext m) of
       Inl err \<Rightarrow> Inl err
     | Inr plain \<Rightarrow> map_sum id ((#) (m\<lparr>msg_Ciphertext := plain\<rparr>)) (decrypt_messages C c ms)))"

definition decryptRoomMessages :: "svc_conf \<Rightarrow> Room \<Rightarrow> Message list \<Rightarrow> cipher_error + Message list" where
  "decryptRoomMessages C rm msgs =
    (case roomMessageCipher C rm of
       Inl err \<Rightarrow> Inl err
     | Inr None \<Rightarrow> Inr msgs
     | Inr (Some c) \<Rightarrow> decrypt_messages C c msgs)"

definition cipher_result :: "cipher_error + 'a \<Rightarrow> 'a prog" where
  "cipher_result r = (case r of Inl err \<Rightarrow> fail (CipherErr err) | Inr x \<Rightarrow> ok x)"

section \<open>Queueing deliveries\<close>

definition agentStreamReplayWindow :: duration where
  "agentStreamReplayWindow = 30 * Minute"

definition stream_input :: "string \<Rightarrow> string \<Rightarrow> Room \<Rightarrow> string \<Rightarrow> string \<Rightarrow> string \<Rightarrow> time \<Rightarrow> CreateAgentStreamDeliveryInput" where
  "stream_input i agentID rm typ reason payload occurredAt =
    \<lparr>cdi_DeliveryID = i, cdi_AgentID = agentID, cdi_RoomID = room_ID rm, cdi_Type = typ,
     cdi_Reason = TrimSpace reason, cdi_Payload = payload, cdi_Status = ''pending'',
     cdi_ExpiresAt = occurredAt + agentStreamReplayWindow\<rparr>"

definition enqueueAgentStreamTurnReady :: "svc_conf \<Rightarrow> Room \<Rightarrow> string \<Rightarrow> time \<Rightarrow> unit prog" where
  "enqueueAgentStreamTurnReady C rm reason occurredAt =
    (let target = TrimSpace (nextActorIDForRoom rm) in
     if room_State rm \<noteq> RoomStateActive \<or> target = [] then ok ()
     else do {
       i \<leftarrow> svc_newID ''dly'';
       attempt (store (createAgentStreamDelivery (stream_input i target rm ''room.turn_ready'' reason
         (marshalMap C [(''type'', JStr ''room.turn_ready''), (''room_id'', JStr (room_ID rm)),
           (''target_agent_id'', JStr target), (''room_state'', JStr (state_text (room_State rm))),
           (''next_turn'', JInt (room_TurnIndex rm)), (''next_actor_id'', JStr target),
           (''reason'', JStr (TrimSpace reason)), (''occurred_at'', JStr (rfc3339nano C occurredAt))]) occurredAt)))
       (\<lambda>_. ok ()) })"

fun terminal_loop :: "svc_conf \<Rightarrow> Room \<Rightarrow> string \<Rightarrow> string \<Rightarrow> time \<Rightarrow> string list \<Rightarrow> unit prog" where
  "terminal_loop C rm typ reason occurredAt [] = ok ()"
| "terminal_loop C rm typ reason occurredAt (target # ts) = do {
     i \<leftarrow> svc_newID ''dly'';
     attempt (store (createAgentStreamDelivery (stream_input i target rm typ reason
       (marshalMap C ([(''type'', JStr typ), (''room_id'', JStr (room_ID rm)),
         (''target_agent_id'', JStr target), (''room_state'', JStr (state_text (room_State rm))),
         (''reason'', JStr (TrimSpace reason)), (''occurred_at'', JStr (rfc3339nano C occurredAt))] @
         (case room_ClosedAt rm of None \<Rightarrow> [] | Some t \<Rightarrow> [(''closed_at'', JStr (rfc3339nano C t))]) @
         (case room_PurgedAt rm of None \<Rightarrow> [] | Some t \<Rightarrow> [(''purged_at'', JStr (rfc3339nano C t))]))) occurredAt)))
     (\<lambda>_. terminal_loop C rm typ reason occurredAt ts) }"

definition enqueueAgentStreamTerminal :: "svc_conf \<Rightarrow> Room \<Rightarrow> string \<Rightarrow> string \<Rightarrow> time \<Rightarrow> unit prog" where
  "enqueueAgentStreamTerminal C rm typ reason occurredAt =
    terminal_loop C rm typ reason occurredAt (uniqueAgentIDs [] [room_AgentAID rm, room_AgentBID rm])"

definition webhook_payload :: "svc_conf \<Rightarrow> Room \<Rightarrow> RoomEvent \<Rightarrow> string \<Rightarrow> string \<Rightarrow> (string \<times> jval) list" where
  "webhook_payload C rm event target deliveryID =
    [(''event_id'', JInt (ev_ID event)), (''type'', JStr (ev_EventType event)), (''room_id'', JStr (room_ID rm)),
     (''target_agent_id'', JStr target), (''room_state'', JStr (state_text (room_State rm))),
     (''next_turn'', JInt (room_TurnIndex rm)), (''reason'', JStr (webhookEventReason (ev_EventType event))),
     (''occurred_at'', JStr (rfc3339nano C (ev_CreatedAt event)))] @
    (if nextActorIDForRoom rm \<noteq> [] then [(''next_actor_id'', JStr (nextActorIDForRoom rm))] else []) @
    (if otherAgentIDForWebhook rm target \<noteq> [] then [(''other_agent_id'', JStr (otherAgentIDForWebhook rm target))] else []) @
    [(''delivery_id'', JStr deliveryID)]"

definition webhook_input ::
  "svc_conf \<Rightarrow> Room \<Rightarrow> RoomEvent \<Rightarrow> string \<Rightarrow> time \<Rightarrow> string \<Rightarrow> string \<Rightarrow> CreateWebhookOutboxInput" where
  "webhook_input C rm event target attemptAt endpointID deliveryID =
    \<lparr>coi_RoomID = room_ID rm, coi_RoomEventID = ev_ID event, coi_TargetAgentID = target,
     coi_EndpointID = endpointID, coi_EventType = ev_EventType event,
     coi_Payload = marshalMap C (webhook_payload C rm event target deliveryID), coi_Status = ''pending'',
     coi_AttemptCount = 0, coi_NextAttemptAt = attemptAt, coi_LastError = []\<rparr>"

fun webhook_endpoint_loop ::
  "svc_conf \<Rightarrow> Room \<Rightarrow> RoomEvent \<Rightarrow> string \<Rightarrow> time \<Rightarrow> AgentWebhookEndpoint list \<Rightarrow> unit prog" where
  "webhook_endpoint_loop C rm event target attemptAt [] = ok ()"
| "webhook_endpoint_loop C rm event target attemptAt (ep # eps) =
    (if \<not> ep_Enabled ep then webhook_endpoint_loop C rm event target attemptAt eps
     else do {
       i \<leftarrow> svc_newID ''whd'';
       attempt (store (CreateWebhookOutbox (webhook_input C rm event target attemptAt (ep_ID ep) i)))
         (\<lambda>_. webhook_endpoint_loop C rm event target attemptAt eps) })"

fun webhook_target_loop :: "svc_conf \<Rightarrow> Room \<Rightarrow> RoomEvent \<Rightarrow> time \<Rightarrow> string list \<Rightarrow> unit prog" where
  "webhook_target_loop C rm event attemptAt [] = ok ()"
| "webhook_target_loop C rm event attemptAt (target # ts) =
    attempt (store (ListAgentWebhookEndpoints target)) (\<lambda>eps.
    attempt (webhook_endpoint_loop C rm event target attemptAt eps) (\<lambda>_.
    webhook_target_loop C rm event attemptAt ts))"

definition enqueueWebhookOutboxForEvent :: "svc_conf \<Rightarrow> Room \<Rightarrow> RoomEvent \<Rightarrow> string \<Rightarrow> unit prog" where
  "enqueueWebhookOutboxForEvent C rm event actorID =
    (if \<not> supportsWebhookOutbox (ev_EventType event) then ok ()
     else (let targets = webhookTargetAgentIDs rm actorID in
       if length targets = 0 then ok ()
       else do { attemptAt \<leftarrow> s_now; webhook_target_loop C rm event attemptAt targets }))"

fun revoke_loop :: "string \<Rightarrow> time \<Rightarrow> string list \<Rightarrow> unit prog" where
  "revoke_loop roomID revokedAt [] = ok ()"
| "revoke_loop roomID revokedAt (a # as) =
    (if a = [] then revoke_loop roomID revokedAt as
     else attempt (store (RevokeRoomScopedTokens roomID a revokedAt)) (\<lambda>_. revoke_loop roomID revokedAt as))"

definition revokeRoomScopedTokensForRoom :: "Room \<Rightarrow> time \<Rightarrow> unit prog" where
  "revokeRoomScopedTokensForRoom rm revokedAt =
    revoke_loop (room_ID rm) revokedAt [TrimSpace (room_AgentAID rm), TrimSpace (room_AgentBID rm)]"

definition room_event_input :: "string \<Rightarrow> string \<Rightarrow> string option \<Rightarrow> AppendRoomEventInput" where
  "room_event_input roomID eventType senderID =
    \<lparr>aei_RoomID = roomID, aei_EventType = eventType, aei_MessageID = None, aei_Turn = None,
     aei_SenderID = senderID, aei_Ciphertext = None\<rparr>"

section \<open>Rate windows of a single instance\<close>

definition maxMessagesPerMinuteAgent :: nat where
  "maxMessagesPerMinuteAgent = 30"

definition maxMessagesPerMinuteRoom :: nat where
  "maxMessagesPerMinuteRoom = 60"

definition policyViolationWindow :: duration where
  "policyViolationWindow = 5 * Minute"

definition policyBlockDuration :: duration where
  "policyBlockDuration = 15 * Minute"

definition maxPolicyViolationsWindow :: nat where
  "maxPolicyViolationsWindow = 3"

definition window_of :: "(string \<rightharpoonup> time list) \<Rightarrow> string \<Rightarrow> time list" where
  "window_of w k = (case w k of None \<Rightarrow> [] | Some ts \<Rightarrow> ts)"

definition allowAgentMessageLocked :: "string \<Rightarrow> time \<Rightarrow> (svc, bool) state" where
  "allowAgentMessageLocked agentID now = State (\<lambda>s.
     let kept = prune_window (window_of (agentWindows s) agentID) (now - Minute) in
     if length kept \<ge> maxMessagesPerMinuteAgent
     then (False, s\<lparr>agentWindows := (agentWindows s)(agentID \<mapsto> kept)\<rparr>)
     else (True, s\<lparr>agentWindows := (agentWindows s)(agentID \<mapsto> kept @ [now])\<rparr>))"

definition allowRoomMessageLocked :: "string \<Rightarrow> time \<Rightarrow> (svc, bool) state" where
  "allowRoomMessageLocked roomID now = State (\<lambda>s.
     let kept = prune_window (window_of (roomWindows s) roomID) (now - Minute) in
     if length kept \<ge> maxMessagesPerMinuteRoom
     then (False, s\<lparr>roomWindows := (roomWindows s)(roomID \<mapsto> kept)\<rparr>)
     else (True, s\<lparr>roomWindows := (roomWindows s)(roomID \<mapsto> kept @ [now])\<rparr>))"

definition blockedUntilLocked :: "string \<Rightarrow> time \<Rightarrow> (svc, time option) state" where
  "blockedUntilLocked agentID now = State (\<lambda>s.
     case blockedAgents s agentID of
       None \<Rightarrow> (None, s)
     | Some until \<Rightarrow> if now > until then (None, s\<lparr>blockedAgents := (blockedAgents s)(agentID := None)\<rparr>)
                    else (Some until, s))"

definition recordPolicyViolationLocked :: "string \<Rightarrow> time \<Rightarrow> (svc, nat) state" where
  "recordPolicyViolationLocked agentID now = State (\<lambda>s.
     let kept = prune_window (window_of (policyWindows s) agentID) (now - policyViolationWindow) @ [now];
         s = s\<lparr>policyWindows := (policyWindows s)(agentID \<mapsto> kept)\<rparr>;
         s = (if length kept \<ge> maxPolicyViolationsWindow
              then s\<lparr>blockedAgents := (blockedAgents s)(agentID \<mapsto> now + policyBlockDuration)\<rparr> else s)
     in (length kept, s))"

end
