(* ===== verification/Room_Machine.thy ===== *)
theory Room_Machine
  imports A2A_Base
begin

text \<open>
  The abstract machine of rooms: what the tables \<open>rooms\<close> and \<open>messages\<close> stand for, and the moves a room
  can make. The comments of \<open>internal/domain/room_state.go\<close> and the guards of the service give the moves:
  a room is created, gets its second party, becomes active, holds a turn-taking conversation, is closed
  and purged. \<open>ledger\<close> is the abstraction; the lemmas say what the room statements do to it.
\<close>

section \<open>The machine\<close>

record aroom =
  a_State :: RoomState
  a_A :: string
  a_B :: string
  a_Turn :: int
  a_Max :: int
  a_Talk :: "(int \<times> string) list"

type_synonym ledger = "string \<rightharpoonup> aroom"

definition speaker :: "aroom \<Rightarrow> string" where
  "speaker r = (if go_rem (a_Turn r) 2 = 1 then a_B r else a_A r)"

definition said :: "aroom \<Rightarrow> aroom" where
  "said r = (let t = wrap64 (a_Turn r + 1) in
     r\<lparr>a_State := (if t \<ge> a_Max r then RoomStateClosed else a_State r), a_Turn := t,
       a_Talk := a_Talk r @ [(a_Turn r, speaker r)]\<rparr>)"

definition fresh_room :: "RoomState \<Rightarrow> string \<Rightarrow> string \<Rightarrow> int \<Rightarrow> aroom" where
  "fresh_room st a b mx = \<lparr>a_State = st, a_A = a, a_B = b, a_Turn = 0, a_Max = mx, a_Talk = []\<rparr>"

text \<open>Moves that need no party: closing and purging.\<close>

inductive tidy_move :: "aroom \<Rightarrow> aroom \<Rightarrow> bool" where
  close: "a_State r \<noteq> RoomStateClosed \<Longrightarrow> a_State r \<noteq> RoomStatePurged \<Longrightarrow>
    tidy_move r (r\<lparr>a_State := RoomStateClosed\<rparr>)"
| purge: "a_State r = RoomStateClosed \<Longrightarrow> tidy_move r (r\<lparr>a_State := RoomStatePurged, a_Talk := []\<rparr>)"

inductive tidy_step :: "ledger \<Rightarrow> ledger \<Rightarrow> bool" where
  tidy: "m i = Some r \<Longrightarrow> tidy_move r r' \<Longrightarrow> tidy_step m (m(i \<mapsto> r'))"

text \<open>All moves. A room without a second party may be connected in any state.\<close>

inductive room_move :: "aroom \<Rightarrow> aroom \<Rightarrow> bool" where
  tidied: "tidy_move r r' \<Longrightarrow> room_move r r'"
| connect: "a_B r = [] \<Longrightarrow> b \<noteq> [] \<Longrightarrow> room_move r (r\<lparr>a_B := b, a_State := RoomStateActive\<rparr>)"
| activate: "a_State r = RoomStateOpen \<Longrightarrow> a_B r \<noteq> [] \<Longrightarrow> room_move r (r\<lparr>a_State := RoomStateActive\<rparr>)"
| say: "a_State r = RoomStateActive \<Longrightarrow> room_move r (said r)"

inductive room_step :: "ledger \<Rightarrow> ledger \<Rightarrow> bool" where
  move: "m i = Some r \<Longrightarrow> room_move r r' \<Longrightarrow> room_step m (m(i \<mapsto> r'))"
| create: "m i = None \<Longrightarrow> (st = RoomStateOpen \<and> b = []) \<or> (st = RoomStateActive \<and> b \<noteq> []) \<Longrightarrow>
    room_step m (m(i \<mapsto> fresh_room st a b mx))"

lemma tidy_is_room_step: "tidy_step m m' \<Longrightarrow> room_step m m'"
  by (auto elim!: tidy_step.cases intro!: room_step.move room_move.tidied)

section \<open>The abstraction\<close>

definition abs_room :: "Message list \<Rightarrow> Room \<Rightarrow> aroom" where
  "abs_room ms r = \<lparr>a_State = room_State r, a_A = room_AgentAID r, a_B = room_AgentBID r,
     a_Turn = room_TurnIndex r, a_Max = room_MaxTurns r,
     a_Talk = map (\<lambda>m. (msg_Turn m, msg_SenderID m)) (filter (\<lambda>m. msg_RoomID m = room_ID r) ms)\<rparr>"

definition ledger :: "db \<Rightarrow> ledger" where
  "ledger d i = map_option (abs_room (t_messages d)) (find_room d i)"

text \<open>The foreign key of messages, and the form in which the second party is stored.\<close>

definition rooms_wf :: "db \<Rightarrow> bool" where
  "rooms_wf d \<longleftrightarrow> (\<forall>m \<in> set (t_messages d). has_room d (msg_RoomID m)) \<and>
     (\<forall>r \<in> set (t_rooms d). TrimSpace (room_AgentBID r) = room_AgentBID r)"

text \<open>Two databases with the same rooms, messages and policy records.\<close>

definition same_talk :: "db \<Rightarrow> db \<Rightarrow> bool" where
  "same_talk d d' \<longleftrightarrow> t_rooms d' = t_rooms d \<and> t_messages d' = t_messages d \<and> t_policy d' = t_policy d"

lemma same_talk_refl [simp]: "same_talk d d"
  by (simp add: same_talk_def)

lemma same_talk_trans: "same_talk d d' \<Longrightarrow> same_talk d' d'' \<Longrightarrow> same_talk d d''"
  by (simp add: same_talk_def)

lemma same_rows_talk: "same_rows d d' \<Longrightarrow> same_talk d d'"
  by (simp add: same_talk_def same_rows_tables)

lemma find_room_cong: "t_rooms d' = t_rooms d \<Longrightarrow> find_room d' i = find_room d i"
  by (simp add: find_room_def)

lemma has_room_cong: "t_rooms d' = t_rooms d \<Longrightarrow> has_room d' i = has_room d i"
  by (simp add: has_room_def)

lemma same_talk_ledger:
  assumes "same_talk d d'"
  shows "ledger d' = ledger d" "rooms_wf d' = rooms_wf d" "t_policy d' = t_policy d" "find_room d' = find_room d"
  using assms
  by (auto simp: same_talk_def ledger_def rooms_wf_def has_room_def find_room_def fun_eq_iff)

lemma find_room_SomeD: "find_room d i = Some r \<Longrightarrow> room_ID r = i \<and> r \<in> set (t_rooms d)"
  by (auto simp: find_room_def find_Some_iff)

lemma find_room_again: "find_room d i = Some r \<Longrightarrow> find_room d (room_ID r) = Some r"
  by (auto dest: find_room_SomeD)

lemma has_room_find: "has_room d i \<longleftrightarrow> (\<exists>r. find_room d i = Some r)"
  by (auto simp: has_room_def find_room_def find_Some_iff2 not_None_eq [symmetric] find_None_iff
    simp del: not_None_eq)

lemma find_room_trimmed:
  "rooms_wf d \<Longrightarrow> find_room d i = Some r \<Longrightarrow> TrimSpace (room_AgentBID r) = room_AgentBID r"
  by (auto simp: rooms_wf_def dest: find_room_SomeD)

lemma ledger_find: "find_room d i = Some r \<Longrightarrow> ledger d i = Some (abs_room (t_messages d) r)"
  by (simp add: ledger_def)

section \<open>Effects of the room statements\<close>

text \<open>Replacing the rows with one id.\<close>

definition set_room :: "string \<Rightarrow> (Room \<Rightarrow> Room) \<Rightarrow> db \<Rightarrow> db" where
  "set_room i f d = d\<lparr>t_rooms := map (\<lambda>x. if room_ID x = i then f x else x) (t_rooms d)\<rparr>"

lemma set_room_simps [simp]:
  "t_messages (set_room i f d) = t_messages d" "t_policy (set_room i f d) = t_policy d"
  by (simp_all add: set_room_def)

lemma find_map_same_key:
  assumes "\<And>x. k (f x) = k x"
  shows "find (\<lambda>x. k x = j) (map (\<lambda>x. if k x = i then f x else x) xs) =
    (if j = i then map_option f (find (\<lambda>x. k x = i) xs) else find (\<lambda>x. k x = j) xs)"
  using assms by (induction xs) auto

lemma find_room_set_room:
  "(\<And>x. room_ID (f x) = room_ID x) \<Longrightarrow>
   find_room (set_room i f d) j = (if j = i then map_option f (find_room d i) else find_room d j)"
  by (simp add: find_room_def set_room_def find_map_same_key)

lemma ledger_set_room:
  assumes "\<And>x. room_ID (f x) = room_ID x" and "find_room d i = Some r"
  shows "ledger (set_room i f d) = (ledger d)(i \<mapsto> abs_room (t_messages d) (f r))"
  using assms by (auto simp: ledger_def fun_eq_iff find_room_set_room)

lemma rooms_wf_set_room:
  assumes "rooms_wf d" and "\<And>x. room_ID (f x) = room_ID x"
    and "\<And>x. x \<in> set (t_rooms d) \<Longrightarrow> room_ID x = i \<Longrightarrow> TrimSpace (room_AgentBID (f x)) = room_AgentBID (f x)"
  shows "rooms_wf (set_room i f d)"
proof -
  have "has_room (set_room i f d) j = has_room d j" for j
    using assms(2) by (auto simp: has_room_find find_room_set_room)
  then show ?thesis
    using assms by (auto simp: rooms_wf_def set_room_def)
qed

lemma write_room_simps [simp]:
  "room_ID (write_room c r) = room_ID r" "room_AgentAID (write_room c r) = room_AgentAID r"
  "room_State (write_room c r) = room_State c" "room_TurnIndex (write_room c r) = room_TurnIndex c"
  "room_AgentBID (write_room c r) = TrimSpace (room_AgentBID c)" "room_MaxTurns (write_room c r) = room_MaxTurns r"
  by (simp_all add: write_room_def nullableText_def)

lemma merge_update_simps [simp]:
  "room_ID (merge_update inp r) = room_ID r"
  "room_State (merge_update inp r) = (case uri_State inp of None \<Rightarrow> room_State r | Some x \<Rightarrow> x)"
  "room_AgentBID (merge_update inp r) = (case uri_AgentBID inp of None \<Rightarrow> room_AgentBID r | Some x \<Rightarrow> x)"
  "room_TurnIndex (merge_update inp r) = (case uri_TurnIndex inp of None \<Rightarrow> room_TurnIndex r | Some x \<Rightarrow> x)"
  by (simp_all add: merge_update_def)

lemma update_room_input_simps [simp]:
  "uri_ID (update_room_input i) = i" "uri_State (update_room_input i) = None"
  "uri_AgentBID (update_room_input i) = None" "uri_TurnIndex (update_room_input i) = None"
  by (simp_all add: update_room_input_def)

text \<open>The row that \<open>UpdateRoom\<close> writes over the row \<open>r\<close>, and its effect on the machine.\<close>

definition updated_room :: "UpdateRoomInput \<Rightarrow> Room \<Rightarrow> Room" where
  "updated_room inp r = write_room (merge_update inp r) r"

lemma updated_room_simps [simp]:
  "room_ID (updated_room inp r) = room_ID r"
  "room_State (updated_room inp r) = (case uri_State inp of None \<Rightarrow> room_State r | Some x \<Rightarrow> x)"
  by (simp_all add: updated_room_def)

lemma abs_updated_room:
  "abs_room ms (updated_room inp r) = (abs_room ms r)\<lparr>
     a_State := (case uri_State inp of None \<Rightarrow> room_State r | Some x \<Rightarrow> x),
     a_B := TrimSpace (case uri_AgentBID inp of None \<Rightarrow> room_AgentBID r | Some x \<Rightarrow> x),
     a_Turn := (case uri_TurnIndex inp of None \<Rightarrow> room_TurnIndex r | Some x \<Rightarrow> x)\<rparr>"
  by (simp add: abs_room_def updated_room_def)

lemma succ_GetRoom: "(\<And>d r. P d \<Longrightarrow> find_room d i = Some r \<Longrightarrow> Q r d) \<Longrightarrow> succ P (GetRoom i) Q"
  unfolding GetRoom_def by (rule succ_query) (auto simp: normalizeErr_row_def split: option.splits)

lemma succ_UpdateRoom:
  assumes "\<And>d r. P d \<Longrightarrow> find_room d (uri_ID inp) = Some r \<Longrightarrow>
    Q (updated_room inp r) (set_room (uri_ID inp) (write_room (merge_update inp r)) d)"
  shows "succ P (UpdateRoom inp) Q"
  unfolding UpdateRoom_def
proof (rule succ_attempt)
  show "succ P (GetRoom (uri_ID inp)) (\<lambda>r d. P d \<and> find_room d (uri_ID inp) = Some r)"
    by (rule succ_GetRoom) simp
next
  fix r
  have "Q x d'" if "P d" "find_room d (uri_ID inp) = Some r"
    and d': "d' = set_room (uri_ID inp) (write_room (merge_update inp r)) d"
    and x: "find_room d' (uri_ID inp) = Some x" for d d' x
  proof -
    have "x = updated_room inp r"
      using x that(2) unfolding d' by (simp add: find_room_set_room updated_room_def)
    then show ?thesis using assms [OF that(1,2)] d' by simp
  qed
  note res = this
  show "succ (\<lambda>d. P d \<and> find_room d (uri_ID inp) = Some r) (stmt (\<lambda>now d.
      let current = merge_update inp r in
      if nullableText (room_AgentBID current) \<noteq> [] \<and> \<not> has_agent d (nullableText (room_AgentBID current)) then Inl fk_error
      else (let d' = d\<lparr>t_rooms := map (\<lambda>x. if room_ID x = room_ID current then write_room current x else x) (t_rooms d)\<rparr>
            in (case find_room d' (room_ID current) of
                  None \<Rightarrow> Inl ErrNotFound
                | Some x \<Rightarrow> Inr (x, d'))))) Q"
  proof (rule succ_stmt)
    fix now d x d'
    assume P: "P d \<and> find_room d (uri_ID inp) = Some r"
      and run: "(let current = merge_update inp r in
        if nullableText (room_AgentBID current) \<noteq> [] \<and> \<not> has_agent d (nullableText (room_AgentBID current)) then Inl fk_error
        else (let d' = d\<lparr>t_rooms := map (\<lambda>x. if room_ID x = room_ID current then write_room current x else x) (t_rooms d)\<rparr>
              in (case find_room d' (room_ID current) of
                    None \<Rightarrow> Inl ErrNotFound
                  | Some x \<Rightarrow> Inr (x, d')))) = Inr (x, d')"
    have "room_ID r = uri_ID inp" using P by (auto dest: find_room_SomeD)
    with run have "d' = set_room (uri_ID inp) (write_room (merge_update inp r)) d \<and> find_room d' (uri_ID inp) = Some x"
      by (auto simp: Let_def set_room_def split: if_splits option.splits)
    with res P show "Q x d'" by blast
  qed
qed

text \<open>An update that fails changes nothing.\<close>

lemma stmt_error: "run_state (stmt f) s = (Inl e, s') \<Longrightarrow> tables s' = tables s"
  by (auto simp: stmt_def Let_def split: if_splits sum.splits prod.splits)

lemma query_tables: "tables (snd (run_state (query f) s)) = tables s"
  using hoare_snd [OF keeps_query [where I = "\<lambda>d. d = tables s"]] by blast

lemma UpdateRoom_error:
  assumes "run_state (UpdateRoom inp) s = (Inl e, s')"
  shows "tables s' = tables s"
proof -
  obtain r s1 where r: "run_state (GetRoom (uri_ID inp)) s = (r, s1)" by fastforce
  then have "tables s1 = tables s"
    using query_tables unfolding GetRoom_def by (metis snd_conv)
  with assms r show ?thesis
    by (cases r) (auto simp: UpdateRoom_def attempt_def dest: stmt_error)
qed

lemma keeps_UpdateRoom:
  assumes "succ P (UpdateRoom inp :: ('z pg_scheme, repo_error + Room) state) (\<lambda>_. P)"
  shows "keeps (\<lambda>s. P (tables s)) (UpdateRoom inp :: ('z pg_scheme, repo_error + Room) state)"
proof (rule hoareI)
  fix s :: "'z pg_scheme"
  assume "P (tables s)"
  show "P (tables (snd (run_state (UpdateRoom inp) s)))"
  proof (cases "fst (run_state (UpdateRoom inp) s)")
    case (Inl e)
    then have "run_state (UpdateRoom inp) s = (Inl e, snd (run_state (UpdateRoom inp) s))"
      by (metis prod.collapse)
    from UpdateRoom_error [OF this] \<open>P (tables s)\<close> show ?thesis by simp
  next
    case (Inr x)
    then have "run_state (UpdateRoom inp) s = (Inr x, snd (run_state (UpdateRoom inp) s))"
      by (metis prod.collapse)
    from succD [OF assms \<open>P (tables s)\<close> this] show ?thesis .
  qed
qed

lemma ledger_UpdateRoom:
  assumes "find_room d (uri_ID inp) = Some r"
  shows "ledger (set_room (uri_ID inp) (write_room (merge_update inp r)) d) =
    (ledger d)(uri_ID inp \<mapsto> abs_room (t_messages d) (updated_room inp r))"
  using ledger_set_room [of "write_room (merge_update inp r)", OF _ assms] by (simp add: updated_room_def)

lemma rooms_wf_UpdateRoom [simp]:
  "rooms_wf d \<Longrightarrow> rooms_wf (set_room i (write_room c) d)"
  by (rule rooms_wf_set_room) simp_all

lemma find_room_UpdateRoom:
  assumes "find_room d (uri_ID inp) = Some r"
  shows "find_room (set_room (uri_ID inp) (write_room (merge_update inp r)) d) (uri_ID inp) = Some (updated_room inp r)"
  using assms by (simp add: find_room_set_room updated_room_def)

text \<open>An update outside the columns of the machine, and one that closes the room.\<close>

lemma ledger_quiet_update:
  assumes "rooms_wf d" "find_room d (uri_ID inp) = Some r"
    "uri_State inp = None" "uri_AgentBID inp = None" "uri_TurnIndex inp = None"
  shows "ledger (set_room (uri_ID inp) (write_room (merge_update inp r)) d) = ledger d"
proof -
  have "abs_room (t_messages d) (updated_room inp r) = abs_room (t_messages d) r"
    using assms(3-) find_room_trimmed [OF assms(1,2)] by (simp add: abs_updated_room) (simp add: abs_room_def)
  then show ?thesis
    using ledger_find [OF assms(2)] assms(2) by (simp add: ledger_UpdateRoom fun_upd_idem)
qed

lemma ledger_state_update:
  assumes "rooms_wf d" "find_room d (uri_ID inp) = Some r"
    "uri_State inp = Some st" "uri_AgentBID inp = None" "uri_TurnIndex inp = None"
  shows "ledger (set_room (uri_ID inp) (write_room (merge_update inp r)) d) =
    (ledger d)(uri_ID inp \<mapsto> (abs_room (t_messages d) r)\<lparr>a_State := st\<rparr>)"
proof -
  have "abs_room (t_messages d) (updated_room inp r) = (abs_room (t_messages d) r)\<lparr>a_State := st\<rparr>"
    using assms(3-) find_room_trimmed [OF assms(1,2)] by (simp add: abs_updated_room) (simp add: abs_room_def)
  then show ?thesis using assms(2) by (simp add: ledger_UpdateRoom)
qed

section \<open>Turn-taking\<close>

text \<open>The conversation of the first \<open>n\<close> turns, and the invariant of a room of the machine.\<close>

definition turns :: "string \<Rightarrow> string \<Rightarrow> nat \<Rightarrow> (int \<times> string) list" where
  "turns a b n = map (\<lambda>k. (int k, if even k then a else b)) [0..<n]"

lemma turns_0 [simp]: "turns a b 0 = []"
  by (simp add: turns_def)

lemma turns_Suc [simp]: "turns a b (Suc n) = turns a b n @ [(int n, if even n then a else b)]"
  by (simp add: turns_def)

definition aroom_inv :: "aroom \<Rightarrow> bool" where
  "aroom_inv r \<longleftrightarrow> a_Max r \<le> max64 \<longrightarrow>
     0 \<le> a_Turn r \<and> (a_Turn r \<le> 1 \<or> a_Turn r \<le> a_Max r) \<and>
     (a_B r = [] \<longrightarrow> a_State r \<noteq> RoomStateActive \<and> a_Turn r = 0 \<and> a_Talk r = []) \<and>
     (a_State r = RoomStateOpen \<or> a_State r = RoomStateActive \<longrightarrow> a_Turn r = 0 \<or> a_Turn r < a_Max r) \<and>
     (a_State r \<noteq> RoomStatePurged \<longrightarrow> a_Talk r = turns (a_A r) (a_B r) (nat (a_Turn r)))"

lemma speaker_turn: "0 \<le> a_Turn r \<Longrightarrow> speaker r = (if even (nat (a_Turn r)) then a_A r else a_B r)"
  by (simp add: speaker_def even_nat_iff) (simp add: even_iff_mod_2_eq_zero)

lemma aroom_inv_said:
  assumes "aroom_inv r" "a_State r = RoomStateActive"
  shows "aroom_inv (said r)"
proof (cases "a_Max r \<le> max64")
  case True
  with assms have r: "0 \<le> a_Turn r" "a_Turn r = 0 \<or> a_Turn r < a_Max r" "a_B r \<noteq> []"
    "a_Talk r = turns (a_A r) (a_B r) (nat (a_Turn r))" by (auto simp: aroom_inv_def)
  with True have "wrap64 (a_Turn r + 1) = a_Turn r + 1"
    by (intro wrap64_id) (auto simp: in64_def min64_def max64_def)
  moreover have "nat (a_Turn r + 1) = Suc (nat (a_Turn r))" using r(1) by simp
  ultimately have "said r = r\<lparr>a_State := (if a_Turn r + 1 \<ge> a_Max r then RoomStateClosed else RoomStateActive),
      a_Turn := a_Turn r + 1, a_Talk := turns (a_A r) (a_B r) (nat (a_Turn r + 1))\<rparr>"
    using r assms(2) by (simp add: said_def speaker_turn)
  then show ?thesis
    using r by (auto simp: aroom_inv_def)
qed (simp add: aroom_inv_def said_def Let_def)

lemma aroom_inv_move: "room_move r r' \<Longrightarrow> aroom_inv r \<Longrightarrow> aroom_inv r'"
proof (induction rule: room_move.induct)
  case (tidied r r')
  then show ?case by (cases rule: tidy_move.cases) (simp_all add: aroom_inv_def)
next
  case (say r)
  then show ?case by (simp add: aroom_inv_said)
qed (simp_all add: aroom_inv_def)

lemma aroom_inv_steps:
  assumes "room_step\<^sup>*\<^sup>* m m'" and "\<forall>r \<in> ran m. aroom_inv r"
  shows "\<forall>r \<in> ran m'. aroom_inv r"
  using assms
proof (induction rule: rtranclp_induct)
  case (step y z)
  from step.hyps(2) show ?case
  proof cases
    case (move i r r')
    then have "aroom_inv r'" using step.IH step.prems aroom_inv_move by (auto simp: ran_def)
    then show ?thesis using move step.IH step.prems by (auto simp: ran_def)
  next
    case (create i st b a mx)
    have "aroom_inv (fresh_room st a b mx)"
      using create(3) by (auto simp: aroom_inv_def fresh_room_def)
    then show ?thesis using create(1) step.IH step.prems by (auto simp: ran_def)
  qed
qed simp

end
