(* ===== verification/Task_Context.thy ===== *)
theory Task_Context
  imports A2A_Base
begin

text \<open>
  The text side of the service: the room context payload, the task context of the prompt and the
  conversation summary (\<open>roomContextFromRoom\<close>, \<open>formatTaskContext\<close> and their helpers in
  \<open>internal/service/a2a/service.go\<close>), with \<open>strings.Fields\<close> and the cutting of a string at a rune
  boundary. The theorem is that room topics and messages cannot add lines to the task context.
\<close>

section \<open>Fields and runes\<close>

fun span_field :: "string \<Rightarrow> string \<times> string" where
  "span_field [] = ([], [])"
| "span_field (c # cs) = (if lead_space (c # cs) > 0 then ([], c # cs)
     else (case span_field cs of (a, b) \<Rightarrow> (c # a, b)))"

lemma span_field_length: "length (snd (span_field s)) \<le> length s"
  by (induction s) (auto split: prod.splits)

lemma span_field_progress:
  assumes "lead_space s = 0" and "s \<noteq> []"
  shows "length (snd (span_field s)) < length s"
proof (cases s)
  case (Cons c cs)
  then have "snd (span_field s) = snd (span_field cs)" using assms(1) by (simp split: prod.splits)
  with Cons span_field_length [of cs] show ?thesis by simp
qed (use assms in simp)

function Fields :: "string \<Rightarrow> string list" where
  "Fields s = (let t = TrimLeftSpace s in
     if t = [] then [] else fst (span_field t) # Fields (snd (span_field t)))"
  by pat_completeness auto
termination
proof (relation "measure length")
  fix s t assume t: "t = TrimLeftSpace s" "t \<noteq> []"
  then have "length (snd (span_field t)) < length t" by (intro span_field_progress) simp_all
  moreover have "length t \<le> length s" using TrimLeftSpace_suffix [of s] t(1) by (auto dest: suffix_length_le)
  ultimately show "(snd (span_field t), s) \<in> measure length" by simp
qed simp

declare Fields.simps [simp del]

text \<open>
  The number of bytes the first rune of a string takes, as \<open>utf8.DecodeRune\<close> finds it: 1 also for a
  byte that starts no valid encoding.
\<close>

definition cont_byte :: "nat \<Rightarrow> bool" where
  "cont_byte b \<longleftrightarrow> 0x80 \<le> b \<and> b \<le> 0xBF"

definition valid_width :: "string \<Rightarrow> nat" where
  "valid_width s = (case map (of_char :: char \<Rightarrow> nat) (take 4 s) of
     [] \<Rightarrow> 0
   | b0 # bs \<Rightarrow>
     if b0 < 0x80 then 1
     else if 0xC2 \<le> b0 \<and> b0 \<le> 0xDF \<and> length bs \<ge> 1 \<and> cont_byte (bs ! 0) then 2
     else if 0xE0 \<le> b0 \<and> b0 \<le> 0xEF \<and> length bs \<ge> 2 \<and> cont_byte (bs ! 0) \<and> cont_byte (bs ! 1) \<and>
       (b0 = 0xE0 \<longrightarrow> 0xA0 \<le> bs ! 0) \<and> (b0 = 0xED \<longrightarrow> bs ! 0 \<le> 0x9F) then 3
     else if 0xF0 \<le> b0 \<and> b0 \<le> 0xF4 \<and> length bs \<ge> 3 \<and> cont_byte (bs ! 0) \<and> cont_byte (bs ! 1) \<and> cont_byte (bs ! 2) \<and>
       (b0 = 0xF0 \<longrightarrow> 0x90 \<le> bs ! 0) \<and> (b0 = 0xF4 \<longrightarrow> bs ! 0 \<le> 0x8F) then 4
     else 0)"

text \<open>\<open>[]rune(s)\<close>, each rune as the bytes \<open>string(r)\<close> gives; an invalid byte becomes U+FFFD.\<close>

function runes :: "string \<Rightarrow> string list" where
  "runes s = (if s = [] then []
     else if valid_width s = 0 then [CHR 0xEF, CHR 0xBF, CHR 0xBD] # runes (tl s)
     else take (valid_width s) s # runes (drop (valid_width s) s))"
  by pat_completeness auto
termination
  by (relation "measure length") auto

declare runes.simps [simp del]

definition newline :: char where
  "newline = CHR 0x0A"

section \<open>Task context\<close>

definition safeTaskContextValue :: "string \<Rightarrow> string \<Rightarrow> nat \<Rightarrow> string" where
  "safeTaskContextValue val fallback maxRunes =
    (let val = TrimSpace val in
     if val = [] then fallback
     else (let val = Join (Fields val) '' '' in
       if maxRunes > 0 \<and> length (runes val) > maxRunes then concat (take maxRunes (runes val)) @ ''...'' else val))"

definition topicSignalMatches :: "(string \<Rightarrow> string) \<Rightarrow> string \<Rightarrow> string \<Rightarrow> bool" where
  "topicSignalMatches ul normalized sig =
    (let sig = TrimSpace (ToLower ul sig) in
     if sig = [] then False
     else if Contains sig '' '' \<or> Contains sig ''-'' then Contains normalized sig
     else list_ex (\<lambda>token. token = sig \<or> (sig = ''sev'' \<and> HasPrefix token ''sev'')) (Fields normalized))"

definition incidentSignals :: "string list" where
  "incidentSignals = [''incident review'', ''incident-review'', ''incident'', ''triage'', ''postmortem'',
     ''post-mortem'', ''mortem'', ''runbook'', ''ops review'', ''outage'', ''sev'', ''pager'', ''alert'', ''rca'',
     ''root cause'']"

definition inferConversationMode :: "(string \<Rightarrow> string) \<Rightarrow> string \<Rightarrow> string" where
  "inferConversationMode ul topic =
    (let normalized = ToLower ul (Join (Fields (TrimSpace topic)) '' '') in
     if normalized = [] then ''normal_chat''
     else if list_ex (topicSignalMatches ul normalized) incidentSignals then ''incident_review''
     else ''normal_chat'')"

definition voiceStyles :: "string list" where
  "voiceStyles = [''measured and direct'', ''warm and brisk'', ''calm and analytical'',
     ''plainspoken and lightly probing'', ''concise and reflective'', ''steady and practical'']"

definition voiceHintForAgent :: "svc_conf \<Rightarrow> string \<Rightarrow> string" where
  "voiceHintForAgent C agentID =
    (let trimmed = TrimSpace agentID in
     if trimmed = [] then voiceStyles ! 0
     else (case Sum256 (crypt C) trimmed of
             [] \<Rightarrow> voiceStyles ! 0
           | b # _ \<Rightarrow> voiceStyles ! (of_char b mod length voiceStyles)))"

definition summary_part :: "Message \<Rightarrow> string" where
  "summary_part m = safeTaskContextValue (msg_SenderID m) ''unknown'' 24 @ '':'' @
     safeTaskContextValue (msg_Ciphertext m) ''(empty)'' 80"

definition buildConversationSummary :: "string \<Rightarrow> string \<Rightarrow> Message list \<Rightarrow> string" where
  "buildConversationSummary topic mode recent =
    (let topic = safeTaskContextValue topic ''(unset)'' 80;
         mode = safeTaskContextValue mode ''normal_chat'' 32
     in if length recent = 0 then ''topic='' @ topic @ '' | mode='' @ mode @ '' | recent=none''
        else ''topic='' @ topic @ '' | mode='' @ mode @ '' | last_turn='' @ Itoa (msg_Turn (last recent)) @
          '' | recent='' @ Join (map summary_part (drop (length recent - 3) recent)) ''; '')"

definition maxRecentMemoryEntries :: nat where
  "maxRecentMemoryEntries = 6"

definition selectRecentMemory :: "Message list \<Rightarrow> recentMemoryEntry list" where
  "selectRecentMemory msgs = map (\<lambda>m. \<lparr>me_Turn = msg_Turn m, me_SenderID = msg_SenderID m\<rparr>)
     (newest maxRecentMemoryEntries msgs)"

definition roomContextFromRoom :: "svc_conf \<Rightarrow> Room \<Rightarrow> string \<Rightarrow> roomContextPayload" where
  "roomContextFromRoom C rm lastActorID =
    \<lparr>cx_RoomID = room_ID rm, cx_Topic = TrimSpace (room_Topic rm),
     cx_ConversationMode = inferConversationMode (uniLower C) (room_Topic rm), cx_ConversationSummary = [],
     cx_AgentAID = room_AgentAID rm, cx_AgentBID = room_AgentBID rm, cx_LastActorID = TrimSpace lastActorID,
     cx_LastFetch = [], cx_State = state_text (room_State rm), cx_TurnIndex = room_TurnIndex rm,
     cx_MaxTurns = room_MaxTurns rm, cx_TTLAt = rfc3339 C (room_TTLAt rm),
     cx_ClosedAt = map_option (rfc3339 C) (room_ClosedAt rm), cx_RecentMemory = []\<rparr>"

definition task_context_lines :: "svc_conf \<Rightarrow> roomContextPayload \<Rightarrow> string \<Rightarrow> string list" where
  "task_context_lines C p agentID =
    [''room_id='' @ cx_RoomID p,
     ''room_topic='' @ safeTaskContextValue (cx_Topic p) ''(unset)'' 160,
     ''conversation_mode='' @ safeTaskContextValue (cx_ConversationMode p) ''normal_chat'' 32,
     ''conversation_summary='' @ safeTaskContextValue (cx_ConversationSummary p) ''(none)'' 320,
     ''topic_anchor=Stay on the room topic unless the user explicitly changes it.'',
     ''interaction_anchor=Advance the discussion naturally; avoid empty agreement, empty praise, or paraphrase-only turns.'',
     ''self_agent_id='' @ agentID,
     ''voice_hint='' @ safeTaskContextValue (voiceHintForAgent C agentID) ''measured and direct'' 80,
     ''agent_a_id='' @ cx_AgentAID p,
     ''agent_b_id='' @ cx_AgentBID p,
     ''state='' @ cx_State p,
     ''turn_index='' @ Itoa (cx_TurnIndex p),
     ''max_turns='' @ Itoa (cx_MaxTurns p),
     ''ttl_at='' @ cx_TTLAt p] @
    (if cx_LastActorID p \<noteq> [] then [''last_actor_id='' @ cx_LastActorID p] else []) @
    (case cx_ClosedAt p of None \<Rightarrow> [] | Some t \<Rightarrow> [''closed_at='' @ t])"

definition formatTaskContext :: "svc_conf \<Rightarrow> roomContextPayload \<Rightarrow> string \<Rightarrow> string" where
  "formatTaskContext C p agentID = Join (task_context_lines C p agentID) [newline]"

section \<open>No line can be injected\<close>

lemma span_field_no_newline: "newline \<notin> set (fst (span_field s))"
proof (induction s)
  case (Cons c cs)
  have "lead_space (c # cs) > 0" if "c = newline"
    using that lead_space_0_iff [of "c # cs"] by (auto simp: newline_def space_seqs_def)
  with Cons show ?case by (auto split: prod.splits)
qed simp

lemma Fields_no_newline: "\<forall>f \<in> set (Fields s). newline \<notin> set f"
proof (induction s rule: Fields.induct)
  case (1 s)
  then show ?case
    by (subst Fields.simps) (auto simp: Let_def span_field_no_newline)
qed

lemma Join_no_newline: "\<forall>f \<in> set fs. c \<notin> set f \<Longrightarrow> c \<notin> set sep \<Longrightarrow> c \<notin> set (Join fs sep)"
  by (induction fs sep rule: Join.induct) auto

lemma runes_bytes: "r \<in> set (runes s) \<Longrightarrow> set r \<subseteq> set s \<union> {CHR 0xEF, CHR 0xBF, CHR 0xBD}"
proof (induction s rule: runes.induct)
  case (1 s)
  show ?case
  proof (cases "s = [] \<or> valid_width s = 0")
    case True
    then show ?thesis
      using 1 by (subst (asm) runes.simps) (auto dest: list.set_sel(2) split: if_splits)
  next
    case False
    then show ?thesis
      using 1 by (subst (asm) runes.simps) (auto dest: in_set_takeD in_set_dropD)
  qed
qed

lemma safeTaskContextValue_no_newline:
  assumes "newline \<notin> set fallback"
  shows "newline \<notin> set (safeTaskContextValue val fallback n)"
proof -
  have j: "newline \<notin> set (Join (Fields v) '' '')" for v
    using Fields_no_newline by (intro Join_no_newline) (auto simp: newline_def)
  have "newline \<notin> set (concat (take n (runes (Join (Fields v) '' ''))))" for v
    using j [of v] runes_bytes [of _ "Join (Fields v) '' ''"]
    by (fastforce simp: newline_def dest: in_set_takeD)
  with j assms show ?thesis by (simp add: safeTaskContextValue_def Let_def newline_def)
qed

lemma nat_str_no_newline: "newline \<notin> set (nat_str n)"
proof (induction n rule: nat_str.induct)
  case (1 n)
  have "newline \<noteq> digit_char d" if "d < 10" for d
    using that by (auto simp: newline_def digit_char_def dest!: arg_cong [where f = "of_char :: char \<Rightarrow> nat"])
  with 1 show ?case by (subst nat_str.simps) auto
qed

lemma Itoa_no_newline: "newline \<notin> set (Itoa i)"
  using nat_str_no_newline by (simp add: Itoa_def newline_def)

text \<open>Splitting a joined text gives the parts back when no part contains the separator.\<close>

lemma SplitByte_append: "c \<notin> set a \<Longrightarrow> SplitByte c (a @ c # b) = a # SplitByte c b"
  by (induction a) (auto split: list.splits)

lemma SplitByte_single: "c \<notin> set a \<Longrightarrow> SplitByte c a = [a]"
  by (induction a) auto

lemma SplitByte_Join:
  "fs \<noteq> [] \<Longrightarrow> \<forall>f \<in> set fs. c \<notin> set f \<Longrightarrow> SplitByte c (Join fs [c]) = fs"
  by (induction fs "[c]" rule: Join.induct) (auto simp: SplitByte_append SplitByte_single)

text \<open>
  C28. Topics and messages cannot add lines to the task context. If the ids, the state and the formatted
  times hold no newline, the task context read line by line is exactly the list of its fields, whatever
  the room topic, the conversation summary (made of message texts) and the mode are.
\<close>

theorem task_context_not_injectable:
  assumes "newline \<notin> set (cx_RoomID p) \<union> set (cx_AgentAID p) \<union> set (cx_AgentBID p) \<union> set (cx_State p) \<union>
      set (cx_TTLAt p) \<union> set (cx_LastActorID p) \<union> set agentID"
    and "\<forall>t. cx_ClosedAt p = Some t \<longrightarrow> newline \<notin> set t"
  shows "SplitByte newline (formatTaskContext C p agentID) = task_context_lines C p agentID"
  unfolding formatTaskContext_def
proof (rule SplitByte_Join)
  show "task_context_lines C p agentID \<noteq> []" by (simp add: task_context_lines_def)
  have "newline \<notin> set (safeTaskContextValue v ''(unset)'' n)" "newline \<notin> set (safeTaskContextValue v ''normal_chat'' n)"
    "newline \<notin> set (safeTaskContextValue v ''(none)'' n)" "newline \<notin> set (safeTaskContextValue v ''measured and direct'' n)" for v n
    by (rule safeTaskContextValue_no_newline, simp add: newline_def)+
  with assms Itoa_no_newline show "\<forall>f \<in> set (task_context_lines C p agentID). newline \<notin> set f"
    by (auto simp: task_context_lines_def newline_def split: option.splits)
qed

text \<open>A configuration with the toy cipher and empty prompt layers.\<close>

definition ex_conf :: svc_conf where
  "ex_conf = \<lparr>crypt = ex_crypto, sealC = ex_old, roomSealC = ex_old, builder = ex_builder,
     heartbeatTimeout = 45 * Second, graceDelay = 2 * Minute, closedRetention = 24 * Hour, shared = True,
     rfc3339 = Itoa, rfc3339nano = Itoa, marshalMap = (\<lambda>_. ''{}''), marshalCtx = (\<lambda>p. cx_LastActorID p),
     unmarshalCtx = (\<lambda>_. None), errText = (\<lambda>_. []), uniLower = id, uniFold = (=)\<rparr>"

definition ex_payload :: roomContextPayload where
  "ex_payload = \<lparr>cx_RoomID = ''r'', cx_Topic = [CHR ''t'', newline, CHR ''x''], cx_ConversationMode = [],
     cx_ConversationSummary = [newline], cx_AgentAID = ''a'', cx_AgentBID = ''b'', cx_LastActorID = [], cx_LastFetch = [],
     cx_State = ''ACTIVE'', cx_TurnIndex = 1, cx_MaxTurns = 2, cx_TTLAt = ''5'', cx_ClosedAt = None, cx_RecentMemory = []\<rparr>"

theorem task_context_not_injectable_witness:
  "SplitByte newline (formatTaskContext ex_conf ex_payload ''a'') = task_context_lines ex_conf ex_payload ''a''"
  by (rule task_context_not_injectable) (simp_all add: ex_payload_def, simp_all add: newline_def)

end
