(* ===== verification/A2A_Rooms.thy ===== *)
theory A2A_Rooms
  imports Task_Context
begin

text \<open>
  Rooms in the service: the persisted room context, reconciliation (closing an expired room, purging a
  closed one), listings, connecting, joining and closing (\<open>reconcileRoomLocked\<close>, \<open>updateRoomContext\<close>,
  \<open>CreateListing\<close>, \<open>ConnectListing\<close>, \<open>JoinRoom\<close>, \<open>CloseRoom\<close> in \<open>internal/service/a2a/service.go\<close>).

  Reconciling updates the room context, and updating the context reconciles the room: the functions are
  mutually recursive. The recursion is cut by the room's mutex. Here the context functions take the
  reconciler they call as an argument \<open>rec\<close>, and \<open>reconcile_fuel\<close> ties the knot.
\<close>

section \<open>Room context\<close>

definition loadRoomForContextUpdate :: "(Room \<Rightarrow> Room prog) \<Rightarrow> string \<Rightarrow> Room prog" where
  "loadRoomForContextUpdate rec roomID =
    attempt (store_nf ErrSvcNotFound (GetRoom roomID)) (\<lambda>rm. rec rm)"

definition roomContextPayloadForUpdate :: "svc_conf \<Rightarrow> Room \<Rightarrow> string \<Rightarrow> (roomContextPayload \<times> int) prog" where
  "roomContextPayloadForUpdate C rm lastActorID = do {
     let payload = roomContextFromRoom C rm lastActorID;
     current \<leftarrow> GetRoomContext (room_ID rm);
     case current of
       Inr cur \<Rightarrow>
         (case unmarshalCtx C (rc_Context cur) of
            None \<Rightarrow> ok (payload, rc_Version cur + 1)
          | Some persisted \<Rightarrow>
              let keep = TrimSpace lastActorID = [] \<and>
                    (cx_LastActorID persisted = room_AgentAID rm \<or> cx_LastActorID persisted = room_AgentBID rm);
                  payload = (if keep then payload\<lparr>cx_LastActorID := cx_LastActorID persisted\<rparr> else payload)
              in ok (payload\<lparr>cx_LastFetch := cx_LastFetch persisted\<rparr>, rc_Version cur + 1))
     | Inl err \<Rightarrow> if err = ErrNotFound then ok (payload, 1) else fail (RepoErr err) }"

definition maxRoomContextUpdateTries :: nat where
  "maxRoomContextUpdateTries = 5"

fun context_update_loop ::
  "(Room \<Rightarrow> Room prog) \<Rightarrow> svc_conf \<Rightarrow> string \<Rightarrow> string \<Rightarrow>
   (Room \<Rightarrow> roomContextPayload \<Rightarrow> roomContextPayload prog) \<Rightarrow> nat \<Rightarrow> unit prog" where
  "context_update_loop rec C roomID lastActorID mutate 0 = fail (RepoErr ErrConflict)"
| "context_update_loop rec C roomID lastActorID mutate (Suc n) =
    attempt (loadRoomForContextUpdate rec roomID) (\<lambda>rm.
    attempt (roomContextPayloadForUpdate C rm lastActorID) (\<lambda>(payload, version).
    attempt (mutate rm payload) (\<lambda>payload. do {
      r \<leftarrow> UpsertRoomContext \<lparr>uci_RoomID = room_ID rm, uci_Context = marshalCtx C payload, uci_Version = version\<rparr>;
      case r of
        Inr _ \<Rightarrow> ok ()
      | Inl err \<Rightarrow> if err = ErrConflict then context_update_loop rec C roomID lastActorID mutate n
                   else fail (RepoErr err) })))"

definition updateRoomContext ::
  "(Room \<Rightarrow> Room prog) \<Rightarrow> svc_conf \<Rightarrow> string \<Rightarrow> string \<Rightarrow>
   (Room \<Rightarrow> roomContextPayload \<Rightarrow> roomContextPayload prog) \<Rightarrow> unit prog" where
  "updateRoomContext rec C roomID lastActorID mutate =
    context_update_loop rec C roomID lastActorID mutate maxRoomContextUpdateTries"

definition summarize :: "svc_conf \<Rightarrow> Room \<Rightarrow> roomContextPayload \<Rightarrow> roomContextPayload prog" where
  "summarize C current payload =
    attempt (store (ListRoomMessages (room_ID current))) (\<lambda>recent.
    attempt (cipher_result (decryptRoomMessages C current recent)) (\<lambda>recent.
    ok (payload\<lparr>cx_ConversationSummary := buildConversationSummary (cx_Topic payload) (cx_ConversationMode payload) recent,
                cx_RecentMemory := selectRecentMemory recent\<rparr>)))"

definition upsertRoomContext :: "(Room \<Rightarrow> Room prog) \<Rightarrow> svc_conf \<Rightarrow> Room \<Rightarrow> string \<Rightarrow> unit prog" where
  "upsertRoomContext rec C rm lastActorID =
    updateRoomContext rec C (room_ID rm) lastActorID (summarize C)"

text \<open>\<open>upsertRoomContext\<close> with its failure written to the audit log.\<close>

definition sync_context ::
  "(Room \<Rightarrow> Room prog) \<Rightarrow> svc_conf \<Rightarrow> Room \<Rightarrow> string \<Rightarrow> string \<Rightarrow> (string \<times> jval) list \<Rightarrow> int \<Rightarrow> unit prog" where
  "sync_context rec C rm lastActorID auditRoom meta count =
    besteffort (upsertRoomContext rec C rm lastActorID) (\<lambda>err.
      appendAuditEventBestEffort C auditRoom ''room_context_sync_failed''
        (meta @ [(''reason'', JStr (errText C err))]) count)"

section \<open>Reconciliation\<close>

text \<open>The statements that close a room inside a transaction, with the two events and the deliveries.\<close>

definition close_steps :: "svc_conf \<Rightarrow> string \<Rightarrow> string option \<Rightarrow> string \<Rightarrow> time \<Rightarrow> (Room \<times> RoomEvent list) prog" where
  "close_steps C roomID sender reason now =
    attempt (store (UpdateRoom ((update_room_input roomID)\<lparr>uri_State := Some RoomStateClosed, uri_ClosedAt := Some now\<rparr>))) (\<lambda>room.
    attempt (revokeRoomScopedTokensForRoom room now) (\<lambda>_.
    attempt (store (AppendRoomEvent (room_event_input roomID ''room.state_changed'' sender))) (\<lambda>ev1.
    attempt (store (AppendRoomEvent (room_event_input roomID ''room.closed'' sender))) (\<lambda>ev2.
    attempt (enqueueWebhookOutboxForEvent C room ev2 (case sender of None \<Rightarrow> [] | Some a \<Rightarrow> a)) (\<lambda>_.
    attempt (enqueueAgentStreamTerminal C room ''room.closed'' reason (eventTime ev2 now)) (\<lambda>_.
    ok (room, [ev1, ev2])))))))"

definition expire_tx :: "svc_conf \<Rightarrow> Room \<Rightarrow> time \<Rightarrow> (Room \<times> RoomEvent list) prog" where
  "expire_tx C rm now =
    attempt (store (LockRoom (room_ID rm))) (\<lambda>_.
    attempt (store (GetRoom (room_ID rm))) (\<lambda>current.
    if room_State current = RoomStateClosed \<or> room_State current = RoomStatePurged then ok (current, [])
    else close_steps C (room_ID rm) None ''ttl_expired'' now))"

definition zero_room :: Room where
  "zero_room = \<lparr>room_ID = [], room_Topic = [], room_AgentAID = [], room_AgentBID = [],
     room_State = RoomStateOther [], room_TurnIndex = 0, room_MaxTurns = 0, room_TTLAt = zero_time,
     room_CreatedAt = zero_time, room_ClosedAt = None, room_PurgedAt = None, room_HumanCodeHash = [],
     room_HumanCodeExpiresAt = None, room_MessageKeyCiphertext = []\<rparr>"

definition purge_tx :: "svc_conf \<Rightarrow> Room \<Rightarrow> string \<Rightarrow> time \<Rightarrow> (Room \<times> RoomEvent list) prog" where
  "purge_tx C rm purgeReason now =
    attempt (store (LockRoom (room_ID rm))) (\<lambda>_.
    attempt (store (GetRoom (room_ID rm))) (\<lambda>current.
    if room_State current = RoomStatePurged then ok (current, [])
    else if room_State current \<noteq> RoomStateClosed then ok (zero_room, [])
    else
    attempt (store (PurgeRoomContent (room_ID rm) now)) (\<lambda>_.
    attempt (revokeRoomScopedTokensForRoom rm now) (\<lambda>_.
    attempt (store (AppendRoomEvent (room_event_input (room_ID rm) ''room.state_changed'' None))) (\<lambda>ev1.
    attempt (store (AppendRoomEvent (room_event_input (room_ID rm) ''room.purged'' None))) (\<lambda>ev2.
    attempt (store (GetRoom (room_ID rm))) (\<lambda>purgedRoom.
    attempt (enqueueWebhookOutboxForEvent C purgedRoom ev2 []) (\<lambda>_.
    attempt (enqueueAgentStreamTerminal C purgedRoom ''room.purged'' purgeReason (eventTime ev2 now)) (\<lambda>_.
    ok (purgedRoom, [ev1, ev2]))))))))))"

definition reconcile_open :: "(Room \<Rightarrow> Room prog) \<Rightarrow> svc_conf \<Rightarrow> Room \<Rightarrow> time \<Rightarrow> Room prog" where
  "reconcile_open rec C rm now =
    (if now > room_TTLAt rm then
       attempt (WithTx RepoErr (expire_tx C rm now)) (\<lambda>(updated, emitted).
       attempt (publishRoomEvents emitted) (\<lambda>_.
       attempt (sync_context rec C updated [] (room_ID rm)
         [(''room_id'', JStr (room_ID rm)), (''source'', JStr ''reconcile_ttl_close'')] 0) (\<lambda>_.
       ok updated)))
     else ok rm)"

definition reconcile_closed :: "(Room \<Rightarrow> Room prog) \<Rightarrow> svc_conf \<Rightarrow> Room \<Rightarrow> time \<Rightarrow> Room prog" where
  "reconcile_closed rec C rm now =
    attempt (case room_ClosedAt rm of
        Some _ \<Rightarrow> ok rm
      | None \<Rightarrow>
          attempt (store (UpdateRoom ((update_room_input (room_ID rm))\<lparr>uri_ClosedAt := Some now\<rparr>))) (\<lambda>rm.
          attempt (sync_context rec C rm [] (room_ID rm)
            [(''room_id'', JStr (room_ID rm)), (''source'', JStr ''reconcile_closed_at_set'')] 0) (\<lambda>_.
          ok rm))) (\<lambda>rm.
    attempt (store (CountActiveViewers (room_ID rm) (now + - heartbeatTimeout C))) (\<lambda>activeCount.
    let pastGrace = (case room_ClosedAt rm of None \<Rightarrow> False | Some t \<Rightarrow> time_sub now t \<ge> graceDelay C);
        pastCap = (case room_ClosedAt rm of None \<Rightarrow> False | Some t \<Rightarrow> time_sub now t \<ge> closedRetention C);
        purgeReason = (if activeCount = 0 \<and> pastGrace then ''grace_elapsed'' else ''retention_cap_reached'')
    in if (activeCount = 0 \<and> pastGrace) \<or> pastCap then
         attempt (store (ListRoomMessages (room_ID rm))) (\<lambda>msgs.
         attempt (WithTx RepoErr (purge_tx C rm purgeReason now)) (\<lambda>(purgedRoom, emitted).
         attempt (publishRoomEvents emitted) (\<lambda>_.
         attempt (appendAuditEventBestEffort C (room_ID rm) ''room_purged''
           [(''detail'', JStr ''content hard-deleted'')] (int (length msgs))) (\<lambda>_.
         ok purgedRoom))))
       else ok rm))"

definition reconcile_with :: "(Room \<Rightarrow> Room prog) \<Rightarrow> svc_conf \<Rightarrow> Room \<Rightarrow> Room prog" where
  "reconcile_with rec C rm = do {
     now \<leftarrow> s_now;
     if room_State rm = RoomStateOpen \<or> room_State rm = RoomStateActive then reconcile_open rec C rm now
     else if room_State rm = RoomStateClosed then reconcile_closed rec C rm now
     else ok rm }"

text \<open>The per-room mutex; a goroutine that holds it and locks it again never returns.\<close>

definition lock_key :: "string \<Rightarrow> string" where
  "lock_key roomID = (let k = TrimSpace roomID in if k = [] then ''_'' else k)"

definition with_room_lock :: "string \<Rightarrow> 'a prog \<Rightarrow> 'a prog" where
  "with_room_lock roomID m = do {
     held \<leftarrow> gets (\<lambda>s. lock_key roomID \<in> set (locksHeld s));
     if held then fail Blocked
     else do {
       modify (\<lambda>s. s\<lparr>locksHeld := lock_key roomID # locksHeld s\<rparr>);
       r \<leftarrow> m;
       if r = Inl Blocked then fail Blocked
       else do {
         modify (\<lambda>s. s\<lparr>locksHeld := removeAll (lock_key roomID) (locksHeld s)\<rparr>);
         State_Monad.return r } } }"

fun reconcile_fuel :: "nat \<Rightarrow> svc_conf \<Rightarrow> Room \<Rightarrow> Room prog" where
  "reconcile_fuel 0 C rm = fail Blocked"
| "reconcile_fuel (Suc n) C rm = with_room_lock (room_ID rm) (reconcile_with (reconcile_fuel n C) C rm)"

definition reconcileRoom :: "svc_conf \<Rightarrow> Room \<Rightarrow> Room prog" where
  "reconcileRoom C rm = reconcile_fuel 2 C rm"

text \<open>The variant that \<open>SendMessage\<close> calls, without taking the room's mutex.\<close>

definition reconcileRoomLocked :: "svc_conf \<Rightarrow> Room \<Rightarrow> Room prog" where
  "reconcileRoomLocked C rm = reconcile_with (reconcileRoom C) C rm"

definition syncRoomContextBestEffort :: "svc_conf \<Rightarrow> Room \<Rightarrow> string \<Rightarrow> int \<Rightarrow> unit prog" where
  "syncRoomContextBestEffort C rm source recentCount =
    sync_context (reconcileRoom C) C rm [] (room_ID rm)
      [(''room_id'', JStr (room_ID rm)), (''source'', JStr source)] recentCount"

section \<open>Listings\<close>

definition humanCodeTTL :: duration where
  "humanCodeTTL = 24 * Hour"

record CreateListingResult =
  clr_Listing :: Listing
  clr_RoomID :: string
  clr_HumanCode :: string
  clr_OwnerJoined :: bool
  clr_RoomState :: RoomState
  clr_NextActorID :: string

record ConnectResult =
  cnr_RoomID :: string
  cnr_HumanCode :: string
  cnr_AgentAID :: string
  cnr_AgentBID :: string
  cnr_RoomState :: RoomState
  cnr_ListingID :: string
  cnr_NextTurnA :: string
  cnr_NextActorID :: string

text \<open>\<open>tx.AppendRoomEvent\<close> followed by the webhooks of the event.\<close>

definition event_with_hooks :: "svc_conf \<Rightarrow> Room \<Rightarrow> string \<Rightarrow> string \<Rightarrow> RoomEvent prog" where
  "event_with_hooks C rm eventType agentID =
    attempt (store (AppendRoomEvent (room_event_input (room_ID rm) eventType (Some agentID)))) (\<lambda>ev.
    attempt (enqueueWebhookOutboxForEvent C rm ev agentID) (\<lambda>_.
    ok ev))"

definition new_room_input ::
  "svc_conf \<Rightarrow> string \<Rightarrow> string \<Rightarrow> string \<Rightarrow> string \<Rightarrow> RoomState \<Rightarrow> int \<Rightarrow> int \<Rightarrow> time \<Rightarrow> string \<Rightarrow> string \<Rightarrow> CreateRoomInput" where
  "new_room_input C roomID topic agentA agentB st maxTurns ttlSeconds now humanCode messageKey =
    \<lparr>cri_ID = roomID, cri_Topic = topic, cri_AgentAID = agentA, cri_AgentBID = agentB, cri_State = st,
     cri_TurnIndex = 0, cri_MaxTurns = maxTurns, cri_TTLAt = now + wrap64 (ttlSeconds * Second),
     cri_HumanCodeHash = hashText C humanCode, cri_HumanCodeExpiresAt = Some (now + humanCodeTTL),
     cri_MessageKeyCiphertext = messageKey\<rparr>"

definition listing_tx ::
  "svc_conf \<Rightarrow> string \<Rightarrow> string \<Rightarrow> string list \<Rightarrow> int \<Rightarrow> int \<Rightarrow> time \<Rightarrow> string \<Rightarrow> string \<Rightarrow>
   (Room \<times> Listing \<times> RoomEvent list) prog" where
  "listing_tx C agentID topic tags maxTurns ttlSeconds now roomID humanCode =
    attempt (newRoomMessageCipher C) (\<lambda>(messageKey, _).
    attempt (store (CreateRoom (new_room_input C roomID topic agentID [] RoomStateOpen maxTurns ttlSeconds now humanCode messageKey))) (\<lambda>rm. do {
    lid \<leftarrow> svc_newID ''lst'';
    attempt (store (CreateListing_row \<lparr>cli_ID = lid, cli_AgentID = agentID, cli_Topic = topic, cli_Tags = tags,
      cli_MaxTurns = maxTurns, cli_TTLSeconds = ttlSeconds, cli_RoomID = roomID\<rparr>)) (\<lambda>item.
    attempt (event_with_hooks C rm ''room.created'' agentID) (\<lambda>ev1.
    attempt (event_with_hooks C rm ''room.joined'' agentID) (\<lambda>ev2.
    ok (rm, item, [ev1, ev2])))) }))"

definition CreateListing ::
  "svc_conf \<Rightarrow> string \<Rightarrow> string \<Rightarrow> string list \<Rightarrow> int \<Rightarrow> int \<Rightarrow> CreateListingResult prog" where
  "CreateListing C agentID topic tags maxTurns ttlSeconds =
    (let topic = TrimSpace topic in
     if topic = [] then fail ErrBadRequest
     else (let maxTurns = (if maxTurns \<le> 0 then 20 else maxTurns);
               ttlSeconds = (if ttlSeconds \<le> 0 then 900 else ttlSeconds) in do {
       now \<leftarrow> s_now;
       roomID \<leftarrow> svc_newID ''room'';
       t \<leftarrow> svc_random;
       let humanCode = ''hc_'' @ t;
       attempt (WithTx RepoErr (listing_tx C agentID topic tags maxTurns ttlSeconds now roomID humanCode)) (\<lambda>(rm, item, emitted).
       attempt (publishRoomEvents emitted) (\<lambda>_.
       attempt (syncRoomContextBestEffort C rm ''create_listing'' 0) (\<lambda>_.
       ok \<lparr>clr_Listing = item, clr_RoomID = roomID, clr_HumanCode = humanCode, clr_OwnerJoined = True,
           clr_RoomState = room_State rm, clr_NextActorID = room_AgentAID rm\<rparr>))) }))"

definition connect_result :: "Room \<Rightarrow> string \<Rightarrow> string \<Rightarrow> ConnectResult" where
  "connect_result rm humanCode listingID =
    \<lparr>cnr_RoomID = room_ID rm, cnr_HumanCode = humanCode, cnr_AgentAID = room_AgentAID rm,
     cnr_AgentBID = room_AgentBID rm, cnr_RoomState = room_State rm, cnr_ListingID = listingID,
     cnr_NextTurnA = room_AgentAID rm, cnr_NextActorID = room_AgentAID rm\<rparr>"

text \<open>The events of a room that has become active; the fallback time of the delivery is read when needed.\<close>

definition activation_events :: "svc_conf \<Rightarrow> Room \<Rightarrow> string \<Rightarrow> (svc, time) state \<Rightarrow> RoomEvent list prog" where
  "activation_events C rm agentID fallback =
    attempt (event_with_hooks C rm ''room.joined'' agentID) (\<lambda>ev1. do {
    t \<leftarrow> fallback;
    attempt (enqueueAgentStreamTurnReady C rm ''room_activated'' (eventTime ev1 t)) (\<lambda>_.
    attempt (store (AppendRoomEvent (room_event_input (room_ID rm) ''room.state_changed'' (Some agentID)))) (\<lambda>ev2.
    ok [ev1, ev2])) })"

definition connect_new_room :: "svc_conf \<Rightarrow> string \<Rightarrow> Listing \<Rightarrow> (Room \<times> ConnectResult \<times> RoomEvent list) prog" where
  "connect_new_room C agentID l = do {
     t \<leftarrow> svc_random;
     let humanCode = ''hc_'' @ t;
     now \<leftarrow> s_now;
     attempt (newRoomMessageCipher C) (\<lambda>(messageKey, _). do {
     roomID \<leftarrow> svc_newID ''room'';
     attempt (store (CreateRoom (new_room_input C roomID (lst_Topic l) (lst_AgentID l) agentID RoomStateActive
       (lst_MaxTurns l) (lst_TTLSeconds l) now humanCode messageKey))) (\<lambda>rm.
     attempt (activation_events C rm agentID (State_Monad.return now)) (\<lambda>emitted.
     ok (rm, connect_result rm humanCode (lst_ID l), emitted))) }) }"

definition connect_old_room :: "svc_conf \<Rightarrow> string \<Rightarrow> Listing \<Rightarrow> (Room \<times> ConnectResult \<times> RoomEvent list) prog" where
  "connect_old_room C agentID l =
    attempt (store_nf ErrSvcNotFound (GetRoom (lst_RoomID l))) (\<lambda>rm.
    if TrimSpace (room_AgentBID rm) \<noteq> [] then fail ErrSvcConflict
    else
    attempt (store (UpdateRoom ((update_room_input (room_ID rm))\<lparr>uri_Topic := Some (lst_Topic l),
      uri_AgentBID := Some agentID, uri_State := Some RoomStateActive\<rparr>))) (\<lambda>rm.
    attempt (activation_events C rm agentID s_now) (\<lambda>emitted.
    ok (rm, connect_result rm [] (lst_ID l), emitted))))"

definition connect_tx :: "svc_conf \<Rightarrow> string \<Rightarrow> string \<Rightarrow> (Room \<times> ConnectResult \<times> RoomEvent list) prog" where
  "connect_tx C agentID listingID =
    attempt (store_nf ErrSvcNotFound (GetListing listingID)) (\<lambda>l.
    if lst_AgentID l = agentID then fail ErrForbidden
    else if lst_Connected l then fail ErrSvcConflict
    else
    attempt (store_nf ErrSvcConflict (MarkListingConnected (lst_ID l))) (\<lambda>_.
    if TrimSpace (lst_RoomID l) = [] then connect_new_room C agentID l else connect_old_room C agentID l))"

definition ConnectListing :: "svc_conf \<Rightarrow> string \<Rightarrow> string \<Rightarrow> ConnectResult prog" where
  "ConnectListing C agentID listingID =
    attempt (WithTx RepoErr (connect_tx C agentID listingID)) (\<lambda>(rm, res, emitted).
    attempt (publishRoomEvents emitted) (\<lambda>_.
    attempt (syncRoomContextBestEffort C rm ''connect_listing'' 0) (\<lambda>_.
    ok res)))"

section \<open>Joining and closing\<close>

text \<open>The prologue of the room operations: load the room and reconcile it.\<close>

definition load_room :: "svc_conf \<Rightarrow> string \<Rightarrow> Room prog" where
  "load_room C roomID =
    attempt (store_nf ErrSvcNotFound (GetRoom roomID)) (\<lambda>rm. reconcileRoom C rm)"

definition is_participant :: "Room \<Rightarrow> string \<Rightarrow> bool" where
  "is_participant rm agentID \<longleftrightarrow> \<not> (room_AgentAID rm \<noteq> agentID \<and> room_AgentBID rm \<noteq> agentID)"

definition join_tx :: "svc_conf \<Rightarrow> string \<Rightarrow> Room \<Rightarrow> (Room \<times> RoomEvent list) prog" where
  "join_tx C agentID rm =
    attempt (store (UpdateRoom ((update_room_input (room_ID rm))\<lparr>uri_State := Some RoomStateActive\<rparr>))) (\<lambda>room.
    attempt (store (AppendRoomEvent (room_event_input (room_ID rm) ''room.state_changed'' (Some agentID)))) (\<lambda>ev. do {
    t \<leftarrow> s_now;
    attempt (enqueueAgentStreamTurnReady C room ''room_activated'' (eventTime ev t)) (\<lambda>_.
    ok (room, [ev])) }))"

definition JoinRoom :: "svc_conf \<Rightarrow> string \<Rightarrow> string \<Rightarrow> (RoomState \<times> (string, bool) gomap) prog" where
  "JoinRoom C agentID roomID =
    attempt (load_room C roomID) (\<lambda>rm.
    if \<not> is_participant rm agentID then fail ErrForbidden
    else if room_State rm = RoomStateClosed \<or> room_State rm = RoomStatePurged then fail ErrGone
    else do {
      modify (\<lambda>s. s\<lparr>joinedBy := (joinedBy s)(roomID := (joinedBy s roomID)(agentID := True))\<rparr>);
      js \<leftarrow> gets (\<lambda>s. joinedBy s roomID);
      let joined = buildJoinedMap rm js;
      if gm_get joined (room_AgentAID rm) = Some True \<and> gm_get joined (room_AgentBID rm) = Some True \<and>
         room_State rm = RoomStateOpen then
        attempt (WithTx RepoErr (join_tx C agentID rm)) (\<lambda>(updatedRoom, emitted).
        attempt (publishRoomEvents emitted) (\<lambda>_.
        attempt (sync_context (reconcileRoom C) C updatedRoom [] (room_ID updatedRoom)
          [(''room_id'', JStr (room_ID rm)), (''source'', JStr ''join_room_activate'')] 0) (\<lambda>_.
        ok (RoomStateActive, joined))))
      else
        attempt (sync_context (reconcileRoom C) C rm [] (room_ID rm)
          [(''room_id'', JStr (room_ID rm)), (''source'', JStr ''join_room'')] 0) (\<lambda>_.
        ok (room_State rm, joined)) })"

definition close_tx :: "svc_conf \<Rightarrow> string \<Rightarrow> string \<Rightarrow> time \<Rightarrow> (Room \<times> RoomEvent list) prog" where
  "close_tx C agentID roomID now =
    attempt (store (LockRoom roomID)) (\<lambda>_.
    attempt (store (GetRoom roomID)) (\<lambda>current.
    if room_State current = RoomStatePurged then fail ErrGone
    else if room_State current = RoomStateClosed then ok (current, [])
    else close_steps C roomID (Some agentID) ''manual_close'' now))"

definition CloseRoom :: "svc_conf \<Rightarrow> string \<Rightarrow> string \<Rightarrow> Room prog" where
  "CloseRoom C agentID roomID =
    attempt (load_room C roomID) (\<lambda>rm.
    if \<not> is_participant rm agentID then fail ErrForbidden
    else if room_State rm = RoomStatePurged then fail ErrGone
    else if room_State rm = RoomStateClosed then ok rm
    else do {
      now \<leftarrow> s_now;
      attempt (WithTx RepoErr (close_tx C agentID roomID now)) (\<lambda>(updatedRoom, emitted).
      attempt (publishRoomEvents emitted) (\<lambda>_.
      attempt (sync_context (reconcileRoom C) C updatedRoom agentID (room_ID updatedRoom)
        [(''room_id'', JStr (room_ID updatedRoom)), (''agent_id'', JStr agentID), (''source'', JStr ''close_room'')] 0) (\<lambda>_.
      ok updatedRoom))) })"

section \<open>The lifecycle sweep\<close>

record LifecycleSweepResult =
  sw_Scanned :: int
  sw_ClosedTransitions :: int
  sw_PurgedTransitions :: int
  sw_ViewerBlocked :: int
  sw_ReadyForPurge :: int

definition sweep_closed_counts :: "svc_conf \<Rightarrow> Room \<Rightarrow> LifecycleSweepResult \<Rightarrow> LifecycleSweepResult prog" where
  "sweep_closed_counts C after out = do {
     t \<leftarrow> s_now;
     attempt (store (CountActiveViewers (room_ID after) (t + - heartbeatTimeout C))) (\<lambda>activeCount. do {
     t \<leftarrow> s_now;
     let age = time_sub t (case room_ClosedAt after of Some c \<Rightarrow> c | None \<Rightarrow> room_CreatedAt after);
     let age = (if age < 0 then 0 else age);
     let out = (if activeCount > 0 then out\<lparr>sw_ViewerBlocked := sw_ViewerBlocked out + 1\<rparr> else out);
     let out = (if (activeCount = 0 \<and> age \<ge> graceDelay C) \<or> age \<ge> closedRetention C
                then out\<lparr>sw_ReadyForPurge := sw_ReadyForPurge out + 1\<rparr> else out);
     ok out }) }"

fun sweep_loop :: "svc_conf \<Rightarrow> Room list \<Rightarrow> LifecycleSweepResult \<Rightarrow> LifecycleSweepResult prog" where
  "sweep_loop C [] out = ok out"
| "sweep_loop C (cand # rest) out =
    attempt (reconcileRoom C cand) (\<lambda>after.
    attempt (if room_State after = RoomStateClosed then sweep_closed_counts C after out else ok out) (\<lambda>out.
    let out = (if room_State cand \<noteq> room_State after \<and> room_State after = RoomStateClosed
               then out\<lparr>sw_ClosedTransitions := sw_ClosedTransitions out + 1\<rparr> else out);
        out = (if room_State cand \<noteq> room_State after \<and> room_State after = RoomStatePurged
               then out\<lparr>sw_PurgedTransitions := sw_PurgedTransitions out + 1\<rparr> else out)
    in sweep_loop C rest out))"

text \<open>The partial counts that the source returns next to an error are not part of the result.\<close>

definition SweepLifecycle :: "svc_conf \<Rightarrow> int \<Rightarrow> LifecycleSweepResult prog" where
  "SweepLifecycle C limit = do {
     now \<leftarrow> s_now;
     attempt (store (ListRoomsForLifecycleSweep now limit)) (\<lambda>rooms.
     sweep_loop C rooms \<lparr>sw_Scanned = int (length rooms), sw_ClosedTransitions = 0, sw_PurgedTransitions = 0,
       sw_ViewerBlocked = 0, sw_ReadyForPurge = 0\<rparr>) }"

end
