(* ===== verification/A2A_Messages.thy ===== *)
theory A2A_Messages
  imports A2A_Rooms
begin

text \<open>
  Messages in the service of \<open>internal/service/a2a/service.go\<close>: the prompt bundle a sender must quote,
  sending, the transcript and the event history, and the record of context fetches.
\<close>

section \<open>Prompt bundle\<close>

definition maxContextRecentMessages :: int where
  "maxContextRecentMessages = 6"

definition bundle_message :: "Message \<Rightarrow> RecentMessage" where
  "bundle_message m = \<lparr>rmTurn = msg_Turn m, rmSenderID = msg_SenderID m, rmCiphertext = msg_Ciphertext m\<rparr>"

text \<open>The last actor of the persisted context, when it is a party of the room.\<close>

definition context_last_actor :: "svc_conf \<Rightarrow> Room \<Rightarrow> roomContextPayload \<Rightarrow> roomContextPayload prog" where
  "context_last_actor C rm payload = do {
     r \<leftarrow> GetRoomContext (room_ID rm);
     case r of
       Inr st \<Rightarrow>
         (case unmarshalCtx C (rc_Context st) of
            None \<Rightarrow> ok payload
          | Some persisted \<Rightarrow>
              if cx_LastActorID persisted = room_AgentAID rm \<or> cx_LastActorID persisted = room_AgentBID rm
              then ok (payload\<lparr>cx_LastActorID := cx_LastActorID persisted\<rparr>) else ok payload)
     | Inl err \<Rightarrow>
         if err = ErrNotFound then ok payload
         else attempt (appendAuditEventBestEffort C (room_ID rm) ''room_context_read_failed''
           [(''room_id'', JStr (room_ID rm)), (''reason'', JStr (errText C (RepoErr err))),
            (''source'', JStr ''context_bundle'')] 0) (\<lambda>_. ok payload) }"

definition buildBundleForRoom :: "svc_conf \<Rightarrow> Room \<Rightarrow> string \<Rightarrow> (Bundle \<times> int) prog" where
  "buildBundleForRoom C rm agentID =
    attempt (context_last_actor C rm (roomContextFromRoom C rm [])) (\<lambda>payload.
    attempt (store (ListRecentRoomMessages (room_ID rm) maxContextRecentMessages)) (\<lambda>recent.
    attempt (cipher_result (decryptRoomMessages C rm recent)) (\<lambda>recent.
    let payload = payload\<lparr>cx_ConversationSummary :=
          buildConversationSummary (cx_Topic payload) (cx_ConversationMode payload) recent\<rparr>
    in ok (Build (hashText C) (builder C) \<lparr>TaskContext = formatTaskContext C payload agentID,
             RecentMessages = map bundle_message recent\<rparr>, int (length recent)))))"

record PromptBundleResult =
  pbr_Bundle :: Bundle
  pbr_NextTurn :: int
  pbr_NextActorID :: string

definition GetPromptBundle :: "svc_conf \<Rightarrow> string \<Rightarrow> string \<Rightarrow> PromptBundleResult prog" where
  "GetPromptBundle C agentID roomID =
    attempt (load_room C roomID) (\<lambda>rm.
    if \<not> is_participant rm agentID then fail ErrForbidden
    else attempt (buildBundleForRoom C rm agentID) (\<lambda>(bundle, _).
      ok \<lparr>pbr_Bundle = bundle, pbr_NextTurn = room_TurnIndex rm, pbr_NextActorID = nextActorIDForRoom rm\<rparr>))"

section \<open>Sending\<close>

record SendMessageResult =
  smr_Message :: Message
  smr_RoomState :: RoomState
  smr_NextTurn :: int
  smr_BundleHash :: string

definition policy_audit :: "svc_conf \<Rightarrow> string \<Rightarrow> string \<Rightarrow> string \<Rightarrow> string \<Rightarrow> (string \<times> jval) list \<Rightarrow> unit prog" where
  "policy_audit C roomID agentID code reason extra =
    appendAuditEventBestEffort C roomID ''message_policy_blocked''
      ([(''room_id'', JStr roomID), (''agent_id'', JStr agentID), (''code'', JStr code), (''reason'', JStr reason)] @ extra) 0"

definition blocked_audit :: "svc_conf \<Rightarrow> string \<Rightarrow> string \<Rightarrow> time \<Rightarrow> unit prog" where
  "blocked_audit C roomID agentID until =
    policy_audit C roomID agentID ''agent_temporarily_blocked'' ''too many policy violations''
      [(''blocked_until'', JStr (rfc3339 C until))]"

definition rate_audit :: "svc_conf \<Rightarrow> string \<Rightarrow> string \<Rightarrow> string \<Rightarrow> unit prog" where
  "rate_audit C roomID agentID scope =
    appendAuditEventBestEffort C roomID ''message_rate_limited''
      [(''room_id'', JStr roomID), (''agent_id'', JStr agentID), (''scope'', JStr scope)] 0"

text \<open>The checks of a single instance, on the windows in memory.\<close>

definition local_limits :: "svc_conf \<Rightarrow> string \<Rightarrow> string \<Rightarrow> time \<Rightarrow> unit prog" where
  "local_limits C agentID roomID now = do {
     b \<leftarrow> blockedUntilLocked agentID now;
     case b of
       Some until \<Rightarrow> attempt (blocked_audit C roomID agentID until) (\<lambda>_. fail ErrPolicyBlocked)
     | None \<Rightarrow> do {
         a \<leftarrow> allowAgentMessageLocked agentID now;
         if \<not> a then attempt (rate_audit C roomID agentID ''agent'') (\<lambda>_. fail ErrRateLimit)
         else do {
           r \<leftarrow> allowRoomMessageLocked roomID now;
           if \<not> r then attempt (rate_audit C roomID agentID ''room'') (\<lambda>_. fail ErrRateLimit)
           else ok () } } }"

definition hash_audit :: "svc_conf \<Rightarrow> string \<Rightarrow> string \<Rightarrow> string \<Rightarrow> string \<Rightarrow> Room \<Rightarrow> int \<Rightarrow> unit prog" where
  "hash_audit C roomID agentID expected provided rm recentCount =
    appendAuditEventBestEffort C roomID ''bundle_hash_mismatch''
      [(''room_id'', JStr roomID), (''agent_id'', JStr agentID), (''expected_hash'', JStr expected),
       (''provided_hash'', JStr provided), (''turn_index'', JInt (room_TurnIndex rm))] recentCount"

text \<open>The policy verdict and the bundle hash, checked on the windows in memory.\<close>

definition local_verdict ::
  "svc_conf \<Rightarrow> string \<Rightarrow> string \<Rightarrow> Room \<Rightarrow> PolicyDecision \<Rightarrow> Bundle \<Rightarrow> string \<Rightarrow> int \<Rightarrow> time \<Rightarrow> unit prog" where
  "local_verdict C agentID roomID rm decision bundle provided recentCount now =
    (if \<not> Allowed decision then do {
       n \<leftarrow> recordPolicyViolationLocked agentID now;
       attempt (policy_audit C roomID agentID (Code decision) (Reason decision)
         [(''violation_count'', JInt (int n)), (''blocked_temporal'', JBool (n \<ge> maxPolicyViolationsWindow))])
         (\<lambda>_. fail ErrPolicyBlocked) }
     else if \<not> EqualFold (uniFold C) (BundleHash bundle) provided then
       attempt (hash_audit C roomID agentID (BundleHash bundle) provided rm recentCount) (\<lambda>_. fail ErrStaleBundleHash)
     else ok ())"

definition lockSharedMessageCoordination :: "string \<Rightarrow> string \<Rightarrow> unit prog" where
  "lockSharedMessageCoordination roomID agentID =
    attempt (store (LockRoom roomID)) (\<lambda>_. store (LockAdvisory (''agent:'' @ TrimSpace agentID)))"

text \<open>The same checks inside the transaction, on the shared tables.\<close>

definition shared_checks ::
  "svc_conf \<Rightarrow> string \<Rightarrow> string \<Rightarrow> Room \<Rightarrow> PolicyDecision \<Rightarrow> Bundle \<Rightarrow> string \<Rightarrow> int \<Rightarrow> time \<Rightarrow> unit prog" where
  "shared_checks C agentID roomID rm decision bundle provided recentCount now =
    attempt (lockSharedMessageCoordination roomID agentID) (\<lambda>_.
    attempt (store (GetAgentPolicyBlock agentID now)) (\<lambda>b.
    case b of
      Some until \<Rightarrow> attempt (blocked_audit C roomID agentID until) (\<lambda>_. fail ErrPolicyBlocked)
    | None \<Rightarrow>
    attempt (store (CountMessagesBySenderSince agentID (now + - Minute))) (\<lambda>agentCount.
    if agentCount \<ge> int maxMessagesPerMinuteAgent
    then attempt (rate_audit C roomID agentID ''agent'') (\<lambda>_. fail ErrRateLimit)
    else
    attempt (store (CountMessagesByRoomSince roomID (now + - Minute))) (\<lambda>roomCount.
    if roomCount \<ge> int maxMessagesPerMinuteRoom
    then attempt (rate_audit C roomID agentID ''room'') (\<lambda>_. fail ErrRateLimit)
    else if \<not> Allowed decision then
      attempt (store (RecordAgentPolicyViolation agentID now policyViolationWindow policyBlockDuration
        (int maxPolicyViolationsWindow))) (\<lambda>st.
      attempt (policy_audit C roomID agentID (Code decision) (Reason decision)
        [(''violation_count'', JInt (ps_ViolationCount st)), (''blocked_temporal'', JBool (ps_BlockedUntil st \<noteq> None))])
        (\<lambda>_. fail ErrPolicyBlocked))
    else if \<not> EqualFold (uniFold C) (BundleHash bundle) provided then
      attempt (hash_audit C roomID agentID (BundleHash bundle) provided rm recentCount) (\<lambda>_. fail ErrStaleBundleHash)
    else ok ()))))"

text \<open>The text to store, encrypted under the room's key, and the room with its key.\<close>

definition message_text :: "svc_conf \<Rightarrow> Room \<Rightarrow> string \<Rightarrow> (Room \<times> string) prog" where
  "message_text C rm ciphertext =
    attempt (cipher_result (roomMessageCipher C rm)) (\<lambda>c.
    attempt (case c of None \<Rightarrow> ensureRoomMessageCipher C rm | Some k \<Rightarrow> ok (rm, Some k)) (\<lambda>(rm, c).
    case c of
      None \<Rightarrow> ok (rm, ciphertext)
    | Some k \<Rightarrow> do {
        nonce \<leftarrow> svc_random;
        attempt (cipher_result (Encrypt (crypt C) k nonce ciphertext)) (\<lambda>stored. ok (rm, stored)) }))"

definition close_update :: "Room \<Rightarrow> int \<Rightarrow> (UpdateRoomInput \<times> RoomState) prog" where
  "close_update rm nextTurn =
    (let upd = (update_room_input (room_ID rm))\<lparr>uri_TurnIndex := Some nextTurn\<rparr> in
     if nextTurn \<ge> room_MaxTurns rm then do {
       t \<leftarrow> s_now;
       ok (upd\<lparr>uri_State := Some RoomStateClosed, uri_ClosedAt := Some t\<rparr>, RoomStateClosed) }
     else ok (upd, room_State rm))"

text \<open>The tail of the transaction when the last turn has closed the room.\<close>

definition closing_events :: "svc_conf \<Rightarrow> Room \<Rightarrow> string \<Rightarrow> time \<Rightarrow> RoomEvent list prog" where
  "closing_events C updatedRoom agentID now = do {
     t \<leftarrow> s_now;
     attempt (revokeRoomScopedTokensForRoom updatedRoom t) (\<lambda>_.
     attempt (store (AppendRoomEvent (room_event_input (room_ID updatedRoom) ''room.state_changed'' (Some agentID)))) (\<lambda>ev1.
     attempt (event_with_hooks C updatedRoom ''room.closed'' agentID) (\<lambda>ev2.
     attempt (enqueueAgentStreamTerminal C updatedRoom ''room.closed'' ''max_turns_reached'' (eventTime ev2 now)) (\<lambda>_.
     ok [ev1, ev2])))) }"

definition append_steps ::
  "svc_conf \<Rightarrow> string \<Rightarrow> string \<Rightarrow> Room \<Rightarrow> string \<Rightarrow> string \<Rightarrow> int \<Rightarrow> time \<Rightarrow>
   (Message \<times> Room \<times> RoomState \<times> RoomEvent list) prog" where
  "append_steps C agentID roomID rm ciphertext stored nextTurn now = do {
     mid \<leftarrow> svc_newID ''msg'';
     attempt (mapErr (\<lambda>e. if e = ErrConflict then ErrTurnMismatch else RepoErr e)
       (AppendMessage \<lparr>ami_ID = mid, ami_RoomID = roomID, ami_SenderID = agentID, ami_Turn = room_TurnIndex rm,
         ami_Ciphertext = stored\<rparr>)) (\<lambda>msg.
     attempt (close_update rm nextTurn) (\<lambda>(upd, nextState).
     attempt (store (UpdateRoom upd)) (\<lambda>updatedRoom.
     attempt (store (AppendRoomEvent \<lparr>aei_RoomID = room_ID rm, aei_EventType = ''message.created'',
       aei_MessageID = Some (msg_ID msg), aei_Turn = Some (msg_Turn msg), aei_SenderID = Some agentID,
       aei_Ciphertext = Some ciphertext\<rparr>)) (\<lambda>ev.
     let ev = (case ev_Ciphertext ev of None \<Rightarrow> ev | Some _ \<Rightarrow> ev\<lparr>ev_Ciphertext := Some ciphertext\<rparr>) in
     attempt (enqueueWebhookOutboxForEvent C updatedRoom ev agentID) (\<lambda>_.
     attempt (if nextState = RoomStateActive
       then enqueueAgentStreamTurnReady C updatedRoom ''peer_message'' (eventTime ev now) else ok ()) (\<lambda>_.
     attempt (if nextState = RoomStateClosed then closing_events C updatedRoom agentID now else ok []) (\<lambda>extra.
     ok (msg\<lparr>msg_Ciphertext := ciphertext\<rparr>, updatedRoom, nextState, ev # extra)))))))) }"

definition send_tx ::
  "svc_conf \<Rightarrow> string \<Rightarrow> string \<Rightarrow> Room \<Rightarrow> string \<Rightarrow> PolicyDecision \<Rightarrow> Bundle \<Rightarrow> string \<Rightarrow> int \<Rightarrow> int \<Rightarrow> time \<Rightarrow>
   (Message \<times> Room \<times> RoomState \<times> RoomEvent list) prog" where
  "send_tx C agentID roomID rm ciphertext decision bundle provided recentCount nextTurn now =
    attempt (message_text C rm ciphertext) (\<lambda>(rm, stored).
    attempt (if shared C then shared_checks C agentID roomID rm decision bundle provided recentCount now else ok ()) (\<lambda>_.
    append_steps C agentID roomID rm ciphertext stored nextTurn now))"

definition expected_sender :: "Room \<Rightarrow> string" where
  "expected_sender rm = (if go_rem (room_TurnIndex rm) 2 = 1 then room_AgentBID rm else room_AgentAID rm)"

text \<open>After the commit: publishing, the context and the audit log.\<close>

definition send_epilogue ::
  "svc_conf \<Rightarrow> string \<Rightarrow> string \<Rightarrow> Bundle \<Rightarrow> int \<Rightarrow> int \<Rightarrow> Message \<times> Room \<times> RoomState \<times> RoomEvent list \<Rightarrow> SendMessageResult prog" where
  "send_epilogue C agentID roomID bundle recentCount nextTurn res = (case res of (msg, updatedRoom, nextState, emitted) \<Rightarrow>
    attempt (publishRoomEvents emitted) (\<lambda>_.
    attempt (sync_context (reconcileRoom C) C updatedRoom agentID roomID
      [(''room_id'', JStr roomID), (''agent_id'', JStr agentID), (''turn_index'', JInt (msg_Turn msg))] 0) (\<lambda>_. do {
    _ \<leftarrow> AppendAuditEvent \<lparr>aai_RoomID = roomID, aai_Event = ''prompt_bundle_generated'',
      aai_Meta = marshalMap C [(''bundle_hash'', JStr (BundleHash bundle)),
        (''system_core_hash'', JStr (bSystemCoreHash bundle)), (''global_rules_hash'', JStr (bGlobalRulesHash bundle)),
        (''agent_rules_hash'', JStr (bAgentRulesHash bundle)), (''identity_hash'', JStr (bIdentityHash bundle)),
        (''soul_hash'', JStr (bSoulHash bundle)), (''user_hash'', JStr (bUserHash bundle)),
        (''room_id'', JStr roomID), (''agent_id'', JStr agentID), (''turn_index'', JInt (msg_Turn msg))],
      aai_MessageCount = recentCount\<rparr>;
    attempt (appendAuditEventBestEffort C roomID ''message_persisted''
      [(''room_id'', JStr roomID), (''agent_id'', JStr agentID), (''turn_index'', JInt (msg_Turn msg)),
       (''next_turn'', JInt nextTurn), (''bundle_hash'', JStr (BundleHash bundle)), (''message_id'', JStr (msg_ID msg)),
       (''room_state'', JStr (state_text nextState)), (''audit_source'', JStr ''service_send_message'')] recentCount) (\<lambda>_.
    ok \<lparr>smr_Message = msg, smr_RoomState = nextState, smr_NextTurn = nextTurn, smr_BundleHash = BundleHash bundle\<rparr>) })))"

definition SendMessage :: "svc_conf \<Rightarrow> string \<Rightarrow> string \<Rightarrow> int \<Rightarrow> string \<Rightarrow> string \<Rightarrow> SendMessageResult prog" where
  "SendMessage C agentID roomID expectedTurn ciphertext providedBundleHash =
    (let ciphertext = TrimSpace ciphertext; provided = TrimSpace providedBundleHash in
     if ciphertext = [] then fail ErrBadRequest
     else if provided = [] then fail ErrBadRequest
     else
     attempt (store_nf ErrSvcNotFound (GetRoom roomID)) (\<lambda>rm.
     attempt (reconcileRoomLocked C rm) (\<lambda>rm.
     if \<not> is_participant rm agentID then fail ErrForbidden
     else if room_State rm = RoomStateClosed \<or> room_State rm = RoomStatePurged then fail ErrGone
     else if room_State rm \<noteq> RoomStateActive then fail ErrRoomNotActive
     else do {
     t \<leftarrow> s_now;
     if t > room_TTLAt rm then fail ErrGone
     else do {
     now \<leftarrow> s_now;
     attempt (if shared C then ok () else local_limits C agentID roomID now) (\<lambda>_.
     if expectedTurn \<noteq> room_TurnIndex rm then fail ErrTurnMismatch
     else if expected_sender rm \<noteq> agentID then fail ErrTurnMismatch
     else (let decision = EvaluateMessageForPersist (uniLower C) ciphertext in
     if \<not> Allowed decision \<and> Code decision = ''payload_too_large'' then
       attempt (policy_audit C roomID agentID (Code decision) (Reason decision)
         [(''max_chars'', JInt (int MaxPersistMessageChars)), (''turn_index'', JInt (room_TurnIndex rm)),
          (''bundle_hash'', JStr provided)]) (\<lambda>_. fail ErrPayloadTooLarge)
     else
     attempt (buildBundleForRoom C rm agentID) (\<lambda>(bundle, recentCount).
     attempt (if shared C then ok ()
       else local_verdict C agentID roomID rm decision bundle provided recentCount now) (\<lambda>_.
     let nextTurn = wrap64 (room_TurnIndex rm + 1) in
     attempt (WithTx RepoErr (send_tx C agentID roomID rm ciphertext decision bundle provided recentCount nextTurn now)) (\<lambda>res.
     send_epilogue C agentID roomID bundle recentCount nextTurn res))))) } })))"

section \<open>Reading\<close>

record RoomStateResult =
  rsr_Room :: Room
  rsr_ActiveViewers :: int
  rsr_NextTurn :: int
  rsr_NextActorID :: string

definition GetRoomState :: "svc_conf \<Rightarrow> string \<Rightarrow> string \<Rightarrow> RoomStateResult prog" where
  "GetRoomState C agentID roomID =
    attempt (load_room C roomID) (\<lambda>rm.
    if \<not> is_participant rm agentID then fail ErrForbidden
    else do {
      t \<leftarrow> s_now;
      attempt (store (CountActiveViewers roomID (t + - heartbeatTimeout C))) (\<lambda>count.
      ok \<lparr>rsr_Room = rm, rsr_ActiveViewers = count, rsr_NextTurn = room_TurnIndex rm,
          rsr_NextActorID = nextActorIDForRoom rm\<rparr>) })"

definition RoomSnapshot :: "svc_conf \<Rightarrow> string \<Rightarrow> Room prog" where
  "RoomSnapshot C roomID = load_room C roomID"

record TranscriptResult =
  tr_Room :: Room
  tr_Messages :: "Message list"
  tr_LastFetch :: "(string, int) gomap"

definition Transcript :: "svc_conf \<Rightarrow> string \<Rightarrow> string \<Rightarrow> TranscriptResult prog" where
  "Transcript C roomID humanCode =
    (let humanCode = TrimSpace humanCode in
     if humanCode = [] then fail ErrForbidden
     else
     attempt (load_room C roomID) (\<lambda>rm.
     if room_State rm = RoomStatePurged then fail ErrGone
     else if hashText C humanCode \<noteq> room_HumanCodeHash rm then fail ErrForbidden
     else do {
       expired \<leftarrow> (case room_HumanCodeExpiresAt rm of
           None \<Rightarrow> State_Monad.return False
         | Some e \<Rightarrow> do { t \<leftarrow> s_now; State_Monad.return (t > e) });
       if expired then fail ErrForbidden
       else
       attempt (store (ListRoomMessages roomID)) (\<lambda>msgs.
       attempt (cipher_result (decryptRoomMessages C rm msgs)) (\<lambda>msgs. do {
       r \<leftarrow> GetRoomContext roomID;
       let fetches = (case r of Inl _ \<Rightarrow> []
         | Inr st \<Rightarrow> (case unmarshalCtx C (rc_Context st) of None \<Rightarrow> [] | Some p \<Rightarrow> cx_LastFetch p));
       ok \<lparr>tr_Room = rm, tr_Messages = msgs, tr_LastFetch = fetches\<rparr> })) }))"

definition record_fetch :: "string \<Rightarrow> int \<Rightarrow> Room \<Rightarrow> roomContextPayload \<Rightarrow> roomContextPayload prog" where
  "record_fetch agentID turnIndex rm payload =
    (if \<not> is_participant rm agentID then fail ErrForbidden
     else (case gm_get (cx_LastFetch payload) agentID of
       None \<Rightarrow> ok (payload\<lparr>cx_LastFetch := gm_put agentID turnIndex (cx_LastFetch payload)\<rparr>)
     | Some current \<Rightarrow> if turnIndex > current
         then ok (payload\<lparr>cx_LastFetch := gm_put agentID turnIndex (cx_LastFetch payload)\<rparr>) else ok payload))"

definition RecordRoomContextFetch :: "svc_conf \<Rightarrow> string \<Rightarrow> string \<Rightarrow> int \<Rightarrow> unit prog" where
  "RecordRoomContextFetch C agentID roomID turnIndex =
    (if turnIndex < 0 then fail ErrBadRequest
     else updateRoomContext (reconcileRoom C) C roomID [] (record_fetch agentID turnIndex))"

record RoomEventHistoryResult =
  eh_Items :: "RoomEvent list"
  eh_NextSince :: int

fun decrypt_events :: "svc_conf \<Rightarrow> Cipher \<Rightarrow> RoomEvent list \<Rightarrow> cipher_error + RoomEvent list" where
  "decrypt_events C c [] = Inr []"
| "decrypt_events C c (e # es) =
    (case ev_Ciphertext e of
       None \<Rightarrow> map_sum id ((#) e) (decrypt_events C c es)
     | Some x \<Rightarrow>
         if TrimSpace x = [] then map_sum id ((#) e) (decrypt_events C c es)
         else (case Decrypt (crypt C) c x of
           Inl err \<Rightarrow> Inl err
         | Inr plain \<Rightarrow> map_sum id ((#) (e\<lparr>ev_Ciphertext := Some plain\<rparr>)) (decrypt_events C c es)))"

definition decryptRoomEvents :: "svc_conf \<Rightarrow> Room \<Rightarrow> RoomEvent list \<Rightarrow> cipher_error + RoomEvent list" where
  "decryptRoomEvents C rm items =
    (case roomMessageCipher C rm of
       Inl err \<Rightarrow> Inl err
     | Inr None \<Rightarrow> Inr items
     | Inr (Some c) \<Rightarrow> decrypt_events C c items)"

definition maxRoomEventHistoryLimit :: int where
  "maxRoomEventHistoryLimit = 200"

text \<open>The cursor must be an event of the same room.\<close>

definition check_since :: "string \<Rightarrow> int \<Rightarrow> unit prog" where
  "check_since roomID sinceID =
    (if sinceID > 0 then
       attempt (store_nf ErrBadRequest (GetRoomEvent sinceID)) (\<lambda>ev.
       if ev_RoomID ev \<noteq> roomID then fail ErrBadRequest else ok ())
     else ok ())"

definition ListRoomEventHistory ::
  "svc_conf \<Rightarrow> string \<Rightarrow> string \<Rightarrow> int \<Rightarrow> int \<Rightarrow> RoomEventHistoryResult prog" where
  "ListRoomEventHistory C agentID roomID sinceID limit =
    (if sinceID < 0 then fail ErrBadRequest
     else (let limit = (if limit \<le> 0 \<or> limit > maxRoomEventHistoryLimit then maxRoomEventHistoryLimit else limit) in
     attempt (load_room C roomID) (\<lambda>rm.
     if room_State rm = RoomStatePurged then fail ErrGone
     else if \<not> is_participant rm agentID then fail ErrForbidden
     else do {
       js \<leftarrow> gets (\<lambda>s. joinedBy s roomID);
       if \<not> roomParticipantJoined rm agentID js then fail ErrForbidden
       else
       attempt (check_since roomID sinceID) (\<lambda>_.
       attempt (store (ListRoomEvents \<lparr>lei_RoomID = roomID, lei_SinceID = sinceID, lei_Limit = limit\<rparr>)) (\<lambda>items.
       attempt (cipher_result (decryptRoomEvents C rm items)) (\<lambda>items.
       ok \<lparr>eh_Items = items, eh_NextSince = (if items = [] then sinceID else ev_ID (last items))\<rparr>))) })))"

end
