(* ===== verification/A2A_Access.thy ===== *)
theory A2A_Access
  imports A2A_Messages
begin

text \<open>
  Access to the service of \<open>internal/service/a2a/service.go\<close>: registration, login, bearer tokens, room
  tokens, the recovery of an agent's rooms, the agent stream, webhook endpoints and human viewers.
\<close>

section \<open>Agents and sessions\<close>

record RegisterResult =
  rr_AgentID :: string
  rr_APIKey :: string

definition RegisterAgent :: "svc_conf \<Rightarrow> string \<Rightarrow> RegisterResult prog" where
  "RegisterAgent C name =
    (let name = TrimSpace name in
     if name = [] then fail ErrBadRequest
     else do {
       t \<leftarrow> svc_random;
       let apiKey = ''ak_'' @ t;
       agentID \<leftarrow> svc_newID ''agt'';
       attempt (store (CreateAgent \<lparr>cai_ID = agentID, cai_Name = name, cai_APIKeyHash = hashText C apiKey\<rparr>)) (\<lambda>_.
       ok \<lparr>rr_AgentID = agentID, rr_APIKey = apiKey\<rparr>) })"

definition sessionTTL :: duration where
  "sessionTTL = 14 * 24 * Hour"

definition Login :: "svc_conf \<Rightarrow> string \<Rightarrow> string prog" where
  "Login C apiKey =
    (let apiKey = TrimSpace apiKey in
     if apiKey = [] then fail ErrBadRequest
     else
     attempt (store_nf ErrUnauthorized (FindAgentByAPIKeyHash (hashText C apiKey))) (\<lambda>a. do {
       t \<leftarrow> svc_random;
       let token = ''as_'' @ t;
       now \<leftarrow> s_now;
       attempt (store (CreateSession \<lparr>csi_Token = token, csi_AgentID = agt_ID a, csi_ExpiresAt = Some (now + sessionTTL)\<rparr>)) (\<lambda>_.
       ok token) }))"

definition AuthAgentID :: "string \<Rightarrow> string prog" where
  "AuthAgentID bearerToken =
    (let token = TrimSpace bearerToken in
     if token = [] then fail ErrUnauthorized
     else
     attempt (store_nf ErrUnauthorized (FindSession token)) (\<lambda>session.
     case ses_ExpiresAt session of
       None \<Rightarrow> fail ErrUnauthorized
     | Some e \<Rightarrow> do {
         now \<leftarrow> s_now;
         if \<not> e > now then fail ErrUnauthorized else ok (ses_AgentID session) }))"

section \<open>Room tokens\<close>

definition roomScopedTokenTTL :: duration where
  "roomScopedTokenTTL = 5 * Minute"

definition scoped_access :: "svc_conf \<Rightarrow> string \<Rightarrow> string \<Rightarrow> string \<Rightarrow> string prog" where
  "scoped_access C token roomID action =
    attempt (store_nf ErrUnauthorized (FindRoomScopedTokenByHash (hashText C token))) (\<lambda>scoped. do {
    revoked \<leftarrow> (if rt_RevokedAt scoped \<noteq> None then State_Monad.return True
      else do { now \<leftarrow> s_now; State_Monad.return (\<not> rt_ExpiresAt scoped > now) });
    if revoked then fail ErrUnauthorized
    else if rt_RoomID scoped \<noteq> roomID then fail ErrForbidden
    else if \<not> roomScopedTokenAllows (rt_Scope scoped) action then fail ErrForbidden
    else do {
      now \<leftarrow> s_now;
      if shouldRefreshRoomScopedToken (rt_ExpiresAt scoped) now then do {
        t1 \<leftarrow> s_now;
        t2 \<leftarrow> s_now;
        attempt (store (TouchRoomScopedToken (rt_TokenHash scoped) t1 (t2 + roomScopedTokenTTL))) (\<lambda>_.
        ok (rt_AgentID scoped)) }
      else ok (rt_AgentID scoped) } })"

definition AuthRoomAccess :: "svc_conf \<Rightarrow> string \<Rightarrow> string \<Rightarrow> string \<Rightarrow> string prog" where
  "AuthRoomAccess C bearerToken roomID action =
    (let token = TrimSpace bearerToken; roomID = TrimSpace roomID in
     if token = [] \<or> roomID = [] then fail ErrUnauthorized
     else do {
       r \<leftarrow> AuthAgentID token;
       case r of
         Inr agentID \<Rightarrow> ok agentID
       | Inl err \<Rightarrow> if err \<noteq> ErrUnauthorized then fail err else scoped_access C token roomID action })"

record RoomAccessTokenResult =
  rat_RoomID :: string
  rat_AgentID :: string
  rat_Token :: string
  rat_Scope :: string
  rat_ExpiresAt :: time

definition token_tx :: "svc_conf \<Rightarrow> string \<Rightarrow> Room \<Rightarrow> string \<Rightarrow> time \<Rightarrow> unit prog" where
  "token_tx C agentID rm plainToken now =
    attempt (store (RevokeRoomScopedTokens (room_ID rm) agentID now)) (\<lambda>_. do {
    i \<leftarrow> svc_newID ''rat'';
    attempt (store (CreateRoomScopedToken \<lparr>cti_ID = i, cti_RoomID = room_ID rm, cti_AgentID = agentID,
      cti_TokenHash = hashText C plainToken, cti_Scope = roomScopeAutomation,
      cti_ExpiresAt = now + roomScopedTokenTTL\<rparr>)) (\<lambda>_. ok ()) })"

definition issueRoomAccessToken :: "svc_conf \<Rightarrow> string \<Rightarrow> Room \<Rightarrow> RoomAccessTokenResult prog" where
  "issueRoomAccessToken C agentID rm = do {
     now \<leftarrow> s_now;
     t \<leftarrow> svc_random;
     let plainToken = ''rat_'' @ t;
     attempt (WithTx RepoErr (token_tx C agentID rm plainToken now)) (\<lambda>_.
     ok \<lparr>rat_RoomID = room_ID rm, rat_AgentID = agentID, rat_Token = plainToken, rat_Scope = roomScopeAutomation,
         rat_ExpiresAt = now + roomScopedTokenTTL\<rparr>) }"

definition CreateRoomAccessToken :: "svc_conf \<Rightarrow> string \<Rightarrow> string \<Rightarrow> RoomAccessTokenResult prog" where
  "CreateRoomAccessToken C agentID roomID =
    attempt (load_room C (TrimSpace roomID)) (\<lambda>rm.
    if \<not> is_participant rm agentID then fail ErrForbidden
    else if room_State rm \<noteq> RoomStateOpen \<and> room_State rm \<noteq> RoomStateActive then fail ErrGone
    else issueRoomAccessToken C agentID rm)"

section \<open>Recovery of rooms\<close>

record ActionableRoomRecovery =
  arr_RoomID :: string
  arr_RoomState :: RoomState
  arr_NextTurn :: int
  arr_NextActorID :: string
  arr_Token :: string
  arr_ExpiresAt :: time

record TerminalRoomRecovery =
  trr_RoomID :: string
  trr_RoomState :: RoomState
  trr_ClosedAt :: "time option"
  trr_PurgedAt :: "time option"

record ActionableRoomsResult =
  Actionable :: "ActionableRoomRecovery list"
  Terminal :: "TerminalRoomRecovery list"

definition recover_active :: "svc_conf \<Rightarrow> string \<Rightarrow> Room \<Rightarrow> ActionableRoomsResult \<Rightarrow> ActionableRoomsResult prog" where
  "recover_active C agentID rm out =
    (if nextActorIDForRoom rm \<noteq> agentID then ok out
     else do {
       r \<leftarrow> issueRoomAccessToken C agentID rm;
       case r of
         Inl err \<Rightarrow> if err = ErrGone then ok out else fail err
       | Inr token \<Rightarrow> ok (out\<lparr>Actionable := Actionable out @
           [\<lparr>arr_RoomID = room_ID rm, arr_RoomState = room_State rm, arr_NextTurn = room_TurnIndex rm,
             arr_NextActorID = nextActorIDForRoom rm, arr_Token = rat_Token token,
             arr_ExpiresAt = rat_ExpiresAt token\<rparr>]\<rparr>) })"

definition recover_terminal :: "Room \<Rightarrow> ActionableRoomsResult \<Rightarrow> ActionableRoomsResult" where
  "recover_terminal rm out =
    (if room_ID rm \<in> trr_RoomID ` set (Terminal out) then out
     else out\<lparr>Terminal := Terminal out @ [\<lparr>trr_RoomID = room_ID rm, trr_RoomState = room_State rm,
       trr_ClosedAt = room_ClosedAt rm, trr_PurgedAt = room_PurgedAt rm\<rparr>]\<rparr>)"

fun recover_loop :: "svc_conf \<Rightarrow> string \<Rightarrow> Room list \<Rightarrow> ActionableRoomsResult \<Rightarrow> ActionableRoomsResult prog" where
  "recover_loop C agentID [] out = ok out"
| "recover_loop C agentID (cand # rest) out =
    attempt (reconcileRoom C cand) (\<lambda>rm.
    attempt (if \<not> is_participant rm agentID then ok out
      else if room_State rm = RoomStateActive then recover_active C agentID rm out
      else if room_State rm = RoomStateClosed \<or> room_State rm = RoomStatePurged then ok (recover_terminal rm out)
      else ok out) (\<lambda>out.
    recover_loop C agentID rest out))"

definition ActionableRooms :: "svc_conf \<Rightarrow> string \<Rightarrow> ActionableRoomsResult prog" where
  "ActionableRooms C agentID =
    (let agentID = TrimSpace agentID in
     if agentID = [] then fail ErrUnauthorized
     else do {
       now \<leftarrow> s_now;
       attempt (store (ListRecoverableRoomsForAgent agentID (now + - agentStreamReplayWindow))) (\<lambda>rooms.
       recover_loop C agentID rooms \<lparr>Actionable = [], Terminal = []\<rparr>) })"

section \<open>The agent stream\<close>

record AgentStreamResumeResult =
  AfterSeq :: int
  ResumeStatus :: string
  LastAcknowledgedDelivery :: string

definition replay_required :: AgentStreamResumeResult where
  "replay_required = \<lparr>AfterSeq = 0, ResumeStatus = ''replay_required'', LastAcknowledgedDelivery = []\<rparr>"

definition ResolveAgentStreamResume :: "svc_conf \<Rightarrow> string \<Rightarrow> string \<Rightarrow> AgentStreamResumeResult prog" where
  "ResolveAgentStreamResume C agentID lastDeliveryID =
    (let lastDeliveryID = TrimSpace lastDeliveryID in
     if lastDeliveryID = [] then ok \<lparr>AfterSeq = 0, ResumeStatus = ''fresh'', LastAcknowledgedDelivery = []\<rparr>
     else do {
       r \<leftarrow> GetAgentStreamDelivery (TrimSpace agentID) lastDeliveryID;
       case r of
         Inl err \<Rightarrow> if err = ErrNotFound then ok replay_required else fail (RepoErr err)
       | Inr delivery \<Rightarrow> do {
           now \<leftarrow> s_now;
           if \<not> asd_ExpiresAt delivery > now then ok replay_required
           else if \<not> EqualFold (uniFold C) (TrimSpace (asd_Status delivery)) ''acked'' then ok replay_required
           else ok \<lparr>AfterSeq = asd_Seq delivery, ResumeStatus = ''ok'', LastAcknowledgedDelivery = asd_DeliveryID delivery\<rparr> } })"

definition ListPendingDeliveries :: "string \<Rightarrow> int \<Rightarrow> int \<Rightarrow> AgentStreamDelivery list prog" where
  "ListPendingDeliveries agentID afterSeq limit =
    (if TrimSpace agentID = [] then fail ErrUnauthorized
     else do { now \<leftarrow> s_now; store (ListPendingAgentStreamDeliveries (TrimSpace agentID) afterSeq now limit) })"

definition AckDelivery :: "string \<Rightarrow> string \<Rightarrow> unit prog" where
  "AckDelivery agentID deliveryID =
    (if TrimSpace agentID = [] \<or> TrimSpace deliveryID = [] then fail ErrBadRequest
     else do {
       now \<leftarrow> s_now;
       store_nf ErrSvcNotFound (AckAgentStreamDelivery (TrimSpace agentID) (TrimSpace deliveryID) now) })"

section \<open>Webhook endpoints\<close>

text \<open>
  A parsed URL has the fields of \<open>net/url\<close>; parsing, printing and \<open>Hostname\<close> are parameters, and so is the
  test that a host is the text of a loopback address (\<open>net.ParseIP\<close>, \<open>IsLoopback\<close>).
\<close>

record parsed_url =
  Scheme :: string
  Opaque :: string
  User :: "string option"
  Host :: string
  Path :: string
  RawPath :: string
  OmitHost :: bool
  ForceQuery :: bool
  RawQuery :: string
  Fragment :: string
  RawFragment :: string

record url_lib =
  ParseURL :: "string \<Rightarrow> parsed_url option"
  StringURL :: "parsed_url \<Rightarrow> string"
  Hostname :: "parsed_url \<Rightarrow> string"
  loopbackIP :: "string \<Rightarrow> bool"

definition normalizeWebhookEndpointURL :: "svc_conf \<Rightarrow> url_lib \<Rightarrow> string \<Rightarrow> string option" where
  "normalizeWebhookEndpointURL C U raw =
    (case ParseURL U (TrimSpace raw) of
       None \<Rightarrow> None
     | Some parsed \<Rightarrow>
         if Scheme parsed = [] \<or> Host parsed = [] then None
         else if User parsed \<noteq> None \<or> RawQuery parsed \<noteq> [] \<or> Fragment parsed \<noteq> [] then None
         else (let scheme = ToLower (uniLower C) (TrimSpace (Scheme parsed)); host = TrimSpace (Hostname U parsed) in
           if scheme = ''https'' \<or> scheme = ''http'' \<and> (host = ''localhost'' \<or> loopbackIP U host)
           then Some (StringURL U (parsed\<lparr>Scheme := scheme\<rparr>))
           else None))"

text \<open>An accepted endpoint is reached over TLS or is on this host, and has no user, query or fragment.\<close>

lemma normalized_endpoint:
  assumes "normalizeWebhookEndpointURL C U raw = Some out"
  shows "\<exists>p. out = StringURL U p \<and> Host p \<noteq> [] \<and> User p = None \<and> RawQuery p = [] \<and> Fragment p = [] \<and>
    (Scheme p = ''https'' \<or> Scheme p = ''http'' \<and> (\<exists>q. ParseURL U (TrimSpace raw) = Some q \<and>
       p = q\<lparr>Scheme := ''http''\<rparr> \<and> (TrimSpace (Hostname U q) = ''localhost'' \<or> loopbackIP U (TrimSpace (Hostname U q)))))"
  using assms by (auto simp: normalizeWebhookEndpointURL_def Let_def split: option.splits if_splits)

definition CreateEndpoint ::
  "svc_conf \<Rightarrow> url_lib \<Rightarrow> string \<Rightarrow> string \<Rightarrow> string \<Rightarrow> string \<Rightarrow> bool \<Rightarrow> AgentWebhookEndpoint prog" where
  "CreateEndpoint C U agentID rawURL secret keyID enabled =
    (let rawURL = TrimSpace rawURL; secret = TrimSpace secret; keyID = TrimSpace keyID in
     if rawURL = [] \<or> secret = [] then fail ErrBadRequest
     else (case normalizeWebhookEndpointURL C U rawURL of
       None \<Rightarrow> fail ErrBadRequest
     | Some normalizedURL \<Rightarrow>
       (let keyID = (if keyID = [] then ''v1'' else keyID) in do {
        nonce \<leftarrow> svc_random;
        attempt (cipher_result (Encrypt (crypt C) (sealC C) nonce secret)) (\<lambda>sealedSecret. do {
        i \<leftarrow> svc_newID ''whk'';
        mapErr (\<lambda>e. if e = ErrConflict then ErrSvcConflict else RepoErr e)
          (CreateAgentWebhookEndpoint \<lparr>cei_ID = i, cei_AgentID = TrimSpace agentID, cei_URL = normalizedURL,
             cei_SecretCiphertext = sealedSecret, cei_KeyID = keyID, cei_Enabled = enabled\<rparr>) }) })))"

definition ListEndpoints :: "string \<Rightarrow> AgentWebhookEndpoint list prog" where
  "ListEndpoints agentID = store (ListAgentWebhookEndpoints (TrimSpace agentID))"

definition DeleteEndpoint :: "string \<Rightarrow> string \<Rightarrow> unit prog" where
  "DeleteEndpoint agentID endpointID =
    (if TrimSpace endpointID = [] then fail ErrBadRequest
     else store_nf ErrSvcNotFound (DeleteAgentWebhookEndpoint (TrimSpace agentID) (TrimSpace endpointID)))"

section \<open>Viewers\<close>

record ViewerResult =
  vr_ViewerToken :: string
  vr_ActiveViewers :: int

definition viewer_count :: "svc_conf \<Rightarrow> string \<Rightarrow> string \<Rightarrow> ViewerResult prog" where
  "viewer_count C roomID token = do {
     t \<leftarrow> s_now;
     attempt (store (CountActiveViewers roomID (t + - heartbeatTimeout C))) (\<lambda>count.
     ok \<lparr>vr_ViewerToken = token, vr_ActiveViewers = count\<rparr>) }"

definition ViewerJoin :: "svc_conf \<Rightarrow> string \<Rightarrow> string \<Rightarrow> ViewerResult prog" where
  "ViewerJoin C roomID humanCode =
    attempt (load_room C roomID) (\<lambda>rm.
    if room_State rm = RoomStatePurged then fail ErrGone
    else if hashText C (TrimSpace humanCode) \<noteq> room_HumanCodeHash rm then fail ErrForbidden
    else do {
      expired \<leftarrow> (case room_HumanCodeExpiresAt rm of
          None \<Rightarrow> State_Monad.return False
        | Some e \<Rightarrow> do { t \<leftarrow> s_now; State_Monad.return (t > e) });
      if expired then fail ErrForbidden
      else do {
        now \<leftarrow> s_now;
        t \<leftarrow> svc_random;
        let token = ''hv_'' @ t;
        i \<leftarrow> svc_newID ''rvw'';
        attempt (store (UpsertViewer \<lparr>uvi_ID = i, uvi_RoomID = roomID, uvi_ViewerToken = token, uvi_JoinedAt = now,
          uvi_LastHeartbeatAt = now, uvi_LeftAt = None\<rparr>)) (\<lambda>_.
        viewer_count C roomID token) } })"

definition viewer_update :: "Viewer \<Rightarrow> time \<Rightarrow> time option \<Rightarrow> UpsertViewerInput" where
  "viewer_update v heartbeat left =
    \<lparr>uvi_ID = vw_ID v, uvi_RoomID = vw_RoomID v, uvi_ViewerToken = vw_ViewerToken v, uvi_JoinedAt = vw_JoinedAt v,
     uvi_LastHeartbeatAt = heartbeat, uvi_LeftAt = left\<rparr>"

definition ViewerHeartbeat :: "svc_conf \<Rightarrow> string \<Rightarrow> string \<Rightarrow> ViewerResult prog" where
  "ViewerHeartbeat C roomID viewerToken =
    attempt (store_nf ErrSvcNotFound (GetViewer (TrimSpace viewerToken))) (\<lambda>v.
    if vw_RoomID v \<noteq> roomID then fail ErrSvcNotFound
    else if vw_LeftAt v \<noteq> None then fail ErrGone
    else do {
      now \<leftarrow> s_now;
      attempt (store (UpsertViewer (viewer_update v now (vw_LeftAt v)))) (\<lambda>_. viewer_count C roomID []) })"

definition ViewerLeave :: "svc_conf \<Rightarrow> string \<Rightarrow> string \<Rightarrow> ViewerResult prog" where
  "ViewerLeave C roomID viewerToken =
    attempt (store_nf ErrSvcNotFound (GetViewer (TrimSpace viewerToken))) (\<lambda>v.
    if vw_RoomID v \<noteq> roomID then fail ErrSvcNotFound
    else do {
      now \<leftarrow> s_now;
      attempt (store (UpsertViewer (viewer_update v (vw_LastHeartbeatAt v)
        (case vw_LeftAt v of None \<Rightarrow> Some now | Some t \<Rightarrow> Some t)))) (\<lambda>_. viewer_count C roomID []) })"

end
