(* ===== verification/A2A_Calm.thy ===== *)
theory A2A_Calm
  imports Room_Machine A2A_Access
begin

text \<open>
  Programs of the service that leave the rooms, the messages, the policy records, the held mutexes and
  the failing statements as they are: reading, queueing deliveries, tokens, viewers, the context and the audit log. Most of the
  service is of this kind; what is not is the subject of the theories that follow.
\<close>

named_theorems calm_intros \<open>introduction rules for calm programs\<close>

definition calm :: "(svc, 'a) state \<Rightarrow> bool" where
  "calm m \<longleftrightarrow> (\<forall>s. same_talk (tables s) (tables (snd (run_state m s))) \<and>
     locksHeld (snd (run_state m s)) = locksHeld s \<and> faults (snd (run_state m s)) = faults s)"

section \<open>Composition\<close>

lemma calm_bind [calm_intros]:
  assumes "calm m" and "\<And>x. calm (f x)"
  shows "calm (State_Monad.bind m f)"
  unfolding calm_def
proof
  fix s
  obtain x s' where m: "run_state m s = (x, s')" by fastforce
  have "same_talk (tables s) (tables s')" "locksHeld s' = locksHeld s" "faults s' = faults s"
    using assms(1) m by (metis calm_def snd_conv)+
  moreover have "same_talk (tables s') (tables (snd (run_state (f x) s')))"
      "locksHeld (snd (run_state (f x) s')) = locksHeld s'" "faults (snd (run_state (f x) s')) = faults s'"
    using assms(2) by (auto simp: calm_def)
  ultimately show "same_talk (tables s) (tables (snd (run_state (State_Monad.bind m f) s))) \<and>
      locksHeld (snd (run_state (State_Monad.bind m f) s)) = locksHeld s \<and>
      faults (snd (run_state (State_Monad.bind m f) s)) = faults s"
    using m by (auto intro: same_talk_trans)
qed

lemma calm_return [calm_intros]: "calm (State_Monad.return x)"
  by (simp add: calm_def)

lemma calm_gets [calm_intros]: "calm (gets f)"
  by (simp add: calm_def)

lemma calm_attempt [calm_intros]: "calm m \<Longrightarrow> (\<And>x. calm (f x)) \<Longrightarrow> calm (attempt m f)"
  unfolding attempt_def by (intro calm_bind) (auto intro: calm_return split: sum.splits)

lemma calm_fail [calm_intros]: "calm (fail e)"
  by (simp add: fail_def calm_return)

lemma calm_ok [calm_intros]: "calm (ok x)"
  by (simp add: ok_def calm_return)

lemma calm_if [calm_intros]: "(b \<Longrightarrow> calm m) \<Longrightarrow> (\<not> b \<Longrightarrow> calm n) \<Longrightarrow> calm (if b then m else n)"
  by simp

lemma calm_let [calm_intros]: "calm (f x) \<Longrightarrow> calm (Let x f)"
  by simp

lemma calm_case_option [calm_intros]:
  "calm m \<Longrightarrow> (\<And>a. calm (f a)) \<Longrightarrow> calm (case x of None \<Rightarrow> m | Some a \<Rightarrow> f a)"
  by (cases x) auto

lemma calm_case_sum [calm_intros]:
  "(\<And>e. calm (g e)) \<Longrightarrow> (\<And>a. calm (f a)) \<Longrightarrow> calm (case x of Inl e \<Rightarrow> g e | Inr a \<Rightarrow> f a)"
  by (cases x) auto

lemma calm_case_prod [calm_intros]: "(\<And>a b. calm (f a b)) \<Longrightarrow> calm (case x of (a, b) \<Rightarrow> f a b)"
  by (cases x) auto

lemma calm_mapErr [calm_intros]: "calm m \<Longrightarrow> calm (mapErr g m)"
  unfolding mapErr_def by (intro calm_bind calm_return)

lemma calm_store [calm_intros]: "calm m \<Longrightarrow> calm (store m)"
  unfolding store_def by (rule calm_mapErr)

lemma calm_store_nf [calm_intros]: "calm m \<Longrightarrow> calm (store_nf e m)"
  unfolding store_nf_def by (rule calm_mapErr)

lemma calm_besteffort [calm_intros]: "calm m \<Longrightarrow> (\<And>e. calm (h e)) \<Longrightarrow> calm (besteffort m h)"
  unfolding besteffort_def by (intro calm_bind calm_case_sum calm_if calm_fail calm_ok)

lemma calm_WithTx [calm_intros]:
  assumes "calm fn"
  shows "calm (WithTx wrap fn)"
  unfolding calm_def
proof
  fix s :: svc
  let ?s1 = "s\<lparr>stmts := Suc (stmts s), txTime := Some (dbClock s (stmts s))\<rparr>"
  obtain r s2 where run: "run_state fn ?s1 = (r, s2)" by fastforce
  have "same_talk (tables ?s1) (tables (snd (run_state fn ?s1)))"
      "locksHeld (snd (run_state fn ?s1)) = locksHeld ?s1" "faults (snd (run_state fn ?s1)) = faults ?s1"
    using assms by (simp_all only: calm_def)
  then have "same_talk (tables s) (tables s2)" "locksHeld s2 = locksHeld s" "faults s2 = faults s"
    using run by simp_all
  then show "same_talk (tables s) (tables (snd (run_state (WithTx wrap fn) s))) \<and>
      locksHeld (snd (run_state (WithTx wrap fn) s)) = locksHeld s \<and>
      faults (snd (run_state (WithTx wrap fn) s)) = faults s"
    using run same_rows_talk [OF same_rows_rolled_back]
    by (cases r) (auto simp: WithTx_def BeginTx_def Commit_def Rollback_def)
qed

section \<open>Statements\<close>

lemma calm_stmt:
  "(\<And>now d x d'. f now d = Inr (x, d') \<Longrightarrow> same_talk d d') \<Longrightarrow> calm (stmt f)"
  by (auto simp: calm_def stmt_def Let_def split: sum.splits)

lemma calm_query [calm_intros]: "calm (query f)"
  unfolding query_def by (rule calm_stmt) (auto split: sum.splits)

lemma calm_exec: "(\<And>d. same_talk d (f d)) \<Longrightarrow> calm (exec f)"
  unfolding exec_def by (rule calm_stmt) auto


text \<open>Every statement that writes neither rooms nor messages nor policy records.\<close>

lemma calm_CreateAgent [calm_intros]: "calm (CreateAgent inp)"
  unfolding CreateAgent_def by (rule calm_stmt) (auto simp: same_talk_def Let_def split: if_splits)

lemma calm_CreateSession [calm_intros]: "calm (CreateSession inp)"
  unfolding CreateSession_def by (rule calm_stmt) (auto simp: same_talk_def Let_def split: if_splits)

lemma calm_CreateListing_row [calm_intros]: "calm (CreateListing_row inp)"
  unfolding CreateListing_row_def by (rule calm_stmt) (auto simp: same_talk_def Let_def split: if_splits)

lemma calm_MarkListingConnected [calm_intros]: "calm (MarkListingConnected i)"
  unfolding MarkListingConnected_def by (rule calm_stmt) (auto simp: same_talk_def split: if_splits)

lemma calm_UpsertRoomContext [calm_intros]: "calm (UpsertRoomContext inp)"
  unfolding UpsertRoomContext_def
  by (rule calm_stmt) (auto simp: same_talk_def Let_def split: if_splits option.splits)

lemma calm_UpsertViewer [calm_intros]: "calm (UpsertViewer inp)"
  unfolding UpsertViewer_def
  by (rule calm_stmt) (auto simp: same_talk_def Let_def split: if_splits option.splits)

lemma calm_AppendRoomEvent [calm_intros]: "calm (AppendRoomEvent inp)"
  unfolding AppendRoomEvent_def by (rule calm_stmt) (auto simp: same_talk_def Let_def split: if_splits)

lemma calm_createAgentStreamDelivery [calm_intros]: "calm (createAgentStreamDelivery inp)"
  unfolding createAgentStreamDelivery_def by (rule calm_stmt) (auto simp: same_talk_def Let_def split: if_splits)

lemma calm_AckAgentStreamDelivery [calm_intros]: "calm (AckAgentStreamDelivery a i t)"
  unfolding AckAgentStreamDelivery_def by (rule calm_stmt) (auto simp: same_talk_def Let_def split: if_splits)

lemma calm_CreateAgentWebhookEndpoint [calm_intros]: "calm (CreateAgentWebhookEndpoint inp)"
  unfolding CreateAgentWebhookEndpoint_def by (rule calm_stmt) (auto simp: same_talk_def Let_def split: if_splits)

lemma calm_DeleteAgentWebhookEndpoint [calm_intros]: "calm (DeleteAgentWebhookEndpoint a i)"
  unfolding DeleteAgentWebhookEndpoint_def
  by (intro calm_attempt calm_if calm_fail calm_ok calm_stmt) (auto simp: same_talk_def Let_def)

lemma calm_CreateWebhookOutbox [calm_intros]: "calm (CreateWebhookOutbox inp)"
  unfolding CreateWebhookOutbox_def by (rule calm_stmt) (auto simp: same_talk_def split: if_splits prod.splits)

lemma calm_CreateRoomScopedToken [calm_intros]: "calm (CreateRoomScopedToken inp)"
  unfolding CreateRoomScopedToken_def by (rule calm_stmt) (auto simp: same_talk_def Let_def split: if_splits)

lemma calm_TouchRoomScopedToken [calm_intros]: "calm (TouchRoomScopedToken h a b)"
  unfolding TouchRoomScopedToken_def by (rule calm_exec) (simp add: same_talk_def)

lemma calm_RevokeRoomScopedTokens [calm_intros]: "calm (RevokeRoomScopedTokens r a t)"
  unfolding RevokeRoomScopedTokens_def by (rule calm_exec) (simp add: same_talk_def)

lemma calm_ListRoomsForLifecycleSweep [calm_intros]: "calm (ListRoomsForLifecycleSweep t n)"
  unfolding ListRoomsForLifecycleSweep_def by (rule calm_stmt) (auto simp: Let_def)

lemma calm_AppendAuditEvent [calm_intros]: "calm (AppendAuditEvent inp)"
  by (simp add: calm_def AppendAuditEvent_def Let_def)

lemma calm_LockRoom [calm_intros]: "calm (LockRoom i)"
  unfolding LockRoom_def by (intro calm_intros)

lemma calm_LockAdvisory [calm_intros]: "calm (LockAdvisory k)"
  unfolding LockAdvisory_def by (intro calm_intros)

lemmas calm_reads = GetRoom_def FindAgentByAPIKeyHash_def FindSession_def GetListing_def ListRoomMessages_def
  ListRecentRoomMessages_def CountMessagesBySenderSince_def CountMessagesByRoomSince_def GetRoomContext_def
  GetViewer_def CountActiveViewers_def GetRoomEvent_def ListRoomEvents_def GetAgentStreamDelivery_def
  ListPendingAgentStreamDeliveries_def ListAgentWebhookEndpoints_def FindRoomScopedTokenByHash_def
  GetAgentPolicyBlock_def ListRecoverableRoomsForAgent_def

lemma calm_queries [calm_intros]:
  "calm (GetRoom i)" "calm (FindAgentByAPIKeyHash h)" "calm (FindSession tok)" "calm (GetListing i)"
  "calm (ListRoomMessages i)" "calm (ListRecentRoomMessages i n)" "calm (CountMessagesBySenderSince a t)"
  "calm (CountMessagesByRoomSince i t)" "calm (GetRoomContext i)" "calm (GetViewer v)"
  "calm (CountActiveViewers i t)" "calm (GetRoomEvent k)" "calm (ListRoomEvents lei)"
  "calm (GetAgentStreamDelivery a i)" "calm (ListPendingAgentStreamDeliveries a k t n)"
  "calm (ListAgentWebhookEndpoints a)" "calm (FindRoomScopedTokenByHash h)" "calm (GetAgentPolicyBlock a t)"
  "calm (ListRecoverableRoomsForAgent a t)"
  unfolding calm_reads by (rule calm_query)+

section \<open>The service\<close>

lemma calm_s_now [calm_intros]: "calm s_now"
  by (simp add: calm_def s_now_def)

lemma calm_svc_random [calm_intros]: "calm svc_random"
  by (simp add: calm_def svc_random_def)

lemma calm_svc_newID [calm_intros]: "calm (svc_newID pre)"
  unfolding svc_newID_def by (intro calm_intros)

lemma calm_appendAudit [calm_intros]: "calm (appendAuditEventBestEffort C i e m n)"
  unfolding appendAuditEventBestEffort_def by (intro calm_intros)

lemma calm_publishRoomEvents [calm_intros]: "calm (publishRoomEvents evs)"
  unfolding publishRoomEvents_def by (intro calm_bind calm_ok) (simp add: calm_def)

lemma calm_newRoomMessageCipher [calm_intros]: "calm (newRoomMessageCipher C)"
  unfolding newRoomMessageCipher_def by (intro calm_intros)

lemma calm_cipher_result [calm_intros]: "calm (cipher_result r)"
  unfolding cipher_result_def by (intro calm_intros)

lemma calm_enqueueAgentStreamTurnReady [calm_intros]: "calm (enqueueAgentStreamTurnReady C rm w t)"
  unfolding enqueueAgentStreamTurnReady_def by (intro calm_intros)

lemma calm_terminal_loop [calm_intros]: "calm (terminal_loop C rm y w t ts)"
  by (induction ts) (simp_all, (intro calm_intros | assumption)+)

lemma calm_enqueueAgentStreamTerminal [calm_intros]: "calm (enqueueAgentStreamTerminal C rm y w t)"
  unfolding enqueueAgentStreamTerminal_def by (rule calm_terminal_loop)

lemma calm_webhook_endpoint_loop [calm_intros]: "calm (webhook_endpoint_loop C rm ev a t eps)"
  by (induction eps) (simp_all, (intro calm_intros impI conjI | assumption)+)

lemma calm_webhook_target_loop [calm_intros]: "calm (webhook_target_loop C rm ev t ts)"
  by (induction ts) (simp_all, (intro calm_intros | assumption)+)

lemma calm_enqueueWebhookOutboxForEvent [calm_intros]: "calm (enqueueWebhookOutboxForEvent C rm ev a)"
  unfolding enqueueWebhookOutboxForEvent_def by (intro calm_intros)

lemma calm_revoke_loop [calm_intros]: "calm (revoke_loop i t as)"
  by (induction "as") (simp_all, (intro calm_intros impI conjI | assumption)+)

lemma calm_revokeRoomScopedTokensForRoom [calm_intros]: "calm (revokeRoomScopedTokensForRoom rm t)"
  unfolding revokeRoomScopedTokensForRoom_def by (rule calm_revoke_loop)

lemma calm_event_with_hooks [calm_intros]: "calm (event_with_hooks C rm y a)"
  unfolding event_with_hooks_def by (intro calm_intros)

lemma calm_activation_events [calm_intros]: "calm fb \<Longrightarrow> calm (activation_events C rm a fb)"
  unfolding activation_events_def by (intro calm_intros)

lemma calm_windows [calm_intros]:
  "calm (allowAgentMessageLocked a t)" "calm (allowRoomMessageLocked i t)" "calm (blockedUntilLocked a t)"
  "calm (recordPolicyViolationLocked a t)"
  by (auto simp: calm_def allowAgentMessageLocked_def allowRoomMessageLocked_def blockedUntilLocked_def
    recordPolicyViolationLocked_def Let_def split: option.splits)

lemma calm_roomContextPayloadForUpdate [calm_intros]: "calm (roomContextPayloadForUpdate C rm a)"
  unfolding roomContextPayloadForUpdate_def by (intro calm_intros)

lemma calm_summarize [calm_intros]: "calm (summarize C rm p)"
  unfolding summarize_def by (intro calm_intros)

lemma calm_record_fetch [calm_intros]: "calm (record_fetch a t rm p)"
  unfolding record_fetch_def by (intro calm_intros)

lemma calm_context_last_actor [calm_intros]: "calm (context_last_actor C rm p)"
  unfolding context_last_actor_def by (intro calm_intros)

lemma calm_buildBundleForRoom [calm_intros]: "calm (buildBundleForRoom C rm a)"
  unfolding buildBundleForRoom_def by (intro calm_intros)

lemma calm_audits [calm_intros]:
  "calm (policy_audit C i a c w ex)" "calm (blocked_audit C i a t)" "calm (rate_audit C i a sc)"
  "calm (hash_audit C i a e p rm n)"
  unfolding policy_audit_def blocked_audit_def rate_audit_def hash_audit_def by (rule calm_appendAudit)+

lemma calm_local_limits [calm_intros]: "calm (local_limits C a i t)"
  unfolding local_limits_def by (intro calm_intros)

lemma calm_local_verdict [calm_intros]: "calm (local_verdict C a i rm dec b p n t)"
  unfolding local_verdict_def by (intro calm_intros)

lemma calm_lockShared [calm_intros]: "calm (lockSharedMessageCoordination i a)"
  unfolding lockSharedMessageCoordination_def by (intro calm_intros)

lemma calm_closing_events [calm_intros]: "calm (closing_events C rm a t)"
  unfolding closing_events_def by (intro calm_intros)

lemma calm_token_tx [calm_intros]: "calm (token_tx C a rm p t)"
  unfolding token_tx_def by (intro calm_intros)

lemma calm_issueRoomAccessToken [calm_intros]: "calm (issueRoomAccessToken C a rm)"
  unfolding issueRoomAccessToken_def by (intro calm_intros)

lemma calm_recover_active [calm_intros]: "calm (recover_active C a rm out)"
  unfolding recover_active_def by (intro calm_intros)

lemma calm_viewer_count [calm_intros]: "calm (viewer_count C i t)"
  unfolding viewer_count_def by (intro calm_intros)

lemma calm_check_since [calm_intros]: "calm (check_since i k)"
  unfolding check_since_def by (intro calm_intros)

lemma calm_sweep_closed_counts [calm_intros]: "calm (sweep_closed_counts C rm out)"
  unfolding sweep_closed_counts_def by (intro calm_intros)

text \<open>Calls that are calm as a whole.\<close>

lemma calm_access:
  "calm (RegisterAgent C nm)" "calm (Login C key)" "calm (AuthAgentID b)" "calm (scoped_access C b i act)"
  "calm (ResolveAgentStreamResume C a i)" "calm (ListPendingDeliveries a k n)" "calm (AckDelivery a i)"
  "calm (CreateEndpoint C U a u sec kid en)" "calm (ListEndpoints a)" "calm (DeleteEndpoint a i)"
  "calm (ViewerHeartbeat C i v)" "calm (ViewerLeave C i v)"
  unfolding RegisterAgent_def Login_def AuthAgentID_def scoped_access_def ResolveAgentStreamResume_def
    ListPendingDeliveries_def AckDelivery_def CreateEndpoint_def ListEndpoints_def DeleteEndpoint_def
    ViewerHeartbeat_def ViewerLeave_def
  by (intro calm_intros)+

lemma calm_AuthRoomAccess: "calm (AuthRoomAccess C b i act)"
  unfolding AuthRoomAccess_def by (intro calm_intros calm_access)

end
