(* ===== verification/A2A_Tidy.thy ===== *)
theory A2A_Tidy
  imports A2A_Calm
begin

text \<open>
  Reconciliation of a room and everything built on it moves the machine of \<open>Room_Machine\<close> only by closing
  and purging. The contract \<open>tidied\<close> collects what a predicate of the tables needs to be kept by
  reconciliation; its lemmas follow \<open>reconcileRoomLocked\<close> through the context updates it makes and the
  transactions it runs. A room that comes back open or active from reconciliation is the room that went
  in, on the same tables.
\<close>

section \<open>Rules for calm programs\<close>

lemma succ_calm:
  assumes "calm m" and "\<And>d d'. P d \<Longrightarrow> same_talk d d' \<Longrightarrow> P d'"
  shows "succ P m (\<lambda>_. P)"
  using assms unfolding succ_def hoare_def calm_def by blast

lemma keeps_calm:
  assumes "calm m" and "\<And>d d'. P d \<Longrightarrow> same_talk d d' \<Longrightarrow> P d'"
  shows "keeps (\<lambda>s. P (tables s)) m"
  using assms unfolding hoare_def calm_def by blast

lemma succ_attempt_calm:
  assumes "calm m" and "\<And>d d'. P d \<Longrightarrow> same_talk d d' \<Longrightarrow> P d'" and "\<And>x. succ P (f x) Q"
  shows "succ P (attempt m f) Q"
  using succ_calm [OF assms(1,2)] assms(3) by (rule succ_attempt)

lemma succ_bind_calm:
  assumes "calm m" and "\<And>d d'. P d \<Longrightarrow> same_talk d d' \<Longrightarrow> P d'" and "\<And>x. succ P (f x) Q"
  shows "succ P (State_Monad.bind m f) Q"
  using keeps_calm [OF assms(1,2)] assms(3) by (rule succ_bind)

lemma succ_pure: "(A \<Longrightarrow> succ P m Q) \<Longrightarrow> succ (\<lambda>d. P d \<and> A) m Q"
  by (auto simp: succ_def hoare_def)

lemma succ_from: "(\<And>d. P d \<Longrightarrow> A) \<Longrightarrow> (A \<Longrightarrow> succ P m Q) \<Longrightarrow> succ P m Q"
  by (auto simp: succ_def hoare_def)

lemma succ_attempt_pair:
  assumes "succ P m (\<lambda>(x, y). R x y)" and "\<And>x y. succ (R x y) (f x y) Q"
  shows "succ P (attempt m (\<lambda>(x, y). f x y)) Q"
  using assms by (intro succ_attempt [OF assms(1)]) (auto split: prod.splits)

lemma succ_case_prod: "(\<And>a b. x = (a, b) \<Longrightarrow> succ P (f a b) Q) \<Longrightarrow> succ P (case x of (a, b) \<Rightarrow> f a b) Q"
  by (cases x) simp

lemma succ_trivial: "succ P m (\<lambda>_ _. True)"
  by (simp add: succ_def hoare_def)

lemma succ_store: "succ P m Q \<Longrightarrow> succ P (store m) Q"
  unfolding store_def by (rule succ_mapErr)

lemma succ_store_nf: "succ P m Q \<Longrightarrow> succ P (store_nf e m) Q"
  unfolding store_nf_def by (rule succ_mapErr)

lemma succ_with_room_lock:
  assumes "succ P m Q"
  shows "succ P (with_room_lock i m) Q"
proof -
  have "hoare (\<lambda>s. \<forall>x. r = Inr x \<longrightarrow> Q x (tables s))
      (if r = Inl Blocked then State_Monad.return (Inl Blocked)
       else do { modify (\<lambda>s. s\<lparr>locksHeld := removeAll (lock_key i) (locksHeld s)\<rparr>); State_Monad.return r })
      (\<lambda>r s. \<forall>x. r = Inr x \<longrightarrow> Q x (tables s))" for r
    by (auto simp: hoare_def)
  note bind = hoare_bind [OF assms [unfolded succ_def] this]
  show ?thesis
    unfolding succ_def with_room_lock_def fail_def
    by (intro hoare_bind_keep hoare_if hoare_return bind keeps_gets keeps_modify) simp_all
qed

lemma keeps_with_room_lock:
  assumes "keeps (\<lambda>s. P (tables s)) m"
  shows "keeps (\<lambda>s. P (tables s)) (with_room_lock i m)"
  unfolding with_room_lock_def fail_def
  by (intro keeps_bind keeps_gets keeps_if keeps_return keeps_modify assms) simp_all

lemma keeps_besteffort:
  "keeps P m \<Longrightarrow> (\<And>e. keeps P (h e)) \<Longrightarrow> keeps P (besteffort m h)"
  unfolding besteffort_def
  by (intro keeps_bind keeps_case_sum keeps_if keeps_fail keeps_ok)

lemma keeps_store: "keeps P m \<Longrightarrow> keeps P (store m)"
  unfolding store_def by (rule keeps_mapErr)

lemma reconcileRoom_eq: "reconcileRoom C rm = with_room_lock (room_ID rm) (reconcile_with (reconcile_fuel 1 C) C rm)"
  by (simp add: reconcileRoom_def numeral_2_eq_2)

section \<open>The contract\<close>

definition live :: "Room \<Rightarrow> bool" where
  "live r \<longleftrightarrow> room_State r = RoomStateOpen \<or> room_State r = RoomStateActive"

locale tidied =
  fixes I :: "db \<Rightarrow> bool"
  assumes wf: "I d \<Longrightarrow> rooms_wf d"
    and tidy: "I d \<Longrightarrow> rooms_wf d' \<Longrightarrow> t_policy d' = t_policy d \<Longrightarrow>
      ledger d' = ledger d \<or> tidy_step (ledger d) (ledger d') \<Longrightarrow> I d'"
begin

lemma same: "I d \<Longrightarrow> same_talk d d' \<Longrightarrow> I d'"
  by (rule tidy) (auto simp: same_talk_ledger [of d d'] wf)

lemma keeps_calm_I: "calm m \<Longrightarrow> keeps (\<lambda>s. I (tables s)) m"
  by (rule keeps_calm) (auto intro: same)

lemma same_find: "I d \<and> find_room d i = Some r \<Longrightarrow> same_talk d d' \<Longrightarrow> I d' \<and> find_room d' i = Some r"
  using same by (auto simp: same_talk_ledger [of d d'])

lemma keeps_WithTx_I: "succ I fn (\<lambda>_. I) \<Longrightarrow> keeps (\<lambda>s. I (tables s)) (WithTx wrap fn)"
  using keeps_WithTx_succ same same_rows_talk by blast

text \<open>An update that only touches the columns outside the machine.\<close>

lemma quiet_update:
  assumes "I d" "find_room d (uri_ID inp) = Some r"
    "uri_State inp = None" "uri_AgentBID inp = None" "uri_TurnIndex inp = None"
  shows "I (set_room (uri_ID inp) (write_room (merge_update inp r)) d)"
  using assms wf [OF assms(1)] by (intro tidy [OF assms(1)]) (simp_all add: ledger_quiet_update)

lemma close_update_I:
  assumes "I d" "find_room d (uri_ID inp) = Some r" "\<not> (room_State r = RoomStateClosed \<or> room_State r = RoomStatePurged)"
    "uri_State inp = Some RoomStateClosed" "uri_AgentBID inp = None" "uri_TurnIndex inp = None"
  shows "I (set_room (uri_ID inp) (write_room (merge_update inp r)) d)"
proof (rule tidy [OF assms(1)])
  let ?a = "abs_room (t_messages d) r"
  have "tidy_move ?a (?a\<lparr>a_State := RoomStateClosed\<rparr>)"
    using assms(3) by (intro tidy_move.close) (simp_all add: abs_room_def)
  then show "ledger (set_room (uri_ID inp) (write_room (merge_update inp r)) d) = ledger d \<or>
      tidy_step (ledger d) (ledger (set_room (uri_ID inp) (write_room (merge_update inp r)) d))"
    using assms wf [OF assms(1)] by (auto simp: ledger_state_update intro: tidy_step.tidy ledger_find)
qed (use wf [OF assms(1)] in simp_all)

section \<open>Closing and purging\<close>

lemma succ_close_steps:
  "succ (\<lambda>d. I d \<and> (\<exists>r. find_room d i = Some r \<and> \<not> (room_State r = RoomStateClosed \<or> room_State r = RoomStatePurged)))
     (close_steps C i sender reason now) (\<lambda>(u, evs) d. I d \<and> room_State u = RoomStateClosed \<and> room_ID u = i)"
  unfolding close_steps_def
proof (rule succ_attempt, rule succ_store, rule succ_UpdateRoom)
  fix d r
  let ?inp = "(update_room_input i)\<lparr>uri_State := Some RoomStateClosed, uri_ClosedAt := Some now\<rparr>"
  assume "I d \<and> (\<exists>r. find_room d i = Some r \<and> \<not> (room_State r = RoomStateClosed \<or> room_State r = RoomStatePurged))"
    and "find_room d (uri_ID ?inp) = Some r"
  then show "I (set_room (uri_ID ?inp) (write_room (merge_update ?inp r)) d) \<and>
      room_State (updated_room ?inp r) = RoomStateClosed \<and> room_ID (updated_room ?inp r) = i"
    using close_update_I [of d ?inp r] find_room_SomeD [of d i r] by auto
next
  fix u
  show "succ (\<lambda>d. I d \<and> room_State u = RoomStateClosed \<and> room_ID u = i)
     (attempt (revokeRoomScopedTokensForRoom u now) (\<lambda>_.
      attempt (store (AppendRoomEvent (room_event_input i ''room.state_changed'' sender))) (\<lambda>ev1.
      attempt (store (AppendRoomEvent (room_event_input i ''room.closed'' sender))) (\<lambda>ev2.
      attempt (enqueueWebhookOutboxForEvent C u ev2 (case sender of None \<Rightarrow> [] | Some a \<Rightarrow> a)) (\<lambda>_.
      attempt (enqueueAgentStreamTerminal C u ''room.closed'' reason (eventTime ev2 now)) (\<lambda>_.
      ok (u, [ev1, ev2])))))))
     (\<lambda>(u, evs) d. I d \<and> room_State u = RoomStateClosed \<and> room_ID u = i)"
    by (intro succ_attempt_calm succ_ok calm_intros) (auto intro: same)
qed

lemma succ_expire_tx:
  "succ I (expire_tx C rm now) (\<lambda>(u, evs) d. I d \<and> \<not> live u \<and> room_ID u = room_ID rm)"
  unfolding expire_tx_def
proof (rule succ_attempt_calm, intro calm_intros, erule (1) same)
  show "succ I (attempt (store (GetRoom (room_ID rm))) (\<lambda>current.
      if room_State current = RoomStateClosed \<or> room_State current = RoomStatePurged then ok (current, [])
      else close_steps C (room_ID rm) None ''ttl_expired'' now))
     (\<lambda>(u, evs) d. I d \<and> \<not> live u \<and> room_ID u = room_ID rm)" for x
  proof (rule succ_attempt, rule succ_store, rule succ_GetRoom, erule (1) conjI)
    fix current
    show "succ (\<lambda>d. I d \<and> find_room d (room_ID rm) = Some current)
       (if room_State current = RoomStateClosed \<or> room_State current = RoomStatePurged then ok (current, [])
        else close_steps C (room_ID rm) None ''ttl_expired'' now)
       (\<lambda>(u, evs) d. I d \<and> \<not> live u \<and> room_ID u = room_ID rm)"
      by (intro succ_if succ_ok succ_conseq [OF succ_close_steps])
        (auto simp: live_def dest: find_room_SomeD)
  qed
qed

lemma succ_PurgeRoomContent:
  "succ (\<lambda>d. I d \<and> (\<exists>r. find_room d i = Some r \<and> room_State r = RoomStateClosed)) (PurgeRoomContent i t)
     (\<lambda>_ d. I d \<and> (\<exists>r. find_room d i = Some r \<and> room_State r = RoomStatePurged))"
proof -
  let ?ms = "\<lambda>d. filter (\<lambda>m. msg_RoomID m \<noteq> i) (t_messages d)"
  let ?f = "\<lambda>r. r\<lparr>room_State := RoomStatePurged, room_PurgedAt := Some t\<rparr>"
  let ?cut = "\<lambda>d. \<exists>d0 r. I d0 \<and> find_room d0 i = Some r \<and> room_State r = RoomStateClosed \<and>
    t_rooms d = t_rooms d0 \<and> t_policy d = t_policy d0 \<and> t_messages d = ?ms d0"
  have fin: "I (set_room i ?f d) \<and> (\<exists>r. find_room (set_room i ?f d) i = Some r \<and> room_State r = RoomStatePurged)"
    if "?cut d" for d
  proof -
    from that obtain d0 r where d0: "I d0" "find_room d0 i = Some r" "room_State r = RoomStateClosed"
      and d: "t_rooms d = t_rooms d0" "t_policy d = t_policy d0" "t_messages d = ?ms d0" by blast
    have r: "find_room d i = Some r" "room_ID r = i" using d0(2) find_room_cong [OF d(1)] find_room_SomeD by auto
    let ?a = "abs_room (t_messages d0) r"
    have talk: "filter (\<lambda>m. msg_RoomID m = j) (?ms d0) = (if j = i then [] else filter (\<lambda>m. msg_RoomID m = j) (t_messages d0))" for j
      by (auto simp: filter_empty_conv intro: filter_cong)
    have "ledger (set_room i ?f d) = (ledger d0)(i \<mapsto> ?a\<lparr>a_State := RoomStatePurged, a_Talk := []\<rparr>)"
    proof
      fix j
      show "ledger (set_room i ?f d) j = ((ledger d0)(i \<mapsto> ?a\<lparr>a_State := RoomStatePurged, a_Talk := []\<rparr>)) j"
        using r d talk [of j] find_room_SomeD [of d0 j]
        by (cases "find_room d0 j") (auto simp: ledger_def find_room_set_room find_room_cong [of d d0] abs_room_def)
    qed
    moreover have "tidy_move ?a (?a\<lparr>a_State := RoomStatePurged, a_Talk := []\<rparr>)"
      using d0(3) by (intro tidy_move.purge) (simp add: abs_room_def)
    moreover have "rooms_wf d" using wf [OF d0(1)] d by (auto simp: rooms_wf_def has_room_def)
    then have "rooms_wf (set_room i ?f d)"
      by (intro rooms_wf_set_room) (auto simp: rooms_wf_def)
    ultimately have "I (set_room i ?f d)"
      using d0 d by (intro tidy [OF d0(1)]) (auto intro: tidy_step.tidy ledger_find)
    with r show ?thesis by (simp add: find_room_set_room)
  qed
  show ?thesis
    unfolding PurgeRoomContent_def
    apply (rule succ_attempt, rule succ_exec [where Q = "\<lambda>_. ?cut"], force simp: find_room_def)
    apply (rule succ_attempt, rule succ_exec [where Q = "\<lambda>_. ?cut"], force)
    apply (rule succ_attempt, rule succ_exec [where Q = "\<lambda>_. ?cut"], force)
    apply (rule succ_attempt, rule succ_exec [where Q = "\<lambda>_. ?cut"], force simp: delete_events_def Let_def)
    apply (rule succ_exec, drule fin, simp add: set_room_def)
    done
qed

lemma succ_purge_tx: "succ I (purge_tx C rm reason now) (\<lambda>(u, evs) d. I d \<and> \<not> live u)"
  unfolding purge_tx_def
proof (rule succ_attempt_calm, intro calm_intros, erule (1) same, rule succ_attempt, rule succ_store,
    rule succ_GetRoom, erule (1) conjI, intro succ_if)
  fix current :: Room
  let ?i = "room_ID rm"
  let ?P = "\<lambda>d. I d \<and> (\<exists>r. find_room d ?i = Some r \<and> room_State r = RoomStatePurged)"
  assume "\<not> room_State current \<noteq> RoomStateClosed"
  then show "succ (\<lambda>d. I d \<and> find_room d ?i = Some current)
     (attempt (store (PurgeRoomContent ?i now)) (\<lambda>_.
      attempt (revokeRoomScopedTokensForRoom rm now) (\<lambda>_.
      attempt (store (AppendRoomEvent (room_event_input ?i ''room.state_changed'' None))) (\<lambda>ev1.
      attempt (store (AppendRoomEvent (room_event_input ?i ''room.purged'' None))) (\<lambda>ev2.
      attempt (store (GetRoom ?i)) (\<lambda>purgedRoom.
      attempt (enqueueWebhookOutboxForEvent C purgedRoom ev2 []) (\<lambda>_.
      attempt (enqueueAgentStreamTerminal C purgedRoom ''room.purged'' reason (eventTime ev2 now)) (\<lambda>_.
      ok (purgedRoom, [ev1, ev2])))))))))
     (\<lambda>(u, evs) d. I d \<and> \<not> live u)"
    apply (intro succ_attempt [where P = "\<lambda>d. I d \<and> find_room d ?i = Some current" and R = "\<lambda>_. ?P"])
     apply (rule succ_store, rule succ_conseq [OF succ_PurgeRoomContent], blast, blast)
    apply (rule succ_attempt_calm, intro calm_intros, use same_find in blast)
    apply (rule succ_attempt_calm, intro calm_intros, use same_find in blast)
    apply (rule succ_attempt_calm, intro calm_intros, use same_find in blast)
    apply (rule succ_attempt, rule succ_store, rule succ_GetRoom [where Q = "\<lambda>r d. I d \<and> \<not> live r"])
     apply (force simp: live_def)
    apply (intro succ_attempt_calm succ_ok calm_intros)
      apply (auto intro: same)
    done
qed (auto intro!: succ_ok simp: live_def zero_room_def)

section \<open>The context\<close>

text \<open>The context functions keep the predicate when the reconciler they are given does.\<close>

lemma keeps_context_update_loop:
  assumes "\<And>rm. keeps (\<lambda>s. I (tables s)) (rec rm)" and "\<And>rm p. calm (mutate rm p)"
  shows "keeps (\<lambda>s. I (tables s)) (context_update_loop rec C i actor mutate n)"
proof (induction n)
  case 0
  show ?case by (simp add: keeps_fail)
next
  case (Suc n)
  show ?case
    unfolding context_update_loop.simps loadRoomForContextUpdate_def
    by (intro keeps_attempt keeps_bind keeps_case_sum keeps_case_prod keeps_if keeps_fail keeps_ok Suc.IH assms(1))
      (intro keeps_calm_I calm_intros assms(2))+
qed

lemma keeps_sync_context:
  assumes "\<And>rm. keeps (\<lambda>s. I (tables s)) (rec rm)"
  shows "keeps (\<lambda>s. I (tables s)) (sync_context rec C rm actor i meta n)"
  unfolding sync_context_def upsertRoomContext_def updateRoomContext_def
  by (intro keeps_besteffort keeps_context_update_loop assms keeps_calm_I calm_intros)

section \<open>Reconciliation\<close>

lemma keeps_reconcile_open:
  assumes "\<And>rm. keeps (\<lambda>s. I (tables s)) (rec rm)"
  shows "keeps (\<lambda>s. I (tables s)) (reconcile_open rec C rm now)"
  unfolding reconcile_open_def
  by (intro keeps_if keeps_attempt keeps_case_prod keeps_ok keeps_sync_context assms
      keeps_WithTx_I succ_conseq [OF succ_expire_tx] keeps_calm_I calm_intros) auto

lemma keeps_quiet_update:
  assumes "uri_State inp = None" "uri_AgentBID inp = None" "uri_TurnIndex inp = None"
  shows "keeps (\<lambda>s. I (tables s)) (UpdateRoom inp)"
  by (intro keeps_UpdateRoom succ_UpdateRoom) (use assms quiet_update in blast)

lemma keeps_reconcile_closed:
  assumes "\<And>rm. keeps (\<lambda>s. I (tables s)) (rec rm)"
  shows "keeps (\<lambda>s. I (tables s)) (reconcile_closed rec C rm now)"
  unfolding reconcile_closed_def Let_def
  by (intro keeps_if keeps_attempt keeps_case_prod keeps_case_option keeps_ok keeps_sync_context assms
        keeps_WithTx_I succ_conseq [OF succ_purge_tx] keeps_store keeps_quiet_update keeps_calm_I calm_intros) auto

lemma keeps_reconcile_with:
  assumes "\<And>rm. keeps (\<lambda>s. I (tables s)) (rec rm)"
  shows "keeps (\<lambda>s. I (tables s)) (reconcile_with rec C rm)"
  unfolding reconcile_with_def
  by (intro keeps_bind keeps_if keeps_ok keeps_reconcile_open keeps_reconcile_closed assms keeps_calm_I calm_intros)

lemma keeps_reconcile_fuel: "keeps (\<lambda>s. I (tables s)) (reconcile_fuel n C rm)"
  by (induction n arbitrary: rm) (simp_all add: keeps_fail keeps_with_room_lock keeps_reconcile_with)

lemma keeps_reconcileRoom: "keeps (\<lambda>s. I (tables s)) (reconcileRoom C rm)"
  unfolding reconcileRoom_def by (rule keeps_reconcile_fuel)

lemma keeps_reconcileRoomLocked: "keeps (\<lambda>s. I (tables s)) (reconcileRoomLocked C rm)"
  unfolding reconcileRoomLocked_def by (intro keeps_reconcile_with keeps_reconcileRoom)

section \<open>What comes back from reconciliation\<close>

lemma succ_reconcile_open:
  assumes rec: "\<And>rm. keeps (\<lambda>s. I (tables s)) (rec rm)" and d0: "I d0"
  shows "succ (same_talk d0) (reconcile_open rec C rm now)
    (\<lambda>rm' d. I d \<and> (live rm' \<longrightarrow> rm' = rm \<and> same_talk d0 d))"
  unfolding reconcile_open_def
proof (rule succ_if, rule succ_attempt_pair)
  show "succ (same_talk d0) (WithTx RepoErr (expire_tx C rm now)) (\<lambda>(u, evs) d. I d \<and> \<not> live u)"
    by (intro succ_WithTx succ_conseq [OF succ_expire_tx]) (auto intro: same [OF d0])
next
  fix u evs
  show "succ (\<lambda>d. I d \<and> \<not> live u) (attempt (publishRoomEvents evs) (\<lambda>_.
      attempt (sync_context rec C u [] (room_ID rm)
        [(''room_id'', JStr (room_ID rm)), (''source'', JStr ''reconcile_ttl_close'')] 0) (\<lambda>_. ok u)))
     (\<lambda>rm' d. I d \<and> (live rm' \<longrightarrow> rm' = rm \<and> same_talk d0 d))"
    by (intro succ_pure succ_attempt_calm succ_attempt [OF succ_keeps [OF keeps_sync_context]] succ_ok rec calm_intros)
      (auto intro: same)
qed (auto intro!: succ_ok intro: same [OF d0])

lemma succ_closed_at:
  assumes rec: "\<And>rm. keeps (\<lambda>s. I (tables s)) (rec rm)" and d0: "I d0"
    and row: "find_room d0 (room_ID rm) = Some rm" "room_State rm = RoomStateClosed"
  shows "succ (same_talk d0) (case room_ClosedAt rm of
        Some _ \<Rightarrow> ok rm
      | None \<Rightarrow>
          attempt (store (UpdateRoom ((update_room_input (room_ID rm))\<lparr>uri_ClosedAt := Some now\<rparr>))) (\<lambda>rm.
          attempt (sync_context rec C rm [] (room_ID rm) (meta rm) 0) (\<lambda>_.
          ok rm))) (\<lambda>rm' d. I d \<and> \<not> live rm')"
proof (rule succ_case_option)
  let ?inp = "(update_room_input (room_ID rm))\<lparr>uri_ClosedAt := Some now\<rparr>"
  have "I (set_room (uri_ID ?inp) (write_room (merge_update ?inp r)) d) \<and> \<not> live (updated_room ?inp r)"
    if "same_talk d0 d" "find_room d (uri_ID ?inp) = Some r" for d r
    using that quiet_update [of d ?inp r] row same [OF d0 that(1)]
    by (auto simp: same_talk_ledger [OF that(1)] live_def)
  then have "succ (same_talk d0) (store (UpdateRoom ?inp)) (\<lambda>rm' d. I d \<and> \<not> live rm')"
    by (intro succ_store succ_UpdateRoom)
  then show "succ (same_talk d0)
     (attempt (store (UpdateRoom ?inp)) (\<lambda>rm. attempt (sync_context rec C rm [] (room_ID rm) (meta rm) 0) (\<lambda>_. ok rm)))
     (\<lambda>rm' d. I d \<and> \<not> live rm')"
    by (rule succ_attempt)
      (intro succ_pure succ_attempt [OF succ_keeps [OF keeps_sync_context]] rec succ_ok, simp)
qed (use row same [OF d0] in \<open>auto intro!: succ_ok simp: live_def\<close>)

lemma succ_reconcile_closed:
  assumes rec: "\<And>rm. keeps (\<lambda>s. I (tables s)) (rec rm)" and d0: "I d0"
    and row: "find_room d0 (room_ID rm) = Some rm" "room_State rm = RoomStateClosed"
  shows "succ (same_talk d0) (reconcile_closed rec C rm now) (\<lambda>rm' d. I d \<and> \<not> live rm')"
  unfolding reconcile_closed_def Let_def
proof (rule succ_attempt, rule succ_closed_at [OF assms], rule succ_pure)
  have purge: "succ I (WithTx RepoErr (purge_tx C r reason now)) (\<lambda>(u, evs) d. I d \<and> \<not> live u)" for r reason
    by (intro succ_WithTx succ_purge_tx)
  fix rm' assume "\<not> live rm'"
  then show "succ I
     (attempt (store (CountActiveViewers (room_ID rm') (now + - heartbeatTimeout C))) (\<lambda>activeCount.
        if activeCount = 0 \<and> (case room_ClosedAt rm' of None \<Rightarrow> False | Some t \<Rightarrow> graceDelay C \<le> time_sub now t) \<or>
           (case room_ClosedAt rm' of None \<Rightarrow> False | Some t \<Rightarrow> closedRetention C \<le> time_sub now t)
        then attempt (store (ListRoomMessages (room_ID rm'))) (\<lambda>msgs.
          attempt (WithTx RepoErr (purge_tx C rm'
            (if activeCount = 0 \<and> (case room_ClosedAt rm' of None \<Rightarrow> False | Some t \<Rightarrow> graceDelay C \<le> time_sub now t)
             then ''grace_elapsed'' else ''retention_cap_reached'') now)) (\<lambda>(purgedRoom, emitted).
          attempt (publishRoomEvents emitted) (\<lambda>_.
          attempt (appendAuditEventBestEffort C (room_ID rm') ''room_purged''
            [(''detail'', JStr ''content hard-deleted'')] (int (length msgs))) (\<lambda>_.
          ok purgedRoom))))
        else ok rm')) (\<lambda>rm' d. I d \<and> \<not> live rm')"
    apply -
    apply (rule succ_attempt_calm, intro calm_intros, erule (1) same, rule succ_if)
     apply (rule succ_attempt_calm, intro calm_intros, erule (1) same)
     apply (rule succ_attempt_pair [OF purge])
     apply (intro succ_pure succ_attempt_calm succ_ok calm_intros)
       apply (auto intro: same succ_ok)
    done
qed

lemma succ_reconcile_with:
  assumes rec: "\<And>rm. keeps (\<lambda>s. I (tables s)) (rec rm)" and d0: "I d0"
    and row: "find_room d0 (room_ID rm) = Some rm"
  shows "succ (same_talk d0) (reconcile_with rec C rm)
    (\<lambda>rm' d. I d \<and> (live rm' \<longrightarrow> rm' = rm \<and> same_talk d0 d))"
  unfolding reconcile_with_def
  by (intro succ_bind_calm succ_if succ_reconcile_open succ_conseq [OF succ_reconcile_closed [OF rec d0 row]]
      succ_ok rec d0 calm_intros)
    (auto intro: same_talk_trans same [OF d0])

text \<open>The prologues of the service calls.\<close>

lemma succ_prologue:
  assumes "\<And>rm. find_room d0 i = Some rm \<Longrightarrow> succ (same_talk d0) (f rm) Q"
  shows "succ (same_talk d0) (attempt (store_nf e (GetRoom i)) f) Q"
proof (rule succ_attempt, rule succ_store_nf, rule succ_GetRoom)
  fix d r assume "same_talk d0 d" "find_room d i = Some r"
  then show "same_talk d0 d \<and> find_room d0 i = Some r" by (simp add: same_talk_ledger [of d0 d])
qed (use assms in \<open>auto intro: succ_pure\<close>)

lemma succ_load_room:
  assumes "I d0"
  shows "succ (same_talk d0) (load_room C i) (\<lambda>rm d. I d \<and> (live rm \<longrightarrow> find_room d0 i = Some rm \<and> same_talk d0 d))"
  unfolding load_room_def
proof (rule succ_prologue)
  fix rm assume rm: "find_room d0 i = Some rm"
  then have "find_room d0 (room_ID rm) = Some rm" by (auto dest: find_room_SomeD)
  from succ_reconcile_with [OF keeps_reconcile_fuel [of 1 C] assms this]
  have "succ (same_talk d0) (reconcileRoom C rm) (\<lambda>rm' d. I d \<and> (live rm' \<longrightarrow> rm' = rm \<and> same_talk d0 d))"
    unfolding reconcileRoom_eq by (rule succ_with_room_lock)
  then show "succ (same_talk d0) (reconcileRoom C rm)
      (\<lambda>rm d. I d \<and> (live rm \<longrightarrow> find_room d0 i = Some rm \<and> same_talk d0 d))"
    by (rule succ_conseq) (use rm in auto)
qed

lemma keeps_load_room: "keeps (\<lambda>s. I (tables s)) (load_room C i)"
  unfolding load_room_def by (intro keeps_attempt keeps_reconcileRoom keeps_calm_I calm_intros)

end

end
