(* ===== verification/A2A_Talk.thy ===== *)
theory A2A_Talk
  imports A2A_Tidy
begin

text \<open>
  The transaction of \<open>SendMessage\<close> is one turn of the machine: when it commits, exactly the sender's
  message has been appended and the turn has moved on; the policy records are as before.
\<close>

section \<open>Before the append\<close>

text \<open>Inside the transaction, up to the append: the same machine, the row may have got its message key.\<close>

definition ready :: "db \<Rightarrow> string \<Rightarrow> Room \<Rightarrow> db \<Rightarrow> bool" where
  "ready d0 i rm d \<longleftrightarrow> rooms_wf d \<and> t_policy d = t_policy d0 \<and> t_messages d = t_messages d0 \<and>
     ledger d = ledger d0 \<and> find_room d i = Some rm"

lemma ready_same: "ready d0 i rm d \<Longrightarrow> same_talk d d' \<Longrightarrow> ready d0 i rm d'"
  using same_talk_ledger [of d d'] by (auto simp: ready_def same_talk_def)

lemma ready_start: "rooms_wf d0 \<Longrightarrow> find_room d0 i = Some rm \<Longrightarrow> same_talk d0 d \<Longrightarrow> ready d0 i rm d"
  by (rule ready_same [of _ _ _ d0]) (simp_all add: ready_def)

lemma succ_ensureRoomMessageCipher:
  assumes "i = room_ID rm"
  shows "succ (ready d0 i rm) (ensureRoomMessageCipher C rm) (\<lambda>(rm', c). ready d0 i rm')"
proof -
  have "succ (ready d0 i rm) (store (UpdateRoom ((update_room_input i)\<lparr>uri_MessageKeyCiphertext := Some w\<rparr>)))
      (\<lambda>rm'. ready d0 i rm')" for w
    by (intro succ_store succ_UpdateRoom)
      (auto simp: ready_def ledger_quiet_update [where inp = "(update_room_input i)\<lparr>uri_MessageKeyCiphertext := Some w\<rparr>", simplified]
        find_room_UpdateRoom [where inp = "(update_room_input i)\<lparr>uri_MessageKeyCiphertext := Some w\<rparr>", simplified])
  then show ?thesis
    unfolding ensureRoomMessageCipher_def assms
    apply (intro succ_if)
     apply (auto intro!: succ_ok succ_fail split: sum.splits) [1]
    apply (rule succ_attempt_calm, intro calm_intros, erule (1) ready_same)
    apply (clarsimp split: prod.splits)
    apply (rule succ_attempt, assumption, rule succ_ok, simp)
    done
qed

lemma succ_message_text:
  assumes "i = room_ID rm"
  shows "succ (ready d0 i rm) (message_text C rm c) (\<lambda>(rm', stored). ready d0 i rm')"
  unfolding message_text_def
proof (rule succ_attempt_calm, intro calm_intros, erule (1) ready_same, rule succ_attempt_pair)
  fix k
  show "succ (ready d0 i rm) (case k of None \<Rightarrow> ensureRoomMessageCipher C rm | Some k \<Rightarrow> ok (rm, Some k))
      (\<lambda>(rm', c). ready d0 i rm')"
    by (intro succ_case_option succ_ensureRoomMessageCipher assms succ_ok) simp
next
  fix rm' k
  show "succ (ready d0 i rm') (case k of None \<Rightarrow> ok (rm', c) | Some k \<Rightarrow> do {
      nonce \<leftarrow> svc_random;
      attempt (cipher_result (Encrypt (crypt C) k nonce c)) (\<lambda>stored. ok (rm', stored)) })
      (\<lambda>(rm', stored). ready d0 i rm')"
    by (intro succ_case_option succ_bind_calm succ_attempt_calm succ_ok calm_intros) (auto intro: ready_same)
qed

text \<open>
  The checks of the content, in memory or shared: they pass only for an allowed message with the hash of
  the bundle. The shared checks record a violation only on the way to an error.
\<close>

definition cleared :: "svc_conf \<Rightarrow> PolicyDecision \<Rightarrow> Bundle \<Rightarrow> string \<Rightarrow> bool" where
  "cleared C dec b h \<longleftrightarrow> Allowed dec \<and> EqualFold (uniFold C) (BundleHash b) h"

lemma succ_rejected: "calm m \<Longrightarrow> succ P (attempt m (\<lambda>_. fail e)) Q"
  by (rule succ_attempt [OF succ_trivial succ_fail])

lemma succ_shared_checks:
  assumes P: "\<And>d d'. P d \<Longrightarrow> same_talk d d' \<Longrightarrow> P d'"
  shows "succ P (shared_checks C a i rm dec b h n now) (\<lambda>_ d. P d \<and> cleared C dec b h)"
  unfolding shared_checks_def cleared_def
  apply (rule succ_attempt_calm, intro calm_intros, erule (1) P)
  apply (rule succ_attempt_calm, intro calm_intros, erule (1) P)
  apply (rule succ_case_option)
   apply (rule succ_attempt_calm, intro calm_intros, erule (1) P)
   apply (intro succ_if succ_rejected calm_intros)
   apply (rule succ_attempt_calm, intro calm_intros, erule (1) P)
   apply (intro succ_if succ_rejected calm_intros)
     apply (rule succ_attempt [OF succ_trivial], rule succ_rejected, intro calm_intros)
    apply (rule succ_ok, simp)
  apply (intro succ_rejected calm_intros)
  done

lemma succ_local_verdict:
  assumes P: "\<And>d d'. P d \<Longrightarrow> same_talk d d' \<Longrightarrow> P d'"
  shows "succ P (local_verdict C a i rm dec b h n now) (\<lambda>_ d. P d \<and> cleared C dec b h)"
  unfolding local_verdict_def cleared_def
  by (intro succ_if succ_bind_calm succ_rejected calm_intros succ_ok) (auto intro: P)

section \<open>The append\<close>

text \<open>After the message row is written and before the room row is updated.\<close>

definition appended :: "db \<Rightarrow> string \<Rightarrow> Room \<Rightarrow> Message \<Rightarrow> db \<Rightarrow> bool" where
  "appended d0 i rm msg d \<longleftrightarrow> (\<exists>d1. ready d0 i rm d1 \<and> t_rooms d = t_rooms d1 \<and> t_policy d = t_policy d1 \<and>
     t_messages d = t_messages d1 @ [msg])"

lemma appended_same: "appended d0 i rm msg d \<Longrightarrow> same_talk d d' \<Longrightarrow> appended d0 i rm msg d'"
  by (auto simp: appended_def same_talk_def)

definition message_row :: "AppendMessageInput \<Rightarrow> Message \<Rightarrow> bool" where
  "message_row inp msg \<longleftrightarrow> msg_ID msg = ami_ID inp \<and> msg_RoomID msg = ami_RoomID inp \<and> msg_SenderID msg = ami_SenderID inp \<and>
     msg_Turn msg = ami_Turn inp \<and> msg_Ciphertext msg = ami_Ciphertext inp"

lemma succ_AppendMessage:
  "succ (ready d0 i rm) (AppendMessage inp) (\<lambda>msg d. appended d0 i rm msg d \<and> message_row inp msg)"
  unfolding AppendMessage_def
  by (rule succ_stmt) (force simp: appended_def message_row_def Let_def split: if_splits)

lemma succ_close_update:
  assumes P: "\<And>d d'. P d \<Longrightarrow> same_talk d d' \<Longrightarrow> P d'"
  shows "succ P (close_update rm n) (\<lambda>(upd, st) d. P d \<and>
    (uri_ID upd = room_ID rm \<and> uri_TurnIndex upd = Some n \<and> uri_AgentBID upd = None \<and>
     uri_State upd = (if n \<ge> room_MaxTurns rm then Some RoomStateClosed else None) \<and>
     st = (if n \<ge> room_MaxTurns rm then RoomStateClosed else room_State rm)))"
  unfolding close_update_def Let_def
  by (intro succ_if succ_bind_calm succ_ok calm_intros) (auto intro: P)

text \<open>The two rows together are one turn.\<close>

definition turn_taken :: "db \<Rightarrow> string \<Rightarrow> Room \<Rightarrow> db \<Rightarrow> bool" where
  "turn_taken d0 i rm d \<longleftrightarrow> rooms_wf d \<and> t_policy d = t_policy d0 \<and>
     ledger d = (ledger d0)(i \<mapsto> said (abs_room (t_messages d0) rm))"

lemma turn_taken_same: "turn_taken d0 i rm d \<Longrightarrow> same_talk d d' \<Longrightarrow> turn_taken d0 i rm d'"
  using same_talk_ledger [of d d'] by (simp add: turn_taken_def)

lemma appended_turn:
  assumes app: "appended d0 i rm msg d" and row: "find_room d i = Some r"
    and msg: "msg_RoomID msg = i" "msg_Turn msg = room_TurnIndex rm" "msg_SenderID msg = expected_sender rm"
    and upd: "uri_ID upd = i" "uri_TurnIndex upd = Some (wrap64 (room_TurnIndex rm + 1))" "uri_AgentBID upd = None"
      "uri_State upd = (if wrap64 (room_TurnIndex rm + 1) \<ge> room_MaxTurns rm then Some RoomStateClosed else None)"
  shows "turn_taken d0 i rm (set_room i (write_room (merge_update upd r)) d)"
proof -
  from app obtain d1 where d1: "ready d0 i rm d1" and d: "t_rooms d = t_rooms d1" "t_policy d = t_policy d1"
    "t_messages d = t_messages d1 @ [msg]" by (auto simp: appended_def)
  have rm: "find_room d1 i = Some rm" "r = rm" "room_ID rm = i"
    using d1 row find_room_cong [OF d(1)] find_room_SomeD by (auto simp: ready_def)
  have wf: "rooms_wf d1" "ledger d1 = ledger d0" "t_messages d1 = t_messages d0" "t_policy d1 = t_policy d0"
    using d1 by (auto simp: ready_def)
  have "has_room d i" using row by (auto simp: has_room_find)
  then have "rooms_wf d" using wf(1) d msg(1) by (auto simp: rooms_wf_def has_room_def)
  moreover have "ledger (set_room i (write_room (merge_update upd r)) d) =
      (ledger d)(i \<mapsto> abs_room (t_messages d) (updated_room upd rm))"
    using ledger_UpdateRoom [of d upd r] row upd(1) rm(2) by simp
  moreover have "abs_room (t_messages d) (updated_room upd rm) = said (abs_room (t_messages d0) rm)"
    using find_room_trimmed [OF wf(1) rm(1)] msg rm(3) upd(2-) d(3) wf(3)
    by (auto simp: abs_updated_room) (auto simp: abs_room_def said_def Let_def speaker_def expected_sender_def)
  moreover have "(ledger d)(i \<mapsto> x) = (ledger d1)(i \<mapsto> x)" for x
  proof
    fix j
    show "((ledger d)(i \<mapsto> x)) j = ((ledger d1)(i \<mapsto> x)) j"
      using find_room_SomeD [of d1 j] msg(1) d(3) find_room_cong [OF d(1)]
      by (cases "find_room d1 j") (auto simp: ledger_def abs_room_def)
  qed
  ultimately show ?thesis
    using d(2) wf(2,4) by (simp add: turn_taken_def)
qed

section \<open>The transaction\<close>

definition sent :: "string \<Rightarrow> string \<Rightarrow> Room \<Rightarrow> string \<Rightarrow> Message \<times> Room \<times> RoomState \<times> RoomEvent list \<Rightarrow> bool" where
  "sent a i rm c res \<longleftrightarrow> (case res of (msg, u, st, evs) \<Rightarrow>
     msg_RoomID msg = i \<and> msg_SenderID msg = a \<and> msg_Turn msg = room_TurnIndex rm \<and> msg_Ciphertext msg = c \<and>
     st = (if wrap64 (room_TurnIndex rm + 1) \<ge> room_MaxTurns rm then RoomStateClosed else room_State rm))"

lemma succ_append_steps:
  assumes rm: "i = room_ID rm" "a = expected_sender rm" and n: "n = wrap64 (room_TurnIndex rm + 1)"
  shows "succ (ready d0 i rm) (append_steps C a i rm c stored n now) (\<lambda>res d. turn_taken d0 i rm d \<and> sent a i rm c res)"
  unfolding append_steps_def
  apply (rule succ_bind_calm, intro calm_intros, erule (1) ready_same)
  apply (rule succ_attempt, rule succ_mapErr, rule succ_AppendMessage, rule succ_pure)
  apply (rule succ_attempt_pair, rule succ_close_update, erule (1) appended_same, rule succ_pure)
  subgoal for mid msg upd st
    apply (rule succ_attempt [where R = "\<lambda>_. turn_taken d0 i rm"])
     apply (intro succ_store succ_UpdateRoom)
     apply (use appended_turn [of d0 i rm msg _ _ upd] rm n in \<open>auto simp: message_row_def\<close>) [1]
    apply (rule succ_attempt_calm, intro calm_intros, erule (1) turn_taken_same)
    apply (unfold Let_def)
    apply (rule succ_attempt_calm, intro calm_intros, erule (1) turn_taken_same)
    apply (rule succ_attempt_calm, intro calm_intros, erule (1) turn_taken_same)
    apply (rule succ_attempt_calm, intro calm_intros, erule (1) turn_taken_same)
    apply (rule succ_ok)
    apply (use rm n in \<open>auto simp: sent_def message_row_def\<close>)
    done
  done

lemma succ_send_tx:
  assumes wf: "rooms_wf d0" and row: "find_room d0 i = Some rm" and n: "n = wrap64 (room_TurnIndex rm + 1)"
    and a: "a = expected_sender rm"
  shows "succ (same_talk d0) (send_tx C a i rm c dec b h k n now) (\<lambda>res d.
    (turn_taken d0 i rm d \<and> sent a i rm c res) \<and> (shared C \<longrightarrow> cleared C dec b h))"
proof -
  have i: "i = room_ID rm" using row by (auto dest: find_room_SomeD)
  show ?thesis
    unfolding send_tx_def
  proof (rule succ_attempt_pair)
    show "succ (same_talk d0) (message_text C rm c) (\<lambda>(rm', stored) d. ready d0 i rm' d)"
      by (rule succ_conseq [OF succ_message_text [OF i]]) (use ready_start [OF wf row] in auto)
  next
    fix rm' stored
    show "succ (ready d0 i rm')
       (attempt (if shared C then shared_checks C a i rm' dec b h k now else ok ()) (\<lambda>_.
        append_steps C a i rm' c stored n now))
       (\<lambda>res d. (turn_taken d0 i rm d \<and> sent a i rm c res) \<and> (shared C \<longrightarrow> cleared C dec b h))"
    proof (rule succ_from)
      fix d assume "ready d0 i rm' d"
      then show "abs_room (t_messages d0) rm' = abs_room (t_messages d0) rm \<and> i = room_ID rm'"
        using ledger_find [OF row] ledger_find [of d i rm'] by (auto simp: ready_def dest: find_room_SomeD)
    next
      assume same: "abs_room (t_messages d0) rm' = abs_room (t_messages d0) rm \<and> i = room_ID rm'"
      then have eq: "room_TurnIndex rm' = room_TurnIndex rm" "expected_sender rm' = expected_sender rm"
        "room_MaxTurns rm' = room_MaxTurns rm" "room_State rm' = room_State rm"
        by (simp_all add: abs_room_def expected_sender_def)
      have "succ (ready d0 i rm') (append_steps C a i rm' c stored n now)
          (\<lambda>res d. turn_taken d0 i rm d \<and> sent a i rm c res)"
        by (rule succ_conseq [OF succ_append_steps]) (use same eq n a in \<open>auto simp: turn_taken_def sent_def\<close>)
      then have app: "succ (ready d0 i rm') (append_steps C a i rm' c stored n now) (\<lambda>res d.
          (turn_taken d0 i rm d \<and> sent a i rm c res) \<and> (shared C \<longrightarrow> cleared C dec b h))"
        if "shared C \<longrightarrow> cleared C dec b h"
        using that by (elim succ_conseq) auto
      show ?thesis
        by (intro succ_attempt [where R = "\<lambda>_ d. ready d0 i rm' d \<and> (shared C \<longrightarrow> cleared C dec b h)"] succ_if
            succ_conseq [OF succ_shared_checks [of "ready d0 i rm'"]] succ_ok succ_pure app)
          (auto intro: ready_same)
    qed
  qed
qed

end
