(* ===== verification/A2A_Machine.thy ===== *)
theory A2A_Machine
  imports A2A_Talk
begin

text \<open>
  Every call of the service is a sequence of steps of the machine of \<open>Room_Machine\<close>. The contract
  \<open>served\<close> extends \<open>tidied\<close> by the other moves; its lemmas go through the calls that change rooms:
  \<open>CreateListing\<close>, \<open>ConnectListing\<close>, \<open>JoinRoom\<close>, \<open>SendMessage\<close>, \<open>CloseRoom\<close>, and through those that
  only reconcile. Its interpretations are the histories of the machine and the policy records.
\<close>

section \<open>Rules\<close>

lemma hoare_attempt_to:
  "hoare P m (\<lambda>_. R) \<Longrightarrow> (\<And>x. hoare R (f x) (\<lambda>_. Q)) \<Longrightarrow> (\<And>s. R s \<Longrightarrow> Q s) \<Longrightarrow> hoare P (attempt m f) (\<lambda>_. Q)"
  by (rule hoare_attempt)

lemma hoare_case_prod: "(\<And>a b. hoare P (f a b) Q) \<Longrightarrow> hoare P (case x of (a, b) \<Rightarrow> f a b) Q"
  by (cases x) simp

lemma hoare_WithTx_to:
  assumes "succ P fn (\<lambda>_. I)" and "\<And>d d'. P d \<Longrightarrow> same_rows d d' \<Longrightarrow> I d'"
  shows "hoare (\<lambda>s. P (tables s)) (WithTx wrap fn) (\<lambda>_ s. I (tables s))"
proof -
  have "hoare (\<lambda>s. P (tables s) \<and> tables s = saved) fn (\<lambda>r s. \<forall>x. r = Inr x \<longrightarrow> I (tables s))" for saved
    using assms(1) unfolding succ_def by (rule hoare_conseq) auto
  from hoare_WithTx [where Q = "\<lambda>_. I" and R = "\<lambda>_. I", OF this assms(2)] show ?thesis
    by (rule hoare_conseq) (auto split: sum.splits)
qed

lemma attempt_assoc: "attempt (attempt m f) g = attempt m (\<lambda>x. attempt (f x) g)"
  unfolding attempt_def by (rule state_ext) (auto split: sum.splits prod.splits)

text \<open>The prologue of \<open>SendMessage\<close>.\<close>

definition load_locked :: "svc_conf \<Rightarrow> string \<Rightarrow> Room prog" where
  "load_locked C i = attempt (store_nf ErrSvcNotFound (GetRoom i)) (\<lambda>rm. reconcileRoomLocked C rm)"

definition send_loaded :: "svc_conf \<Rightarrow> string \<Rightarrow> string \<Rightarrow> int \<Rightarrow> string \<Rightarrow> string \<Rightarrow> Room \<Rightarrow> SendMessageResult prog" where
  "send_loaded C agentID roomID expectedTurn ciphertext provided rm =
    (if \<not> is_participant rm agentID then fail ErrForbidden
     else if room_State rm = RoomStateClosed \<or> room_State rm = RoomStatePurged then fail ErrGone
     else if room_State rm \<noteq> RoomStateActive then fail ErrRoomNotActive
     else do {
     t \<leftarrow> s_now;
     if t > room_TTLAt rm then fail ErrGone
     else do {
     now \<leftarrow> s_now;
     attempt (if shared C then ok () else local_limits C agentID roomID now) (\<lambda>_.
     if expectedTurn \<noteq> room_TurnIndex rm then fail ErrTurnMismatch
     else if expected_sender rm \<noteq> agentID then fail ErrTurnMismatch
     else (let decision = EvaluateMessageForPersist (uniLower C) ciphertext in
     if \<not> Allowed decision \<and> Code decision = ''payload_too_large'' then
       attempt (policy_audit C roomID agentID (Code decision) (Reason decision)
         [(''max_chars'', JInt (int MaxPersistMessageChars)), (''turn_index'', JInt (room_TurnIndex rm)),
          (''bundle_hash'', JStr provided)]) (\<lambda>_. fail ErrPayloadTooLarge)
     else
     attempt (buildBundleForRoom C rm agentID) (\<lambda>(bundle, recentCount).
     attempt (if shared C then ok ()
       else local_verdict C agentID roomID rm decision bundle provided recentCount now) (\<lambda>_.
     let nextTurn = wrap64 (room_TurnIndex rm + 1) in
     attempt (WithTx RepoErr (send_tx C agentID roomID rm ciphertext decision bundle provided recentCount nextTurn now)) (\<lambda>res.
     send_epilogue C agentID roomID bundle recentCount nextTurn res))))) } })"

lemma SendMessage_eq:
  "SendMessage C a i t c h = (if TrimSpace c = [] \<or> TrimSpace h = [] then fail ErrBadRequest
     else attempt (load_locked C i) (send_loaded C a i t (TrimSpace c) (TrimSpace h)))"
  unfolding SendMessage_def load_locked_def attempt_assoc send_loaded_def [abs_def] by (simp add: Let_def)

lemma succ_at: "(\<And>d0. P d0 \<Longrightarrow> succ (same_talk d0) m (\<lambda>_. Q)) \<Longrightarrow> succ P m (\<lambda>_. Q)"
  unfolding succ_def hoare_def by (meson same_talk_refl)

section \<open>Creating and connecting\<close>

lemma find_append_one: "find P (xs @ [x]) = (case find P xs of None \<Rightarrow> if P x then Some x else None | Some y \<Rightarrow> Some y)"
  by (induction xs) auto

lemma ledger_CreateRoom:
  assumes "rooms_wf d" and "\<not> has_room d (room_ID row)"
  shows "ledger (d\<lparr>t_rooms := t_rooms d @ [row]\<rparr>) = (ledger d)(room_ID row \<mapsto> abs_room [] row)"
    "ledger d (room_ID row) = None"
proof -
  have none: "find_room d (room_ID row) = None"
    using assms(2) by (auto simp: has_room_find)
  have talk: "filter (\<lambda>m. msg_RoomID m = room_ID row) (t_messages d) = []"
    using assms by (auto simp: rooms_wf_def filter_empty_conv)
  have find: "find_room (d\<lparr>t_rooms := t_rooms d @ [row]\<rparr>) j = (if j = room_ID row then Some row else find_room d j)" for j
    using none by (cases "find_room d j") (auto simp: find_room_def find_append_one split: option.splits)
  then show "ledger (d\<lparr>t_rooms := t_rooms d @ [row]\<rparr>) = (ledger d)(room_ID row \<mapsto> abs_room [] row)"
    using talk by (auto simp: ledger_def fun_eq_iff abs_room_def)
  show "ledger d (room_ID row) = None" using none by (simp add: ledger_def)
qed

lemma buildJoinedMap_second:
  "gm_get (buildJoinedMap rm js) (room_AgentBID rm) = Some True \<Longrightarrow> room_AgentBID rm \<noteq> []"
  by (auto simp: buildJoinedMap_def Let_def split: if_splits)

section \<open>The contract\<close>

context tidied
begin

lemma keeps_sync: "keeps (\<lambda>s. I (tables s)) (sync_context (reconcileRoom C) C rm a i meta n)"
  by (intro keeps_sync_context keeps_reconcileRoom)

lemma keeps_send_epilogue: "keeps (\<lambda>s. I (tables s)) (send_epilogue C a i b n k res)"
  unfolding send_epilogue_def
  by (intro keeps_case_prod keeps_attempt keeps_bind keeps_sync keeps_ok) (intro keeps_calm_I calm_intros)+

lemma keeps_load_locked: "keeps (\<lambda>s. I (tables s)) (load_locked C i)"
  unfolding load_locked_def by (intro keeps_attempt keeps_reconcileRoomLocked keeps_calm_I calm_intros)

lemma succ_load_locked:
  assumes "I d0"
  shows "succ (same_talk d0) (load_locked C i) (\<lambda>rm d. I d \<and> (live rm \<longrightarrow> find_room d0 i = Some rm \<and> same_talk d0 d))"
  unfolding load_locked_def
proof (rule succ_prologue)
  fix rm assume rm: "find_room d0 i = Some rm"
  show "succ (same_talk d0) (reconcileRoomLocked C rm)
      (\<lambda>rm d. I d \<and> (live rm \<longrightarrow> find_room d0 i = Some rm \<and> same_talk d0 d))"
    unfolding reconcileRoomLocked_def
    by (rule succ_conseq [OF succ_reconcile_with [OF keeps_reconcileRoom assms]]) (use rm find_room_again in auto)
qed

end

locale served = tidied +
  assumes step: "I d \<Longrightarrow> rooms_wf d' \<Longrightarrow> t_policy d' = t_policy d \<Longrightarrow> room_step (ledger d) (ledger d') \<Longrightarrow> I d'"
begin

lemma succ_CreateRoom:
  assumes "cri_TurnIndex inp = 0"
    and "(cri_State inp = RoomStateOpen \<and> TrimSpace (cri_AgentBID inp) = []) \<or>
      (cri_State inp = RoomStateActive \<and> TrimSpace (cri_AgentBID inp) \<noteq> [])"
  shows "succ I (CreateRoom inp) (\<lambda>_. I)"
  unfolding CreateRoom_def
proof (rule succ_stmt)
  fix now d x d'
  assume I: "I d" and run: "(let agentB = nullableText (cri_AgentBID inp) in
     if has_room d (cri_ID inp) then Inl ErrConflict
     else if \<not> has_agent d (cri_AgentAID inp) \<or> (agentB \<noteq> [] \<and> \<not> has_agent d agentB) then Inl fk_error
     else let row = \<lparr>room_ID = cri_ID inp, room_Topic = cri_Topic inp, room_AgentAID = cri_AgentAID inp,
                     room_AgentBID = agentB, room_State = cri_State inp, room_TurnIndex = cri_TurnIndex inp,
                     room_MaxTurns = cri_MaxTurns inp, room_TTLAt = cri_TTLAt inp, room_CreatedAt = now,
                     room_ClosedAt = None, room_PurgedAt = None, room_HumanCodeHash = cri_HumanCodeHash inp,
                     room_HumanCodeExpiresAt = cri_HumanCodeExpiresAt inp,
                     room_MessageKeyCiphertext = nullableText (cri_MessageKeyCiphertext inp)\<rparr>
          in Inr (row, d\<lparr>t_rooms := t_rooms d @ [row]\<rparr>)) = Inr (x, d')"
  then have x: "room_ID x = cri_ID inp" "room_AgentBID x = TrimSpace (cri_AgentBID inp)"
      "abs_room [] x = fresh_room (cri_State inp) (cri_AgentAID inp) (TrimSpace (cri_AgentBID inp)) (cri_MaxTurns inp)"
    and d': "d' = d\<lparr>t_rooms := t_rooms d @ [x]\<rparr>" and new: "\<not> has_room d (room_ID x)"
    using assms(1) by (auto simp: Let_def nullableText_def abs_room_def fresh_room_def split: if_splits)
  have "rooms_wf d'"
    using wf [OF I] x(2) unfolding d' by (auto simp: rooms_wf_def has_room_def)
  then show "I d'"
    using ledger_CreateRoom [OF wf [OF I] new] assms(2) unfolding d' x(3)
    by (intro step [OF I]) (auto intro!: room_step.create)
qed

lemma connect_update_I:
  assumes "I d" "find_room d (uri_ID inp) = Some r" "TrimSpace (room_AgentBID r) = []"
    "uri_State inp = Some RoomStateActive" "uri_AgentBID inp = Some b" "TrimSpace b \<noteq> []" "uri_TurnIndex inp = None"
  shows "I (set_room (uri_ID inp) (write_room (merge_update inp r)) d)"
proof (rule step [OF assms(1)])
  let ?a = "abs_room (t_messages d) r"
  have "abs_room (t_messages d) (updated_room inp r) = ?a\<lparr>a_B := TrimSpace b, a_State := RoomStateActive\<rparr>"
    using assms(4-) by (simp add: abs_updated_room) (simp add: abs_room_def)
  moreover have "room_move ?a (?a\<lparr>a_B := TrimSpace b, a_State := RoomStateActive\<rparr>)"
    using assms(3,6) find_room_trimmed [OF wf [OF assms(1)] assms(2)]
    by (intro room_move.connect) (simp_all add: abs_room_def)
  ultimately show "room_step (ledger d) (ledger (set_room (uri_ID inp) (write_room (merge_update inp r)) d))"
    using assms(2) by (auto simp: ledger_UpdateRoom intro: room_step.move ledger_find)
qed (use wf [OF assms(1)] in simp_all)

lemma activate_update_I:
  assumes "I d" "find_room d (uri_ID inp) = Some r" "room_State r = RoomStateOpen" "room_AgentBID r \<noteq> []"
    "uri_State inp = Some RoomStateActive" "uri_AgentBID inp = None" "uri_TurnIndex inp = None"
  shows "I (set_room (uri_ID inp) (write_room (merge_update inp r)) d)"
proof (rule step [OF assms(1)])
  let ?a = "abs_room (t_messages d) r"
  have "room_move ?a (?a\<lparr>a_State := RoomStateActive\<rparr>)"
    using assms(3,4) by (intro room_move.activate) (simp_all add: abs_room_def)
  then show "room_step (ledger d) (ledger (set_room (uri_ID inp) (write_room (merge_update inp r)) d))"
    using assms wf [OF assms(1)] by (auto simp: ledger_state_update intro: room_step.move ledger_find)
qed (use wf [OF assms(1)] in simp_all)

section \<open>The calls that change rooms\<close>

lemma succ_listing_tx: "succ I (listing_tx C a topic tags mx ttl now i code) (\<lambda>_. I)"
  unfolding listing_tx_def
  apply (rule succ_attempt_calm, intro calm_intros, erule (1) same)
  apply (clarsimp split: prod.splits)
  apply (rule succ_attempt, rule succ_store, rule succ_CreateRoom)
    apply (simp_all add: new_room_input_def)
  apply (intro succ_bind_calm succ_attempt_calm succ_ok calm_intros)
       apply (auto intro: same)
  done

lemma keeps_CreateListing: "keeps (\<lambda>s. I (tables s)) (CreateListing C a topic tags mx ttl)"
  unfolding CreateListing_def Let_def syncRoomContextBestEffort_def
  by (intro keeps_if keeps_fail keeps_bind keeps_attempt keeps_case_prod keeps_ok keeps_WithTx_I succ_listing_tx
      keeps_sync) (intro keeps_calm_I calm_intros)+

lemma succ_connect_new_room:
  assumes "TrimSpace a \<noteq> []"
  shows "succ I (connect_new_room C a l) (\<lambda>_. I)"
  unfolding connect_new_room_def Let_def
  apply (rule succ_bind_calm, intro calm_intros, erule (1) same)
  apply (rule succ_bind_calm, intro calm_intros, erule (1) same)
  apply (rule succ_attempt_calm, intro calm_intros, erule (1) same)
  apply (clarsimp split: prod.splits)
  apply (rule succ_bind_calm, intro calm_intros, erule (1) same)
  apply (rule succ_attempt, rule succ_store, rule succ_CreateRoom)
    apply (simp_all add: new_room_input_def assms)
  apply (intro succ_attempt_calm succ_ok calm_intros)
   apply (auto intro: same)
  done

lemma succ_connect_old_room:
  assumes "TrimSpace a \<noteq> []"
  shows "succ I (connect_old_room C a l) (\<lambda>_. I)"
  unfolding connect_old_room_def
  apply (rule succ_attempt, rule succ_store_nf, rule succ_GetRoom, erule conjI, erule find_room_again)
  apply (intro succ_if succ_fail)
  apply (rule succ_attempt [where R = "\<lambda>_. I"], rule succ_store, rule succ_UpdateRoom)
   apply (rule connect_update_I [where b = a])
         apply (auto simp: assms) [7]
  apply (intro succ_attempt_calm succ_ok calm_intros)
   apply (auto intro: same)
  done

lemma keeps_ConnectListing:
  assumes "TrimSpace a \<noteq> []"
  shows "keeps (\<lambda>s. I (tables s)) (ConnectListing C a l)"
proof -
  have tx: "succ I (connect_tx C a l) (\<lambda>_. I)"
    unfolding connect_tx_def
    apply (rule succ_attempt_calm, intro calm_intros, erule (1) same)
    apply (intro succ_if succ_fail)
    apply (rule succ_attempt_calm, intro calm_intros, erule (1) same)
    apply (intro succ_if succ_connect_new_room succ_connect_old_room assms)
    done
  show ?thesis
    unfolding ConnectListing_def syncRoomContextBestEffort_def
    by (intro keeps_attempt keeps_case_prod keeps_ok keeps_WithTx_I tx keeps_sync) (intro keeps_calm_I calm_intros)+
qed

lemma keeps_CloseRoom: "keeps (\<lambda>s. I (tables s)) (CloseRoom C a i)"
proof -
  have tx: "succ I (close_tx C a i now) (\<lambda>_. I)" for now
    unfolding close_tx_def
    apply (rule succ_attempt_calm, intro calm_intros, erule (1) same)
    apply (rule succ_attempt, rule succ_store, rule succ_GetRoom, erule (1) conjI)
    apply (intro succ_if succ_fail succ_ok succ_conseq [OF succ_close_steps])
       apply auto
    done
  show ?thesis
    unfolding CloseRoom_def
    by (intro keeps_attempt keeps_load_room keeps_if keeps_fail keeps_ok keeps_bind keeps_case_prod keeps_WithTx_I
        tx keeps_sync) (intro keeps_calm_I calm_intros)+
qed

text \<open>After a prologue, a room that is open or active is the row in the tables.\<close>

lemma keeps_loaded_with:
  assumes keep: "keeps (\<lambda>s. I (tables s)) (m :: Room prog)"
    and live: "\<And>d0. I d0 \<Longrightarrow> succ (same_talk d0) m (\<lambda>rm d. I d \<and> (live rm \<longrightarrow> find_room d0 i = Some rm \<and> same_talk d0 d))"
    and rest: "\<And>rm. hoare (\<lambda>s. I (tables s) \<and> (live rm \<longrightarrow> find_room (tables s) i = Some rm)) (f rm) (\<lambda>_ s. I (tables s))"
  shows "keeps (\<lambda>s. I (tables s)) (attempt m f)"
proof (rule hoare_attempt)
  let ?R = "\<lambda>r s. I (tables s) \<and> (\<forall>rm. r = Inr rm \<longrightarrow> live rm \<longrightarrow> find_room (tables s) i = Some rm)"
  show "hoare (\<lambda>s. I (tables s)) m ?R"
  proof (rule hoareI)
    fix s :: svc assume I: "I (tables s)"
    obtain r s' where run: "run_state m s = (r, s')" by fastforce
    have "I (tables s')" using hoareD [OF keep I run] .
    moreover have "find_room (tables s') i = Some rm" if "r = Inr rm" "live rm" for rm
      using succD [OF live [OF I], of s rm s'] that run same_talk_ledger(4) [of "tables s" "tables s'"] by auto
    ultimately show "?R (fst (run_state m s)) (snd (run_state m s))" using run by simp
  qed
  show "hoare (?R (Inr rm)) (f rm) (\<lambda>_ s. I (tables s))" for rm
    by (rule hoare_conseq [OF rest]) auto
qed simp

lemma talk_closed:
  "I d \<and> (live rm \<longrightarrow> find_room d i = Some rm) \<Longrightarrow> same_talk d d' \<Longrightarrow> I d' \<and> (live rm \<longrightarrow> find_room d' i = Some rm)"
  using same same_talk_ledger(4) [of d d'] by auto

lemma succ_join_tx:
  assumes "room_State rm = RoomStateOpen" "room_AgentBID rm \<noteq> []"
  shows "succ (\<lambda>d. I d \<and> find_room d (room_ID rm) = Some rm) (join_tx C a rm) (\<lambda>_. I)"
  unfolding join_tx_def
  apply (rule succ_attempt [where R = "\<lambda>_. I"], rule succ_store, rule succ_UpdateRoom)
   apply (rule activate_update_I)
         apply (use assms in auto) [7]
  apply (intro succ_attempt_calm succ_bind_calm succ_ok calm_intros)
     apply (auto intro: same)
  done

lemma keeps_JoinRoom: "keeps (\<lambda>s. I (tables s)) (JoinRoom C a i)"
  unfolding JoinRoom_def
proof (rule keeps_loaded_with [OF keeps_load_room succ_load_room], assumption)
  fix rm
  let ?P = "\<lambda>d. I d \<and> (live rm \<longrightarrow> find_room d i = Some rm)"
  have tx: "hoare (\<lambda>s. ?P (tables s)) (WithTx RepoErr (join_tx C a rm)) (\<lambda>_ s. I (tables s))"
    if "room_State rm = RoomStateOpen" "room_AgentBID rm \<noteq> []"
    using that same same_rows_talk
    by (intro hoare_WithTx_to succ_conseq [OF succ_join_tx]) (auto simp: live_def intro: find_room_again)
  have weaken: "keeps (\<lambda>s. I (tables s)) m \<Longrightarrow> hoare (\<lambda>s. ?P (tables s)) m (\<lambda>_ s. I (tables s))" for m :: "'a prog"
    by (erule hoare_conseq) auto
  have pub: "keeps (\<lambda>s. I (tables s)) (publishRoomEvents evs)" for evs
    by (intro keeps_calm_I calm_intros)
  show "hoare (\<lambda>s. ?P (tables s)) (if \<not> is_participant rm a then fail ErrForbidden
    else if room_State rm = RoomStateClosed \<or> room_State rm = RoomStatePurged then fail ErrGone
    else do {
      modify (\<lambda>s. s\<lparr>joinedBy := (joinedBy s)(i := (joinedBy s i)(a := True))\<rparr>);
      js \<leftarrow> gets (\<lambda>s. joinedBy s i);
      let joined = buildJoinedMap rm js;
      if gm_get joined (room_AgentAID rm) = Some True \<and> gm_get joined (room_AgentBID rm) = Some True \<and>
         room_State rm = RoomStateOpen then
        attempt (WithTx RepoErr (join_tx C a rm)) (\<lambda>(updatedRoom, emitted).
        attempt (publishRoomEvents emitted) (\<lambda>_.
        attempt (sync_context (reconcileRoom C) C updatedRoom [] (room_ID updatedRoom)
          [(''room_id'', JStr (room_ID rm)), (''source'', JStr ''join_room_activate'')] 0) (\<lambda>_.
        ok (RoomStateActive, joined))))
      else
        attempt (sync_context (reconcileRoom C) C rm [] (room_ID rm)
          [(''room_id'', JStr (room_ID rm)), (''source'', JStr ''join_room'')] 0) (\<lambda>_.
        ok (room_State rm, joined)) }) (\<lambda>_ s. I (tables s))"
    unfolding Let_def
    apply (intro hoare_if hoare_fail hoare_bind_keep keeps_gets keeps_modify)
        apply simp_all
     apply (rule hoare_attempt_to, rule tx)
        apply (auto dest: buildJoinedMap_second intro!: keeps_case_prod keeps_attempt pub keeps_sync keeps_ok) [4]
    apply (rule weaken, intro keeps_attempt keeps_sync keeps_ok)
    done
qed

lemma turn_taken_I:
  assumes "I d0" "find_room d0 i = Some rm" "room_State rm = RoomStateActive" "turn_taken d0 i rm d"
  shows "I d"
proof -
  have "room_move (abs_room (t_messages d0) rm) (said (abs_room (t_messages d0) rm))"
    using assms(3) by (intro room_move.say) (simp add: abs_room_def)
  then show ?thesis
    using assms(4) ledger_find [OF assms(2)]
    by (intro step [OF assms(1)]) (auto simp: turn_taken_def intro: room_step.move)
qed

lemma hoare_send_loaded:
  "hoare (\<lambda>s. I (tables s) \<and> (live rm \<longrightarrow> find_room (tables s) i = Some rm)) (send_loaded C a i t c h rm)
     (\<lambda>_ s. I (tables s))"
proof -
  let ?P = "\<lambda>d. I d \<and> (live rm \<longrightarrow> find_room d i = Some rm)"
  have calm: "keeps (\<lambda>s. ?P (tables s)) m" if "calm m" for m :: "(svc, 'b) state"
    using that talk_closed by (rule keeps_calm)
  have tx: "hoare (\<lambda>s. ?P (tables s)) (WithTx RepoErr (send_tx C a i rm c dec b h k (wrap64 (room_TurnIndex rm + 1)) now))
      (\<lambda>_ s. I (tables s))"
    if "room_State rm = RoomStateActive" "expected_sender rm = a" for dec b k now
  proof (rule hoare_WithTx_to, rule succ_at)
    fix d0 assume d0: "?P d0"
    then have row: "I d0" "find_room d0 i = Some rm" using that(1) by (auto simp: live_def)
    show "succ (same_talk d0) (send_tx C a i rm c dec b h k (wrap64 (room_TurnIndex rm + 1)) now) (\<lambda>_. I)"
      by (rule succ_conseq [OF succ_send_tx [OF wf [OF row(1)] row(2) refl that(2) [symmetric]]])
        (use turn_taken_I [OF row that(1)] in auto)
  qed (use same same_rows_talk in blast)
  show ?thesis
    unfolding send_loaded_def Let_def
    apply (intro hoare_if hoare_fail hoare_bind_keep calm calm_intros; (simp; fail)?)
    apply (rule hoare_attempt_to, rule calm, intro calm_intros)
     apply (intro hoare_if hoare_fail; (simp; fail)?)
      apply (rule hoare_conseq, rule calm, intro calm_intros, assumption, simp)
     apply (rule hoare_attempt_to, rule calm, intro calm_intros)
      apply (rule hoare_case_prod)
      apply (rule hoare_attempt_to, rule calm, intro calm_intros)
       apply (rule hoare_attempt_to, rule tx)
          apply (auto intro: keeps_send_epilogue)
    done
qed

lemma keeps_SendMessage: "keeps (\<lambda>s. I (tables s)) (SendMessage C a i t c h)"
  unfolding SendMessage_eq
  by (intro keeps_if keeps_fail keeps_loaded_with [OF keeps_load_locked succ_load_locked] hoare_send_loaded)

section \<open>The calls that only reconcile\<close>

lemma keeps_reads:
  "keeps (\<lambda>s. I (tables s)) (GetPromptBundle C a i)" "keeps (\<lambda>s. I (tables s)) (GetRoomState C a i)"
  "keeps (\<lambda>s. I (tables s)) (RoomSnapshot C i)" "keeps (\<lambda>s. I (tables s)) (Transcript C i code)"
  "keeps (\<lambda>s. I (tables s)) (ListRoomEventHistory C a i k n)" "keeps (\<lambda>s. I (tables s)) (CreateRoomAccessToken C a i)"
  "keeps (\<lambda>s. I (tables s)) (ViewerJoin C i code)"
  unfolding GetPromptBundle_def GetRoomState_def RoomSnapshot_def Transcript_def ListRoomEventHistory_def
    CreateRoomAccessToken_def ViewerJoin_def Let_def
  by (intro keeps_attempt [OF keeps_load_room] keeps_load_room keeps_if keeps_fail; intro keeps_calm_I calm_intros)+

lemma keeps_RecordRoomContextFetch: "keeps (\<lambda>s. I (tables s)) (RecordRoomContextFetch C a i t)"
  unfolding RecordRoomContextFetch_def updateRoomContext_def
  by (intro keeps_if keeps_fail keeps_context_update_loop keeps_reconcileRoom calm_intros)

lemma keeps_sweep_loop: "keeps (\<lambda>s. I (tables s)) (sweep_loop C rms out)"
proof (induction rms arbitrary: out)
  case (Cons rm rms)
  show ?case
    unfolding sweep_loop.simps Let_def
    by (intro keeps_attempt [OF keeps_reconcileRoom] keeps_attempt Cons.IH) (intro keeps_calm_I calm_intros)
qed (simp add: keeps_ok)

lemma keeps_SweepLifecycle: "keeps (\<lambda>s. I (tables s)) (SweepLifecycle C n)"
  unfolding SweepLifecycle_def
  by (intro keeps_bind keeps_attempt keeps_sweep_loop) (intro keeps_calm_I calm_intros)+

lemma keeps_recover_loop: "keeps (\<lambda>s. I (tables s)) (recover_loop C a rms out)"
proof (induction rms arbitrary: out)
  case (Cons rm rms)
  show ?case
    unfolding recover_loop.simps
    by (intro keeps_attempt [OF keeps_reconcileRoom] keeps_attempt Cons.IH) (intro keeps_calm_I calm_intros)
qed (simp add: keeps_ok)

lemma keeps_ActionableRooms: "keeps (\<lambda>s. I (tables s)) (ActionableRooms C a)"
  unfolding ActionableRooms_def Let_def
  by (intro keeps_if keeps_fail keeps_bind keeps_attempt keeps_recover_loop) (intro keeps_calm_I calm_intros)+

end

end
