(* ===== verification/A2A_Examples.thy ===== *)
theory A2A_Examples
  imports A2A_Access
begin

text \<open>
  A concrete service for examples: the configuration of \<open>Task_Context\<close> with a hash and a cipher that are
  easy to evaluate, two agents, and an active room; no statement fails. And rules that run a program.
\<close>

definition ex_service :: svc_conf where
  "ex_service = ex_conf\<lparr>crypt := ex_crypto\<lparr>Sum256 := (\<lambda>_. ''x''), Seal := (\<lambda>k n p. p)\<rparr>\<rparr>"

definition ex_urls :: url_lib where
  "ex_urls = \<lparr>ParseURL = (\<lambda>_. None), StringURL = (\<lambda>_. []), Hostname = Host, loopbackIP = (\<lambda>_. False)\<rparr>"

definition ex_room :: Room where
  "ex_room = \<lparr>room_ID = ''r'', room_Topic = ''t'', room_AgentAID = ''a'', room_AgentBID = ''b'',
     room_State = RoomStateActive, room_TurnIndex = 0, room_MaxTurns = 2, room_TTLAt = 100, room_CreatedAt = 0,
     room_ClosedAt = None, room_PurgedAt = None, room_HumanCodeHash = [], room_HumanCodeExpiresAt = None,
     room_MessageKeyCiphertext = []\<rparr>"

definition ex_db :: db where
  "ex_db = \<lparr>t_agents = [\<lparr>agt_ID = ''a'', agt_Name = ''n'', agt_APIKeyHash = ''h'', agt_CreatedAt = 0\<rparr>,
      \<lparr>agt_ID = ''b'', agt_Name = ''m'', agt_APIKeyHash = ''k'', agt_CreatedAt = 0\<rparr>],
     t_sessions = [], t_listings = [], t_rooms = [ex_room],
     t_messages = [], t_contexts = [], t_viewers = [], t_events = [], t_deliveries = [], t_tokens = [],
     t_policy = [], t_leases = [], t_opens = [], t_hooks = emptyOutbox [], eventSeq = 0, deliverySeq = 0\<rparr>"
definition ex_svc :: svc where
  "ex_svc = \<lparr>tables = ex_db, auditRows = [], faults = (\<lambda>_. False), dbClock = int, stmts = 0, txTime = None,
     joinedBy = (\<lambda>_ _. False), agentWindows = Map.empty, roomWindows = Map.empty, policyWindows = Map.empty,
     blockedAgents = Map.empty, locksHeld = [], published = [], wallClock = (\<lambda>_. 1), wallTicks = 0,
     randoms = (\<lambda>_. []), randomDraws = 0\<rparr>"

definition ex_bundle :: Bundle where
  "ex_bundle = \<lparr>Prompt = [], BundleHash = ''78'', bOrderedStack = stack_markers, bSystemCoreHash = [],
     bGlobalRulesHash = [], bAgentRulesHash = [], bIdentityHash = [], bSoulHash = [], bUserHash = []\<rparr>"

lemma run_attempt: "run_state (attempt m f) s = (case run_state m s of (Inl e, s') \<Rightarrow> (Inl e, s') | (Inr x, s') \<Rightarrow> run_state (f x) s')"
  by (auto simp: attempt_def split: prod.splits sum.splits)

lemma run_query: "run_state (query f) s = (if faults s (stmts s) then (Inl driver_error, s\<lparr>stmts := Suc (stmts s)\<rparr>)
   else (f (tables s), s\<lparr>stmts := Suc (stmts s)\<rparr>))"
  by (auto simp: query_def stmt_def Let_def split: sum.splits)

lemma run_store: "run_state (store m) s = (case run_state m s of (Inl e, s') \<Rightarrow> (Inl (RepoErr e), s') | (Inr x, s') \<Rightarrow> (Inr x, s'))"
  by (auto simp: store_def mapErr_def split: prod.splits sum.splits)

lemma attempt_ok: "attempt (ok x) f = f x"
  by (rule state_ext) (simp add: attempt_def ok_def)

section \<open>A message in the example room\<close>

definition ex_at :: "nat \<Rightarrow> nat \<Rightarrow> svc" where
  "ex_at n t = ex_svc\<lparr>stmts := n, wallTicks := t\<rparr>"

lemma ex_now: "run_state s_now (ex_at n t) = (1, ex_at n (Suc t))"
  by (simp add: s_now_def ex_at_def ex_svc_def)

lemma ex_build:
  "\<exists>b. run_state (buildBundleForRoom ex_service ex_room ''a'') (ex_at (Suc 0) (Suc (Suc (Suc 0)))) =
    (Inr (b, 0), ex_at (Suc (Suc (Suc 0))) (Suc (Suc (Suc 0)))) \<and> b\<lparr>Prompt := []\<rparr> = ex_bundle"
proof -
  have "hexEncode ''x'' = ''78''" by code_simp
  then show ?thesis
    by (simp add: buildBundleForRoom_def context_last_actor_def GetRoomContext_def run_query run_attempt normalizeErr_row_def
      find_context_def store_def mapErr_def ListRecentRoomMessages_def room_messages_def cipher_result_def ok_def
      decryptRoomMessages_def roomMessageCipher_def ex_at_def ex_svc_def ex_db_def Let_def ex_room_def Build_def hashText_def
      ex_service_def ex_conf_def ex_builder_def ex_bundle_def)
qed

lemma ex_commit:
  "(\<lambda>r. (isl (fst r), find_room (tables (snd r)) ''r'')) (run_state (attempt (WithTx RepoErr (send_tx ex_service ''a'' ''r'' ex_room ''hi''
       \<lparr>Allowed = True, Code = [], Reason = []\<rparr> ex_bundle ''78'' 0 1 1))
     (send_epilogue ex_service ''a'' ''r'' ex_bundle 0 1)) (ex_at (Suc (Suc (Suc 0))) (Suc (Suc (Suc 0))))) =
   (False, Some (ex_room\<lparr>room_TurnIndex := 1, room_MessageKeyCiphertext := ''enc:v1:v1:bWtf''\<rparr>))"
  by code_simp

end
