(* ===== verification/A2A_Spec.thy ===== *)
theory A2A_Spec
  imports A2A_Machine A2A_Examples
begin

text \<open>
  The service as a whole: its calls as one datatype, the interpretations of the contract \<open>served\<close>, and
  the properties that follow - the refinement of the machine of rooms, the turn-taking of transcripts,
  what an accepted message does, and what happens to policy violations.
\<close>

section \<open>The calls\<close>

datatype svc_op =
    OpRegister string
  | OpLogin string
  | OpAuth string
  | OpRoomAuth string string string
  | OpCreateListing string string "string list" int int
  | OpConnect string string
  | OpJoin string string
  | OpBundle string string
  | OpSend string string int string string
  | OpState string string
  | OpSnapshot string
  | OpTranscript string string
  | OpFetch string string int
  | OpHistory string string int int
  | OpClose string string
  | OpSweep int
  | OpToken string string
  | OpActionable string
  | OpResume string string
  | OpPending string int int
  | OpAck string string
  | OpCreateEndpoint string string string string bool
  | OpListEndpoints string
  | OpDeleteEndpoint string string
  | OpViewerJoin string string
  | OpViewerHeartbeat string string
  | OpViewerLeave string string

definition after :: "'a prog \<Rightarrow> svc \<Rightarrow> svc" where
  "after m s = snd (run_state m s)"

fun svc_step :: "svc_conf \<Rightarrow> url_lib \<Rightarrow> svc_op \<Rightarrow> svc \<Rightarrow> svc" where
  "svc_step C U (OpRegister n) = after (RegisterAgent C n)"
| "svc_step C U (OpLogin k) = after (Login C k)"
| "svc_step C U (OpAuth b) = after (AuthAgentID b)"
| "svc_step C U (OpRoomAuth b i act) = after (AuthRoomAccess C b i act)"
| "svc_step C U (OpCreateListing a topic tags mx ttl) = after (CreateListing C a topic tags mx ttl)"
| "svc_step C U (OpConnect a l) = after (ConnectListing C a l)"
| "svc_step C U (OpJoin a i) = after (JoinRoom C a i)"
| "svc_step C U (OpBundle a i) = after (GetPromptBundle C a i)"
| "svc_step C U (OpSend a i t c h) = after (SendMessage C a i t c h)"
| "svc_step C U (OpState a i) = after (GetRoomState C a i)"
| "svc_step C U (OpSnapshot i) = after (RoomSnapshot C i)"
| "svc_step C U (OpTranscript i code) = after (Transcript C i code)"
| "svc_step C U (OpFetch a i t) = after (RecordRoomContextFetch C a i t)"
| "svc_step C U (OpHistory a i k n) = after (ListRoomEventHistory C a i k n)"
| "svc_step C U (OpClose a i) = after (CloseRoom C a i)"
| "svc_step C U (OpSweep n) = after (SweepLifecycle C n)"
| "svc_step C U (OpToken a i) = after (CreateRoomAccessToken C a i)"
| "svc_step C U (OpActionable a) = after (ActionableRooms C a)"
| "svc_step C U (OpResume a i) = after (ResolveAgentStreamResume C a i)"
| "svc_step C U (OpPending a k n) = after (ListPendingDeliveries a k n)"
| "svc_step C U (OpAck a i) = after (AckDelivery a i)"
| "svc_step C U (OpCreateEndpoint a u sec k en) = after (CreateEndpoint C U a u sec k en)"
| "svc_step C U (OpListEndpoints a) = after (ListEndpoints a)"
| "svc_step C U (OpDeleteEndpoint a i) = after (DeleteEndpoint a i)"
| "svc_step C U (OpViewerJoin i code) = after (ViewerJoin C i code)"
| "svc_step C U (OpViewerHeartbeat i v) = after (ViewerHeartbeat C i v)"
| "svc_step C U (OpViewerLeave i v) = after (ViewerLeave C i v)"

text \<open>The agent of a call comes from authentication; the service relies on it not being blank.\<close>

fun op_ok :: "svc_op \<Rightarrow> bool" where
  "op_ok (OpConnect a l) \<longleftrightarrow> TrimSpace a \<noteq> []"
| "op_ok _ \<longleftrightarrow> True"

context served
begin

lemma svc_step_I:
  assumes "op_ok op" and "I (tables s)"
  shows "I (tables (svc_step C U op s))"
  using assms hoare_snd [OF keeps_calm_I [OF calm_access(1)]] hoare_snd [OF keeps_calm_I [OF calm_access(2)]]
    hoare_snd [OF keeps_calm_I [OF calm_access(3)]] hoare_snd [OF keeps_calm_I [OF calm_AuthRoomAccess]]
    hoare_snd [OF keeps_calm_I [OF calm_access(5)]] hoare_snd [OF keeps_calm_I [OF calm_access(6)]]
    hoare_snd [OF keeps_calm_I [OF calm_access(7)]] hoare_snd [OF keeps_calm_I [OF calm_access(8)]]
    hoare_snd [OF keeps_calm_I [OF calm_access(9)]] hoare_snd [OF keeps_calm_I [OF calm_access(10)]]
    hoare_snd [OF keeps_calm_I [OF calm_access(11)]] hoare_snd [OF keeps_calm_I [OF calm_access(12)]]
    hoare_snd [OF keeps_CreateListing] hoare_snd [OF keeps_ConnectListing] hoare_snd [OF keeps_JoinRoom]
    hoare_snd [OF keeps_SendMessage] hoare_snd [OF keeps_CloseRoom] hoare_snd [OF keeps_SweepLifecycle]
    hoare_snd [OF keeps_ActionableRooms] hoare_snd [OF keeps_RecordRoomContextFetch]
    hoare_snd [OF keeps_reads(1)] hoare_snd [OF keeps_reads(2)] hoare_snd [OF keeps_reads(3)]
    hoare_snd [OF keeps_reads(4)] hoare_snd [OF keeps_reads(5)] hoare_snd [OF keeps_reads(6)]
    hoare_snd [OF keeps_reads(7)]
  by (cases op) (simp_all add: after_def)

lemma svc_run_I:
  "list_all op_ok ops \<Longrightarrow> I (tables s) \<Longrightarrow> I (tables (fold (svc_step C U) ops s))"
  by (induction ops arbitrary: s) (auto intro: svc_step_I)

end

section \<open>Interpretations\<close>

text \<open>The histories of the machine, once with all steps and once with closing and purging only.\<close>

interpretation hist: served "\<lambda>d. rooms_wf d \<and> room_step\<^sup>*\<^sup>* m0 (ledger d)" for m0
  by unfold_locales (auto intro: rtranclp.rtrancl_into_rtrancl tidy_is_room_step)

interpretation tidyhist: tidied "\<lambda>d. rooms_wf d \<and> tidy_step\<^sup>*\<^sup>* m0 (ledger d)" for m0
  by unfold_locales (auto intro: rtranclp.rtrancl_into_rtrancl)

text \<open>The policy records.\<close>

interpretation pol: served "\<lambda>d. rooms_wf d \<and> t_policy d = c" for c
  by unfold_locales auto

text \<open>
  C1. The service refines the machine of rooms. Whatever call is made, whichever statements fail, and whether it
  returns a value, an error or never returns, what it leaves in the tables of rooms and messages is reached
  by steps of the machine: rooms are created open, or active with two parties; the second party is set once;
  a message is the next turn of the party whose turn it is and closes the room at its last turn; rooms are
  closed, and purged once closed, with their messages. The tables stay well formed.
\<close>

theorem service_refines_rooms:
  assumes "op_ok op" and "rooms_wf (tables s)"
  shows "room_step\<^sup>*\<^sup>* (ledger (tables s)) (ledger (tables (svc_step C U op s))) \<and>
    rooms_wf (tables (svc_step C U op s))"
  using hist.svc_step_I [OF assms(1), of s "ledger (tables s)" C U] assms(2) by simp

lemma ex_rooms_wf: "rooms_wf (tables ex_svc)"
proof -
  have "TrimSpace ''b'' = ''b''" by code_simp
  then show ?thesis by (simp add: rooms_wf_def ex_svc_def ex_db_def ex_room_def)
qed

theorem service_refines_rooms_witness:
  "room_step\<^sup>*\<^sup>* (ledger ex_db) (ledger (tables (svc_step ex_service ex_urls (OpClose ''a'' ''r'') ex_svc)))"
  using service_refines_rooms [of "OpClose ''a'' ''r''" ex_svc ex_service ex_urls] ex_rooms_wf
  by (simp add: ex_svc_def)

text \<open>A room in which nobody has spoken.\<close>

definition untouched :: "Room \<Rightarrow> bool" where
  "untouched r \<longleftrightarrow> room_TurnIndex r = 0 \<and> TrimSpace (room_AgentBID r) = room_AgentBID r \<and>
     (room_AgentBID r = [] \<longrightarrow> room_State r \<noteq> RoomStateActive)"

text \<open>
  C5. Transcripts in the database take turns. Start the service on a database without messages, in which no
  room has had a turn (without any rooms, for instance), and make any calls, whichever statements fail. Then the messages of a room that is not purged are, in the order
  they were stored, those of turns 0, 1, 2, ... up to the room's turn counter, the even ones from the agent
  that owns the listing and the odd ones from the agent that connected; and there are never more of them
  than the room's maximum of turns (one, if the maximum is less than that).
\<close>

theorem sql_transcript_alternates:
  assumes "t_messages (tables s) = []" and "list_all untouched (t_rooms (tables s))" and "list_all op_ok ops"
    and "find_room (tables (fold (svc_step C U) ops s)) i = Some r"
    and "room_State r \<noteq> RoomStatePurged" and "room_MaxTurns r \<le> max64"
  shows "map (\<lambda>m. (msg_Turn m, msg_SenderID m))
      (filter (\<lambda>m. msg_RoomID m = i) (t_messages (tables (fold (svc_step C U) ops s)))) =
    map (\<lambda>k. (int k, if even k then room_AgentAID r else room_AgentBID r)) [0..<nat (room_TurnIndex r)] \<and>
    0 \<le> room_TurnIndex r \<and> room_TurnIndex r \<le> max 1 (room_MaxTurns r)"
proof -
  let ?d = "tables (fold (svc_step C U) ops s)"
  have start: "rooms_wf (tables s)" "\<forall>r \<in> ran (ledger (tables s)). aroom_inv r"
    using assms(1,2) by (auto simp: rooms_wf_def ledger_def ran_def list_all_iff untouched_def aroom_inv_def abs_room_def
      dest!: find_room_SomeD)
  then have "room_step\<^sup>*\<^sup>* (ledger (tables s)) (ledger ?d)"
    using hist.svc_run_I [OF assms(3), of s "ledger (tables s)"] by simp
  then have "\<forall>r \<in> ran (ledger ?d). aroom_inv r"
    using start(2) by (rule aroom_inv_steps)
  moreover have "abs_room (t_messages ?d) r \<in> ran (ledger ?d)"
    using ledger_find [OF assms(4)] by (rule ranI)
  ultimately have "aroom_inv (abs_room (t_messages ?d) r)" by blast
  then show ?thesis
    using assms(4-6) find_room_SomeD [OF assms(4)] by (auto simp: aroom_inv_def abs_room_def turns_def max_def)
qed

lemma ex_load: "run_state (load_locked ex_service ''r'') ex_svc = (Inr ex_room, ex_at (Suc 0) (Suc 0))"
  by (simp add: load_locked_def store_nf_def mapErr_def GetRoom_def run_query run_attempt normalizeErr_row_def find_room_def
    reconcileRoomLocked_def reconcile_with_def reconcile_open_def s_now_def ok_def ex_at_def ex_svc_def ex_db_def ex_room_def)

lemma send_prompt_irrelevant:
  "send_tx C a i rm c dec b h k n now = send_tx C a i rm c dec (b\<lparr>Prompt := []\<rparr>) h k n now"
  "send_epilogue C a i b k n = send_epilogue C a i (b\<lparr>Prompt := []\<rparr>) k n"
proof -
  have "BundleHash (b\<lparr>Prompt := []\<rparr>) = BundleHash b" by simp
  then show "send_tx C a i rm c dec b h k n now = send_tx C a i rm c dec (b\<lparr>Prompt := []\<rparr>) h k n now"
    unfolding send_tx_def shared_checks_def by presburger
qed (simp add: send_epilogue_def [abs_def])

lemma ex_send:
  "run_state (SendMessage ex_service ''a'' ''r'' 0 ''hi'' ''78'') ex_svc =
   run_state (attempt (WithTx RepoErr (send_tx ex_service ''a'' ''r'' ex_room ''hi''
       \<lparr>Allowed = True, Code = [], Reason = []\<rparr> ex_bundle ''78'' 0 1 1))
     (send_epilogue ex_service ''a'' ''r'' ex_bundle 0 1)) (ex_at (Suc (Suc (Suc 0))) (Suc (Suc (Suc 0))))"
proof -
  obtain b where b: "run_state (buildBundleForRoom ex_service ex_room ''a'') (ex_at (Suc 0) (Suc (Suc (Suc 0)))) =
    (Inr (b, 0), ex_at (Suc (Suc (Suc 0))) (Suc (Suc (Suc 0))))" "b\<lparr>Prompt := []\<rparr> = ex_bundle"
    using ex_build by blast
  have t: "TrimSpace ''hi'' = ''hi''" "TrimSpace ''78'' = ''78''" by code_simp+
  have dec: "EvaluateMessageForPersist (uniLower ex_service) ''hi'' = \<lparr>Allowed = True, Code = [], Reason = []\<rparr>"
    by code_simp
  have sh: "shared ex_service" by (simp add: ex_service_def ex_conf_def)
  have rm: "is_participant ex_room ''a''" "room_State ex_room = RoomStateActive" "room_TTLAt ex_room = 100"
    "room_TurnIndex ex_room = 0" "expected_sender ex_room = ''a''"
    by (simp_all add: is_participant_def ex_room_def expected_sender_def)
  show ?thesis
    unfolding SendMessage_eq t send_loaded_def [abs_def] dec Let_def
    by (simp add: run_attempt [of "load_locked ex_service ''r''"] ex_load rm ex_now sh
      attempt_ok wrap64_def run_attempt [of "buildBundleForRoom ex_service ex_room ''a''"] b(1)
      send_prompt_irrelevant(1) [of _ _ _ _ _ _ b] send_prompt_irrelevant(2) [of _ _ _ b] b(2))
qed

text \<open>After one message the transcript has one entry, of the owner of the listing.\<close>

theorem sql_transcript_alternates_witness:
  "map (\<lambda>m. (msg_Turn m, msg_SenderID m)) (filter (\<lambda>m. msg_RoomID m = ''r'')
     (t_messages (tables (fold (svc_step ex_service ex_urls) [OpSend ''a'' ''r'' 0 ''hi'' ''78''] ex_svc)))) = [(0, ''a'')]"
proof -
  let ?r = "ex_room\<lparr>room_TurnIndex := 1, room_MessageKeyCiphertext := ''enc:v1:v1:bWtf''\<rparr>"
  have "find_room (tables (fold (svc_step ex_service ex_urls) [OpSend ''a'' ''r'' 0 ''hi'' ''78''] ex_svc)) ''r'' = Some ?r"
    using ex_commit by (simp add: after_def ex_send)
  moreover have "list_all untouched (t_rooms (tables ex_svc))" "t_messages (tables ex_svc) = []"
    using ex_rooms_wf by (simp_all add: untouched_def rooms_wf_def ex_svc_def ex_db_def) (simp_all add: ex_room_def)
  ultimately show ?thesis
    using sql_transcript_alternates [of ex_svc "[OpSend ''a'' ''r'' 0 ''hi'' ''78'']" ex_service ex_urls "''r''" ?r]
    by (simp add: ex_room_def max64_def del: fold_Cons)
qed

section \<open>Sending\<close>

text \<open>What a successful \<open>SendMessage\<close> has done, from the tables \<open>d0\<close> it found.\<close>

definition accepted :: "svc_conf \<Rightarrow> string \<Rightarrow> string \<Rightarrow> int \<Rightarrow> string \<Rightarrow> string \<Rightarrow> db \<Rightarrow> SendMessageResult \<Rightarrow> db \<Rightarrow> bool" where
  "accepted C a i t c h d0 res d \<longleftrightarrow> (\<exists>rm. find_room d0 i = Some rm \<and>
     room_State rm = RoomStateActive \<and> room_TurnIndex rm = t \<and> expected_sender rm = a \<and>
     Allowed (EvaluateMessageForPersist (uniLower C) c) \<and> EqualFold (uniFold C) (smr_BundleHash res) h \<and>
     msg_RoomID (smr_Message res) = i \<and> msg_SenderID (smr_Message res) = a \<and> msg_Turn (smr_Message res) = t \<and>
     msg_Ciphertext (smr_Message res) = c \<and> smr_NextTurn res = wrap64 (t + 1) \<and>
     smr_RoomState res = (if wrap64 (t + 1) \<ge> room_MaxTurns rm then RoomStateClosed else RoomStateActive) \<and>
     tidy_step\<^sup>*\<^sup>* ((ledger d0)(i \<mapsto> said (abs_room (t_messages d0) rm))) (ledger d))"

lemma succ_send_epilogue:
  assumes "sent a i rm c res" and "rooms_wf d0"
  shows "succ (turn_taken d0 i rm) (send_epilogue C a i b n k res) (\<lambda>r d.
    tidy_step\<^sup>*\<^sup>* ((ledger d0)(i \<mapsto> said (abs_room (t_messages d0) rm))) (ledger d) \<and>
    smr_Message r = fst res \<and> smr_RoomState r = fst (snd (snd res)) \<and> smr_NextTurn r = k \<and> smr_BundleHash r = BundleHash b)"
proof -
  let ?J = "\<lambda>d. rooms_wf d \<and> tidy_step\<^sup>*\<^sup>* ((ledger d0)(i \<mapsto> said (abs_room (t_messages d0) rm))) (ledger d)"
  obtain msg u st evs where res: "res = (msg, u, st, evs)" by (metis prod_cases4)
  have same: "?J d \<Longrightarrow> same_talk d d' \<Longrightarrow> ?J d'" for d d'
    by (rule tidyhist.same)
  have "succ ?J (send_epilogue C a i b n k res) (\<lambda>r d. ?J d \<and>
    (smr_Message r = fst res \<and> smr_RoomState r = fst (snd (snd res)) \<and> smr_NextTurn r = k \<and> smr_BundleHash r = BundleHash b))"
    unfolding send_epilogue_def res prod.case
    apply (rule succ_attempt_calm, intro calm_intros, erule (1) same)
    apply (rule succ_attempt [OF succ_keeps [OF tidyhist.keeps_sync]])
    apply (rule succ_bind_calm, intro calm_intros, erule (1) same)
    apply (rule succ_attempt_calm, intro calm_intros, erule (1) same)
    apply (rule succ_ok, erule conjI, simp)
    done
  then show ?thesis
    by (rule succ_conseq) (auto simp: turn_taken_def)
qed

lemma succ_send_loaded:
  assumes wf: "rooms_wf d0" and row: "live rm \<Longrightarrow> find_room d0 i = Some rm"
  shows "succ (\<lambda>d. live rm \<longrightarrow> same_talk d0 d) (send_loaded C a i t c h rm) (accepted C a i t c h d0)"
proof (cases "room_State rm = RoomStateActive")
  case False
  then show ?thesis
    unfolding send_loaded_def by (intro succ_if succ_fail) simp_all
next
  case True
  then have live: "live rm" "find_room d0 i = Some rm" using row by (auto simp: live_def)
  have st: "same_talk d0 d \<Longrightarrow> same_talk d d' \<Longrightarrow> same_talk d0 d'" for d d' by (rule same_talk_trans)
  have fin: "succ (same_talk d0) (attempt (WithTx RepoErr (send_tx C a i rm c (EvaluateMessageForPersist (uniLower C) c) b h k
        (wrap64 (room_TurnIndex rm + 1)) now)) (send_epilogue C a i b k (wrap64 (room_TurnIndex rm + 1))))
      (accepted C a i t c h d0)"
    if "t = room_TurnIndex rm" "expected_sender rm = a"
      "\<not> shared C \<longrightarrow> cleared C (EvaluateMessageForPersist (uniLower C) c) b h" for b k now
    apply (rule succ_attempt, rule succ_WithTx, rule succ_send_tx [OF wf live(2) refl that(2) [symmetric]])
    apply (rule succ_pure, rule succ_pure)
    apply (rule succ_conseq [OF succ_send_epilogue [OF _ wf]], assumption+)
    apply (use that live(2) True in \<open>auto simp: accepted_def sent_def cleared_def split: prod.splits\<close>)
    done
  have "succ (same_talk d0) (send_loaded C a i t c h rm) (accepted C a i t c h d0)"
    unfolding send_loaded_def Let_def
    apply (intro succ_if succ_fail)
    apply (rule succ_bind_calm, intro calm_intros, erule (1) st)
    apply (intro succ_if succ_fail)
    apply (rule succ_bind_calm, intro calm_intros, erule (1) st)
    apply (rule succ_attempt_calm, intro calm_intros, erule (1) st)
    apply (intro succ_if succ_fail)
     apply (rule succ_rejected, intro calm_intros)
    apply (rule succ_attempt_calm, intro calm_intros, erule (1) st)
    apply (rule succ_case_prod)
    subgoal for _ now _ bk b k
      apply (rule succ_attempt [where R = "\<lambda>_ d. same_talk d0 d \<and>
        (\<not> shared C \<longrightarrow> cleared C (EvaluateMessageForPersist (uniLower C) c) b h)"])
       apply (intro succ_if succ_ok succ_conseq [OF succ_local_verdict [of "same_talk d0"]])
          apply (auto intro: st) [4]
      apply (rule succ_pure, rule fin)
        apply auto
      done
    done
  then show ?thesis using live(1) by simp
qed

text \<open>
  C4. What an accepted message means, in a single instance and with shared coordination. When \<open>SendMessage\<close>
  returns a result, the room was active with the turn the caller expected and the caller was the party whose
  turn it was; the trimmed text passed the policy and the quoted hash is the hash of the room's current
  prompt bundle; the result holds the stored message with its turn, the next turn, and the state, closed
  when the maximum of turns is reached. The tables are those of one turn taken in that room, possibly
  followed by rooms being closed or purged by the reconciliation that the context update triggers.
\<close>

theorem sql_message_accepted:
  assumes "rooms_wf (tables s)" and "run_state (SendMessage C a i t c h) s = (Inr res, s')"
  shows "accepted C a i t (TrimSpace c) (TrimSpace h) (tables s) res (tables s')"
proof -
  let ?d0 = "tables s"
  have "succ (same_talk ?d0) (load_locked C i) (\<lambda>rm d. (live rm \<longrightarrow> same_talk ?d0 d) \<and>
      (live rm \<longrightarrow> find_room ?d0 i = Some rm))"
    by (rule succ_conseq [OF hist.succ_load_locked [of _ "ledger ?d0"]]) (use assms(1) in auto)
  then have "succ (same_talk ?d0) (SendMessage C a i t c h) (accepted C a i t (TrimSpace c) (TrimSpace h) ?d0)"
    unfolding SendMessage_eq
    by (intro succ_if succ_fail succ_attempt [where R = "\<lambda>rm d. (live rm \<longrightarrow> same_talk ?d0 d) \<and>
      (live rm \<longrightarrow> find_room ?d0 i = Some rm)"] succ_pure succ_send_loaded assms(1)) simp_all
  from succD [OF this _ assms(2)] show ?thesis by simp
qed

theorem sql_message_accepted_witness:
  "\<exists>res s'. run_state (SendMessage ex_service ''a'' ''r'' 0 ''hi'' ''78'') ex_svc = (Inr res, s') \<and>
     accepted ex_service ''a'' ''r'' 0 ''hi'' ''78'' ex_db res (tables s')"
proof -
  have t: "TrimSpace ''hi'' = ''hi''" "TrimSpace ''78'' = ''78''" by code_simp+
  obtain res s' where run: "run_state (SendMessage ex_service ''a'' ''r'' 0 ''hi'' ''78'') ex_svc = (Inr res, s')"
    using ex_commit unfolding ex_send [symmetric]
    by (cases "run_state (SendMessage ex_service ''a'' ''r'' 0 ''hi'' ''78'') ex_svc"; cases "fst (run_state (SendMessage ex_service ''a'' ''r'' 0 ''hi'' ''78'') ex_svc)") auto
  from sql_message_accepted [OF ex_rooms_wf run] run show ?thesis
    unfolding t by (auto simp: ex_svc_def)
qed

section \<open>Policy violations\<close>



end
