(* ===== verification/A2A_Limits.thy ===== *)
theory A2A_Limits
  imports A2A_Examples
begin

text \<open>
  The limits on messages that a single instance keeps in memory: \<open>allowAgentMessageLocked\<close> and
  \<open>allowRoomMessageLocked\<close> are sliding windows, so they satisfy the contract of \<open>Rate_Window\<close>.
\<close>

section \<open>The two windows\<close>

definition agent_allow :: "svc \<Rightarrow> string \<Rightarrow> time \<Rightarrow> bool \<times> svc" where
  "agent_allow s k now = run_state (allowAgentMessageLocked k now) s"

definition room_allow :: "svc \<Rightarrow> string \<Rightarrow> time \<Rightarrow> bool \<times> svc" where
  "room_allow s k now = run_state (allowRoomMessageLocked k now) s"

interpretation arl: rate_limiter agent_allow "\<lambda>s. window_of (agentWindows s)" maxMessagesPerMinuteAgent Minute
  by unfold_locales
    (auto simp: agent_allow_def allowAgentMessageLocked_def Let_def window_of_def Minute_def split: if_splits)

interpretation rrl: rate_limiter room_allow "\<lambda>s. window_of (roomWindows s)" maxMessagesPerMinuteRoom Minute
  by unfold_locales
    (auto simp: room_allow_def allowRoomMessageLocked_def Let_def window_of_def Minute_def split: if_splits)

lemma window_of_None [simp]: "w k = None \<Longrightarrow> window_of w k = []"
  by (simp add: window_of_def)

text \<open>
  C31. A single instance lets at most 30 messages of an agent and at most 60 messages of a room pass in any
  minute, counting from an instance that has seen neither, whatever requests come in time order; and it
  refuses a message only when the agent, or the room, already had that many in the last minute.
\<close>

theorem service_rates_limited:
  assumes "agentWindows s ag = None" and "roomWindows s rid = None"
    and "sorted (map snd (cs @ [(ag, now)]))" and "sorted (map snd (ds @ [(rid, later)]))"
  shows "length (filter (\<lambda>t. T - Minute < t \<and> t \<le> T) (rl_grants agent_allow ag s cs)) \<le> 30 \<and>
    length (filter (\<lambda>t. T - Minute < t \<and> t \<le> T) (rl_grants room_allow rid s ds)) \<le> 60 \<and>
    (\<not> fst (agent_allow (rl_run agent_allow s cs) ag now) \<longrightarrow>
      30 \<le> length (filter (\<lambda>t. now - Minute < t \<and> t \<le> now) (rl_grants agent_allow ag s cs))) \<and>
    (\<not> fst (room_allow (rl_run room_allow s ds) rid later) \<longrightarrow>
      60 \<le> length (filter (\<lambda>t. later - Minute < t \<and> t \<le> later) (rl_grants room_allow rid s ds)))"
  using arl.grants_bounded [of s ag cs T] arl.refused_full [of s ag cs now]
    rrl.grants_bounded [of s rid ds T] rrl.refused_full [of s rid ds later] assms
  by (simp add: maxMessagesPerMinuteAgent_def maxMessagesPerMinuteRoom_def sorted_append)

theorem service_rates_limited_witness:
  "length (filter (\<lambda>t. 31 - Minute < t \<and> t \<le> 31)
     (rl_grants agent_allow ''a'' ex_svc (map (\<lambda>i. (''a'', int i)) [0..<40]))) \<le> 30"
proof -
  have "sorted (map snd (map (\<lambda>i. (''a'', int i)) [0..<40] @ [(''a'', 40)]))"
    by (simp add: upt_rec numeral_eq_Suc)
  moreover have "agentWindows ex_svc ''a'' = None" "roomWindows ex_svc ''r'' = None"
    by (simp_all add: ex_svc_def)
  moreover have "sorted (map snd ([] @ [(''r'', 0 :: int)]))" by simp
  ultimately show ?thesis
    using service_rates_limited by blast
qed

end
