(* ===== verification/A2A_Reconcile.thy ===== *)
theory A2A_Reconcile
  imports A2A_Tidy A2A_Examples
begin

text \<open>
  The recursion of reconciliation. \<open>reconcileRoom\<close> holds the mutex of the room while it updates the room
  context, and the context update loads the room through \<open>reconcileRoom\<close> again: the inner call finds the
  mutex held and never returns. So the recursion is never deeper than one call, whatever the fuel of the
  model, and a call that has something to write never comes back.
\<close>

section \<open>Steady programs\<close>

text \<open>Programs that leave the held mutexes and the failing statements alone.\<close>

definition steady :: "(svc, 'a) state \<Rightarrow> bool" where
  "steady m \<longleftrightarrow> (\<forall>s. locksHeld (snd (run_state m s)) = locksHeld s \<and> faults (snd (run_state m s)) = faults s)"

named_theorems steady_intros \<open>introduction rules for steady programs\<close>

lemma steady_calm: "calm m \<Longrightarrow> steady m"
  by (simp add: calm_def steady_def)

lemma steadyD: "steady m \<Longrightarrow> run_state m s = (x, s') \<Longrightarrow> locksHeld s' = locksHeld s \<and> faults s' = faults s"
  unfolding steady_def by (metis snd_conv)

lemma steady_bind: "steady m \<Longrightarrow> (\<And>x. steady (f x)) \<Longrightarrow> steady (State_Monad.bind m f)"
  unfolding steady_def by (auto split: prod.splits) (metis snd_conv)+

lemma steady_attempt [steady_intros]: "steady m \<Longrightarrow> (\<And>x. steady (f x)) \<Longrightarrow> steady (attempt m f)"
  unfolding attempt_def by (rule steady_bind) (auto simp: steady_def split: sum.splits)

lemma steady_stmt [steady_intros]: "steady (stmt f)"
  by (auto simp: steady_def stmt_def Let_def split: sum.splits)

lemma steady_exec [steady_intros]: "steady (exec f)"
  unfolding exec_def by (rule steady_stmt)

lemma steady_store [steady_intros]: "steady m \<Longrightarrow> steady (store m)"
  unfolding store_def mapErr_def by (rule steady_bind) (simp_all add: steady_def)

lemma steady_if [steady_intros]: "steady m \<Longrightarrow> steady n \<Longrightarrow> steady (if b then m else n)"
  by simp

lemma steady_UpdateRoom [steady_intros]: "steady (UpdateRoom inp)"
  unfolding UpdateRoom_def by (intro steady_attempt steady_stmt steady_calm calm_intros)

lemma steady_PurgeRoomContent [steady_intros]: "steady (PurgeRoomContent i t)"
  unfolding PurgeRoomContent_def by (intro steady_intros)

lemma steady_WithTx [steady_intros]:
  assumes "steady fn"
  shows "steady (WithTx wrap fn)"
  unfolding steady_def
proof
  fix s :: svc
  let ?s1 = "s\<lparr>stmts := Suc (stmts s), txTime := Some (dbClock s (stmts s))\<rparr>"
  obtain r s2 where run: "run_state fn ?s1 = (r, s2)" by fastforce
  with steadyD [OF assms this] show "locksHeld (snd (run_state (WithTx wrap fn) s)) = locksHeld s \<and>
      faults (snd (run_state (WithTx wrap fn) s)) = faults s"
    by (cases r) (auto simp: WithTx_def BeginTx_def Commit_def Rollback_def)
qed

lemma steady_close_steps [steady_intros]: "steady (close_steps C i a w t)"
  unfolding close_steps_def
  by (intro steady_attempt steady_store steady_UpdateRoom) (intro steady_calm calm_intros)+

lemma steady_expire_tx [steady_intros]: "steady (expire_tx C rm now)"
  unfolding expire_tx_def
  by (intro steady_attempt steady_if steady_close_steps) (intro steady_calm calm_intros)+

section \<open>The room that is closed\<close>

text \<open>The transaction works on the room it was given: it returns that room and leaves it in the table.\<close>

lemma has_room_set_room: "(\<And>x. room_ID (f x) = room_ID x) \<Longrightarrow> has_room (set_room i f d) j = has_room d j"
  by (auto simp: has_room_find find_room_set_room)

lemma same_talk_has_room: "has_room d i \<Longrightarrow> same_talk d d' \<Longrightarrow> has_room d' i"
  by (auto simp: same_talk_def has_room_def)

lemma succ_close_steps_room:
  "succ (\<lambda>d. has_room d i) (close_steps C i a w t) (\<lambda>(u, evs) d. has_room d i \<and> room_ID u = i)"
  unfolding close_steps_def
  apply (rule succ_attempt [where R = "\<lambda>u d. has_room d i \<and> room_ID u = i"], rule succ_store, rule succ_UpdateRoom)
   apply (auto simp: has_room_set_room dest: find_room_SomeD) [1]
  apply (intro succ_attempt_calm succ_ok calm_intros)
  apply (auto intro: same_talk_has_room)
  done

lemma succ_expire_tx_room:
  "succ (\<lambda>d. True) (expire_tx C rm now) (\<lambda>(u, evs) d. has_room d (room_ID rm) \<and> room_ID u = room_ID rm)"
  unfolding expire_tx_def
  apply (rule succ_attempt [OF succ_trivial])
  apply (rule succ_attempt [where R = "\<lambda>c d. has_room d (room_ID rm) \<and> room_ID c = room_ID rm"], rule succ_store, rule succ_GetRoom)
   apply (auto simp: has_room_find dest: find_room_SomeD) [1]
  apply (intro succ_if succ_ok succ_conseq [OF succ_close_steps_room])
    apply auto
  done

section \<open>Reconciling with the mutex held\<close>

abbreviation held :: "string \<Rightarrow> svc \<Rightarrow> bool" where
  "held i s \<equiv> lock_key i \<in> set (locksHeld s)"

lemma reconcile_held: "held (room_ID rm) s \<Longrightarrow> run_state (reconcile_fuel n C rm) s = (Inl Blocked, s)"
  by (cases n) (simp_all add: fail_def with_room_lock_def)

text \<open>What loading a room comes to when its mutex is held: the row is read, then the call is stuck.\<close>

definition stuck_load :: "string \<Rightarrow> svc \<Rightarrow> (svc_error + 'a) \<times> svc" where
  "stuck_load i s = (case run_state (store_nf ErrSvcNotFound (GetRoom i)) s of
     (Inl e, s') \<Rightarrow> (Inl e, s') | (Inr _, s') \<Rightarrow> (Inl Blocked, s'))"

lemma load_held:
  assumes "held i s"
  shows "run_state (loadRoomForContextUpdate (reconcile_fuel n C) i) s = stuck_load i s"
proof -
  obtain r s' where run: "run_state (store_nf ErrSvcNotFound (GetRoom i)) s = (r, s')" by fastforce
  have "steady (store_nf ErrSvcNotFound (GetRoom i))" by (intro steady_calm calm_intros)
  from steadyD [OF this run] assms have "held i s'" by simp
  moreover have "room_ID rm = i" if "r = Inr rm" for rm
    using succD [OF succ_store_nf [OF succ_GetRoom [where P = "\<lambda>_. True" and Q = "\<lambda>rm _. room_ID rm = i"]]] run that
    by (fastforce dest: find_room_SomeD)
  ultimately show ?thesis
    using run by (cases r) (simp_all add: loadRoomForContextUpdate_def run_attempt stuck_load_def reconcile_held)
qed

lemma upsert_held:
  assumes "held (room_ID rm) s"
  shows "run_state (upsertRoomContext (reconcile_fuel n C) C rm a) s = stuck_load (room_ID rm) s"
proof -
  have "fst (stuck_load (room_ID rm) s :: (svc_error + Room) \<times> svc) \<noteq> Inr x" for x
    by (auto simp: stuck_load_def split: prod.splits sum.splits)
  then obtain e s' where e: "(stuck_load (room_ID rm) s :: (svc_error + Room) \<times> svc) = (Inl e, s')"
    by (metis obj_sumE prod.collapse)
  then have "(stuck_load (room_ID rm) s :: (svc_error + unit) \<times> svc) = (Inl e, s')"
    by (auto simp: stuck_load_def split: prod.splits sum.splits)
  with e show ?thesis
    using load_held [OF assms, of n C]
    by (simp add: upsertRoomContext_def updateRoomContext_def maxRoomContextUpdateTries_def numeral_eq_Suc run_attempt)
qed

text \<open>So the fuel of the inner calls does not matter.\<close>

lemma sync_held:
  "held (room_ID rm) s \<Longrightarrow> run_state (sync_context (reconcile_fuel n C) C rm a i meta k) s =
     run_state (sync_context (reconcile_fuel m C) C rm a i meta k) s"
  by (simp add: sync_context_def besteffort_def upsert_held)

text \<open>Two runs that part at a later point.\<close>

lemma run_attempt_cong:
  assumes "\<And>x s'. run_state m s = (Inr x, s') \<Longrightarrow> run_state (f x) s' = run_state (g x) s'"
  shows "run_state (attempt m f) s = run_state (attempt m g) s"
  using assms by (auto simp: run_attempt split: prod.splits sum.splits)

lemma sync_attempt_held:
  "held (room_ID rm) s \<Longrightarrow> run_state (attempt (sync_context (reconcile_fuel n C) C rm a i meta k) f) s =
     run_state (attempt (sync_context (reconcile_fuel m C) C rm a i meta k) f) s"
  by (simp add: run_attempt sync_held [of rm s n C _ _ _ _ m])

lemma held_after: "steady m \<Longrightarrow> run_state m s = (x, s') \<Longrightarrow> held i s \<Longrightarrow> held i s'"
  by (auto dest: steadyD)

lemma expire_tx_result:
  assumes "run_state (WithTx wrap (expire_tx C rm now)) s = (Inr (u, evs), s')"
  shows "room_ID u = room_ID rm \<and> has_room (tables s') (room_ID rm)"
  using succD [OF succ_WithTx [OF succ_expire_tx_room] _ assms] by simp

lemma reconcile_open_held:
  assumes "held (room_ID rm) s"
  shows "run_state (reconcile_open (reconcile_fuel n C) C rm now) s = run_state (reconcile_open (reconcile_fuel m C) C rm now) s"
proof (cases "now > room_TTLAt rm")
  case True
  have "run_state (case p of (u, evs) \<Rightarrow> attempt (publishRoomEvents evs) (\<lambda>_.
        attempt (sync_context (reconcile_fuel n C) C u [] (room_ID rm) meta 0) (\<lambda>_. ok u))) s1 =
      run_state (case p of (u, evs) \<Rightarrow> attempt (publishRoomEvents evs) (\<lambda>_.
        attempt (sync_context (reconcile_fuel m C) C u [] (room_ID rm) meta 0) (\<lambda>_. ok u))) s1"
    if "run_state (WithTx RepoErr (expire_tx C rm now)) s = (Inr p, s1)" for p s1 meta
  proof (cases p)
    case (Pair u evs)
    have "held (room_ID u) s1"
      using held_after [OF steady_WithTx [OF steady_expire_tx] that assms] expire_tx_result [OF that [unfolded Pair]] by simp
    then have "held (room_ID u) s2" if "run_state (publishRoomEvents evs) s1 = (y, s2)" for y s2
      using held_after [OF steady_calm [OF calm_publishRoomEvents] that] by simp
    then show ?thesis
      unfolding Pair prod.case by (intro run_attempt_cong sync_attempt_held)
  qed
  with True show ?thesis
    unfolding reconcile_open_def by (simp only: if_True) (rule run_attempt_cong)
qed (simp add: reconcile_open_def)

lemma closed_at_held:
  assumes "held (room_ID rm) s"
  shows "run_state (case room_ClosedAt rm of
        Some _ \<Rightarrow> ok rm
      | None \<Rightarrow>
          attempt (store (UpdateRoom ((update_room_input (room_ID rm))\<lparr>uri_ClosedAt := Some now\<rparr>))) (\<lambda>rm.
          attempt (sync_context (reconcile_fuel n C) C rm [] (room_ID rm) (meta rm) 0) (\<lambda>_.
          ok rm))) s =
    run_state (case room_ClosedAt rm of
        Some _ \<Rightarrow> ok rm
      | None \<Rightarrow>
          attempt (store (UpdateRoom ((update_room_input (room_ID rm))\<lparr>uri_ClosedAt := Some now\<rparr>))) (\<lambda>rm.
          attempt (sync_context (reconcile_fuel m C) C rm [] (room_ID rm) (meta rm) 0) (\<lambda>_.
          ok rm))) s"
proof -
  let ?upd = "store (UpdateRoom ((update_room_input (room_ID rm))\<lparr>uri_ClosedAt := Some now\<rparr>))"
  have "held (room_ID u) s1" if run: "run_state ?upd s = (Inr u, s1)" for u s1
  proof -
    have "succ (\<lambda>_. True) ?upd (\<lambda>u d. room_ID u = room_ID rm)"
      by (intro succ_store succ_UpdateRoom) (auto dest: find_room_SomeD)
    from succD [OF this _ run] held_after [OF _ run assms] show ?thesis
      by (auto intro: steady_intros)
  qed
  then show ?thesis
    by (cases "room_ClosedAt rm") (simp_all, intro run_attempt_cong sync_attempt_held)
qed

lemma reconcile_with_held:
  assumes "held (room_ID rm) s"
  shows "run_state (reconcile_with (reconcile_fuel n C) C rm) s = run_state (reconcile_with (reconcile_fuel m C) C rm) s"
proof -
  obtain now s1 where now: "run_state s_now s = (now, s1)" by fastforce
  have held: "held (room_ID rm) s1" using held_after [OF steady_calm [OF calm_s_now] now assms] .
  have "run_state (reconcile_closed (reconcile_fuel n C) C rm now) s1 = run_state (reconcile_closed (reconcile_fuel m C) C rm now) s1"
    unfolding reconcile_closed_def by (subst (1 2) run_attempt) (simp add: closed_at_held [OF held, of now n C _ m])
  with reconcile_open_held [OF held, of n C now m] now show ?thesis
    by (simp add: reconcile_with_def)
qed

section \<open>The recursion ends\<close>

text \<open>
  C32. Reconciliation ends. \<open>reconcileRoom\<close> and the context update call each other without a bound in the source;
  in the model the depth of the recursion is limited by fuel. The limit is never reached: with any fuel
  of at least one the program is the same, from every state and whatever statements fail. So the recursion
  has depth at most one, and that bound is the mutex of the room, not the fuel.
\<close>

theorem reconcile_terminates: "reconcile_fuel (Suc n) C rm = reconcileRoom C rm"
proof (rule state_ext)
  fix s :: svc
  let ?s = "s\<lparr>locksHeld := lock_key (room_ID rm) # locksHeld s\<rparr>"
  have "run_state (reconcile_with (reconcile_fuel n C) C rm) ?s = run_state (reconcile_with (reconcile_fuel 1 C) C rm) ?s"
    by (rule reconcile_with_held) simp
  then show "run_state (reconcile_fuel (Suc n) C rm) s = run_state (reconcileRoom C rm) s"
    unfolding reconcileRoom_eq reconcile_fuel.simps by (simp add: with_room_lock_def)
qed

section \<open>Expired rooms\<close>

lemma stuck_load_room:
  assumes "\<not> faults s (stmts s)" and "has_room (tables s) i"
  shows "stuck_load i s = (Inl Blocked, s\<lparr>stmts := Suc (stmts s)\<rparr>)"
  using assms
  by (auto simp: stuck_load_def store_nf_def mapErr_def GetRoom_def run_query normalizeErr_row_def has_room_find)

lemma sync_room_held:
  assumes "held (room_ID rm) s" and "\<And>n. \<not> faults s n" and "has_room (tables s) (room_ID rm)"
  shows "run_state (sync_context (reconcile_fuel n C) C rm a i meta k) s = (Inl Blocked, s\<lparr>stmts := Suc (stmts s)\<rparr>)"
  using upsert_held [OF assms(1), of n C a] assms(2,3)
  by (simp add: stuck_load_room sync_context_def besteffort_def fail_def)

lemma reconcile_open_expired:
  assumes held: "held (room_ID rm) s" and nf: "\<And>n. \<not> faults s n" and late: "now > room_TTLAt rm"
    and run: "run_state (reconcile_open (reconcile_fuel n C) C rm now) s = (r, s')"
  shows "(r = Inl Blocked \<and> held (room_ID rm) s') \<or> (\<exists>e. r = Inl e \<and> same_rows (tables s) (tables s'))"
proof (cases "run_state (WithTx RepoErr (expire_tx C rm now)) s")
  case (Pair p s1)
  show ?thesis
  proof (cases p)
    case (Inl e)
    have "hoare (\<lambda>t. tables t = tables s) (WithTx RepoErr (expire_tx C rm now))
        (\<lambda>r t. case r of Inl e \<Rightarrow> same_rows (tables s) (tables t) | Inr x \<Rightarrow> True)"
      by (rule hoare_WithTx [where P = "\<lambda>d. d = tables s" and R = "\<lambda>_. same_rows (tables s)" and Q = "\<lambda>_ _. True"])
        (simp_all add: hoare_def)
    from hoareD [OF this _ Pair] Inl have "same_rows (tables s) (tables s1)" by simp
    moreover have "r = Inl e" "s' = s1"
      using run late Pair Inl by (auto simp: reconcile_open_def run_attempt)
    ultimately show ?thesis by blast
  next
    case (Inr ue)
    obtain u evs where ue: "ue = (u, evs)" by (cases ue)
    have tx: "run_state (WithTx RepoErr (expire_tx C rm now)) s = (Inr (u, evs), s1)" using Pair Inr ue by simp
    obtain y s2 where pub: "run_state (publishRoomEvents evs) s1 = (y, s2)" by fastforce
    have "y = Inr ()" using pub by (auto simp: publishRoomEvents_def ok_def)
    have s2: "held (room_ID u) s2" "has_room (tables s2) (room_ID u)" "\<not> faults s2 k" for k
      using expire_tx_result [OF tx] steadyD [OF steady_WithTx [OF steady_expire_tx] tx] held nf pub
      by (auto simp: publishRoomEvents_def ok_def)
    have "r = Inl Blocked \<and> s' = s2\<lparr>stmts := Suc (stmts s2)\<rparr>"
      using run late tx pub \<open>y = Inr ()\<close> sync_room_held [OF s2(1,3,2)]
      by (simp add: reconcile_open_def run_attempt)
    with s2(1) expire_tx_result [OF tx] show ?thesis by simp
  qed
qed

text \<open>
  C9. An expired room is never handed back. When a room is open or active and its time is over, and no statement
  fails for outside reasons, \<open>reconcileRoom\<close> does not return it: either the closing transaction is refused
  and the rows are unchanged, or the room is closed and the call then waits for ever for the mutex it
  holds itself. The mutex stays locked, so that from then on no reconciliation of the room returns either.
  Every call of the service that loads a room goes this way, except \<open>SendMessage\<close>.
\<close>

theorem expired_room_deadlocks:
  assumes "room_State rm = RoomStateOpen \<or> room_State rm = RoomStateActive"
    and "wallClock s (wallTicks s) > room_TTLAt rm" and "\<And>n. \<not> faults s n"
    and "run_state (reconcileRoom C rm) s = (r, s')"
  shows "(r = Inl Blocked \<and> (\<forall>rm'. room_ID rm' = room_ID rm \<longrightarrow> fst (run_state (reconcileRoom C rm') s') = Inl Blocked)) \<or>
    (\<exists>e. r = Inl e \<and> same_rows (tables s) (tables s'))"
proof (cases "held (room_ID rm) s")
  case True
  then show ?thesis
    using assms(4) reconcile_held [OF True, of 2 C] by (simp add: reconcileRoom_def reconcile_held)
next
  case False
  let ?s = "s\<lparr>locksHeld := lock_key (room_ID rm) # locksHeld s\<rparr>"
  let ?s1 = "?s\<lparr>wallTicks := Suc (wallTicks s)\<rparr>"
  obtain q s2 where run: "run_state (reconcile_open (reconcile_fuel 1 C) C rm (wallClock s (wallTicks s))) ?s1 = (q, s2)"
    by fastforce
  then have body: "run_state (reconcile_with (reconcile_fuel 1 C) C rm) ?s = (q, s2)"
    using assms(1) by (auto simp: reconcile_with_def s_now_def)
  have "(q = Inl Blocked \<and> held (room_ID rm) s2) \<or> (\<exists>e. q = Inl e \<and> same_rows (tables ?s1) (tables s2))"
    by (rule reconcile_open_expired [OF _ _ assms(2) run]) (simp_all add: assms(3))
  moreover have "r = q \<and> (if q = Inl Blocked then s' = s2
      else s' = s2\<lparr>locksHeld := removeAll (lock_key (room_ID rm)) (locksHeld s2)\<rparr>)"
    using assms(4) [unfolded reconcileRoom_eq] False body by (auto simp: with_room_lock_def fail_def split: if_splits)
  moreover have "fst (run_state (reconcileRoom C rm') s2) = Inl Blocked" if "held (room_ID rm) s2" "room_ID rm' = room_ID rm" for rm'
    using that by (simp add: reconcileRoom_def reconcile_held)
  ultimately show ?thesis
    by (auto split: if_splits)
qed

theorem expired_room_deadlocks_witness:
  "\<exists>e. fst (run_state (reconcileRoom ex_service ex_room) (ex_svc\<lparr>wallClock := (\<lambda>_. 200)\<rparr>)) = Inl e"
  using expired_room_deadlocks [OF _ _ _ prod.collapse [symmetric], of ex_room "ex_svc\<lparr>wallClock := (\<lambda>_. 200)\<rparr>" ex_service]
  by (auto simp: ex_room_def ex_svc_def)

end
