(* ===== verification/A2A_Grants.thy ===== *)
theory A2A_Grants
  imports A2A_Access A2A_Examples
begin

text \<open>
  Room tokens and webhook endpoints of the service: a token that was issued opens its room for the agent it
  was issued to until it expires, and it is the only one; and what deleting an endpoint deletes.
\<close>

section \<open>Running the programs\<close>

lemma run_stmt: "run_state (stmt f) s = (if faults s (stmts s) then (Inl driver_error, s\<lparr>stmts := Suc (stmts s)\<rparr>)
   else (case f (db_now s) (tables s) of Inl e \<Rightarrow> (Inl e, s\<lparr>stmts := Suc (stmts s)\<rparr>)
     | Inr (x, d) \<Rightarrow> (Inr x, s\<lparr>stmts := Suc (stmts s), tables := d\<rparr>)))"
  by (auto simp: stmt_def Let_def split: sum.splits prod.splits)

lemma run_exec: "run_state (exec f) s = (if faults s (stmts s) then (Inl driver_error, s\<lparr>stmts := Suc (stmts s)\<rparr>)
   else (Inr (), s\<lparr>stmts := Suc (stmts s), tables := f (tables s)\<rparr>))"
  by (simp add: exec_def run_stmt)

lemma run_store_nf: "run_state (store_nf err m) s = (case run_state m s of
    (Inl e, s') \<Rightarrow> (Inl (if e = ErrNotFound then err else RepoErr e), s') | (Inr x, s') \<Rightarrow> (Inr x, s'))"
  by (auto simp: store_nf_def mapErr_def split: prod.splits sum.splits)

section \<open>Room tokens\<close>

text \<open>
  A token is granted: it is found with its room, agent and expiry, and it is the only token of the agent for
  the room that is not revoked.
\<close>

definition revoked :: "string \<Rightarrow> string \<Rightarrow> db \<Rightarrow> bool" where
  "revoked i a d \<longleftrightarrow> (\<forall>x \<in> set (t_tokens d). rt_RoomID x = i \<and> rt_AgentID x = a \<longrightarrow> rt_RevokedAt x \<noteq> None)"

definition granted :: "svc_conf \<Rightarrow> string \<Rightarrow> string \<Rightarrow> string \<Rightarrow> time \<Rightarrow> db \<Rightarrow> bool" where
  "granted C i a plain expiry d \<longleftrightarrow>
     (\<exists>x. find (\<lambda>x. rt_TokenHash x = hashText C plain) (t_tokens d) = Some x \<and> rt_RoomID x = i \<and> rt_AgentID x = a \<and>
        rt_Scope x = roomScopeAutomation \<and> rt_RevokedAt x = None \<and> rt_ExpiresAt x = expiry) \<and>
     (\<forall>x \<in> set (t_tokens d). rt_RoomID x = i \<and> rt_AgentID x = a \<and> rt_TokenHash x \<noteq> hashText C plain \<longrightarrow>
        rt_RevokedAt x \<noteq> None)"

lemma find_last: "\<forall>x \<in> set xs. \<not> P x \<Longrightarrow> P y \<Longrightarrow> find P (xs @ [y]) = Some y"
  by (induction xs) auto

lemma succ_Revoke: "succ P (RevokeRoomScopedTokens i a t) (\<lambda>_. revoked i a)"
proof -
  have "\<forall>x \<in> set (revoke_tokens i a t xs). rt_RoomID x = i \<and> rt_AgentID x = a \<longrightarrow> rt_RevokedAt x \<noteq> None" for xs
  proof
    fix x assume "x \<in> set (revoke_tokens i a t xs)"
    then obtain y where "x = (if rt_RoomID y = i \<and> rt_AgentID y = a \<and> rt_RevokedAt y = None
        then y\<lparr>rt_RevokedAt := Some t\<rparr> else y)"
      unfolding revoke_tokens_def set_map by blast
    then show "rt_RoomID x = i \<and> rt_AgentID x = a \<longrightarrow> rt_RevokedAt x \<noteq> None"
      by (simp split: if_splits)
  qed
  then have "revoked i a (d\<lparr>t_tokens := revoke_tokens i a t (t_tokens d)\<rparr>)" for d
    by (simp add: revoked_def)
  then show ?thesis
    unfolding RevokeRoomScopedTokens_def by (rule succ_exec)
qed

lemma succ_CreateToken:
  "succ (revoked i a) (CreateRoomScopedToken \<lparr>cti_ID = k, cti_RoomID = i, cti_AgentID = a,
     cti_TokenHash = hashText C plain, cti_Scope = roomScopeAutomation, cti_ExpiresAt = expiry\<rparr>) (\<lambda>_. granted C i a plain expiry)"
  unfolding CreateRoomScopedToken_def
proof (rule succ_stmt)
  fix now d x d'
  let ?inp = "\<lparr>cti_ID = k, cti_RoomID = i, cti_AgentID = a, cti_TokenHash = hashText C plain,
    cti_Scope = roomScopeAutomation, cti_ExpiresAt = expiry\<rparr>"
  assume rev: "revoked i a d" and run: "(if \<exists>x \<in> set (t_tokens d). rt_ID x = cti_ID ?inp \<or> rt_TokenHash x = cti_TokenHash ?inp
      then Inl ErrConflict
      else if \<not> has_room d (cti_RoomID ?inp) \<or> \<not> has_agent d (cti_AgentID ?inp) then Inl fk_error
      else let row = \<lparr>rt_ID = cti_ID ?inp, rt_RoomID = cti_RoomID ?inp, rt_AgentID = cti_AgentID ?inp,
                      rt_TokenHash = cti_TokenHash ?inp, rt_Scope = cti_Scope ?inp, rt_ExpiresAt = cti_ExpiresAt ?inp,
                      rt_RevokedAt = None, rt_CreatedAt = now\<rparr>
           in Inr (row, d\<lparr>t_tokens := t_tokens d @ [row]\<rparr>)) = Inr (x, d')"
  let ?row = "\<lparr>rt_ID = k, rt_RoomID = i, rt_AgentID = a, rt_TokenHash = hashText C plain,
    rt_Scope = roomScopeAutomation, rt_ExpiresAt = expiry, rt_RevokedAt = None, rt_CreatedAt = now\<rparr>"
  have new: "\<forall>x \<in> set (t_tokens d). \<not> rt_TokenHash x = hashText C plain" and d': "t_tokens d' = t_tokens d @ [?row]"
    using run by (auto simp: Let_def split: if_splits)
  have "find (\<lambda>x. rt_TokenHash x = hashText C plain) (t_tokens d') = Some ?row"
    unfolding d' using new by (rule find_last) simp
  then show "granted C i a plain expiry d'"
    using rev d' by (simp add: granted_def revoked_def)
qed

lemma newID_tables: "tables (snd (run_state (svc_newID p) s)) = tables s"
  by (simp add: svc_newID_def svc_random_def)

lemma succ_token_tx:
  "succ P (token_tx C a rm plain now) (\<lambda>_. granted C (room_ID rm) a plain (now + roomScopedTokenTTL))"
  unfolding token_tx_def store_def
  apply (rule succ_attempt, rule succ_mapErr, rule succ_Revoke)
  apply (rule succ_bind [where R = "\<lambda>_. revoked (room_ID rm) a"])
   apply (simp only: hoare_def newID_tables simp_thms)
  apply (rule succ_attempt, rule succ_mapErr, rule succ_CreateToken, rule succ_ok, assumption)
  done

lemma issue_granted:
  assumes "run_state (issueRoomAccessToken C a rm) s = (Inr res, s')"
  shows "granted C (room_ID rm) a (rat_Token res) (rat_ExpiresAt res) (tables s')"
proof -
  let ?now = "wallClock s (wallTicks s)" and ?plain = "''rat_'' @ randoms s (randomDraws s)"
  obtain r s1 where tx: "run_state (WithTx RepoErr (token_tx C a rm ?plain ?now))
      (s\<lparr>wallTicks := Suc (wallTicks s), randomDraws := Suc (randomDraws s)\<rparr>) = (r, s1)" by fastforce
  then have "r = Inr ()" "s' = s1" "rat_Token res = ?plain" "rat_ExpiresAt res = ?now + roomScopedTokenTTL"
    using assms by (cases r; auto simp: issueRoomAccessToken_def s_now_def svc_random_def run_attempt ok_def Let_def)+
  with succD [OF succ_WithTx [OF succ_token_tx [where P = "\<lambda>_. True"]] _ tx [unfolded \<open>r = Inr ()\<close>]] show ?thesis by simp
qed

text \<open>A granted token opens the room while it has not expired.\<close>

lemma scoped_access_granted:
  assumes g: "granted C i a plain expiry (tables s)" and "\<And>n. \<not> faults s n"
    and "\<And>n. wallTicks s \<le> n \<Longrightarrow> wallClock s n < expiry"
  shows "fst (run_state (scoped_access C plain i action) s) = Inr a"
proof -
  from g obtain x where x: "find (\<lambda>x. rt_TokenHash x = hashText C plain) (t_tokens (tables s)) = Some x"
    "rt_RoomID x = i" "rt_AgentID x = a" "rt_Scope x = roomScopeAutomation" "rt_RevokedAt x = None" "rt_ExpiresAt x = expiry"
    by (auto simp: granted_def)
  have "TrimSpace roomScopeAutomation = roomScopeAutomation" unfolding roomScopeAutomation_def by code_simp
  then have "roomScopedTokenAllows (rt_Scope x) action" by (simp add: roomScopedTokenAllows_def x)
  with x assms(2,3) show ?thesis
    by (simp add: scoped_access_def run_attempt run_store_nf FindRoomScopedTokenByHash_def run_query normalizeErr_row_def
      s_now_def TouchRoomScopedToken_def run_store run_exec ok_def split: if_splits)
qed

text \<open>
  C33. A room token works, and only the last one. When \<open>issueRoomAccessToken\<close> returns a token, then in every later
  state with the same tables, before the token expires and while no statement fails, presenting it for the
  room - whatever the action - authenticates the agent it was issued to, unless it happens to be a
  session token as well. Every other token the agent had for the room is revoked.
\<close>

theorem room_token_roundtrip:
  assumes "run_state (issueRoomAccessToken C a rm) s = (Inr res, s')" and "tables s2 = tables s'"
    and "TrimSpace (rat_Token res) = rat_Token res" and "TrimSpace (room_ID rm) = room_ID rm" and "room_ID rm \<noteq> []"
    and "\<forall>x \<in> set (t_sessions (tables s2)). ses_Token x \<noteq> rat_Token res"
    and "\<And>n. \<not> faults s2 n" and "\<And>n. wallTicks s2 \<le> n \<Longrightarrow> wallClock s2 n < rat_ExpiresAt res"
  shows "fst (run_state (AuthRoomAccess C (rat_Token res) (room_ID rm) action) s2) = Inr a \<and>
    (\<forall>x \<in> set (t_tokens (tables s')). rt_RoomID x = room_ID rm \<and> rt_AgentID x = a \<and>
      rt_TokenHash x \<noteq> hashText C (rat_Token res) \<longrightarrow> rt_RevokedAt x \<noteq> None)"
proof
  note g = issue_granted [OF assms(1)]
  show "\<forall>x \<in> set (t_tokens (tables s')). rt_RoomID x = room_ID rm \<and> rt_AgentID x = a \<and>
      rt_TokenHash x \<noteq> hashText C (rat_Token res) \<longrightarrow> rt_RevokedAt x \<noteq> None"
    using g by (simp add: granted_def)
  have "rat_Token res \<noteq> []"
    using assms(1) by (auto simp: issueRoomAccessToken_def s_now_def svc_random_def run_attempt ok_def Let_def
      split: prod.splits sum.splits)
  moreover have "find (\<lambda>x. ses_Token x = rat_Token res) (t_sessions (tables s2)) = None"
    using assms(6) by (simp add: find_None_iff)
  ultimately have "run_state (AuthAgentID (rat_Token res)) s2 = (Inl ErrUnauthorized, s2\<lparr>stmts := Suc (stmts s2)\<rparr>)"
    using assms(3,7) by (simp add: AuthAgentID_def run_attempt run_store_nf FindSession_def run_query normalizeErr_row_def)
  then show "fst (run_state (AuthRoomAccess C (rat_Token res) (room_ID rm) action) s2) = Inr a"
    using assms \<open>rat_Token res \<noteq> []\<close> g scoped_access_granted [of C "room_ID rm" a "rat_Token res" "rat_ExpiresAt res" "s2\<lparr>stmts := Suc (stmts s2)\<rparr>"]
    by (simp add: AuthRoomAccess_def Let_def)
qed

theorem room_token_roundtrip_witness:
  "\<exists>res s'. run_state (issueRoomAccessToken ex_service ''a'' ex_room) ex_svc = (Inr res, s') \<and>
     fst (run_state (AuthRoomAccess ex_service (rat_Token res) ''r'' ''room:state'') (ex_svc\<lparr>tables := tables s'\<rparr>)) = Inr ''a''"
proof -
  have ok: "\<not> isl (fst (run_state (issueRoomAccessToken ex_service ''a'' ex_room) ex_svc))"
    "map_sum id rat_Token (fst (run_state (issueRoomAccessToken ex_service ''a'' ex_room) ex_svc)) = Inr ''rat_''"
    "map_sum id rat_ExpiresAt (fst (run_state (issueRoomAccessToken ex_service ''a'' ex_room) ex_svc)) = Inr (1 + 5 * Minute)"
    "t_sessions (tables (snd (run_state (issueRoomAccessToken ex_service ''a'' ex_room) ex_svc))) = []"
    by code_simp+
  have t: "TrimSpace ''rat_'' = ''rat_''" "TrimSpace ''r'' = ''r''" by code_simp+
  obtain res s' where run: "run_state (issueRoomAccessToken ex_service ''a'' ex_room) ex_svc = (Inr res, s')"
    using ok(1) by (metis prod.collapse sum.collapse(2))
  have r: "rat_Token res = ''rat_''" "rat_ExpiresAt res = 1 + 5 * Minute" "t_sessions (tables s') = []"
    using ok(2-4) run by simp_all
  have w: "wallClock ex_svc = (\<lambda>_. 1)" "faults ex_svc = (\<lambda>_. False)" by (simp_all add: ex_svc_def)
  show ?thesis
    using room_token_roundtrip [OF run, of "ex_svc\<lparr>tables := tables s'\<rparr>" "''room:state''"] run r t w
    by (simp add: ex_room_def Minute_def Second_def)
qed

section \<open>Webhook endpoints\<close>

text \<open>
  C34. Deleting an endpoint does not ask whose it is before it deletes the deliveries. Whoever calls
  \<open>DeleteAgentWebhookEndpoint\<close> with the id of an endpoint, all deliveries queued for it are gone; the endpoint itself
  goes only when the caller owns it, and otherwise the caller is told that it was not found.
\<close>

theorem foreign_delete_drops_deliveries:
  assumes "\<not> faults s (stmts s)" and "TrimSpace endpointID = endpointID" and "endpointID \<noteq> []"
    and "run_state (DeleteEndpoint agentID endpointID) s = (r, s')"
  shows "outbox (t_hooks (tables s')) = filter (\<lambda>x. ob_EndpointID x \<noteq> endpointID) (outbox (t_hooks (tables s))) \<and>
    (if \<exists>ep \<in> set (endpoints (t_hooks (tables s))). ep_ID ep = endpointID \<and> ep_AgentID ep = TrimSpace agentID
     then r = Inr () else r = Inl ErrSvcNotFound \<and> endpoints (t_hooks (tables s')) = endpoints (t_hooks (tables s)))"
proof -
  let ?hit = "\<lambda>x. ep_ID x = endpointID \<and> ep_AgentID x = TrimSpace agentID"
  have "filter (\<lambda>x. \<not> ?hit x) eps = eps" if "\<not> (\<exists>ep \<in> set eps. ?hit ep)" for eps
    using that by (intro filter_True) auto
  moreover have "filter ?hit eps = [] \<longleftrightarrow> \<not> (\<exists>ep \<in> set eps. ?hit ep)" for eps
    by (auto simp: filter_empty_conv)
  ultimately show ?thesis
    using assms
    by (auto simp: DeleteEndpoint_def run_store_nf DeleteAgentWebhookEndpoint_def run_attempt run_stmt Let_def fail_def ok_def
      split: if_splits)
qed

text \<open>An endpoint of agent \<open>a\<close> with a queued delivery, deleted by agent \<open>b\<close>.\<close>

definition ex_item :: WebhookOutboxItem where
  "ex_item = \<lparr>ob_ID = 1, ob_RoomID = ''r'', ob_RoomEventID = 1, ob_TargetAgentID = ''a'', ob_EndpointID = ''e'',
     ob_EventType = ''room.closed'', ob_Payload = ''{}'', ob_Status = ''pending'', ob_AttemptCount = 0, ob_NextAttemptAt = 0,
     ob_LastError = [], ob_CreatedAt = 0, ob_UpdatedAt = 0\<rparr>"

definition ex_hooks :: outbox_db where
  "ex_hooks = (emptyOutbox [\<lparr>ep_ID = ''e'', ep_AgentID = ''a'', ep_URL = ''u'', ep_SecretCiphertext = [], ep_KeyID = ''v1'',
      ep_Enabled = True, ep_CreatedAt = 0, ep_UpdatedAt = 0\<rparr>])\<lparr>outbox := [ex_item]\<rparr>"

theorem foreign_delete_drops_deliveries_witness:
  "outbox (t_hooks (tables (snd (run_state (DeleteEndpoint ''b'' ''e'') (ex_svc\<lparr>tables := ex_db\<lparr>t_hooks := ex_hooks\<rparr>\<rparr>))))) = []"
proof -
  let ?s = "ex_svc\<lparr>tables := ex_db\<lparr>t_hooks := ex_hooks\<rparr>\<rparr>"
  have t: "TrimSpace ''e'' = ''e''" by code_simp
  have "\<not> faults ?s (stmts ?s)" by (simp add: ex_svc_def)
  from foreign_delete_drops_deliveries [OF this t _ prod.collapse [symmetric], of "''b''"] show ?thesis
    by (simp add: ex_hooks_def ex_item_def)
qed

end
