(* ===== verification/A2A_Admin.thy ===== *)
theory A2A_Admin
  imports A2A_Access Task_Context
begin

text \<open>
  Searching listings and the administrator's overview: the queries of
  \<open>internal/repository/postgres/store.go\<close> and the service operations that call them. \<open>LOWER\<close> depends on
  the locale of the database, so it is a parameter; \<open>LIKE\<close> is the matcher of PostgreSQL on characters.
\<close>

section \<open>Search\<close>

text \<open>Patterns and texts are lists of characters; a pattern never ends in the escape character here.\<close>

fun sql_like :: "string list \<Rightarrow> string list \<Rightarrow> bool" where
  "sql_like [] ts = (ts = [])"
| "sql_like (p # ps) [] = (p = ''%'' \<and> sql_like ps [])"
| "sql_like (p # ps) (t # ts) =
    (if p = ''%'' then sql_like ps (t # ts) \<or> sql_like (p # ps) ts
     else if p = [CHR 0x5C] then (case ps of [] \<Rightarrow> False | q # qs \<Rightarrow> t = q \<and> sql_like qs ts)
     else if p = ''_'' then sql_like ps ts
     else t = p \<and> sql_like ps ts)"

definition listing_hit :: "(string \<Rightarrow> string) \<Rightarrow> string \<Rightarrow> Listing \<Rightarrow> bool" where
  "listing_hit lower q l =
    (let pat = runes (lower (''%'' @ q @ ''%'')) in
     sql_like pat (runes (lower (lst_Topic l))) \<or>
     list_ex (\<lambda>t. sql_like pat (runes (lower t))) (lst_Tags l))"

definition SearchListings_rows ::
  "(string \<Rightarrow> string) \<Rightarrow> string \<Rightarrow> ('z pg_scheme, repo_error + Listing list) state" where
  "SearchListings_rows lower q = query (\<lambda>d.
     Inr (sort_key (\<lambda>l. - lst_CreatedAt l)
       (filter (\<lambda>l. \<not> lst_Connected l \<and> (TrimSpace q \<noteq> [] \<longrightarrow> listing_hit lower q l)) (t_listings d))))"

definition SearchListings :: "svc_conf \<Rightarrow> (string \<Rightarrow> string) \<Rightarrow> string \<Rightarrow> Listing list prog" where
  "SearchListings C lower q = store (SearchListings_rows lower (TrimSpace (ToLower (uniLower C) q)))"

section \<open>The overview\<close>

definition count_rooms :: "RoomState \<Rightarrow> ('z pg_scheme, repo_error + int) state" where
  "count_rooms st = query (\<lambda>d. Inr (int (length (filter (\<lambda>r. room_State r = st) (t_rooms d)))))"

definition GetAdminOverview :: "time \<Rightarrow> ('z pg_scheme, repo_error + AdminOverview) state" where
  "GetAdminOverview now =
    attempt (query (\<lambda>d. Inr (int (length (t_agents d))))) (\<lambda>agents.
    attempt (query (\<lambda>d. Inr (int (length (filter (\<lambda>x. case ses_ExpiresAt x of None \<Rightarrow> False | Some e \<Rightarrow> e > now)
      (t_sessions d)))))) (\<lambda>sessions.
    attempt (count_rooms RoomStateOpen) (\<lambda>op.
    attempt (count_rooms RoomStateActive) (\<lambda>active.
    attempt (count_rooms RoomStateClosed) (\<lambda>closed.
    attempt (count_rooms RoomStatePurged) (\<lambda>purged.
    attempt (query (\<lambda>d. Inr (int (length (t_messages d))))) (\<lambda>messages.
    ok \<lparr>ao_AgentsTotal = agents, ao_SessionsActive = sessions, ao_RoomsOpen = op, ao_RoomsActive = active,
        ao_RoomsClosed = closed, ao_RoomsPurged = purged, ao_MessagesTotal = messages\<rparr>)))))))"

text \<open>\<open>COALESCE(a.name, '')\<close> of a left join with the agents.\<close>

definition agent_name :: "db \<Rightarrow> string \<Rightarrow> string" where
  "agent_name d i = (case find (\<lambda>a. agt_ID a = i) (t_agents d) of None \<Rightarrow> [] | Some a \<Rightarrow> agt_Name a)"

definition admin_room :: "db \<Rightarrow> Room \<Rightarrow> AdminRoom" where
  "admin_room d r =
    \<lparr>ar_ID = room_ID r, ar_AgentAID = room_AgentAID r, ar_AgentAName = agent_name d (room_AgentAID r),
     ar_AgentBID = room_AgentBID r, ar_AgentBName = agent_name d (room_AgentBID r), ar_State = room_State r,
     ar_TurnIndex = room_TurnIndex r, ar_MaxTurns = room_MaxTurns r, ar_TTLAt = room_TTLAt r,
     ar_CreatedAt = room_CreatedAt r, ar_ClosedAt = room_ClosedAt r, ar_PurgedAt = room_PurgedAt r\<rparr>"

definition ListAdminRooms :: "int \<Rightarrow> ('z pg_scheme, repo_error + AdminRoom list) state" where
  "ListAdminRooms limit = query (\<lambda>d.
     let limit = (if limit \<le> 0 \<or> limit > 500 then 100 else limit)
     in Inr (map (admin_room d) (take (nat limit) (sort_key (\<lambda>r. - room_CreatedAt r) (t_rooms d)))))"

definition ListAuditEvents :: "int \<Rightarrow> ('z pg_scheme, repo_error + AuditEvent list) state" where
  "ListAuditEvents limit = State (\<lambda>s.
     let limit = (if limit \<le> 0 \<or> limit > 1000 then 200 else limit);
         s' = s\<lparr>stmts := Suc (stmts s)\<rparr> in
     if faults s (stmts s) then (Inl driver_error, s')
     else (Inr (take (nat limit) (sort_key (\<lambda>e. - au_ID e) (auditRows s))), s'))"

record PurgeOverviewResult =
  po_Scanned :: int
  po_ClosedRooms :: int
  po_ReadyForPurge :: int
  po_ViewerBlocked :: int
  po_OverRetention :: int
  po_OldestClosedAgeSeconds :: int
  po_OldestReadyAgeSeconds :: int
  po_ClosedRoomGraceSeconds :: int
  po_MaxClosedRetentionSeconds :: int

text \<open>
  \<open>int(d.Seconds())\<close>: whole seconds. The source goes through a float, which is exact to the nanosecond
  for durations below 2^22 seconds.
\<close>

definition whole_seconds :: "duration \<Rightarrow> int" where
  "whole_seconds d = go_div d Second"

definition overview_closed :: "svc_conf \<Rightarrow> time \<Rightarrow> Room \<Rightarrow> PurgeOverviewResult \<Rightarrow> (svc, PurgeOverviewResult) state" where
  "overview_closed C now rm out = do {
     let out = out\<lparr>po_ClosedRooms := po_ClosedRooms out + 1\<rparr>;
     let age = time_sub now (case room_ClosedAt rm of None \<Rightarrow> room_CreatedAt rm | Some t \<Rightarrow> t);
     let age = (if age < 0 then 0 else age);
     let out = (if whole_seconds age > po_OldestClosedAgeSeconds out
                then out\<lparr>po_OldestClosedAgeSeconds := whole_seconds age\<rparr> else out);
     r \<leftarrow> CountActiveViewers (room_ID rm) (now + - heartbeatTimeout C);
     State_Monad.return (case r of
       Inl _ \<Rightarrow> out
     | Inr activeCount \<Rightarrow>
         (let viewerBlocked = (activeCount > 0);
              byGrace = (\<not> viewerBlocked \<and> age \<ge> graceDelay C);
              byRetention = (age \<ge> closedRetention C);
              out = (if viewerBlocked then out\<lparr>po_ViewerBlocked := po_ViewerBlocked out + 1\<rparr> else out);
              out = (if byGrace \<or> byRetention then
                       (let out = out\<lparr>po_ReadyForPurge := po_ReadyForPurge out + 1\<rparr> in
                        if whole_seconds age > po_OldestReadyAgeSeconds out
                        then out\<lparr>po_OldestReadyAgeSeconds := whole_seconds age\<rparr> else out)
                     else out)
          in if byRetention then out\<lparr>po_OverRetention := po_OverRetention out + 1\<rparr> else out)) }"

fun overview_loop :: "svc_conf \<Rightarrow> time \<Rightarrow> Room list \<Rightarrow> PurgeOverviewResult \<Rightarrow> (svc, PurgeOverviewResult) state" where
  "overview_loop C now [] out = State_Monad.return out"
| "overview_loop C now (rm # rooms) out =
    (if room_State rm \<noteq> RoomStateClosed then overview_loop C now rooms out
     else do { out \<leftarrow> overview_closed C now rm out; overview_loop C now rooms out })"

definition purgeOverviewFromRooms :: "svc_conf \<Rightarrow> Room list \<Rightarrow> (svc, PurgeOverviewResult) state" where
  "purgeOverviewFromRooms C rooms = do {
     now \<leftarrow> s_now;
     overview_loop C now rooms
       \<lparr>po_Scanned = int (length rooms), po_ClosedRooms = 0, po_ReadyForPurge = 0, po_ViewerBlocked = 0,
        po_OverRetention = 0, po_OldestClosedAgeSeconds = 0, po_OldestReadyAgeSeconds = 0,
        po_ClosedRoomGraceSeconds = whole_seconds (graceDelay C),
        po_MaxClosedRetentionSeconds = whole_seconds (closedRetention C)\<rparr> }"

definition PurgeOverview :: "svc_conf \<Rightarrow> PurgeOverviewResult prog" where
  "PurgeOverview C = do {
     now \<leftarrow> s_now;
     attempt (store (ListRoomsForLifecycleSweep now 1000)) (\<lambda>rooms. do {
     out \<leftarrow> purgeOverviewFromRooms C rooms;
     ok out }) }"

definition svc_AdminOverview :: "svc_conf \<Rightarrow> (AdminOverview \<times> PurgeOverviewResult) prog" where
  "svc_AdminOverview C = do {
     now \<leftarrow> s_now;
     attempt (store (GetAdminOverview now)) (\<lambda>out.
     attempt (PurgeOverview C) (\<lambda>purge.
     ok (out, purge))) }"

definition AdminRooms :: "int \<Rightarrow> AdminRoom list prog" where
  "AdminRooms limit = store (ListAdminRooms limit)"

definition AdminAudit :: "int \<Rightarrow> AuditEvent list prog" where
  "AdminAudit limit = store (ListAuditEvents limit)"

end
