(* ===== verification/Http_Parse.thy ===== *)
theory Http_Parse
  imports Http_Types
begin

text \<open>
  What the request handlers read of the standard library's text conversions: \<open>strconv.ParseInt\<close> and
  \<open>strconv.Atoi\<close> in base 10, \<open>net.SplitHostPort\<close>, suffixes; and \<open>remoteIP\<close> of \<open>sql_handlers.go\<close>.
\<close>

section \<open>Decimal integers\<close>

definition digit_of :: "char \<Rightarrow> nat option" where
  "digit_of c = (let n = of_char c :: nat in if 48 \<le> n \<and> n \<le> 57 then Some (n - 48) else None)"

fun digits_val :: "nat \<Rightarrow> string \<Rightarrow> nat option" where
  "digits_val acc [] = Some acc"
| "digits_val acc (c # cs) = (case digit_of c of None \<Rightarrow> None | Some d \<Rightarrow> digits_val (10 * acc + d) cs)"

text \<open>\<open>ParseInt(s, 10, 64)\<close>, and \<open>Atoi(s)\<close> where \<open>int\<close> has 64 bits: \<open>None\<close> is a syntax or range error.\<close>

definition ParseInt :: "string \<Rightarrow> int option" where
  "ParseInt s =
    (let neg = (s \<noteq> [] \<and> hd s = CHR ''-'');
         ds = (if s \<noteq> [] \<and> (hd s = CHR ''-'' \<or> hd s = CHR ''+'') then tl s else s)
     in if ds = [] then None
        else (case digits_val 0 ds of
          None \<Rightarrow> None
        | Some n \<Rightarrow> (let v = (if neg then - int n else int n) in if in64 v then Some v else None)))"

lemma digit_of_digit_char: "d < 10 \<Longrightarrow> digit_of (digit_char d) = Some d"
  by (simp add: digit_of_def digit_char_def Let_def)

lemma digits_val_append:
  "digits_val acc (xs @ ys) = (case digits_val acc xs of None \<Rightarrow> None | Some v \<Rightarrow> digits_val v ys)"
  by (induction xs arbitrary: acc) (auto split: option.splits)

lemma digits_val_nat_str: "digits_val 0 (nat_str n) = Some n"
proof (induction n rule: nat_str.induct)
  case (1 n)
  then show ?case
    by (cases "n < 10") (auto simp: nat_str.simps [of n] digit_of_digit_char digits_val_append)
qed

lemma hd_nat_str: "hd (nat_str n) \<noteq> CHR ''-'' \<and> hd (nat_str n) \<noteq> CHR ''+''"
proof (induction n rule: nat_str.induct)
  case (1 n)
  have "digit_char d \<noteq> CHR ''-'' \<and> digit_char d \<noteq> CHR ''+''" if "d < 10" for d
    using digit_of_digit_char [OF that] by (auto simp: digit_of_def)
  with 1 show ?case
    by (cases "n < 10") (auto simp: nat_str.simps [of n])
qed

text \<open>Printing a 64-bit integer and parsing it gives it back.\<close>

lemma ParseInt_Itoa: "in64 i \<Longrightarrow> ParseInt (Itoa i) = Some i"
  using hd_nat_str [of "nat i"] by (simp add: ParseInt_def Itoa_def digits_val_nat_str Let_def)

lemma ParseInt_in64: "ParseInt s = Some v \<Longrightarrow> in64 v"
  by (auto simp: ParseInt_def Let_def split: if_splits option.splits)

section \<open>Network addresses\<close>

definition last_index :: "char \<Rightarrow> string \<Rightarrow> nat option" where
  "last_index c s = (if c \<in> set s then Some (length s - 1 - length (takeWhile (\<lambda>x. x \<noteq> c) (rev s))) else None)"

definition first_index :: "char \<Rightarrow> string \<Rightarrow> nat option" where
  "first_index c s = (if c \<in> set s then Some (length (takeWhile (\<lambda>x. x \<noteq> c) s)) else None)"

text \<open>The host part of \<open>net.SplitHostPort\<close>; \<open>None\<close> is any of its errors.\<close>

definition SplitHostPort :: "string \<Rightarrow> string option" where
  "SplitHostPort s =
    (case last_index (CHR '':'') s of
       None \<Rightarrow> None
     | Some i \<Rightarrow>
         if hd s = CHR ''['' then
           (case first_index (CHR '']'') s of
              None \<Rightarrow> None
            | Some e \<Rightarrow>
                if e + 1 = i \<and> CHR ''['' \<notin> set (drop 1 s) \<and> CHR '']'' \<notin> set (drop (e + 1) s)
                then Some (take (e - 1) (drop 1 s)) else None)
         else (let host = take i s in
           if CHR '':'' \<in> set host \<or> CHR ''['' \<in> set s \<or> CHR '']'' \<in> set s then None else Some host))"

definition remoteIP :: "string \<Rightarrow> string" where
  "remoteIP addr =
    (if TrimSpace addr = [] then []
     else (case SplitHostPort addr of None \<Rightarrow> TrimSpace addr | Some host \<Rightarrow> TrimSpace host))"

definition HasSuffix :: "string \<Rightarrow> string \<Rightarrow> bool" where
  "HasSuffix s x = suffix x s"

definition TrimSuffix :: "string \<Rightarrow> string \<Rightarrow> string" where
  "TrimSuffix s x = (if suffix x s then take (length s - length x) s else s)"

end
