(* ===== verification/Http_State.thy ===== *)
theory Http_State
  imports A2A_Admin Http_Parse Memory_App Event_Hub Typing_Hub Stream_Leases
begin

text \<open>
  The ground of the SQL-mode server of \<open>internal/httpapi/sql_handlers.go\<close>: its state (the service, the
  two hubs, the windows and counters behind its own limits), requests and JSON replies, the translation
  of service errors, the IP limit on messages, and the slots of the event stream.

  \<^item> A handler is a program that ends in a reply or halts: \<open>Stuck\<close> when the service call never returns,
    \<open>Panicked\<close> when a hub sends on a closed channel.
  \<^item> \<open>newSQLHTTP\<close> hands \<open>hub.Publish\<close> to the service as its publisher, so the events a call emits go to
    the hub; and it always creates both hubs, so the tests for \<open>nil\<close> hubs are not in the model.
  \<^item> \<open>time.Now\<close> and \<open>crypto/rand\<close> are the streams of the service state.
\<close>

section \<open>Requests and replies\<close>

datatype json =
    JNull | JTxt string | JNum int | JFlag bool | JTime time
  | JArr "json list" | JObj "(string \<times> json) list"

definition jtime_opt :: "time option \<Rightarrow> json" where
  "jtime_opt t = (case t of None \<Rightarrow> JNull | Some t \<Rightarrow> JTime t)"

text \<open>A slice declared with \<open>var\<close> and only appended to is \<open>nil\<close>, hence \<open>null\<close>, when it stays empty.\<close>

definition jslice :: "('a \<Rightarrow> json) \<Rightarrow> 'a list \<Rightarrow> json" where
  "jslice f xs = (if xs = [] then JNull else JArr (map f xs))"

text \<open>\<open>omitempty\<close> on a pointer.\<close>

definition jomit :: "string \<Rightarrow> ('a \<Rightarrow> json) \<Rightarrow> 'a option \<Rightarrow> (string \<times> json) list" where
  "jomit k f x = (case x of None \<Rightarrow> [] | Some v \<Rightarrow> [(k, f v)])"

record http_request = "string request" +
  RemoteAddr :: string
  LastEventID :: string
  XAdminToken :: string

type_synonym http_reply = "json option response"

definition replyJSON :: "int \<Rightarrow> json \<Rightarrow> http_reply" where
  "replyJSON st j = writeJSON st (Some j)"

definition queryGet :: "http_request \<Rightarrow> string \<Rightarrow> string" where
  "queryGet r k = (case gm_get (Query r) k of None \<Rightarrow> [] | Some v \<Rightarrow> v)"

record webhookRequest =
  whr_URL :: string
  whr_Secret :: string
  whr_KeyID :: string
  whr_Enabled :: "bool option"

record typingRequest =
  tyr_State :: string
  tyr_TTLMs :: "int option"

text \<open>\<open>decodeJSON\<close> at the request types of the handlers.\<close>

record sql_decoders = decoders +
  decodeWebhook :: "string \<Rightarrow> webhookRequest option"
  decodeAck :: "string \<Rightarrow> string option"
  decodeTurn :: "string \<Rightarrow> int option option"
  decodeTyping :: "string \<Rightarrow> typingRequest option"

definition decode_with :: "(string \<Rightarrow> 'b option) \<Rightarrow> http_request \<Rightarrow> 'b option" where
  "decode_with dec r = (case Body r of None \<Rightarrow> None | Some raw \<Rightarrow> dec raw)"

section \<open>State\<close>

datatype halt = Stuck | Panicked

record http_conf =
  svcC :: svc_conf
  errE :: env
  decD :: sql_decoders
  urlU :: url_lib
  dbLower :: "string \<Rightarrow> string"
  payloadObj :: "string \<Rightarrow> (string \<times> json) list option"
  hbTimeout :: duration
  distributed :: bool
  adminToken :: string

record sqlHTTP =
  svcS :: svc
  evHub :: roomEventHub
  tyHub :: typingHub
  ipWindows :: "string \<rightharpoonup> time list"
  streamCounts :: "string \<rightharpoonup> int"
  streamOpenWindows :: "string \<rightharpoonup> time list"
  streamIPWindows :: "string \<rightharpoonup> time list"

type_synonym 'a http = "(sqlHTTP, halt + 'a) state"

definition newSQLHTTP :: "svc \<Rightarrow> sqlHTTP" where
  "newSQLHTTP sv = \<lparr>svcS = sv, evHub = newRoomEventHub 64, tyHub = newTypingHub 64, ipWindows = Map.empty,
     streamCounts = Map.empty, streamOpenWindows = Map.empty, streamIPWindows = Map.empty\<rparr>"

definition viewer_timeout :: "duration \<Rightarrow> duration" where
  "viewer_timeout opt = (if opt \<le> 0 then 45 * Second else opt)"

fun publish_all :: "RoomEvent list \<Rightarrow> roomEventHub \<Rightarrow> roomEventHub option" where
  "publish_all [] h = Some h"
| "publish_all (ev # evs) h = (case Publish ev h of None \<Rightarrow> None | Some h \<Rightarrow> publish_all evs h)"

text \<open>A call of the service: its events go to the hub as it emits them.\<close>

definition call :: "'a prog \<Rightarrow> (svc_error + 'a) http" where
  "call m = State (\<lambda>s. case run_state m (svcS s) of (r, sv) \<Rightarrow>
     (let s' = s\<lparr>svcS := sv\<rparr>;
          evs = drop (length (svc.published (svcS s))) (svc.published sv) in
      case publish_all evs (evHub s) of
        None \<Rightarrow> (Inl Panicked, s')
      | Some h \<Rightarrow> (if r = Inl Blocked then Inl Stuck else Inr r, s'\<lparr>evHub := h\<rparr>)))"

text \<open>A call whose error the handler writes as its reply.\<close>

definition serve :: "(svc_error \<Rightarrow> 'r) \<Rightarrow> 'a prog \<Rightarrow> ('a \<Rightarrow> 'r http) \<Rightarrow> 'r http" where
  "serve wr m k = attempt (call m) (\<lambda>r. case r of Inl err \<Rightarrow> ok (wr err) | Inr x \<Rightarrow> k x)"

definition h_now :: "time http" where
  "h_now = State (\<lambda>s. case run_state s_now (svcS s) of (t, sv) \<Rightarrow> (Inr t, s\<lparr>svcS := sv\<rparr>))"

definition on_typing :: "(typingHub \<Rightarrow> ('a \<times> typingHub) option) \<Rightarrow> 'a http" where
  "on_typing f = State (\<lambda>s. case f (tyHub s) of
     None \<Rightarrow> (Inl Panicked, s)
   | Some (x, h) \<Rightarrow> (Inr x, s\<lparr>tyHub := h\<rparr>))"

definition on_events :: "(roomEventHub \<Rightarrow> ('a \<times> roomEventHub) option) \<Rightarrow> 'a http" where
  "on_events f = State (\<lambda>s. case f (evHub s) of
     None \<Rightarrow> (Inl Panicked, s)
   | Some (x, h) \<Rightarrow> (Inr x, s\<lparr>evHub := h\<rparr>))"

definition AppendSecurityAudit :: "http_conf \<Rightarrow> string \<Rightarrow> string \<Rightarrow> (string \<times> jval) list \<Rightarrow> int \<Rightarrow> unit http" where
  "AppendSecurityAudit H roomID event meta n =
    attempt (call (appendAuditEventBestEffort (svcC H) roomID event meta n)) (\<lambda>_. ok ())"

section \<open>Service errors as replies\<close>

definition writeServiceErr :: "http_conf \<Rightarrow> svc_error \<Rightarrow> http_reply" where
  "writeServiceErr H err =
    (case err of
       ErrBadRequest \<Rightarrow> writeError (errE H) 400 ''invalid request''
     | ErrUnauthorized \<Rightarrow> writeError (errE H) 401 ''missing or invalid token''
     | ErrPolicyBlocked \<Rightarrow> writeError (errE H) 403 ''policy blocked''
     | ErrPayloadTooLarge \<Rightarrow> writeAPIError 413 ''payload_too_large''
         (no_options\<lparr>Recoverable := True,
            Hint := ''Keep the message at or below '' @ Itoa (int MaxPersistMessageChars) @ '' characters.'',
            MaxChars := MaxPersistMessageChars\<rparr>)
     | ErrForbidden \<Rightarrow> writeError (errE H) 403 ''forbidden''
     | ErrSvcNotFound \<Rightarrow> writeError (errE H) 404 ''not found''
     | ErrTurnMismatch \<Rightarrow> writeError (errE H) 409 ''turn_mismatch''
     | ErrStaleBundleHash \<Rightarrow> writeError (errE H) 409 ''stale_bundle_hash''
     | ErrRoomNotActive \<Rightarrow> writeAPIError 409 ''room_not_active''
         (no_options\<lparr>Recoverable := True, Hint := ''Wait until the room becomes ACTIVE before sending messages.''\<rparr>)
     | ErrSvcConflict \<Rightarrow> writeError (errE H) 409 ''conflict''
     | ErrGone \<Rightarrow> writeError (errE H) 410 ''gone''
     | ErrRateLimit \<Rightarrow> writeError (errE H) 429 ''rate limit exceeded''
     | _ \<Rightarrow> writeError (errE H) 500 ''internal error'')"

definition writeRoomServiceErr :: "http_conf \<Rightarrow> svc_error \<Rightarrow> http_reply" where
  "writeRoomServiceErr H err =
    (if err = ErrSvcNotFound then writeAPIError 404 ''room_not_found'' no_options else writeServiceErr H err)"

definition writeListingServiceErr :: "http_conf \<Rightarrow> svc_error \<Rightarrow> http_reply" where
  "writeListingServiceErr H err =
    (if err = ErrSvcNotFound then writeAPIError 404 ''listing_not_found'' no_options
     else if err = ErrSvcConflict then writeAPIError 409 ''listing_already_connected'' no_options
     else writeServiceErr H err)"

definition writeRoomOrViewerServiceErr :: "http_conf \<Rightarrow> svc_error \<Rightarrow> http_reply" where
  "writeRoomOrViewerServiceErr H err =
    (if err = ErrSvcNotFound then writeAPIError 404 ''viewer_not_found'' no_options else writeRoomServiceErr H err)"

section \<open>Authentication\<close>

definition authAgentID_sql :: "http_request \<Rightarrow> string prog" where
  "authAgentID_sql r =
    (let token = bearerTokenFromRequest (Authorization r) in
     if token = [] then fail ErrUnauthorized else AuthAgentID token)"

definition authRoomAccess :: "http_conf \<Rightarrow> http_request \<Rightarrow> string \<Rightarrow> string \<Rightarrow> string prog" where
  "authRoomAccess H r roomID action =
    (let token = bearerTokenFromRequest (Authorization r) in
     if token = [] then fail ErrUnauthorized else AuthRoomAccess (svcC H) token roomID action)"

section \<open>The IP limit on messages\<close>

definition ip_window_step :: "string \<Rightarrow> time \<Rightarrow> sqlHTTP \<Rightarrow> bool \<times> sqlHTTP" where
  "ip_window_step ip now s =
    (let kept = prune_window (window_of (ipWindows s) ip) (now + - Minute) in
     if length kept \<ge> 120 then (False, s\<lparr>ipWindows := (ipWindows s)(ip \<mapsto> kept)\<rparr>)
     else (True, s\<lparr>ipWindows := (ipWindows s)(ip \<mapsto> kept @ [now])\<rparr>))"

definition allowIPMessage :: "string \<Rightarrow> time \<Rightarrow> (sqlHTTP, bool) state" where
  "allowIPMessage addr now = State (\<lambda>s.
     let ip = remoteIP addr in if ip = [] then (True, s) else ip_window_step ip now s)"

section \<open>Slots of the event stream\<close>

definition maxActiveStreamsPerAgentRoom :: int where
  "maxActiveStreamsPerAgentRoom = 5"

definition maxStreamConnectsPerMinuteRoomKey :: int where
  "maxStreamConnectsPerMinuteRoomKey = 30"

definition maxStreamConnectsPerMinuteIP :: int where
  "maxStreamConnectsPerMinuteIP = 120"

definition streamKey :: "string \<Rightarrow> string \<Rightarrow> string" where
  "streamKey agentID roomID = TrimSpace roomID @ ''|'' @ TrimSpace agentID"

definition pruneTimeWindow :: "time list \<Rightarrow> time \<Rightarrow> time list" where
  "pruneTimeWindow ts keepAfter = (if length ts = 0 then [] else prune_window ts keepAfter)"

text \<open>
  \<open>kept := times[:0]\<close> shares its array with the slice in the map, so pruning overwrites what the map
  entry reads: the kept times come first, the rest of the old slice is as it was.
\<close>

definition pruned_in_place :: "(string \<rightharpoonup> time list) \<Rightarrow> string \<Rightarrow> time \<Rightarrow> (string \<rightharpoonup> time list)" where
  "pruned_in_place w k keepAfter =
    (case w k of
       None \<Rightarrow> w
     | Some ts \<Rightarrow>
         (let kept = pruneTimeWindow ts keepAfter in w(k \<mapsto> kept @ drop (length kept) ts)))"

datatype slot = LocalSlot string | LeaseSlot string

definition count_at :: "(string \<rightharpoonup> int) \<Rightarrow> string \<Rightarrow> int" where
  "count_at m k = (case m k of None \<Rightarrow> 0 | Some n \<Rightarrow> n)"

definition slot_ip :: "string \<Rightarrow> string" where
  "slot_ip remoteAddr = (if remoteIP remoteAddr = [] then ''unknown'' else remoteIP remoteAddr)"

definition acquireLocalSlot :: "string \<Rightarrow> string \<Rightarrow> string \<Rightarrow> time \<Rightarrow> sqlHTTP \<Rightarrow> ((string \<times> svc_error) + slot) \<times> sqlHTTP" where
  "acquireLocalSlot agentID roomID remoteAddr now s =
    (let key = streamKey agentID roomID;
         ip = slot_ip remoteAddr;
         windowStart = now + - Minute;
         perRoomAgent = pruneTimeWindow (window_of (streamOpenWindows s) key) windowStart;
         perIP = pruneTimeWindow (window_of (streamIPWindows s) ip) windowStart;
         s = s\<lparr>streamOpenWindows := pruned_in_place (streamOpenWindows s) key windowStart,
               streamIPWindows := pruned_in_place (streamIPWindows s) ip windowStart\<rparr>
     in if count_at (streamCounts s) key \<ge> maxActiveStreamsPerAgentRoom
        then (Inl (''max_active_streams_per_agent_room'', ErrRateLimit), s)
        else if int (length perRoomAgent) \<ge> maxStreamConnectsPerMinuteRoomKey
        then (Inl (''reconnect_rate_limited_room_agent'', ErrRateLimit),
              s\<lparr>streamOpenWindows := (streamOpenWindows s)(key \<mapsto> perRoomAgent)\<rparr>)
        else if int (length perIP) \<ge> maxStreamConnectsPerMinuteIP
        then (Inl (''reconnect_rate_limited_ip'', ErrRateLimit),
              s\<lparr>streamIPWindows := (streamIPWindows s)(ip \<mapsto> perIP)\<rparr>)
        else (Inr (LocalSlot key),
              s\<lparr>streamCounts := (streamCounts s)(key \<mapsto> count_at (streamCounts s) key + 1),
                streamOpenWindows := (streamOpenWindows s)(key \<mapsto> perRoomAgent @ [now]),
                streamIPWindows := (streamIPWindows s)(ip \<mapsto> perIP @ [now])\<rparr>))"

text \<open>The store reads \<open>time.Now\<close> only when the input has no time, so the time given stands for it.\<close>

definition acquireDistributedStreamSlot ::
  "string \<Rightarrow> string \<Rightarrow> string \<Rightarrow> time \<Rightarrow> ((string \<times> svc_error) + slot) http" where
  "acquireDistributedStreamSlot agentID roomID remoteAddr now =
    attempt (call (do { i \<leftarrow> svc_newID ''sls''; ok i })) (\<lambda>r.
    case r of Inl err \<Rightarrow> ok (Inl (''stream_coordination_failed'', err)) | Inr leaseID \<Rightarrow>
    attempt (call (store (AcquireRoomEventStreamLease now
      \<lparr>li_LeaseID = leaseID, li_RoomID = TrimSpace roomID, li_AgentID = TrimSpace agentID,
       li_RemoteIP = slot_ip remoteAddr, li_Now = now, li_LeaseExpiresAt = now + 90 * Second,
       li_MaxActivePerRoomAgent = maxActiveStreamsPerAgentRoom,
       li_MaxConnectsPerMinuteKey = maxStreamConnectsPerMinuteRoomKey,
       li_MaxConnectsPerMinuteIP = maxStreamConnectsPerMinuteIP\<rparr>))) (\<lambda>r.
    ok (case r of
      Inl err \<Rightarrow> Inl (''stream_coordination_failed'', err)
    | Inr out \<Rightarrow>
        if \<not> lr_Acquired out
        then Inl (if TrimSpace (lr_DeniedReason out) = [] then ''stream_rate_limited''
                  else TrimSpace (lr_DeniedReason out), ErrRateLimit)
        else Inr (LeaseSlot leaseID))))"

definition acquireStreamSlot ::
  "http_conf \<Rightarrow> string \<Rightarrow> string \<Rightarrow> string \<Rightarrow> time \<Rightarrow> ((string \<times> svc_error) + slot) http" where
  "acquireStreamSlot H agentID roomID remoteAddr now =
    (if distributed H then acquireDistributedStreamSlot agentID roomID remoteAddr now
     else State (\<lambda>s. case acquireLocalSlot agentID roomID remoteAddr now s of (r, s) \<Rightarrow> (Inr r, s)))"

text \<open>The release function that comes with a slot; it runs at most once.\<close>

definition releaseStreamSlot :: "slot \<Rightarrow> unit http" where
  "releaseStreamSlot sl =
    (case sl of
       LocalSlot key \<Rightarrow> State (\<lambda>s. (Inr (),
         s\<lparr>streamCounts := (if count_at (streamCounts s) key \<le> 1 then (streamCounts s)(key := None)
           else (streamCounts s)(key \<mapsto> count_at (streamCounts s) key - 1))\<rparr>))
     | LeaseSlot leaseID \<Rightarrow> attempt (call (store (ReleaseRoomEventStreamLease leaseID))) (\<lambda>_. ok ()))"

end
