(* ===== verification/Sql_Http.thy ===== *)
theory Sql_Http
  imports Http_State
begin

text \<open>
  The handlers of \<open>internal/httpapi/sql_handlers.go\<close> that answer with one JSON reply, in the order of
  the source; the three event streams are in \<open>Sql_Streams\<close>. Names that the in-memory server also has
  carry the suffix \<open>_sql\<close>.
\<close>

section \<open>Agents and webhook endpoints\<close>

definition method_error :: "http_conf \<Rightarrow> http_reply http" where
  "method_error H = ok (writeError (errE H) 405 ''method not allowed'')"

definition not_found :: "http_conf \<Rightarrow> http_reply http" where
  "not_found H = ok (writeError (errE H) 404 ''not found'')"

definition invalid_request :: "http_conf \<Rightarrow> http_reply http" where
  "invalid_request H = ok (writeError (errE H) 400 ''invalid request'')"

definition handleAgentRegister_sql :: "http_conf \<Rightarrow> http_request \<Rightarrow> http_reply http" where
  "handleAgentRegister_sql H r =
    (if Method r \<noteq> ''POST'' then method_error H
     else (case decode_with (decodeName (decD H)) r of
       None \<Rightarrow> invalid_request H
     | Some name \<Rightarrow>
         serve (writeServiceErr H) (RegisterAgent (svcC H) name) (\<lambda>out.
         ok (replyJSON 201 (JObj [(''agent_id'', JTxt (rr_AgentID out)), (''api_key'', JTxt (rr_APIKey out))])))))"

definition handleAgentLogin_sql :: "http_conf \<Rightarrow> http_request \<Rightarrow> http_reply http" where
  "handleAgentLogin_sql H r =
    (if Method r \<noteq> ''POST'' then method_error H
     else (case decode_with (decodeAPIKey (decD H)) r of
       None \<Rightarrow> invalid_request H
     | Some apiKey \<Rightarrow>
         serve (writeServiceErr H) (Login (svcC H) apiKey) (\<lambda>token.
         ok (replyJSON 200 (JObj [(''session_token'', JTxt token)])))))"

definition sanitizeWebhookEndpoint :: "AgentWebhookEndpoint \<Rightarrow> json" where
  "sanitizeWebhookEndpoint item = JObj
    [(''id'', JTxt (ep_ID item)), (''agent_id'', JTxt (ep_AgentID item)), (''url'', JTxt (ep_URL item)),
     (''key_id'', JTxt (ep_KeyID item)), (''enabled'', JFlag (ep_Enabled item)),
     (''created_at'', JTime (ep_CreatedAt item)), (''updated_at'', JTime (ep_UpdatedAt item))]"

definition sanitizeWebhookEndpoints :: "AgentWebhookEndpoint list \<Rightarrow> json" where
  "sanitizeWebhookEndpoints items = JArr (map sanitizeWebhookEndpoint items)"

definition handleAgentWebhooks :: "http_conf \<Rightarrow> http_request \<Rightarrow> http_reply http" where
  "handleAgentWebhooks H r =
    (if URLPath r \<noteq> ''/v1/agent/webhooks'' then not_found H
     else serve (writeServiceErr H) (authAgentID_sql r) (\<lambda>agentID.
       if Method r = ''GET'' then
         serve (writeServiceErr H) (ListEndpoints agentID) (\<lambda>items.
         ok (replyJSON 200 (JObj [(''items'', sanitizeWebhookEndpoints items)])))
       else if Method r = ''POST'' then
         (case decode_with (decodeWebhook (decD H)) r of
            None \<Rightarrow> invalid_request H
          | Some req \<Rightarrow>
              (let enabled = (case whr_Enabled req of None \<Rightarrow> True | Some b \<Rightarrow> b) in
               serve (writeServiceErr H) (CreateEndpoint (svcC H) (urlU H) agentID (whr_URL req) (whr_Secret req)
                 (whr_KeyID req) enabled) (\<lambda>out.
               ok (replyJSON 201 (sanitizeWebhookEndpoint out)))))
       else ok (writeMethodNotAllowed [''GET'', ''POST''])))"

definition handleAgentWebhookByID :: "http_conf \<Rightarrow> http_request \<Rightarrow> http_reply http" where
  "handleAgentWebhookByID H r =
    (let parts = splitPath (URLPath r) in
     if length parts \<noteq> 4 \<or> parts ! 0 \<noteq> ''v1'' \<or> parts ! 1 \<noteq> ''agent'' \<or> parts ! 2 \<noteq> ''webhooks'' then not_found H
     else if Method r \<noteq> ''DELETE'' then ok (writeMethodNotAllowed [''DELETE''])
     else serve (writeServiceErr H) (authAgentID_sql r) (\<lambda>agentID.
       serve (writeServiceErr H) (DeleteEndpoint agentID (parts ! 3)) (\<lambda>_.
       ok (writeJSON 204 None))))"

definition handleAgentStreamAck :: "http_conf \<Rightarrow> http_request \<Rightarrow> http_reply http" where
  "handleAgentStreamAck H r =
    (if URLPath r \<noteq> ''/v1/agent/stream/ack'' then not_found H
     else if Method r \<noteq> ''POST'' then ok (writeMethodNotAllowed [''POST''])
     else serve (writeServiceErr H) (authAgentID_sql r) (\<lambda>agentID.
       case decode_with (decodeAck (decD H)) r of
         None \<Rightarrow> invalid_request H
       | Some deliveryID \<Rightarrow>
           serve (writeServiceErr H) (AckDelivery agentID deliveryID) (\<lambda>_.
           ok (replyJSON 200 (JObj [(''delivery_id'', JTxt (TrimSpace deliveryID)), (''status'', JTxt ''acked'')])))))"

definition json_actionable :: "ActionableRoomRecovery \<Rightarrow> json" where
  "json_actionable x = JObj
    [(''room_id'', JTxt (arr_RoomID x)), (''room_state'', JTxt (state_text (arr_RoomState x))),
     (''next_turn'', JNum (arr_NextTurn x)), (''next_actor_id'', JTxt (arr_NextActorID x)),
     (''token'', JTxt (arr_Token x)), (''expires_at'', JTime (arr_ExpiresAt x))]"

definition json_terminal :: "TerminalRoomRecovery \<Rightarrow> json" where
  "json_terminal x = JObj
    ([(''room_id'', JTxt (trr_RoomID x)), (''room_state'', JTxt (state_text (trr_RoomState x)))] @
     jomit ''closed_at'' JTime (trr_ClosedAt x) @ jomit ''purged_at'' JTime (trr_PurgedAt x))"

definition handleAgentActionableRooms :: "http_conf \<Rightarrow> http_request \<Rightarrow> http_reply http" where
  "handleAgentActionableRooms H r =
    (if URLPath r \<noteq> ''/v1/agent/actionable-rooms'' then not_found H
     else if Method r \<noteq> ''GET'' then ok (writeMethodNotAllowed [''GET''])
     else serve (writeServiceErr H) (authAgentID_sql r) (\<lambda>agentID.
       serve (writeServiceErr H) (ActionableRooms (svcC H) agentID) (\<lambda>out.
       ok (replyJSON 200 (JObj [(''actionable'', JArr (map json_actionable (Actionable out))),
         (''terminal'', JArr (map json_terminal (Terminal out)))])))))"

section \<open>Listings\<close>

definition handleListings_sql :: "http_conf \<Rightarrow> http_request \<Rightarrow> http_reply http" where
  "handleListings_sql H r =
    (if URLPath r \<noteq> ''/v1/listings'' then not_found H
     else if Method r \<noteq> ''POST'' then method_error H
     else serve (writeServiceErr H) (authAgentID_sql r) (\<lambda>agentID.
       case decode_with (decodeListing (decD H)) r of
         None \<Rightarrow> invalid_request H
       | Some req \<Rightarrow>
           serve (writeServiceErr H) (CreateListing (svcC H) agentID (reqTopic req) (reqTags req) (reqMaxTurns req)
             (reqTTLSeconds req)) (\<lambda>out.
           let l = clr_Listing out in
           ok (replyJSON 201 (JObj
             [(''id'', JTxt (lst_ID l)), (''agent_id'', JTxt (lst_AgentID l)), (''topic'', JTxt (lst_Topic l)),
              (''tags'', JArr (map JTxt (lst_Tags l))), (''max_turns'', JNum (lst_MaxTurns l)),
              (''ttl_seconds'', JNum (lst_TTLSeconds l)), (''created_at'', JTime (lst_CreatedAt l)),
              (''connected'', JFlag (lst_Connected l)), (''room_id'', JTxt (clr_RoomID out)),
              (''human_code'', JTxt (clr_HumanCode out)), (''owner_joined'', JFlag (clr_OwnerJoined out)),
              (''room_state'', JTxt (state_text (clr_RoomState out))),
              (''next_actor_id'', JTxt (clr_NextActorID out))])))))"

definition json_listing :: "Listing \<Rightarrow> json" where
  "json_listing l = JObj
    [(''id'', JTxt (lst_ID l)), (''agent_id'', JTxt (lst_AgentID l)), (''topic'', JTxt (lst_Topic l)),
     (''tags'', JArr (map JTxt (lst_Tags l))), (''max_turns'', JNum (lst_MaxTurns l)),
     (''ttl_seconds'', JNum (lst_TTLSeconds l)), (''connected'', JFlag (lst_Connected l)),
     (''created_at'', JTime (lst_CreatedAt l))]"

definition handleListingSearch_sql :: "http_conf \<Rightarrow> http_request \<Rightarrow> http_reply http" where
  "handleListingSearch_sql H r =
    (if Method r \<noteq> ''GET'' then method_error H
     else serve (writeListingServiceErr H) (SearchListings (svcC H) (dbLower H) (queryGet r ''q'')) (\<lambda>results.
       ok (replyJSON 200 (JObj [(''items'', jslice json_listing results)]))))"

definition handleListingByID_sql :: "http_conf \<Rightarrow> http_request \<Rightarrow> http_reply http" where
  "handleListingByID_sql H r =
    (let parts = splitPath (URLPath r) in
     if length parts \<noteq> 4 \<or> parts ! 0 \<noteq> ''v1'' \<or> parts ! 1 \<noteq> ''listings'' \<or> parts ! 3 \<noteq> ''connect'' then not_found H
     else if Method r \<noteq> ''POST'' then method_error H
     else serve (writeServiceErr H) (authAgentID_sql r) (\<lambda>agentID.
       serve (writeListingServiceErr H) (ConnectListing (svcC H) agentID (parts ! 2)) (\<lambda>out.
       ok (replyJSON 201 (JObj
         [(''room_id'', JTxt (cnr_RoomID out)), (''human_code'', JTxt (cnr_HumanCode out)),
          (''agent_a_id'', JTxt (cnr_AgentAID out)), (''agent_b_id'', JTxt (cnr_AgentBID out)),
          (''room_state'', JTxt (state_text (cnr_RoomState out))), (''listing_id'', JTxt (cnr_ListingID out)),
          (''next_turn_a'', JTxt (cnr_NextTurnA out)), (''next_actor_id'', JTxt (cnr_NextActorID out))])))))"

section \<open>Administration\<close>

fun xor_diff :: "8 word \<Rightarrow> string \<Rightarrow> string \<Rightarrow> 8 word" where
  "xor_diff diff (x # xs) (y # ys) =
    xor_diff (or diff (xor (of_nat (of_char x)) (of_nat (of_char y)))) xs ys"
| "xor_diff diff _ _ = diff"

definition subtleConstantTimeEqual :: "string \<Rightarrow> string \<Rightarrow> bool" where
  "subtleConstantTimeEqual a b = (if length a \<noteq> length b then False else xor_diff 0 a b = 0)"

definition adminAuthorized :: "http_conf \<Rightarrow> http_request \<Rightarrow> bool" where
  "adminAuthorized H r =
    (let tok = TrimSpace (adminToken H); auth = TrimSpace (Authorization r) in
     if tok = [] then False
     else if \<not> HasPrefix auth ''Bearer '' then False
     else (let token = TrimSpace (TrimPrefix auth ''Bearer '') in
       if token = [] then False else subtleConstantTimeEqual token tok))"

definition internal_error :: "http_conf \<Rightarrow> svc_error \<Rightarrow> http_reply" where
  "internal_error H err = writeError (errE H) 500 ''internal error''"

definition json_overview :: "http_conf \<Rightarrow> AdminOverview \<Rightarrow> PurgeOverviewResult \<Rightarrow> time \<Rightarrow> json" where
  "json_overview H out p now = JObj
    [(''agents_total'', JNum (ao_AgentsTotal out)), (''sessions_active'', JNum (ao_SessionsActive out)),
     (''rooms_open'', JNum (ao_RoomsOpen out)), (''rooms_active'', JNum (ao_RoomsActive out)),
     (''rooms_closed'', JNum (ao_RoomsClosed out)), (''rooms_purged'', JNum (ao_RoomsPurged out)),
     (''messages_total'', JNum (ao_MessagesTotal out)),
     (''purge'', JObj
       [(''scanned'', JNum (po_Scanned p)), (''closed_rooms'', JNum (po_ClosedRooms p)),
        (''ready_for_purge'', JNum (po_ReadyForPurge p)), (''viewer_blocked'', JNum (po_ViewerBlocked p)),
        (''over_retention'', JNum (po_OverRetention p)),
        (''oldest_closed_age_seconds'', JNum (po_OldestClosedAgeSeconds p)),
        (''oldest_ready_age_seconds'', JNum (po_OldestReadyAgeSeconds p)),
        (''closed_room_grace_seconds'', JNum (po_ClosedRoomGraceSeconds p)),
        (''max_closed_retention_seconds'', JNum (po_MaxClosedRetentionSeconds p))]),
     (''generated_at_utc'', JTxt (rfc3339 (svcC H) now))]"

definition handleAdminOverview :: "http_conf \<Rightarrow> http_reply http" where
  "handleAdminOverview H =
    serve (internal_error H) (svc_AdminOverview (svcC H)) (\<lambda>(out, p).
    attempt h_now (\<lambda>now.
    ok (replyJSON 200 (json_overview H out p now))))"

definition json_admin_room :: "AdminRoom \<Rightarrow> json" where
  "json_admin_room x = JObj
    ([(''id'', JTxt (ar_ID x)), (''agent_a_id'', JTxt (ar_AgentAID x)), (''agent_a_name'', JTxt (ar_AgentAName x)),
      (''agent_b_id'', JTxt (ar_AgentBID x)), (''agent_b_name'', JTxt (ar_AgentBName x)),
      (''state'', JTxt (state_text (ar_State x))), (''turn_index'', JNum (ar_TurnIndex x)),
      (''max_turns'', JNum (ar_MaxTurns x)), (''ttl_at'', JTime (ar_TTLAt x)),
      (''created_at'', JTime (ar_CreatedAt x))] @
     jomit ''closed_at'' JTime (ar_ClosedAt x) @ jomit ''purged_at'' JTime (ar_PurgedAt x))"

definition handleAdminRooms :: "http_conf \<Rightarrow> http_reply http" where
  "handleAdminRooms H =
    serve (internal_error H) (AdminRooms 200) (\<lambda>rooms.
    ok (replyJSON 200 (JObj [(''items'', jslice json_admin_room rooms)])))"

definition json_audit :: "AuditEvent \<Rightarrow> json" where
  "json_audit x = JObj
    [(''id'', JNum (au_ID x)), (''room_id'', JTxt (au_RoomID x)), (''event'', JTxt (au_Event x)),
     (''meta'', JTxt (au_Meta x)), (''message_count'', JNum (au_MessageCount x)),
     (''created_at'', JTime (au_CreatedAt x))]"

definition handleAdminAudit :: "http_conf \<Rightarrow> http_reply http" where
  "handleAdminAudit H =
    serve (internal_error H) (AdminAudit 300) (\<lambda>events.
    ok (replyJSON 200 (JObj [(''items'', jslice json_audit events)])))"

definition handleAdmin :: "http_conf \<Rightarrow> http_request \<Rightarrow> http_reply http" where
  "handleAdmin H r =
    (let parts = splitPath (URLPath r) in
     if length parts \<noteq> 3 \<or> parts ! 0 \<noteq> ''v1'' \<or> parts ! 1 \<noteq> ''admin'' then not_found H
     else if Method r \<noteq> ''GET'' then method_error H
     else if TrimSpace (adminToken H) = [] then ok (writeError (errE H) 503 ''admin not configured'')
     else if TrimSpace (XAdminToken r) \<noteq> [] then
       ok (writeAPIError 400 ''invalid_request'' (no_options\<lparr>Hint :=
         ''Use Authorization: Bearer <admin_token>. X-Admin-Token is not supported.''\<rparr>))
     else if gm_get (Query r) ''admin_token'' \<noteq> None then
       ok (writeAPIError 400 ''invalid_request'' (no_options\<lparr>Hint :=
         ''Send admin credentials in Authorization header. Query-string admin_token is not supported.''\<rparr>))
     else if \<not> adminAuthorized H r then ok (writeError (errE H) 401 ''missing or invalid admin token'')
     else if parts ! 2 = ''overview'' then handleAdminOverview H
     else if parts ! 2 = ''rooms'' then handleAdminRooms H
     else if parts ! 2 = ''audit'' then handleAdminAudit H
     else not_found H)"

section \<open>Rooms\<close>

definition handleRoomContext :: "http_conf \<Rightarrow> http_request \<Rightarrow> string \<Rightarrow> http_reply http" where
  "handleRoomContext H r roomID =
    (if Method r \<noteq> ''GET'' then method_error H
     else serve (writeServiceErr H) (authRoomAccess H r roomID ''room:context'') (\<lambda>agentID.
       serve (writeRoomServiceErr H) (GetPromptBundle (svcC H) agentID roomID) (\<lambda>out.
       let b = pbr_Bundle out in
       ok (replyJSON 200 (JObj
         [(''room_id'', JTxt roomID), (''bundle_hash'', JTxt (Bundle.BundleHash b)),
          (''system_core_hash'', JTxt (bSystemCoreHash b)), (''global_rules_hash'', JTxt (bGlobalRulesHash b)),
          (''agent_rules_hash'', JTxt (bAgentRulesHash b)), (''identity_hash'', JTxt (bIdentityHash b)),
          (''soul_hash'', JTxt (bSoulHash b)), (''user_hash'', JTxt (bUserHash b)),
          (''turn_index'', JNum (pbr_NextTurn out)), (''next_turn'', JNum (pbr_NextTurn out)),
          (''next_actor_id'', JTxt (pbr_NextActorID out)), (''context_ack_required'', JFlag True),
          (''context_ack_path'', JTxt ''/v1/rooms/{id}/context/ack''), (''mode'', JTxt ''sse''),
          (''poll_interval_ms'', JNum 5000), (''ordered_stack'', JArr (map JTxt (bOrderedStack b))),
          (''prompt_bundle_text'', JTxt (Prompt b))])))))"

definition handleRoomContextAck :: "http_conf \<Rightarrow> http_request \<Rightarrow> string \<Rightarrow> http_reply http" where
  "handleRoomContextAck H r roomID =
    (if Method r \<noteq> ''POST'' then method_error H
     else serve (writeServiceErr H) (authRoomAccess H r roomID ''room:context'') (\<lambda>agentID.
       case decode_with (decodeTurn (decD H)) r of
         None \<Rightarrow> invalid_request H
       | Some None \<Rightarrow> invalid_request H
       | Some (Some turnIndex) \<Rightarrow>
           if turnIndex < 0 then invalid_request H
           else serve (writeRoomServiceErr H) (RecordRoomContextFetch (svcC H) agentID roomID turnIndex) (\<lambda>_.
             ok (replyJSON 200 (JObj [(''room_id'', JTxt roomID), (''agent_id'', JTxt agentID),
               (''turn_index'', JNum turnIndex)])))))"

definition handleRoomJoin_sql :: "http_conf \<Rightarrow> http_request \<Rightarrow> string \<Rightarrow> http_reply http" where
  "handleRoomJoin_sql H r roomID =
    (if Method r \<noteq> ''POST'' then method_error H
     else serve (writeServiceErr H) (authAgentID_sql r) (\<lambda>agentID.
       serve (writeRoomServiceErr H) (JoinRoom (svcC H) agentID roomID) (\<lambda>(st, joined).
       serve (writeRoomServiceErr H) (GetPromptBundle (svcC H) agentID roomID) (\<lambda>out.
       let b = pbr_Bundle out in
       ok (replyJSON 200 (JObj
         [(''room_id'', JTxt roomID), (''state'', JTxt (state_text st)),
          (''joined'', JObj (map (\<lambda>(k, v). (k, JFlag v)) joined)),
          (''initial_bundle'', JTxt (Bundle.BundleHash b)), (''system_core_hash'', JTxt (bSystemCoreHash b)),
          (''global_rules_hash'', JTxt (bGlobalRulesHash b)), (''agent_rules_hash'', JTxt (bAgentRulesHash b)),
          (''identity_hash'', JTxt (bIdentityHash b)), (''soul_hash'', JTxt (bSoulHash b)),
          (''user_hash'', JTxt (bUserHash b)), (''ordered_stack'', JArr (map JTxt (bOrderedStack b)))]))))))"

definition handleRoomAccessToken :: "http_conf \<Rightarrow> http_request \<Rightarrow> string \<Rightarrow> http_reply http" where
  "handleRoomAccessToken H r roomID =
    (if Method r \<noteq> ''POST'' then ok (writeMethodNotAllowed [''POST''])
     else serve (writeServiceErr H) (authAgentID_sql r) (\<lambda>agentID.
       serve (writeRoomServiceErr H) (CreateRoomAccessToken (svcC H) agentID roomID) (\<lambda>out.
       ok (replyJSON 201 (JObj
         [(''room_id'', JTxt (rat_RoomID out)), (''agent_id'', JTxt (rat_AgentID out)),
          (''token'', JTxt (rat_Token out)), (''scope'', JTxt (rat_Scope out)),
          (''expires_at'', JTime (rat_ExpiresAt out))])))))"

text \<open>\<open>Stop\<close> for the sender, and \<open>ClearRoom\<close> when the message ended the room.\<close>

definition typing_after_send :: "string \<Rightarrow> string \<Rightarrow> RoomState \<Rightarrow> unit http" where
  "typing_after_send roomID agentID st =
    attempt h_now (\<lambda>now.
    attempt (on_typing (Stop roomID agentID now)) (\<lambda>_.
    if st \<noteq> RoomStateActive
    then attempt h_now (\<lambda>now. attempt (on_typing (ClearRoom roomID now)) (\<lambda>_. ok ()))
    else ok ()))"

definition handleRoomMessage_sql :: "http_conf \<Rightarrow> http_request \<Rightarrow> string \<Rightarrow> http_reply http" where
  "handleRoomMessage_sql H r roomID =
    (if Method r \<noteq> ''POST'' then method_error H
     else attempt h_now (\<lambda>now. do {
       allowed \<leftarrow> allowIPMessage (RemoteAddr r) now;
       if \<not> allowed then
         attempt (AppendSecurityAudit H roomID ''ip_rate_limited''
           [(''room_id'', JStr roomID), (''ip'', JStr (remoteIP (RemoteAddr r)))] 0) (\<lambda>_.
         ok (writeError (errE H) 429 ''rate limit exceeded''))
       else serve (writeServiceErr H) (authRoomAccess H r roomID ''room:message'') (\<lambda>agentID.
         case decode_with (decodeMessage (decD H)) r of
           None \<Rightarrow> invalid_request H
         | Some req \<Rightarrow>
             serve (writeRoomServiceErr H) (SendMessage (svcC H) agentID roomID (ExpectedTurn req) (reqCiphertext req)
               (messageRequest.BundleHash req)) (\<lambda>out.
             attempt (typing_after_send roomID agentID (smr_RoomState out)) (\<lambda>_.
             ok (replyJSON 201 (JObj
               [(''message_id'', JTxt (msg_ID (smr_Message out))), (''turn'', JNum (msg_Turn (smr_Message out))),
                (''next_turn'', JNum (smr_NextTurn out)), (''room_state'', JTxt (state_text (smr_RoomState out))),
                (''bundle_hash'', JTxt (smr_BundleHash out))]))))) }))"

definition handleRoomState_sql :: "http_conf \<Rightarrow> http_request \<Rightarrow> string \<Rightarrow> http_reply http" where
  "handleRoomState_sql H r roomID =
    (if Method r \<noteq> ''GET'' then method_error H
     else serve (writeServiceErr H) (authRoomAccess H r roomID ''room:state'') (\<lambda>agentID.
       serve (writeRoomServiceErr H) (GetRoomState (svcC H) agentID roomID) (\<lambda>out.
       let rm = rsr_Room out in
       ok (replyJSON 200 (JObj
         [(''id'', JTxt (room_ID rm)), (''agent_a_id'', JTxt (room_AgentAID rm)),
          (''agent_b_id'', JTxt (room_AgentBID rm)), (''state'', JTxt (state_text (room_State rm))),
          (''turn_index'', JNum (room_TurnIndex rm)), (''next_turn'', JNum (rsr_NextTurn out)),
          (''next_actor_id'', JTxt (rsr_NextActorID out)), (''max_turns'', JNum (room_MaxTurns rm)),
          (''ttl_at'', JTime (room_TTLAt rm)), (''created_at'', JTime (room_CreatedAt rm)),
          (''closed_at'', jtime_opt (room_ClosedAt rm)), (''purged_at'', jtime_opt (room_PurgedAt rm)),
          (''active_viewers'', JNum (rsr_ActiveViewers out))])))))"

definition handleRoomClose_sql :: "http_conf \<Rightarrow> http_request \<Rightarrow> string \<Rightarrow> http_reply http" where
  "handleRoomClose_sql H r roomID =
    (if Method r \<noteq> ''POST'' then method_error H
     else serve (writeServiceErr H) (authRoomAccess H r roomID ''room:close'') (\<lambda>agentID.
       serve (writeRoomServiceErr H) (CloseRoom (svcC H) agentID roomID) (\<lambda>rm.
       attempt h_now (\<lambda>now.
       attempt (on_typing (ClearRoom roomID now)) (\<lambda>_.
       ok (replyJSON 200 (JObj [(''room_id'', JTxt (room_ID rm)), (''state'', JTxt (state_text (room_State rm)))])))))))"

definition handleRoomLeave_sql :: "http_conf \<Rightarrow> http_request \<Rightarrow> string \<Rightarrow> http_reply http" where
  "handleRoomLeave_sql H r roomID =
    (if Method r \<noteq> ''POST'' then ok (writeMethodNotAllowed [''POST''])
     else ok (writeEndpointNotSupported ''/v1/rooms/{id}/leave''
       ''Leave is not implemented. Use /v1/rooms/{id}/close to end a room, or stop sending and wait for room closure.''))"

definition nextActorIDForTranscript :: "Room \<Rightarrow> string" where
  "nextActorIDForTranscript rm =
    (if room_State rm \<noteq> RoomStateOpen \<and> room_State rm \<noteq> RoomStateActive then []
     else if go_rem (room_TurnIndex rm) 2 = 0 then room_AgentAID rm else room_AgentBID rm)"

definition readByOpponent :: "Room \<Rightarrow> (string, int) gomap \<Rightarrow> Message \<Rightarrow> bool" where
  "readByOpponent rm fetches m =
    (let opponentID =
       (if msg_SenderID m = room_AgentAID rm then room_AgentBID rm
        else if msg_SenderID m = room_AgentBID rm then room_AgentAID rm else [])
     in if opponentID \<noteq> []
        then (case gm_get fetches opponentID of None \<Rightarrow> False | Some fetchTurn \<Rightarrow> msg_Turn m < fetchTurn)
        else False)"

definition json_transcript_message :: "Room \<Rightarrow> (string, int) gomap \<Rightarrow> Message \<Rightarrow> json" where
  "json_transcript_message rm fetches m = JObj
    [(''id'', JTxt (msg_ID m)), (''sender_id'', JTxt (msg_SenderID m)), (''sender_name'', JTxt (msg_SenderName m)),
     (''turn'', JNum (msg_Turn m)), (''ciphertext'', JTxt (msg_Ciphertext m)),
     (''created_at'', JTime (msg_CreatedAt m)), (''read_by_opponent'', JFlag (readByOpponent rm fetches m))]"

definition handleTranscript_sql :: "http_conf \<Rightarrow> http_request \<Rightarrow> string \<Rightarrow> http_reply http" where
  "handleTranscript_sql H r roomID =
    (if Method r \<noteq> ''POST'' then method_error H
     else if gm_get (Query r) ''human_code'' \<noteq> None then
       ok (writeAPIError 400 ''invalid_request'' (no_options\<lparr>Hint :=
         ''Send human_code in the JSON request body. Query-string human_code is not supported.''\<rparr>))
     else (case decode_with (decodeHumanCode (decD H)) r of
       None \<Rightarrow> invalid_request H
     | Some humanCode \<Rightarrow>
         serve (writeRoomServiceErr H) (Transcript (svcC H) roomID (TrimSpace humanCode)) (\<lambda>out.
         let rm = tr_Room out; fetches = tr_LastFetch out in
         ok (replyJSON 200 (JObj
           [(''room_id'', JTxt roomID), (''room_topic'', JTxt (TrimSpace (room_Topic rm))),
            (''agent_a_id'', JTxt (room_AgentAID rm)), (''agent_b_id'', JTxt (room_AgentBID rm)),
            (''turn_index'', JNum (room_TurnIndex rm)), (''next_actor_id'', JTxt (nextActorIDForTranscript rm)),
            (''state'', JTxt (state_text (room_State rm))),
            (''messages'', JArr (map (json_transcript_message rm fetches) (tr_Messages out))),
            (''closed_at'', jtime_opt (room_ClosedAt rm)), (''purged_at'', jtime_opt (room_PurgedAt rm)),
            (''last_context_fetch_turn_by_agent'',
              if fetches = [] then JNull else JObj (map (\<lambda>(k, n). (k, JNum n)) fetches))])))))"

definition handleRoomViewers_sql :: "http_conf \<Rightarrow> http_request \<Rightarrow> string \<Rightarrow> http_reply http" where
  "handleRoomViewers_sql H r roomID =
    (if Method r \<noteq> ''POST'' then method_error H
     else (case decode_with (decodeViewer (decD H)) r of
       None \<Rightarrow> invalid_request H
     | Some req \<Rightarrow>
         (let op = TrimSpace (Op req) in
          if op = ''join'' then
            serve (writeRoomServiceErr H) (ViewerJoin (svcC H) roomID (reqHumanCode req)) (\<lambda>out.
            ok (replyJSON 201 (JObj [(''viewer_token'', JTxt (vr_ViewerToken out)),
              (''active_viewers'', JNum (vr_ActiveViewers out))])))
          else if op = ''heartbeat'' then
            serve (writeRoomOrViewerServiceErr H) (ViewerHeartbeat (svcC H) roomID (ViewerToken req)) (\<lambda>out.
            ok (replyJSON 200 (JObj [(''active_viewers'', JNum (vr_ActiveViewers out))])))
          else if op = ''leave'' then
            serve (writeRoomOrViewerServiceErr H) (ViewerLeave (svcC H) roomID (ViewerToken req)) (\<lambda>out.
            ok (replyJSON 200 (JObj [(''active_viewers'', JNum (vr_ActiveViewers out))])))
          else ok (writeError (errE H) 400 ''unsupported op''))))"

section \<open>Room events and typing\<close>

definition roomEventPayload :: "RoomEvent \<Rightarrow> json" where
  "roomEventPayload e = JObj
    ([(''event_id'', JNum (ev_ID e)), (''type'', JTxt (ev_EventType e)), (''room_id'', JTxt (ev_RoomID e)),
      (''created_at'', JTime (ev_CreatedAt e))] @
     jomit ''message_id'' JTxt (ev_MessageID e) @ jomit ''turn'' JNum (ev_Turn e) @
     jomit ''sender_id'' JTxt (ev_SenderID e) @ jomit ''ciphertext'' JTxt (ev_Ciphertext e))"

definition parseEventHistoryQuery :: "http_request \<Rightarrow> (int \<times> int) option" where
  "parseEventHistoryQuery r =
    (let rawSince = TrimSpace (queryGet r ''since''); rawLimit = TrimSpace (queryGet r ''limit'');
         since = (if rawSince = [] then Some 0
           else (case ParseInt rawSince of None \<Rightarrow> None | Some v \<Rightarrow> if v < 0 then None else Some v));
         limit = (if rawLimit = [] then Some 200
           else (case ParseInt rawLimit of None \<Rightarrow> None | Some v \<Rightarrow> if v \<le> 0 then None else Some v))
     in case since of None \<Rightarrow> None
      | Some sv \<Rightarrow> (case limit of None \<Rightarrow> None | Some lv \<Rightarrow> Some (sv, lv)))"

definition handleRoomEventsHistory :: "http_conf \<Rightarrow> http_request \<Rightarrow> string \<Rightarrow> http_reply http" where
  "handleRoomEventsHistory H r roomID =
    (if Method r \<noteq> ''GET'' then method_error H
     else serve (writeServiceErr H) (authAgentID_sql r) (\<lambda>agentID.
       case parseEventHistoryQuery r of
         None \<Rightarrow> invalid_request H
       | Some (sinceID, limit) \<Rightarrow>
           serve (writeRoomServiceErr H) (ListRoomEventHistory (svcC H) agentID roomID sinceID limit) (\<lambda>out.
           ok (replyJSON 200 (JObj [(''room_id'', JTxt roomID),
             (''items'', JArr (map roomEventPayload (eh_Items out))), (''next_since'', JNum (eh_NextSince out))])))))"

text \<open>The requested time to live; the product of the Go durations wraps around.\<close>

definition requested_ttl :: "int \<Rightarrow> duration" where
  "requested_ttl ms =
    (let ttl = wrap64 (ms * Millisecond);
         ttl = (if ttl < minTypingTTL then minTypingTTL else ttl)
     in if ttl > maxTypingTTL then maxTypingTTL else ttl)"

definition typing_start :: "http_conf \<Rightarrow> string \<Rightarrow> string \<Rightarrow> duration \<Rightarrow> time \<Rightarrow> http_reply http" where
  "typing_start H roomID agentID ttl now =
    attempt (on_typing (Start roomID agentID now ttl)) (\<lambda>event.
    ok (replyJSON 200 (JObj [(''room_id'', JTxt roomID), (''actor_id'', JTxt agentID), (''state'', JTxt ''start''),
      (''ttl_ms'', JNum (go_div ttl Millisecond)), (''expires_at'', JTime (teExpiresAt event))])))"

definition handleRoomTyping :: "http_conf \<Rightarrow> http_request \<Rightarrow> string \<Rightarrow> http_reply http" where
  "handleRoomTyping H r roomID =
    (if Method r \<noteq> ''POST'' then method_error H
     else serve (writeServiceErr H) (authRoomAccess H r roomID ''room:typing'') (\<lambda>agentID.
       case decode_with (decodeTyping (decD H)) r of
         None \<Rightarrow> invalid_request H
       | Some req \<Rightarrow>
           (let st = TrimSpace (tyr_State req) in
            if st \<noteq> ''start'' \<and> st \<noteq> ''stop'' then
              ok (writeAPIError 400 ''invalid_request'' (no_options\<lparr>Hint := ''state must be start or stop.''\<rparr>))
            else serve (writeRoomServiceErr H) (GetRoomState (svcC H) agentID roomID) (\<lambda>out.
              attempt h_now (\<lambda>now.
              if st = ''start'' then
                (if room_State (rsr_Room out) \<noteq> RoomStateActive then
                   ok (writeAPIError 409 ''room_not_active'' (no_options\<lparr>Recoverable := True,
                     Hint := ''Wait until the room becomes ACTIVE before sending typing updates.''\<rparr>))
                 else if rsr_NextActorID out \<noteq> agentID then
                   ok (writeAPIError 409 ''turn_mismatch'' (no_options\<lparr>Recoverable := True,
                     Hint := ''Only the current speaker may emit typing.start.''\<rparr>))
                 else (case tyr_TTLMs req of
                   None \<Rightarrow> typing_start H roomID agentID defaultTypingTTL now
                 | Some ms \<Rightarrow>
                     if ms \<le> 0 then
                       ok (writeAPIError 400 ''invalid_request''
                         (no_options\<lparr>Hint := ''ttl_ms must be greater than 0 when provided.''\<rparr>))
                     else typing_start H roomID agentID (requested_ttl ms) now))
              else attempt (on_typing (Stop roomID agentID now)) (\<lambda>(event, cleared).
                ok (replyJSON 200 (JObj [(''room_id'', JTxt roomID), (''actor_id'', JTxt agentID),
                  (''state'', JTxt ''stop''), (''cleared'', JFlag cleared)]))))))))"

end
