(* ===== verification/Sql_Streams.thy ===== *)
theory Sql_Streams
  imports Sql_Http
begin

text \<open>
  The three event streams of \<open>internal/httpapi/sql_handlers.go\<close>: the events of a room, the deliveries
  of an agent, and the typing events a viewer watches. A handler opens a connection and then loops over a
  \<open>select\<close>; the model has one program that opens it and one step per round of the loop, so that other
  requests can run between the rounds.

  \<^item> A connection keeps what it has written and which write fails; a frame is one write here. The
    \<open>ResponseWriter\<close> of the server always is a \<open>Flusher\<close> (\<open>loggingResponseWriter\<close> has \<open>Flush\<close>).
  \<^item> \<open>payloadObj\<close> is \<open>json.Unmarshal\<close> into a map: no value for the text \<open>null\<close>, which makes the map nil,
    and no entries for a text it rejects.
\<close>

section \<open>What is written\<close>

record frame =
  fr_ID :: "string option"
  fr_Event :: string
  fr_Data :: json

datatype chunk = Retry | KeepAliveComment | Event frame | ErrorBody http_reply

text \<open>The bytes of a chunk; \<open>marshal\<close> is \<open>json.Marshal\<close>, and \<open>body\<close> the text of an error reply.\<close>

fun chunk_text :: "(json \<Rightarrow> string) \<Rightarrow> (http_reply \<Rightarrow> string) \<Rightarrow> chunk \<Rightarrow> string" where
  "chunk_text marshal body Retry = ''retry: 3000'' @ [CHR 0x0A, CHR 0x0A]"
| "chunk_text marshal body KeepAliveComment = '': keepalive'' @ [CHR 0x0A, CHR 0x0A]"
| "chunk_text marshal body (Event f) =
    (case fr_ID f of None \<Rightarrow> [] | Some i \<Rightarrow> ''id: '' @ i @ [CHR 0x0A]) @
    ''event: '' @ fr_Event f @ [CHR 0x0A] @ ''data: '' @ marshal (fr_Data f) @ [CHR 0x0A, CHR 0x0A]"
| "chunk_text marshal body (ErrorBody r) = body r"

record stream_writer =
  wr_Out :: "chunk list"
  wr_Fails :: "nat \<Rightarrow> bool"

definition write_chunk :: "chunk \<Rightarrow> stream_writer \<Rightarrow> stream_writer option" where
  "write_chunk c w =
    (if wr_Fails w (length (wr_Out w)) then None else Some (w\<lparr>wr_Out := wr_Out w @ [c]\<rparr>))"

definition room_event_frame :: "RoomEvent \<Rightarrow> frame" where
  "room_event_frame e = \<lparr>fr_ID = Some (Itoa (ev_ID e)), fr_Event = ev_EventType e, fr_Data = roomEventPayload e\<rparr>"

definition writeSSEEvent :: "RoomEvent \<Rightarrow> stream_writer \<Rightarrow> stream_writer option" where
  "writeSSEEvent e w = write_chunk (Event (room_event_frame e)) w"

definition json_typing :: "roomTypingEvent \<Rightarrow> json" where
  "json_typing e = JObj
    ([(''type'', JTxt (teType e)), (''room_id'', JTxt (teRoomID e)), (''actor_id'', JTxt (teActorID e)),
      (''state'', JTxt (teState e))] @
     (if teTTLMS e = 0 then [] else [(''ttl_ms'', JNum (teTTLMS e))]) @
     [(''created_at'', JTime (teCreatedAt e)), (''expires_at'', JTime (teExpiresAt e))])"

definition writeTypingSSEEvent :: "roomTypingEvent \<Rightarrow> stream_writer \<Rightarrow> stream_writer option" where
  "writeTypingSSEEvent e w =
    write_chunk (Event \<lparr>fr_ID = None, fr_Event = TrimSpace (teType e), fr_Data = json_typing e\<rparr>) w"

definition writeAgentStreamControlEvent ::
  "string \<Rightarrow> (string \<times> json) list \<Rightarrow> stream_writer \<Rightarrow> stream_writer option" where
  "writeAgentStreamControlEvent eventType payload w =
    write_chunk (Event \<lparr>fr_ID = None, fr_Event = TrimSpace eventType, fr_Data = JObj payload\<rparr>) w"

text \<open>Assigning into the nil map that \<open>null\<close> leaves would panic: \<open>None\<close>.\<close>

definition agentStreamDeliveryPayload :: "http_conf \<Rightarrow> AgentStreamDelivery \<Rightarrow> json option" where
  "agentStreamDeliveryPayload H item =
    (case (if length (asd_Payload item) > 0 then payloadObj H (asd_Payload item) else Some []) of
       None \<Rightarrow> None
     | Some out \<Rightarrow> Some (JObj
         (gm_put ''expires_at'' (JTime (asd_ExpiresAt item))
          (gm_put ''created_at'' (JTime (asd_CreatedAt item))
          (gm_put ''room_id'' (JTxt (asd_RoomID item))
          (gm_put ''agent_id'' (JTxt (asd_AgentID item))
          (gm_put ''type'' (JTxt (asd_Type item))
          (gm_put ''delivery_id'' (JTxt (asd_DeliveryID item)) out))))))))"

datatype sent = Sent stream_writer | SendFailed | SendPanics

definition writeAgentStreamDeliveryEvent :: "http_conf \<Rightarrow> AgentStreamDelivery \<Rightarrow> stream_writer \<Rightarrow> sent" where
  "writeAgentStreamDeliveryEvent H item w =
    (case agentStreamDeliveryPayload H item of
       None \<Rightarrow> SendPanics
     | Some payload \<Rightarrow>
         (case write_chunk (Event \<lparr>fr_ID = Some (asd_DeliveryID item), fr_Event = asd_Type item, fr_Data = payload\<rparr>) w of
            None \<Rightarrow> SendFailed | Some w \<Rightarrow> Sent w))"

section \<open>The events of a room\<close>

datatype phase = Replay | Live | Ended

record ev_conn =
  ec_Room :: string
  ec_Agent :: string
  ec_Req :: http_request
  ec_Limit :: int
  ec_Slot :: slot
  ec_Sub :: "int option"
  ec_Since :: int
  ec_Last :: int
  ec_Phase :: phase
  ec_W :: stream_writer

definition parseEventStreamQuery :: "http_request \<Rightarrow> (int \<times> int) option" where
  "parseEventStreamQuery r =
    (case parseEventHistoryQuery r of
       None \<Rightarrow> None
     | Some (sinceID, limit) \<Rightarrow>
         if TrimSpace (queryGet r ''since'') \<noteq> [] then Some (sinceID, limit)
         else (let lastEventID = TrimSpace (LastEventID r) in
           if lastEventID = [] then Some (sinceID, limit)
           else (case ParseInt lastEventID of
             None \<Rightarrow> None
           | Some v \<Rightarrow> if v < 0 then None else Some (v, limit))))"

definition stream_meta :: "string \<Rightarrow> string \<Rightarrow> int \<Rightarrow> nat \<Rightarrow> (string \<times> jval) list \<Rightarrow> http_request \<Rightarrow> (string \<times> jval) list" where
  "stream_meta roomID agentID eventID count extra r =
    [(''room_id'', JStr roomID), (''agent_id'', JStr agentID), (''event_id'', JInt eventID),
     (''subscriber_count'', JInt (int count))] @ extra @ [(''remote_ip'', JStr (remoteIP (RemoteAddr r)))]"

definition subscriber_count :: "string \<Rightarrow> nat http" where
  "subscriber_count roomID = on_events (\<lambda>h. Some (SubscriberCount roomID h, h))"

text \<open>\<open>sub.Close()\<close> and \<open>releaseStreamSlot()\<close>, the deferred calls of the handler.\<close>

definition leave_stream :: "ev_conn \<Rightarrow> ev_conn http" where
  "leave_stream c =
    attempt (case ec_Sub c of None \<Rightarrow> ok ()
       | Some i \<Rightarrow> on_events (\<lambda>h. map_option (\<lambda>h. ((), h)) (eh_Close i h))) (\<lambda>_.
    attempt (releaseStreamSlot (ec_Slot c)) (\<lambda>_.
    ok (c\<lparr>ec_Phase := Ended\<rparr>)))"

definition handleRoomEvents_open ::
  "http_conf \<Rightarrow> (nat \<Rightarrow> bool) \<Rightarrow> http_request \<Rightarrow> string \<Rightarrow> (http_reply + ev_conn) http" where
  "handleRoomEvents_open H fails r roomID =
    (if Method r \<noteq> ''GET'' then ok (Inl (writeError (errE H) 405 ''method not allowed''))
     else serve (Inl \<circ> writeServiceErr H) (authAgentID_sql r) (\<lambda>agentID.
       case parseEventStreamQuery r of
         None \<Rightarrow> ok (Inl (writeError (errE H) 400 ''invalid request''))
       | Some (sinceID, limit) \<Rightarrow>
           attempt h_now (\<lambda>now.
           attempt (acquireStreamSlot H agentID roomID (RemoteAddr r) now) (\<lambda>granted.
           case granted of
             Inl (deniedReason, err) \<Rightarrow>
               attempt (subscriber_count roomID) (\<lambda>n.
               attempt (AppendSecurityAudit H roomID ''stream_dropped''
                 (stream_meta roomID agentID sinceID n [(''drop_reason'', JStr deniedReason)] r) 0) (\<lambda>_.
               ok (Inl (writeServiceErr H err))))
           | Inr sl \<Rightarrow>
               (let c = \<lparr>ec_Room = roomID, ec_Agent = agentID, ec_Req = r, ec_Limit = limit, ec_Slot = sl,
                      ec_Sub = None, ec_Since = sinceID, ec_Last = sinceID, ec_Phase = Replay,
                      ec_W = \<lparr>wr_Out = [], wr_Fails = fails\<rparr>\<rparr> in
                case write_chunk Retry (ec_W c) of
                  None \<Rightarrow> attempt (leave_stream c) (\<lambda>c. ok (Inr c))
                | Some w \<Rightarrow>
                    attempt (on_events (\<lambda>h. Some (eh_Subscribe roomID h))) (\<lambda>sub.
                    ok (Inr (c\<lparr>ec_W := w, ec_Sub := sub\<rparr>))))))))"

text \<open>Writing a page; the connection ends at the first write that fails.\<close>

fun write_items :: "RoomEvent list \<Rightarrow> ev_conn \<Rightarrow> bool \<times> ev_conn" where
  "write_items [] c = (True, c)"
| "write_items (e # es) c =
    (case writeSSEEvent e (ec_W c) of
       None \<Rightarrow> (False, c)
     | Some w \<Rightarrow> write_items es (c\<lparr>ec_W := w, ec_Last := ev_ID e\<rparr>))"

definition go_live :: "http_conf \<Rightarrow> ev_conn \<Rightarrow> ev_conn http" where
  "go_live H c =
    attempt (subscriber_count (ec_Room c)) (\<lambda>n.
    attempt (AppendSecurityAudit H (ec_Room c) ''stream_opened''
      (stream_meta (ec_Room c) (ec_Agent c) (ec_Last c) n [(''since_id'', JInt (ec_Last c))] (ec_Req c)) 0) (\<lambda>_.
    ok (c\<lparr>ec_Since := ec_Last c, ec_Phase := Live\<rparr>)))"

text \<open>One round of the replay loop.\<close>

definition replay_page :: "http_conf \<Rightarrow> ev_conn \<Rightarrow> ev_conn http" where
  "replay_page H c =
    attempt (call (ListRoomEventHistory (svcC H) (ec_Agent c) (ec_Room c) (ec_Last c) (ec_Limit c))) (\<lambda>res.
    case res of
      Inl err \<Rightarrow>
        leave_stream (case write_chunk (ErrorBody (writeRoomServiceErr H err)) (ec_W c) of
          None \<Rightarrow> c | Some w \<Rightarrow> c\<lparr>ec_W := w\<rparr>)
    | Inr out \<Rightarrow>
        if length (eh_Items out) = 0 then go_live H c
        else (case write_items (eh_Items out) c of
          (False, c) \<Rightarrow> leave_stream c
        | (True, c) \<Rightarrow> if int (length (eh_Items out)) < ec_Limit c then go_live H c else ok c))"

text \<open>The deferred audit event, then the other deferred calls.\<close>

definition close_stream :: "http_conf \<Rightarrow> string \<Rightarrow> ev_conn \<Rightarrow> ev_conn http" where
  "close_stream H reason c =
    attempt (subscriber_count (ec_Room c)) (\<lambda>n.
    attempt (AppendSecurityAudit H (ec_Room c)
      (if reason = ''dropped_slow_subscriber'' then ''stream_dropped'' else ''stream_closed'')
      (stream_meta (ec_Room c) (ec_Agent c) (ec_Last c) n [(''drop_reason'', JStr reason)] (ec_Req c)) 0) (\<lambda>_.
    leave_stream c))"

datatype select = CtxDone | Ready | ReauthTick | KeepAliveTick | QueryTick

text \<open>What the channel of a subscription offers: nothing yet, an event, or its end.\<close>

datatype 'e offer = Waiting | Item 'e | ChanClosed

definition sub_offer :: "int option \<Rightarrow> ('e, 'z) hub_scheme \<Rightarrow> 'e offer \<times> ('e, 'z) hub_scheme" where
  "sub_offer sub h =
    (case sub of
       None \<Rightarrow> (ChanClosed, h)
     | Some i \<Rightarrow>
         (case heap h i of
            None \<Rightarrow> (ChanClosed, h)
          | Some s \<Rightarrow>
              (case hub_recv i h of
                 (Some e, h') \<Rightarrow> (Item e, h')
               | (None, h') \<Rightarrow> (if chClosed (subCh s) then ChanClosed else Waiting, h'))))"

definition deliver :: "http_conf \<Rightarrow> ev_conn \<Rightarrow> ev_conn http" where
  "deliver H c =
    attempt (on_events (\<lambda>h. case sub_offer (ec_Sub c) h of (x, h') \<Rightarrow>
      Some ((x, case ec_Sub c of None \<Rightarrow> False | Some i \<Rightarrow> eh_Dropped i h), h'))) (\<lambda>(x, dropped).
    case x of
      Waiting \<Rightarrow> ok c
    | ChanClosed \<Rightarrow> close_stream H (if dropped then ''dropped_slow_subscriber'' else ''subscription_closed'') c
    | Item e \<Rightarrow>
        if ev_ID e \<le> ec_Since c \<or> ev_RoomID e \<noteq> ec_Room c then ok c
        else (case writeSSEEvent e (ec_W c) of
          None \<Rightarrow> close_stream H ''write_failed'' c
        | Some w \<Rightarrow> ok (c\<lparr>ec_W := w, ec_Since := ev_ID e, ec_Last := ev_ID e\<rparr>)))"

definition keep_alive :: "http_conf \<Rightarrow> ev_conn \<Rightarrow> ev_conn http" where
  "keep_alive H c =
    (case write_chunk KeepAliveComment (ec_W c) of
       None \<Rightarrow> close_stream H ''keepalive_write_failed'' c
     | Some w \<Rightarrow> ok (c\<lparr>ec_W := w\<rparr>))"

definition reauth_events :: "http_conf \<Rightarrow> ev_conn \<Rightarrow> ev_conn http" where
  "reauth_events H c =
    attempt (call (authAgentID_sql (ec_Req c))) (\<lambda>res.
    case res of Inl _ \<Rightarrow> close_stream H ''auth_revalidation_failed'' c | Inr _ \<Rightarrow> ok c)"

text \<open>One round of the handler: a page while it replays, then a round of the \<open>select\<close>.\<close>

definition handleRoomEvents_step :: "http_conf \<Rightarrow> select \<Rightarrow> ev_conn \<Rightarrow> ev_conn http" where
  "handleRoomEvents_step H sel c =
    (case ec_Phase c of
       Ended \<Rightarrow> ok c
     | Replay \<Rightarrow> replay_page H c
     | Live \<Rightarrow>
         (case sel of
            CtxDone \<Rightarrow> close_stream H ''client_disconnected'' c
          | Ready \<Rightarrow> deliver H c
          | ReauthTick \<Rightarrow> reauth_events H c
          | KeepAliveTick \<Rightarrow> keep_alive H c
          | QueryTick \<Rightarrow> ok c))"

section \<open>The deliveries of an agent\<close>

record ag_conn =
  ac_Agent :: string
  ac_Req :: http_request
  ac_Seq :: int
  ac_Open :: bool
  ac_W :: stream_writer

definition parseAgentStreamCursor :: "http_request \<Rightarrow> string" where
  "parseAgentStreamCursor r =
    (let raw = TrimSpace (queryGet r ''last_delivery_id'') in if raw \<noteq> [] then raw else TrimSpace (LastEventID r))"

fun write_deliveries :: "http_conf \<Rightarrow> AgentStreamDelivery list \<Rightarrow> ag_conn \<Rightarrow> ag_conn option" where
  "write_deliveries H [] c = Some c"
| "write_deliveries H (item # items) c =
    (case writeAgentStreamDeliveryEvent H item (ac_W c) of
       SendPanics \<Rightarrow> None
     | SendFailed \<Rightarrow> Some (c\<lparr>ac_Open := False\<rparr>)
     | Sent w \<Rightarrow> write_deliveries H items (c\<lparr>ac_W := w, ac_Seq := asd_Seq item\<rparr>))"

text \<open>A batch; an error of the query or of a write ends the connection.\<close>

definition writePendingAgentStreamBatch :: "http_conf \<Rightarrow> int \<Rightarrow> ag_conn \<Rightarrow> ag_conn http" where
  "writePendingAgentStreamBatch H limit c =
    attempt (call (ListPendingDeliveries (ac_Agent c) (ac_Seq c) limit)) (\<lambda>res.
    case res of
      Inl _ \<Rightarrow> ok (c\<lparr>ac_Open := False\<rparr>)
    | Inr items \<Rightarrow> (case write_deliveries H items c of None \<Rightarrow> fail Panicked | Some c \<Rightarrow> ok c))"

definition control :: "string \<Rightarrow> (string \<times> json) list \<Rightarrow> ag_conn \<Rightarrow> ag_conn" where
  "control eventType payload c =
    (case writeAgentStreamControlEvent eventType payload (ac_W c) of
       None \<Rightarrow> c\<lparr>ac_Open := False\<rparr>
     | Some w \<Rightarrow> c\<lparr>ac_W := w\<rparr>)"

definition handleAgentStream_open ::
  "http_conf \<Rightarrow> (nat \<Rightarrow> bool) \<Rightarrow> http_request \<Rightarrow> (http_reply + ag_conn) http" where
  "handleAgentStream_open H fails r =
    (if URLPath r \<noteq> ''/v1/agent/stream'' then ok (Inl (writeError (errE H) 404 ''not found''))
     else if Method r \<noteq> ''GET'' then ok (Inl (writeMethodNotAllowed [''GET'']))
     else serve (Inl \<circ> writeServiceErr H) (authAgentID_sql r) (\<lambda>agentID.
       serve (Inl \<circ> writeServiceErr H) (ResolveAgentStreamResume (svcC H) agentID (parseAgentStreamCursor r)) (\<lambda>resume.
       let c = \<lparr>ac_Agent = agentID, ac_Req = r, ac_Seq = AfterSeq resume, ac_Open = True,
                ac_W = \<lparr>wr_Out = [], wr_Fails = fails\<rparr>\<rparr> in
       case write_chunk Retry (ac_W c) of
         None \<Rightarrow> ok (Inr (c\<lparr>ac_Open := False\<rparr>))
       | Some w \<Rightarrow>
           attempt h_now (\<lambda>now.
           let c = control ''stream.hello''
             [(''type'', JTxt ''stream.hello''), (''agent_id'', JTxt agentID),
              (''resume_status'', JTxt (ResumeStatus resume)),
              (''last_acknowledged_delivery_id'', JTxt (LastAcknowledgedDelivery resume)),
              (''server_time'', JTxt (rfc3339nano (svcC H) now))] (c\<lparr>ac_W := w\<rparr>) in
           if \<not> ac_Open c then ok (Inr c)
           else if ResumeStatus resume = ''replay_required'' then
             ok (Inr ((control ''stream.replay_required''
               [(''type'', JTxt ''stream.replay_required''), (''agent_id'', JTxt agentID),
                (''hint'', JTxt ''Call /v1/agent/actionable-rooms, clear the local cursor, and reconnect without Last-Event-ID.'')]
               c)\<lparr>ac_Open := False\<rparr>))
           else attempt (writePendingAgentStreamBatch H 100 c) (\<lambda>c. ok (Inr c))))))"

definition handleAgentStream_step :: "http_conf \<Rightarrow> select \<Rightarrow> ag_conn \<Rightarrow> ag_conn http" where
  "handleAgentStream_step H sel c =
    (if \<not> ac_Open c then ok c
     else (case sel of
       CtxDone \<Rightarrow> ok (c\<lparr>ac_Open := False\<rparr>)
     | QueryTick \<Rightarrow> writePendingAgentStreamBatch H 100 c
     | ReauthTick \<Rightarrow>
         attempt (call (authAgentID_sql (ac_Req c))) (\<lambda>res.
         case res of
           Inl _ \<Rightarrow> ok ((control ''auth.relogin_required''
             [(''type'', JTxt ''auth.relogin_required''), (''agent_id'', JTxt (ac_Agent c))] c)\<lparr>ac_Open := False\<rparr>)
         | Inr _ \<Rightarrow> ok c)
     | KeepAliveTick \<Rightarrow>
         ok (case write_chunk KeepAliveComment (ac_W c) of
           None \<Rightarrow> c\<lparr>ac_Open := False\<rparr> | Some w \<Rightarrow> c\<lparr>ac_W := w\<rparr>)
     | Ready \<Rightarrow> ok c))"

section \<open>The typing events of a room\<close>

definition viewerHeartbeatExpired :: "time \<Rightarrow> time \<Rightarrow> duration \<Rightarrow> bool" where
  "viewerHeartbeatExpired lastHeartbeatAt now timeout =
    (if lastHeartbeatAt = zero_time then True
     else (let timeout = (if timeout \<le> 0 then 45 * Second else timeout) in time_sub now lastHeartbeatAt > timeout))"

definition viewerStreamReauthInterval :: "duration \<Rightarrow> duration" where
  "viewerStreamReauthInterval timeout =
    (let timeout = (if timeout \<le> 0 then 45 * Second else timeout); interval = go_div timeout 2 in
     if interval < 500 * Millisecond then 500 * Millisecond
     else if interval > 10 * Second then 10 * Second
     else interval)"

record vw_conn =
  vc_Room :: string
  vc_Token :: string
  vc_Sub :: "int option"
  vc_Open :: bool
  vc_W :: stream_writer

fun write_snapshot :: "roomTypingEvent list \<Rightarrow> vw_conn \<Rightarrow> bool \<times> vw_conn" where
  "write_snapshot [] c = (True, c)"
| "write_snapshot (e # es) c =
    (case writeTypingSSEEvent e (vc_W c) of
       None \<Rightarrow> (False, c)
     | Some w \<Rightarrow> write_snapshot es (c\<lparr>vc_W := w\<rparr>))"

definition leave_viewer :: "vw_conn \<Rightarrow> vw_conn http" where
  "leave_viewer c =
    attempt (case vc_Sub c of None \<Rightarrow> ok ()
       | Some i \<Rightarrow> on_typing (\<lambda>h. map_option (\<lambda>h. ((), h)) (th_Close i h))) (\<lambda>_.
    ok (c\<lparr>vc_Open := False\<rparr>))"

definition gone_reply :: http_reply where
  "gone_reply = writeAPIError 410 ''gone'' no_options"

definition no_viewer_reply :: http_reply where
  "no_viewer_reply = writeAPIError 404 ''viewer_not_found'' no_options"

definition handleRoomViewerEvents_open ::
  "http_conf \<Rightarrow> (nat \<Rightarrow> bool) \<Rightarrow> http_request \<Rightarrow> string \<Rightarrow> (http_reply + vw_conn) http" where
  "handleRoomViewerEvents_open H fails r roomID =
    (if Method r \<noteq> ''GET'' then ok (Inl (writeMethodNotAllowed [''GET'']))
     else (let token = bearerTokenFromRequest (Authorization r) in
     if token = [] then ok (Inl (writeError (errE H) 401 ''missing or invalid token''))
     else serve (Inl \<circ> writeRoomOrViewerServiceErr H) (store (GetViewer token)) (\<lambda>viewer.
     if vw_RoomID viewer \<noteq> roomID then ok (Inl no_viewer_reply)
     else if vw_LeftAt viewer \<noteq> None then ok (Inl gone_reply)
     else attempt h_now (\<lambda>now.
     if viewerHeartbeatExpired (vw_LastHeartbeatAt viewer) now (hbTimeout H) then ok (Inl no_viewer_reply)
     else serve (Inl \<circ> writeRoomServiceErr H) (RoomSnapshot (svcC H) roomID) (\<lambda>rm.
     if room_State rm \<noteq> RoomStateActive then ok (Inl gone_reply)
     else (let c = \<lparr>vc_Room = roomID, vc_Token = token, vc_Sub = None, vc_Open = True,
                    vc_W = \<lparr>wr_Out = [], wr_Fails = fails\<rparr>\<rparr> in
       case write_chunk Retry (vc_W c) of
         None \<Rightarrow> ok (Inr (c\<lparr>vc_Open := False\<rparr>))
       | Some w \<Rightarrow>
           attempt h_now (\<lambda>now.
           attempt (on_typing (\<lambda>h. case SubscribeWithSnapshot roomID now h of (sub, snap, h) \<Rightarrow> Some ((sub, snap), h)))
             (\<lambda>(sub, snap).
           case write_snapshot snap (c\<lparr>vc_W := w, vc_Sub := sub\<rparr>) of
             (True, c) \<Rightarrow> ok (Inr c)
           | (False, c) \<Rightarrow> attempt (leave_viewer c) (\<lambda>c. ok (Inr c))))))))))"

definition reauth_viewer :: "http_conf \<Rightarrow> vw_conn \<Rightarrow> vw_conn http" where
  "reauth_viewer H c =
    attempt h_now (\<lambda>now.
    attempt (call (store (GetViewer (vc_Token c)))) (\<lambda>res.
    case res of
      Inl _ \<Rightarrow> leave_viewer c
    | Inr v \<Rightarrow>
        if vw_RoomID v \<noteq> vc_Room c \<or> vw_LeftAt v \<noteq> None \<or>
           viewerHeartbeatExpired (vw_LastHeartbeatAt v) now (hbTimeout H) then leave_viewer c
        else attempt (call (RoomSnapshot (svcC H) (vc_Room c))) (\<lambda>res.
          case res of
            Inl _ \<Rightarrow> leave_viewer c
          | Inr rm \<Rightarrow> if room_State rm \<noteq> RoomStateActive then leave_viewer c else ok c)))"

definition deliver_typing :: "vw_conn \<Rightarrow> vw_conn http" where
  "deliver_typing c =
    attempt (on_typing (\<lambda>h. Some (sub_offer (vc_Sub c) h))) (\<lambda>x.
    case x of
      Waiting \<Rightarrow> ok c
    | ChanClosed \<Rightarrow> leave_viewer c
    | Item e \<Rightarrow>
        if teRoomID e \<noteq> vc_Room c then ok c
        else (case writeTypingSSEEvent e (vc_W c) of
          None \<Rightarrow> leave_viewer c
        | Some w \<Rightarrow> ok (c\<lparr>vc_W := w\<rparr>)))"

definition handleRoomViewerEvents_step :: "http_conf \<Rightarrow> select \<Rightarrow> vw_conn \<Rightarrow> vw_conn http" where
  "handleRoomViewerEvents_step H sel c =
    (if \<not> vc_Open c then ok c
     else (case sel of
       CtxDone \<Rightarrow> leave_viewer c
     | Ready \<Rightarrow> deliver_typing c
     | ReauthTick \<Rightarrow> reauth_viewer H c
     | KeepAliveTick \<Rightarrow>
         (case write_chunk KeepAliveComment (vc_W c) of
            None \<Rightarrow> leave_viewer c | Some w \<Rightarrow> ok (c\<lparr>vc_W := w\<rparr>))
     | QueryTick \<Rightarrow> ok c))"

section \<open>Dispatch\<close>

datatype outcome = Replied http_reply | EventStream ev_conn | AgentStream ag_conn | ViewerStream vw_conn

definition replies :: "http_reply http \<Rightarrow> outcome http" where
  "replies m = attempt m (\<lambda>r. ok (Replied r))"

definition opens :: "('c \<Rightarrow> outcome) \<Rightarrow> (http_reply + 'c) http \<Rightarrow> outcome http" where
  "opens f m = attempt m (\<lambda>x. ok (case x of Inl r \<Rightarrow> Replied r | Inr c \<Rightarrow> f c))"

definition handleRoomByID_sql :: "http_conf \<Rightarrow> (nat \<Rightarrow> bool) \<Rightarrow> http_request \<Rightarrow> outcome http" where
  "handleRoomByID_sql H fails r =
    (let parts = splitPath (URLPath r) in
     if length parts < 4 \<or> parts ! 0 \<noteq> ''v1'' \<or> parts ! 1 \<noteq> ''rooms'' then replies (not_found H)
     else (let roomID = parts ! 2; action = parts ! 3 in
       if length parts = 4 then
         (if action = ''join'' then replies (handleRoomJoin_sql H r roomID)
          else if action = ''access-token'' then replies (handleRoomAccessToken H r roomID)
          else if action = ''messages'' then replies (handleRoomMessage_sql H r roomID)
          else if action = ''state'' then replies (handleRoomState_sql H r roomID)
          else if action = ''context'' then replies (handleRoomContext H r roomID)
          else if action = ''typing'' then replies (handleRoomTyping H r roomID)
          else if action = ''events'' then opens EventStream (handleRoomEvents_open H fails r roomID)
          else if action = ''viewer-events'' then opens ViewerStream (handleRoomViewerEvents_open H fails r roomID)
          else if action = ''leave'' then replies (handleRoomLeave_sql H r roomID)
          else if action = ''close'' then replies (handleRoomClose_sql H r roomID)
          else if action = ''transcript'' then replies (handleTranscript_sql H r roomID)
          else if action = ''viewers'' then replies (handleRoomViewers_sql H r roomID)
          else replies (not_found H))
       else if length parts = 5 \<and> action = ''context'' \<and> parts ! 4 = ''ack'' then
         replies (handleRoomContextAck H r roomID)
       else if length parts = 5 \<and> action = ''events'' \<and> parts ! 4 = ''history'' then
         replies (handleRoomEventsHistory H r roomID)
       else replies (not_found H)))"

end
