(* ===== verification/Http_Safety.thy ===== *)
theory Http_Safety
  imports Sql_Streams A2A_Spec
begin

text \<open>
  What a request leaves behind, whatever it is: the tables keep a contract of \<open>served\<close>, the hubs keep
  their invariants, and no request panics. The rules of \<open>kept\<close> are proved once for the ways handlers are
  put together; the handlers follow by unfolding.
\<close>

named_theorems kept_intros \<open>programs of the server that keep its invariant and do not panic\<close>

section \<open>The invariant of the server\<close>

text \<open>At most one agent is shown as typing in each room.\<close>

definition solo :: "typingHub \<Rightarrow> bool" where
  "solo h \<longleftrightarrow> (\<forall>r. length (room_states h r) \<le> 1)"

definition srv_inv :: "(db \<Rightarrow> bool) \<Rightarrow> bool \<Rightarrow> int \<Rightarrow> int \<Rightarrow> sqlHTTP \<Rightarrow> bool" where
  "srv_inv I b n k s \<longleftrightarrow> I (tables (svcS s)) \<and> hub_inv (evHub s) \<and> nextSubID (evHub s) \<le> n \<and>
     typing_inv (tyHub s) \<and> nextSubID (tyHub s) \<le> k \<and> (b \<longrightarrow> solo (tyHub s))"

definition calmly :: "(sqlHTTP \<Rightarrow> bool) \<Rightarrow> (sqlHTTP \<Rightarrow> bool) \<Rightarrow> 'a http \<Rightarrow> bool" where
  "calmly P Q m \<longleftrightarrow> hoare P m (\<lambda>r s. Q s \<and> r \<noteq> Inl Panicked)"

definition kept :: "(db \<Rightarrow> bool) \<Rightarrow> bool \<Rightarrow> 'a http \<Rightarrow> bool" where
  "kept I b m \<longleftrightarrow> (\<forall>n k. calmly (srv_inv I b n k) (srv_inv I b n k) m)"

section \<open>Composition\<close>

lemma calmly_attempt:
  assumes "calmly P R m" and "\<And>x. calmly R Q (f x)" and "\<And>s. R s \<Longrightarrow> Q s"
  shows "calmly P Q (attempt m f)"
  unfolding calmly_def
  by (rule hoare_attempt [OF assms(1) [unfolded calmly_def]])
    (use assms(2,3) in \<open>auto simp: calmly_def hoare_def\<close>)

lemma calmly_ok: "(\<And>s. P s \<Longrightarrow> Q s) \<Longrightarrow> calmly P Q (ok x)"
  by (auto simp: calmly_def intro: hoare_ok)

lemma calmly_kept: "kept I b m \<Longrightarrow> (\<And>s. srv_inv I b n k s \<Longrightarrow> Q s) \<Longrightarrow> calmly (srv_inv I b n k) Q m"
  by (auto simp: kept_def calmly_def hoare_def)

lemma kept_attempt [kept_intros]: "kept I b m \<Longrightarrow> (\<And>x. kept I b (f x)) \<Longrightarrow> kept I b (attempt m f)"
  unfolding kept_def by (blast intro: calmly_attempt)

lemma kept_ok [kept_intros]: "kept I b (ok x)"
  by (simp add: kept_def calmly_ok)

lemma kept_if [kept_intros]: "(c \<Longrightarrow> kept I b m) \<Longrightarrow> (\<not> c \<Longrightarrow> kept I b n) \<Longrightarrow> kept I b (if c then m else n)"
  by simp

lemma kept_let [kept_intros]: "kept I b (f x) \<Longrightarrow> kept I b (Let x f)"
  by simp

lemma kept_case_option [kept_intros]:
  "kept I b m \<Longrightarrow> (\<And>a. kept I b (f a)) \<Longrightarrow> kept I b (case x of None \<Rightarrow> m | Some a \<Rightarrow> f a)"
  by (cases x) auto

lemma kept_case_sum [kept_intros]:
  "(\<And>e. kept I b (g e)) \<Longrightarrow> (\<And>a. kept I b (f a)) \<Longrightarrow> kept I b (case x of Inl e \<Rightarrow> g e | Inr a \<Rightarrow> f a)"
  by (cases x) auto

lemma kept_case_bool [kept_intros]:
  "kept I b m \<Longrightarrow> kept I b n \<Longrightarrow> kept I b (case x of True \<Rightarrow> m | False \<Rightarrow> n)"
  by (cases x) auto

lemma kept_case_prod [kept_intros]: "(\<And>u v. kept I b (f u v)) \<Longrightarrow> kept I b (case x of (u, v) \<Rightarrow> f u v)"
  by (cases x) auto

lemma kept_bind_state:
  assumes "\<And>s. snd (run_state m s) = s\<lparr>ipWindows := ipWindows (snd (run_state m s))\<rparr>" and "\<And>x. kept I b (f x)"
  shows "kept I b (State_Monad.bind m f)"
proof -
  have "srv_inv I b n k (snd (run_state m s)) \<longleftrightarrow> srv_inv I b n k s" for n k s
    by (subst assms(1)) (simp add: srv_inv_def)
  then show ?thesis
    using assms(2) by (auto simp: kept_def calmly_def hoare_def case_prod_beta)
qed

lemma kept_state:
  assumes "\<And>s. fst (f s) \<noteq> Inl Panicked \<and> svcS (snd (f s)) = svcS s \<and> evHub (snd (f s)) = evHub s \<and>
    tyHub (snd (f s)) = tyHub s"
  shows "kept I b (State f)"
  using assms by (simp add: kept_def calmly_def hoare_def srv_inv_def)

section \<open>The hubs\<close>

lemma publish_all_ok:
  "hub_inv h \<Longrightarrow> \<exists>h'. publish_all evs h = Some h' \<and> hub_inv h' \<and> nextSubID h' = nextSubID h"
proof (induction evs arbitrary: h)
  case (Cons ev evs)
  obtain d h1 where h1: "publish_send ev h = Some (d, h1)" "hub_inv h1"
    using publish_send_ok [OF Cons.prems] by blast
  obtain h2 where h2: "publish_drop ev d h1 = Some h2" "hub_inv h2"
    using publish_drop_ok [OF h1(2)] by blast
  have "nextSubID h1 = nextSubID h" "nextSubID h2 = nextSubID h1"
    using h1(1) h2(1) by (auto simp: publish_send_def publish_drop_def Let_def split: if_splits
      dest!: nextSubID_send nextSubID_drop)
  with Cons.IH [OF h2(2)] h1 h2 show ?case by (auto simp: Publish_def)
qed simp

lemma kept_call [kept_intros]:
  assumes "keeps (\<lambda>s. I (tables s)) m"
  shows "kept I b (call m)"
proof -
  have "srv_inv I b n k (snd (run_state (call m) s)) \<and> fst (run_state (call m) s) \<noteq> Inl Panicked"
    if inv: "srv_inv I b n k s" for n k s
  proof -
    obtain r sv where run: "run_state m (svcS s) = (r, sv)" by fastforce
    have "I (tables sv)"
      using hoareD [OF assms _ run] inv by (simp add: srv_inv_def)
    moreover obtain h where "publish_all (drop (length (svc.published (svcS s))) (svc.published sv)) (evHub s) = Some h"
        "hub_inv h" "nextSubID h = nextSubID (evHub s)"
      using publish_all_ok inv by (metis srv_inv_def)
    ultimately show ?thesis
      using run inv by (simp add: call_def srv_inv_def)
  qed
  then show ?thesis by (simp add: kept_def calmly_def hoare_def)
qed

lemma kept_serve [kept_intros]:
  "keeps (\<lambda>s. I (tables s)) m \<Longrightarrow> (\<And>x. kept I b (f x)) \<Longrightarrow> kept I b (serve wr m f)"
  unfolding serve_def by (intro kept_intros)

lemma kept_now [kept_intros]: "kept I b h_now"
  by (simp add: kept_def calmly_def hoare_def h_now_def srv_inv_def s_now_def)

lemma kept_on_typing:
  assumes "\<And>h. typing_inv h \<Longrightarrow> (b \<Longrightarrow> solo h) \<Longrightarrow>
    \<exists>x h'. f h = Some (x, h') \<and> typing_inv h' \<and> nextSubID h' = nextSubID h \<and> (b \<longrightarrow> solo h')"
  shows "kept I b (on_typing f)"
proof -
  have "srv_inv I b n k (snd (run_state (on_typing f) s)) \<and> fst (run_state (on_typing f) s) \<noteq> Inl Panicked"
    if "srv_inv I b n k s" for n k s
    using assms [of "tyHub s"] that by (auto simp: on_typing_def srv_inv_def)
  then show ?thesis by (simp add: kept_def calmly_def hoare_def)
qed

lemma kept_on_events:
  assumes "\<And>h. hub_inv h \<Longrightarrow> \<exists>x h'. f h = Some (x, h') \<and> hub_inv h' \<and> nextSubID h' = nextSubID h"
  shows "kept I b (on_events f)"
proof -
  have "srv_inv I b n k (snd (run_state (on_events f) s)) \<and> fst (run_state (on_events f) s) \<noteq> Inl Panicked"
    if "srv_inv I b n k s" for n k s
    using assms [of "evHub s"] that by (auto simp: on_events_def srv_inv_def)
  then show ?thesis by (simp add: kept_def calmly_def hoare_def)
qed

lemma solo_same: "same_presence h h' \<Longrightarrow> solo h' \<longleftrightarrow> solo h"
  by (simp add: solo_def same_presence_def room_states_def)

lemma broadcast_all_keeps:
  assumes "typing_inv h" and "broadcast subs ev h = Some h'" "set subs \<subseteq> set (room_subs h r)"
  shows "typing_inv h'" "nextSubID h' = nextSubID h" "solo h' \<longleftrightarrow> solo h"
  using broadcast_ok [OF assms(1,3), of ev] assms(2) nextSubID_broadcast [OF assms(2)]
  by (auto dest: solo_same)

lemma gm_del_short: "length m \<le> n \<Longrightarrow> length (gm_del a m) \<le> n"
  using length_delete_le [of a m] by linarith

lemma kept_Stop [kept_intros]: "kept I b (on_typing (Stop r a now))"
proof (rule kept_on_typing)
  fix h assume inv: "typing_inv h" and so: "b \<Longrightarrow> solo h"
  show "\<exists>x h'. Stop r a now h = Some (x, h') \<and> typing_inv h' \<and> nextSubID h' = nextSubID h \<and> (b \<longrightarrow> solo h')"
  proof (cases "stop_locked (TrimSpace r) (TrimSpace a) h")
    case None
    with inv so show ?thesis by (auto simp: Stop_def Let_def)
  next
    case (Some x)
    then obtain subs h1 where st: "stop_locked (TrimSpace r) (TrimSpace a) h = Some (subs, h1)" by (cases x) auto
    note S = typing_inv_stop [OF inv st]
    have h1: "nextSubID h1 = nextSubID h" "solo h \<Longrightarrow> solo h1"
      using st by (auto simp: stop_locked_def solo_def gm_del_short Let_def split: option.splits)
    obtain h2 where h2: "broadcast subs (stop_event (TrimSpace r) (TrimSpace a) now) h1 = Some h2"
      using broadcast_ok [OF S(1), of subs "TrimSpace r"] S(2) by blast
    note B = broadcast_all_keeps [OF S(1) h2, of "TrimSpace r"]
    show ?thesis
      using st h2 B S(2) h1 so inv by (auto simp: Stop_def Let_def)
  qed
qed

lemma kept_ClearRoom [kept_intros]: "kept I True (on_typing (ClearRoom r now))"
proof (rule kept_on_typing)
  fix h assume inv: "typing_inv h" and so: "True \<Longrightarrow> solo h"
  let ?r = "TrimSpace r"
  show "\<exists>x h'. ClearRoom r now h = Some (x, h') \<and> typing_inv h' \<and> nextSubID h' = nextSubID h \<and> (True \<longrightarrow> solo h')"
  proof (cases "room_states h ?r")
    case Nil
    with inv so show ?thesis by (auto simp: ClearRoom_def Let_def)
  next
    case (Cons x xs)
    with so have one: "room_states h ?r = [x]" by (auto simp: solo_def dest: spec [of _ ?r])
    obtain events subs h1 where cl: "clear_locked ?r now h = (events, subs, h1)" by (metis prod_cases3)
    note C = typing_inv_clear [OF inv cl]
    have rs: "room_states h1 u = (if u = ?r then [] else room_states h u)" for u
      using cl by (auto simp: clear_locked_def Let_def room_states_def)
    have h1: "nextSubID h1 = nextSubID h" "solo h1"
      using cl so by (auto simp: clear_locked_def Let_def solo_def rs)
    obtain ev where ev: "events = [ev]"
      using cl one by (auto simp: clear_locked_def Let_def)
    obtain h2 where h2: "broadcast subs ev h1 = Some h2"
      using broadcast_ok [OF C(1), of subs ?r] C(2) by blast
    note B = broadcast_all_keeps [OF C(1) h2, of ?r]
    show ?thesis
      using cl ev h2 B C(2) h1 one so inv by (auto simp: ClearRoom_def Let_def)
  qed
qed

lemma calmly_Start:
  "calmly (srv_inv I b n k) (srv_inv I False n k) (on_typing (Start r a now ttl))"
proof -
  have "\<exists>x h'. Start r a now ttl h = Some (x, h') \<and> typing_inv h' \<and> nextSubID h' = nextSubID h" if inv: "typing_inv h" for h
  proof (cases "TrimSpace r = [] \<or> TrimSpace a = []")
    case False
    obtain subs h1 where st: "start_locked (TrimSpace r) (TrimSpace a) now (typing_ttl ttl) h = (subs, h1)" by fastforce
    note S = typing_inv_start [OF inv st]
    have h1: "nextSubID h1 = nextSubID h" using st by (auto simp: start_locked_def Let_def split: option.splits)
    obtain h2 where "broadcast subs (start_event (TrimSpace r) (TrimSpace a) now (typing_ttl ttl)) h1 = Some h2" "typing_inv h2"
      using broadcast_ok [OF S(1), of subs "TrimSpace r"] S(2) by blast
    with h1 st False show ?thesis by (auto simp: Start_def Let_def dest!: nextSubID_broadcast)
  qed (use inv in \<open>auto simp: Start_def Let_def\<close>)
  then have "srv_inv I False n k (snd (run_state (on_typing (Start r a now ttl)) s)) \<and>
      fst (run_state (on_typing (Start r a now ttl)) s) \<noteq> Inl Panicked" if "srv_inv I b n k s" for s
    using that by (force simp: on_typing_def srv_inv_def split: option.splits)
  then show ?thesis by (simp add: calmly_def hoare_def)
qed

lemma kept_typing_close [kept_intros]:
  "kept I b (on_typing (\<lambda>h. map_option (\<lambda>h. ((), h)) (th_Close i h)))"
proof (rule kept_on_typing)
  fix h assume inv: "typing_inv h" and so: "b \<Longrightarrow> solo h"
  obtain h' where "hub_close i h = Some h'" "hub_inv h'"
    using hub_inv_close [OF typing_invD(1) [OF inv]] by blast
  moreover from this have "same_presence h h'" "nextSubID h' = nextSubID h"
    by (auto dest: same_presence_close nextSubID_close)
  ultimately show "\<exists>x h'. map_option (\<lambda>h. ((), h)) (th_Close i h) = Some (x, h') \<and> typing_inv h' \<and>
      nextSubID h' = nextSubID h \<and> (b \<longrightarrow> solo h')"
    using inv so by (auto simp: th_Close_def solo_same dest: same_presence_inv)
qed

lemma kept_event_close [kept_intros]:
  "kept I b (on_events (\<lambda>h. map_option (\<lambda>h. ((), h)) (eh_Close i h)))"
proof (rule kept_on_events)
  fix h :: roomEventHub
  assume "hub_inv h"
  then obtain h' where "hub_close i h = Some h'" "hub_inv h'"
    using hub_inv_close by blast
  then show "\<exists>x h'. map_option (\<lambda>h. ((), h)) (eh_Close i h) = Some (x, h') \<and> hub_inv h' \<and> nextSubID h' = nextSubID h"
    by (auto simp: eh_Close_def dest: nextSubID_close)
qed

lemma sub_offer_keeps:
  assumes "hub_inv h"
  shows "hub_inv (snd (sub_offer sub h))" "nextSubID (snd (sub_offer sub h)) = nextSubID h"
proof -
  have "hub_inv h'" "nextSubID h' = nextSubID h" if "hub_recv i h = (x, h')" for i x h'
    using hub_inv_recv [OF assms, of i] that by (auto simp: hub_recv_def split: option.splits list.splits)
  then show "hub_inv (snd (sub_offer sub h))" "nextSubID (snd (sub_offer sub h)) = nextSubID h"
    using assms by (auto simp: sub_offer_def split: option.splits prod.splits)
qed

lemma kept_subscriber_count [kept_intros]: "kept I b (subscriber_count r)"
  unfolding subscriber_count_def by (rule kept_on_events) auto

section \<open>The calls\<close>

lemma calm_ListAuditEvents [calm_intros]: "calm (ListAuditEvents n)"
  by (simp add: calm_def ListAuditEvents_def Let_def)

lemma calm_admin_queries [calm_intros]:
  "calm (SearchListings_rows lower q)" "calm (count_rooms st)" "calm (GetAdminOverview t)" "calm (ListAdminRooms n)"
  unfolding SearchListings_rows_def count_rooms_def GetAdminOverview_def ListAdminRooms_def by (intro calm_intros)+

lemma calm_overview_closed [calm_intros]: "calm (overview_closed C now rm out)"
  unfolding overview_closed_def Let_def by (intro calm_intros)

lemma calm_overview_loop [calm_intros]: "calm (overview_loop C now rms out)"
  by (induction rms arbitrary: out) (auto intro!: calm_intros)

lemma calm_admin:
  "calm (SearchListings C lower q)" "calm (svc_AdminOverview C)" "calm (AdminRooms n)" "calm (AdminAudit n)"
  unfolding SearchListings_def svc_AdminOverview_def AdminRooms_def AdminAudit_def PurgeOverview_def
    purgeOverviewFromRooms_def
  by (intro calm_intros)+

lemma calm_auth: "calm (authAgentID_sql r)" "calm (authRoomAccess H r i act)"
  unfolding authAgentID_sql_def authRoomAccess_def by (intro calm_intros calm_access calm_AuthRoomAccess)+

lemma calm_leases:
  "calm (AcquireRoomEventStreamLease t inp)" "calm (ReleaseRoomEventStreamLease i)"
  unfolding AcquireRoomEventStreamLease_def ReleaseRoomEventStreamLease_def lease_tx_def Let_def
  by (intro calm_intros calm_exec calm_stmt; auto simp: same_talk_def insert_lease_def insert_open_def split: if_splits)+

context served
begin

lemmas call_keeps = keeps_calm_I [OF calm_access(1)] keeps_calm_I [OF calm_access(2)]
  keeps_calm_I [OF calm_access(5)] keeps_calm_I [OF calm_access(6)] keeps_calm_I [OF calm_access(7)]
  keeps_calm_I [OF calm_access(8)] keeps_calm_I [OF calm_access(9)] keeps_calm_I [OF calm_access(10)]
  keeps_calm_I [OF calm_access(11)] keeps_calm_I [OF calm_access(12)]
  keeps_calm_I [OF calm_auth(1)] keeps_calm_I [OF calm_auth(2)]
  keeps_calm_I [OF calm_admin(1)] keeps_calm_I [OF calm_admin(2)] keeps_calm_I [OF calm_admin(3)]
  keeps_calm_I [OF calm_admin(4)] keeps_calm_I [OF calm_appendAudit]
  keeps_calm_I [OF calm_store [OF calm_leases(1)]] keeps_calm_I [OF calm_store [OF calm_leases(2)]]
  keeps_calm_I [OF calm_store [OF calm_queries(10)]]
  keeps_calm_I [OF calm_bind [OF calm_svc_newID calm_ok]]
  keeps_reads keeps_CreateListing keeps_JoinRoom keeps_SendMessage keeps_CloseRoom keeps_ActionableRooms
  keeps_RecordRoomContextFetch

lemmas handler_intros = kept_intros call_keeps

lemma kept_audit: "kept I b (AppendSecurityAudit H i e m n)"
  unfolding AppendSecurityAudit_def by (intro handler_intros)

lemma kept_plain:
  "kept I b (handleAgentRegister_sql H r)" "kept I b (handleAgentLogin_sql H r)" "kept I b (handleAgentWebhooks H r)"
  "kept I b (handleAgentWebhookByID H r)" "kept I b (handleAgentStreamAck H r)"
  "kept I b (handleAgentActionableRooms H r)" "kept I b (handleListings_sql H r)"
  "kept I b (handleListingSearch_sql H r)" "kept I b (handleAdmin H r)" "kept I b (handleRoomContext H r i)"
  "kept I b (handleRoomContextAck H r i)" "kept I b (handleRoomJoin_sql H r i)"
  "kept I b (handleRoomAccessToken H r i)" "kept I b (handleRoomState_sql H r i)"
  "kept I b (handleRoomLeave_sql H r i)" "kept I b (handleTranscript_sql H r i)"
  "kept I b (handleRoomViewers_sql H r i)" "kept I b (handleRoomEventsHistory H r i)" "kept I b (not_found H)"
  unfolding handleAgentRegister_sql_def handleAgentLogin_sql_def handleAgentWebhooks_def handleAgentWebhookByID_def
    handleAgentStreamAck_def handleAgentActionableRooms_def handleListings_sql_def handleListingSearch_sql_def
    handleAdmin_def handleAdminOverview_def handleAdminRooms_def handleAdminAudit_def handleRoomContext_def
    handleRoomContextAck_def handleRoomJoin_sql_def handleRoomAccessToken_def handleRoomState_sql_def
    handleRoomLeave_sql_def handleTranscript_sql_def handleRoomViewers_sql_def handleRoomEventsHistory_def
    method_error_def not_found_def invalid_request_def
  by (intro handler_intros)+

lemma kept_message: "kept I True (handleRoomMessage_sql H r i)"
  unfolding handleRoomMessage_sql_def typing_after_send_def method_error_def invalid_request_def
  by (intro handler_intros kept_audit kept_bind_state) (auto simp: allowIPMessage_def ip_window_step_def Let_def)

lemma kept_close: "kept I True (handleRoomClose_sql H r i)"
  unfolding handleRoomClose_sql_def method_error_def by (intro handler_intros)

lemma kept_release: "kept I b (releaseStreamSlot sl)"
  unfolding releaseStreamSlot_def by (cases sl) (simp_all add: kept_state kept_attempt kept_call kept_ok call_keeps)

lemma kept_acquire: "kept I b (acquireStreamSlot H a i addr now)"
proof -
  have "kept I b (acquireDistributedStreamSlot a i addr now)"
    unfolding acquireDistributedStreamSlot_def by (intro handler_intros)
  then show ?thesis
    by (auto simp: acquireStreamSlot_def acquireLocalSlot_def Let_def split: prod.splits intro!: kept_state)
qed

lemma kept_leave_stream: "kept I b (leave_stream c)"
  unfolding leave_stream_def by (intro handler_intros kept_release)

lemma kept_leave_viewer: "kept I b (leave_viewer c)"
  unfolding leave_viewer_def by (intro handler_intros)

lemma kept_go_live: "kept I b (go_live H c)"
  unfolding go_live_def by (intro handler_intros kept_audit)

lemma kept_close_stream: "kept I b (close_stream H why c)"
  unfolding close_stream_def by (intro handler_intros kept_audit kept_leave_stream)

lemma kept_replay_page: "kept I b (replay_page H c)"
  unfolding replay_page_def
  by (intro handler_intros kept_leave_stream kept_go_live)

lemma kept_deliver: "kept I b (deliver H c)"
proof -
  have "kept I b (on_events (\<lambda>h. case sub_offer sub h of (x, h') \<Rightarrow> Some ((x, g h), h')))" for sub g
    by (rule kept_on_events) (simp add: case_prod_beta sub_offer_keeps)
  then show ?thesis
    unfolding deliver_def
    by (intro kept_attempt kept_case_prod)
      (auto intro!: handler_intros kept_close_stream split: offer.splits option.splits)
qed

text \<open>A round of an event stream or of a viewer's stream.\<close>

lemma kept_event_step: "kept I b (handleRoomEvents_step H sel c)"
  unfolding handleRoomEvents_step_def keep_alive_def reauth_events_def
  by (auto intro!: handler_intros kept_replay_page kept_deliver kept_close_stream split: phase.splits select.splits)

lemma kept_deliver_typing: "kept I b (deliver_typing c)"
proof -
  have "kept I b (on_typing (\<lambda>h. Some (sub_offer (vc_Sub c) h)))"
  proof (rule kept_on_typing)
    fix h assume inv: "typing_inv h" and so: "b \<Longrightarrow> solo h"
    have "same_presence h (snd (sub_offer (vc_Sub c) h))"
      by (auto simp: sub_offer_def hub_recv_def split: option.splits list.splits)
    with inv so sub_offer_keeps [OF typing_invD(1) [OF inv], of "vc_Sub c"]
    show "\<exists>x h'. Some (sub_offer (vc_Sub c) h) = Some (x, h') \<and> typing_inv h' \<and> nextSubID h' = nextSubID h \<and> (b \<longrightarrow> solo h')"
      by (cases "sub_offer (vc_Sub c) h") (auto simp: solo_same dest: same_presence_inv)
  qed
  then show ?thesis
    unfolding deliver_typing_def
    by (intro kept_attempt) (auto intro!: handler_intros kept_leave_viewer split: offer.splits option.splits)
qed

lemma kept_viewer_step: "kept I b (handleRoomViewerEvents_step H sel c)"
  unfolding handleRoomViewerEvents_step_def reauth_viewer_def
  by (auto intro!: handler_intros kept_deliver_typing kept_leave_viewer split: select.splits)

end

section \<open>Requests that start something\<close>

text \<open>A request may show one more agent as typing and take one more subscription of each hub.\<close>

named_theorems opened_intros \<open>programs that may take a subscription or start an indicator\<close>

definition opened :: "(db \<Rightarrow> bool) \<Rightarrow> 'a http \<Rightarrow> bool" where
  "opened I m \<longleftrightarrow> (\<forall>n k. n < max64 \<longrightarrow> k < max64 \<longrightarrow>
     calmly (srv_inv I True n k) (srv_inv I False (n + 1) (k + 1)) m)"

lemma srv_inv_mono: "srv_inv I b n k s \<Longrightarrow> b' \<longrightarrow> b \<Longrightarrow> n \<le> n' \<Longrightarrow> k \<le> k' \<Longrightarrow> srv_inv I b' n' k' s"
  by (auto simp: srv_inv_def)

lemma opened_kept: "kept I True m \<Longrightarrow> opened I m"
  by (auto simp: opened_def intro!: calmly_kept elim: srv_inv_mono)

lemma opened_attempt_kept:
  assumes "opened I m" and "\<And>x. kept I False (f x)"
  shows "opened I (attempt m f)"
  unfolding opened_def
proof (intro allI impI)
  fix n k :: int
  assume "n < max64" "k < max64"
  then show "calmly (srv_inv I True n k) (srv_inv I False (n + 1) (k + 1)) (attempt m f)"
    by (intro calmly_attempt [where R = "srv_inv I False (n + 1) (k + 1)"])
      (use assms in \<open>simp_all add: opened_def kept_def\<close>)
qed

lemma opened_attempt [opened_intros]:
  assumes "kept I True m" and "\<And>x. opened I (f x)"
  shows "opened I (attempt m f)"
  unfolding opened_def
proof (intro allI impI)
  fix n k :: int
  assume "n < max64" "k < max64"
  then show "calmly (srv_inv I True n k) (srv_inv I False (n + 1) (k + 1)) (attempt m f)"
    by (intro calmly_attempt [where R = "srv_inv I True n k"])
      (use assms in \<open>auto simp: opened_def kept_def elim: srv_inv_mono\<close>)
qed

lemma opened_if [opened_intros]: "(c \<Longrightarrow> opened I m) \<Longrightarrow> (\<not> c \<Longrightarrow> opened I n) \<Longrightarrow> opened I (if c then m else n)"
  by simp

lemma opened_let [opened_intros]: "opened I (f x) \<Longrightarrow> opened I (Let x f)"
  by simp

lemma opened_case_option [opened_intros]:
  "opened I m \<Longrightarrow> (\<And>a. opened I (f a)) \<Longrightarrow> opened I (case x of None \<Rightarrow> m | Some a \<Rightarrow> f a)"
  by (cases x) auto

lemma opened_case_sum [opened_intros]:
  "(\<And>e. opened I (g e)) \<Longrightarrow> (\<And>a. opened I (f a)) \<Longrightarrow> opened I (case x of Inl e \<Rightarrow> g e | Inr a \<Rightarrow> f a)"
  by (cases x) auto

lemma opened_case_prod [opened_intros]: "(\<And>u v. opened I (f u v)) \<Longrightarrow> opened I (case x of (u, v) \<Rightarrow> f u v)"
  by (cases x) auto

lemma opened_ok [opened_intros]: "opened I (ok x)"
  by (intro opened_kept kept_ok)

lemma opened_serve [opened_intros]:
  "keeps (\<lambda>s. I (tables s)) m \<Longrightarrow> (\<And>x. opened I (f x)) \<Longrightarrow> opened I (serve wr m f)"
  unfolding serve_def by (intro opened_intros kept_intros)

lemma opened_typing_start: "opened I (typing_start H i a ttl now)"
proof -
  have "opened I (on_typing (Start i a now ttl))"
    unfolding opened_def
  proof (intro allI impI)
    fix n k
    show "calmly (srv_inv I True n k) (srv_inv I False (n + 1) (k + 1)) (on_typing (Start i a now ttl))"
      using calmly_Start [of I True n k i a now ttl]
      by (force simp: calmly_def hoare_def srv_inv_def)
  qed
  then show ?thesis
    unfolding typing_start_def by (intro opened_attempt_kept kept_ok)
qed

lemma opened_subscribe: "opened I (on_events (\<lambda>h. Some (eh_Subscribe i h)))"
proof -
  have "srv_inv I False (n + 1) (k + 1) (s\<lparr>evHub := snd (eh_Subscribe i (evHub s))\<rparr>)"
    if "n < max64" and inv: "srv_inv I True n k s" for n k s
  proof -
    have h: "hub_inv (evHub s)" "nextSubID (evHub s) < max64" using that by (auto simp: srv_inv_def)
    have "in64 (nextSubID (evHub s) + 1)" using h by (auto simp: hub_inv_def in64_def)
    then show ?thesis
      using inv hub_inv_subscribe [OF h] hub_subscribe_fields(4)
      by (auto simp: srv_inv_def eh_Subscribe_def Let_def case_prod_beta hub_subscribe_fields)
  qed
  then show ?thesis
    by (auto simp: opened_def calmly_def hoare_def on_events_def case_prod_beta)
qed

lemma opened_watch:
  "opened I (on_typing (\<lambda>h. case SubscribeWithSnapshot i now h of (sub, snap, h) \<Rightarrow> Some ((sub, snap), h)))"
proof -
  have "srv_inv I False (n + 1) (k + 1) (s\<lparr>tyHub := snd (snd (SubscribeWithSnapshot i now (tyHub s)))\<rparr>)"
    if "k < max64" and inv: "srv_inv I True n k s" for n k s
  proof (cases "TrimSpace i = []")
    case False
    let ?h = "pruneExpiredLocked (TrimSpace i) now (tyHub s)"
    have ty: "typing_inv ?h" "nextSubID ?h < max64"
      using that typing_inv_prune by (auto simp: srv_inv_def)
    have "in64 (nextSubID ?h + 1)"
      using ty typing_invD(1) [OF ty(1)] by (auto simp: hub_inv_def in64_def)
    then show ?thesis
      using inv False hub_inv_subscribe [OF typing_invD(1) [OF ty(1)] ty(2)]
        same_presence_inv [OF ty(1) same_presence_subscribe]
      by (auto simp: srv_inv_def SubscribeWithSnapshot_def Let_def case_prod_beta hub_subscribe_fields)
  qed (use inv in \<open>auto simp: SubscribeWithSnapshot_def srv_inv_def\<close>)
  then show ?thesis
    by (auto simp: opened_def calmly_def hoare_def on_typing_def case_prod_beta)
qed

context served
begin

lemma opened_typing: "opened I (handleRoomTyping H r i)"
  unfolding handleRoomTyping_def method_error_def invalid_request_def
  by (intro opened_intros call_keeps opened_typing_start kept_now) (intro opened_kept handler_intros)

lemma opened_events: "opened I (handleRoomEvents_open H fails r i)"
  unfolding handleRoomEvents_open_def
  by (intro opened_intros call_keeps kept_now kept_acquire kept_subscriber_count kept_audit kept_leave_stream
    opened_attempt_kept [OF opened_subscribe] kept_ok)

lemma opened_viewer: "opened I (handleRoomViewerEvents_open H fails r i)"
  unfolding handleRoomViewerEvents_open_def
  by (intro opened_intros call_keeps kept_now opened_attempt_kept [OF opened_watch] kept_case_prod)
    (auto intro!: kept_intros kept_leave_viewer split: bool.splits)

lemma opened_rooms: "opened I (handleRoomByID_sql H fails r)"
  unfolding handleRoomByID_sql_def replies_def opens_def
  by (intro opened_let opened_if; intro opened_attempt_kept [OF _ kept_ok] opened_kept [OF kept_plain(10)]
    opened_kept kept_plain kept_message kept_close opened_typing opened_events opened_viewer)

end

end
