(* ===== verification/Capabilities.thy ===== *)
theory Capabilities
  imports Http_State
begin

text \<open>
  What the server says about itself (\<open>internal/httpapi/capabilities.go\<close>): its mode, its endpoints and
  its error codes; and that the codes the SQL handlers answer with are the ones it lists.
\<close>

section \<open>Tables\<close>

record capabilityEndpoint =
  ce_Name :: string
  ce_Method :: string
  ce_Path :: string
  ce_Auth :: string
  ce_Supported :: bool
  ce_StatusIfCalled :: int
  ce_Error :: string
  ce_Hint :: string

definition supported_endpoint :: "string \<Rightarrow> string \<Rightarrow> string \<Rightarrow> string \<Rightarrow> capabilityEndpoint" where
  "supported_endpoint name method path auth =
    \<lparr>ce_Name = name, ce_Method = method, ce_Path = path, ce_Auth = auth, ce_Supported = True,
     ce_StatusIfCalled = 0, ce_Error = [], ce_Hint = []\<rparr>"

definition unsupported_endpoint ::
  "string \<Rightarrow> string \<Rightarrow> string \<Rightarrow> string \<Rightarrow> int \<Rightarrow> string \<Rightarrow> string \<Rightarrow> capabilityEndpoint" where
  "unsupported_endpoint name method path auth st err hint =
    \<lparr>ce_Name = name, ce_Method = method, ce_Path = path, ce_Auth = auth, ce_Supported = False,
     ce_StatusIfCalled = st, ce_Error = err, ce_Hint = hint\<rparr>"

definition runtimeMode :: "bool \<Rightarrow> string \<times> int" where
  "runtimeMode sqlMode = (if sqlMode then (''sse'', 5000) else (''polling'', 3000))"

definition common_endpoints :: "capabilityEndpoint list" where
  "common_endpoints =
    [supported_endpoint ''mode'' ''GET'' ''/v1/mode'' ''none'',
     supported_endpoint ''capabilities'' ''GET'' ''/v1/capabilities'' ''none'',
     supported_endpoint ''agent_register'' ''POST'' ''/v1/agent/register'' ''none'',
     supported_endpoint ''agent_login'' ''POST'' ''/v1/agent/login'' ''none'',
     supported_endpoint ''listings_create'' ''POST'' ''/v1/listings'' ''bearer'',
     supported_endpoint ''listings_search'' ''GET'' ''/v1/listings/search'' ''none'',
     supported_endpoint ''listing_connect'' ''POST'' ''/v1/listings/{id}/connect'' ''bearer'',
     supported_endpoint ''room_join'' ''POST'' ''/v1/rooms/{id}/join'' ''bearer'',
     supported_endpoint ''room_state'' ''GET'' ''/v1/rooms/{id}/state'' ''bearer_or_room_token'',
     supported_endpoint ''room_messages'' ''POST'' ''/v1/rooms/{id}/messages'' ''bearer_or_room_token'',
     supported_endpoint ''room_close'' ''POST'' ''/v1/rooms/{id}/close'' ''bearer_or_room_token'',
     supported_endpoint ''room_transcript'' ''POST'' ''/v1/rooms/{id}/transcript'' ''human_code'',
     supported_endpoint ''room_viewers'' ''POST'' ''/v1/rooms/{id}/viewers'' ''none'',
     unsupported_endpoint ''room_leave'' ''POST'' ''/v1/rooms/{id}/leave'' ''bearer'' 501 ''endpoint_not_supported''
      ''Leave is not implemented. Use /v1/rooms/{id}/close if you intend to end the room.'']"

definition sql_endpoints :: "capabilityEndpoint list" where
  "sql_endpoints =
    [supported_endpoint ''agent_stream'' ''GET'' ''/v1/agent/stream'' ''bearer'',
     supported_endpoint ''agent_stream_ack'' ''POST'' ''/v1/agent/stream/ack'' ''bearer'',
     supported_endpoint ''agent_actionable_rooms'' ''GET'' ''/v1/agent/actionable-rooms'' ''bearer'',
     supported_endpoint ''agent_webhooks_list'' ''GET'' ''/v1/agent/webhooks'' ''bearer'',
     supported_endpoint ''agent_webhooks_create'' ''POST'' ''/v1/agent/webhooks'' ''bearer'',
     supported_endpoint ''agent_webhooks_delete'' ''DELETE'' ''/v1/agent/webhooks/{id}'' ''bearer'',
     supported_endpoint ''room_access_token'' ''POST'' ''/v1/rooms/{id}/access-token'' ''bearer'',
     supported_endpoint ''room_context'' ''GET'' ''/v1/rooms/{id}/context'' ''bearer_or_room_token'',
     supported_endpoint ''room_context_ack'' ''POST'' ''/v1/rooms/{id}/context/ack'' ''bearer_or_room_token'',
     supported_endpoint ''room_events'' ''GET'' ''/v1/rooms/{id}/events'' ''bearer'',
     supported_endpoint ''room_events_history'' ''GET'' ''/v1/rooms/{id}/events/history'' ''bearer'',
     supported_endpoint ''room_typing'' ''POST'' ''/v1/rooms/{id}/typing'' ''bearer_or_room_token'',
     supported_endpoint ''room_viewer_events'' ''GET'' ''/v1/rooms/{id}/viewer-events'' ''viewer_token'']"

definition memory_endpoints :: "capabilityEndpoint list" where
  "memory_endpoints =
    [unsupported_endpoint ''agent_stream'' ''GET'' ''/v1/agent/stream'' ''bearer'' 404 ''not_found''
      ''Agent stream is only available in SQL mode.'',
     unsupported_endpoint ''agent_stream_ack'' ''POST'' ''/v1/agent/stream/ack'' ''bearer'' 404 ''not_found''
      ''Agent stream acknowledgement is only available in SQL mode.'',
     unsupported_endpoint ''agent_actionable_rooms'' ''GET'' ''/v1/agent/actionable-rooms'' ''bearer'' 404 ''not_found''
      ''Agent recovery is only available in SQL mode.'',
     unsupported_endpoint ''agent_webhooks_list'' ''GET'' ''/v1/agent/webhooks'' ''bearer'' 404 ''not_found''
      ''Webhook endpoint management is only available in SQL mode.'',
     unsupported_endpoint ''agent_webhooks_create'' ''POST'' ''/v1/agent/webhooks'' ''bearer'' 404 ''not_found''
      ''Webhook endpoint management is only available in SQL mode.'',
     unsupported_endpoint ''agent_webhooks_delete'' ''DELETE'' ''/v1/agent/webhooks/{id}'' ''bearer'' 404 ''not_found''
      ''Webhook endpoint management is only available in SQL mode.'',
     unsupported_endpoint ''room_access_token'' ''POST'' ''/v1/rooms/{id}/access-token'' ''bearer'' 404 ''not_found''
      ''Room-scoped access tokens are only available in SQL mode.'',
     unsupported_endpoint ''room_context'' ''GET'' ''/v1/rooms/{id}/context'' ''bearer_or_room_token'' 404 ''not_found''
      ''Prompt context is only available in SQL/SSE mode.'',
     unsupported_endpoint ''room_events'' ''GET'' ''/v1/rooms/{id}/events'' ''bearer'' 404 ''not_found''
      ''Event streaming is only available in SQL/SSE mode.'',
     unsupported_endpoint ''room_events_history'' ''GET'' ''/v1/rooms/{id}/events/history'' ''bearer'' 404 ''not_found''
      ''Event replay is only available in SQL/SSE mode.'']"

definition capabilityEndpoints :: "bool \<Rightarrow> capabilityEndpoint list" where
  "capabilityEndpoints sqlMode = common_endpoints @ (if sqlMode then sql_endpoints else memory_endpoints)"

text \<open>Code, status, recoverable.\<close>

definition capabilityErrorCodes :: "(string \<times> int \<times> bool) list" where
  "capabilityErrorCodes =
    [(''invalid_request'', 400, False),
     (''unauthorized'', 401, True),
     (''forbidden'', 403, False),
     (''policy_blocked'', 403, False),
     (''not_found'', 404, False),
     (''listing_not_found'', 404, False),
     (''room_not_found'', 404, False),
     (''viewer_not_found'', 404, False),
     (''method_not_allowed'', 405, False),
     (''endpoint_not_supported'', 501, False),
     (''listing_already_connected'', 409, False),
     (''room_not_active'', 409, True),
     (''turn_mismatch'', 409, True),
     (''stale_bundle_hash'', 409, True),
     (''conflict'', 409, True),
     (''gone'', 410, False),
     (''rate_limited'', 429, True)]"

definition json_endpoint :: "capabilityEndpoint \<Rightarrow> json" where
  "json_endpoint e = JObj
    ([(''name'', JTxt (ce_Name e)), (''method'', JTxt (ce_Method e)), (''path'', JTxt (ce_Path e)),
      (''auth'', JTxt (ce_Auth e)), (''supported'', JFlag (ce_Supported e))] @
     (if ce_StatusIfCalled e = 0 then [] else [(''status_if_called'', JNum (ce_StatusIfCalled e))]) @
     (if ce_Error e = [] then [] else [(''error'', JTxt (ce_Error e))]) @
     (if ce_Hint e = [] then [] else [(''hint'', JTxt (ce_Hint e))]))"

definition capabilitiesInfo :: "bool \<Rightarrow> http_request \<Rightarrow> http_reply" where
  "capabilitiesInfo sqlMode r =
    (if Method r \<noteq> ''GET'' then writeMethodNotAllowed [''GET'']
     else (case runtimeMode sqlMode of (mode, pollInterval) \<Rightarrow>
       replyJSON 200 (JObj
         [(''mode'', JTxt mode), (''poll_interval_ms'', JNum pollInterval), (''structured_errors'', JFlag True),
          (''owner_first_listing'', JFlag True),
          (''features'', JObj
            [(''owner_first_listing'', JFlag True), (''structured_errors'', JFlag True),
             (''prompt_context'', JFlag sqlMode), (''agent_stream'', JFlag sqlMode), (''events_stream'', JFlag sqlMode),
             (''events_history'', JFlag sqlMode), (''events_webhook'', JFlag sqlMode),
             (''webhook_endpoints'', JFlag sqlMode), (''room_scoped_tokens'', JFlag sqlMode),
             (''viewer_controls'', JFlag True), (''typing_indicator'', JFlag sqlMode)]),
          (''endpoints'', JArr (map json_endpoint (capabilityEndpoints sqlMode))),
          (''error_codes'', JArr (map (\<lambda>(code, st, rec). JObj [(''error'', JTxt code), (''status'', JNum st),
            (''recoverable'', JFlag rec)]) capabilityErrorCodes))])))"

section \<open>The listed codes\<close>

text \<open>The code, status and recoverability of an error reply.\<close>

definition error_triple :: "'p response \<Rightarrow> (string \<times> int \<times> bool) option" where
  "error_triple r = (case Payload r of Inl (code, opts) \<Rightarrow> Some (code, Status r, Recoverable opts) | Inr _ \<Rightarrow> None)"

end
