(* ===== verification/Router.thy ===== *)
theory Router
  imports Sql_Streams Capabilities
begin

text \<open>
  \<open>internal/httpapi/router.go\<close> and \<open>room_state_machine.go\<close>: the routes of both modes, the matching of
  \<open>http.ServeMux\<close>, the handlers that need no storage, and the CORS and security headers around them.
  \<open>path.Clean\<close>, as \<open>ServeMux\<close> uses it, and the file system are parameters.
\<close>

section \<open>Routes\<close>

datatype endpoint =
    EpHealthz | EpMode | EpCapabilities | EpSkillMD | EpNodeJSLoopMD | EpPythonLoopMD | EpStateMachine
  | EpRegister | EpLogin | EpAgentStream | EpStreamAck | EpActionable | EpWebhooks | EpWebhookByID | EpAdmin
  | EpListings | EpListingSearch | EpListingByID | EpRoomByID

definition common_routes :: "(string \<times> endpoint) list" where
  "common_routes =
    [(''/healthz'', EpHealthz), (''/v1/mode'', EpMode), (''/v1/capabilities'', EpCapabilities),
     (''/skill.md'', EpSkillMD), (''/nodejs_loop.md'', EpNodeJSLoopMD), (''/python_loop.md'', EpPythonLoopMD),
     (''/v1/rooms/state-machine'', EpStateMachine)]"

definition sql_routes :: "(string \<times> endpoint) list" where
  "sql_routes =
    [(''/v1/agent/register'', EpRegister), (''/v1/agent/login'', EpLogin), (''/v1/agent/stream'', EpAgentStream),
     (''/v1/agent/stream/ack'', EpStreamAck), (''/v1/agent/actionable-rooms'', EpActionable),
     (''/v1/agent/webhooks'', EpWebhooks), (''/v1/agent/webhooks/'', EpWebhookByID), (''/v1/admin/'', EpAdmin),
     (''/v1/listings'', EpListings), (''/v1/listings/search'', EpListingSearch), (''/v1/listings/'', EpListingByID),
     (''/v1/rooms/'', EpRoomByID)]"

definition memory_routes :: "(string \<times> endpoint) list" where
  "memory_routes =
    [(''/v1/agent/register'', EpRegister), (''/v1/agent/login'', EpLogin), (''/v1/listings'', EpListings),
     (''/v1/listings/search'', EpListingSearch), (''/v1/listings/'', EpListingByID), (''/v1/rooms/'', EpRoomByID)]"

definition routes :: "bool \<Rightarrow> (string \<times> endpoint) list" where
  "routes sqlMode = common_routes @ (if sqlMode then sql_routes else memory_routes)"

text \<open>A pattern that ends in a slash matches every path below it; the longest pattern wins.\<close>

definition pattern_matches :: "string \<Rightarrow> string \<Rightarrow> bool" where
  "pattern_matches pat path = (if suffix ''/'' pat then prefix pat path else path = pat)"

fun best_match :: "(string \<times> 'e) list \<Rightarrow> string \<Rightarrow> (string \<times> 'e) option" where
  "best_match [] path = None"
| "best_match ((pat, e) # rs) path =
    (case best_match rs path of
       None \<Rightarrow> if pattern_matches pat path then Some (pat, e) else None
     | Some (pat', e') \<Rightarrow>
         if pattern_matches pat path \<and> length pat > length pat' then Some (pat, e) else Some (pat', e'))"

datatype 'e routed = Handler 'e | Redirect string | NoRoute

definition ServeMux :: "(string \<Rightarrow> string) \<Rightarrow> (string \<times> 'e) list \<Rightarrow> string \<Rightarrow> string \<Rightarrow> 'e routed" where
  "ServeMux clean rs method path =
    (let p = (if method = ''CONNECT'' then path else clean path);
         found = best_match rs p
     in if (case found of None \<Rightarrow> True | Some (pat, _) \<Rightarrow> pat \<noteq> p) \<and> \<not> suffix ''/'' p \<and> p @ ''/'' \<in> fst ` set rs
        then Redirect (p @ ''/'')
        else if p \<noteq> path then Redirect p
        else (case found of None \<Rightarrow> NoRoute | Some (_, e) \<Rightarrow> Handler e))"

section \<open>Handlers without storage\<close>

datatype front =
    FReply http_reply
  | FMemory reply
  | FOutcome outcome
  | FText int string
  | FFile "string option"
  | FNoContent
  | FRedirect string

definition healthz :: http_reply where
  "healthz = replyJSON 200 (JObj [(''status'', JTxt ''ok'')])"

definition modeInfo :: "bool \<Rightarrow> http_request \<Rightarrow> http_reply" where
  "modeInfo sqlMode r =
    (if Method r \<noteq> ''GET'' then writeMethodNotAllowed [''GET'']
     else (case runtimeMode sqlMode of (mode, pollInterval) \<Rightarrow>
       replyJSON 200 (JObj [(''mode'', JTxt mode), (''poll_interval_ms'', JNum pollInterval)])))"

definition roomStateMachine :: "http_conf \<Rightarrow> (string \<Rightarrow> (RoomState \<times> RoomState) option) \<Rightarrow> http_request \<Rightarrow> http_reply" where
  "roomStateMachine H dec r =
    (if Method r \<noteq> ''POST'' then writeMethodNotAllowed [''POST'']
     else (case decode_with dec r of
       None \<Rightarrow> writeError (errE H) 400 ''invalid json''
     | Some (current, nxt) \<Rightarrow>
         (case TransitionState current nxt of
            Inl msg \<Rightarrow> writeError (errE H) 409 msg
          | Inr _ \<Rightarrow> replyJSON 200 (JObj [(''result'', JTxt ''ok'')]))))"

datatype file_read = FileBody string | FileMissing | FileError

fun readMarkdownFile :: "(string \<Rightarrow> file_read) \<Rightarrow> string list \<Rightarrow> string option" where
  "readMarkdownFile fs [] = None"
| "readMarkdownFile fs (path # paths) =
    (if TrimSpace path = [] then readMarkdownFile fs paths
     else (case fs path of
       FileBody body \<Rightarrow> Some body
     | FileMissing \<Rightarrow> readMarkdownFile fs paths
     | FileError \<Rightarrow> None))"

definition serveMarkdownFile :: "(string \<Rightarrow> file_read) \<Rightarrow> http_request \<Rightarrow> string \<Rightarrow> string \<Rightarrow> front" where
  "serveMarkdownFile fs r primaryPath fallbackName =
    (if Method r \<noteq> ''GET'' \<and> Method r \<noteq> ''HEAD'' then FReply (writeMethodNotAllowed [''GET'', ''HEAD''])
     else if TrimSpace fallbackName = [] then FText 404 ''markdown not found''
     else (let primaryPath = (if TrimSpace primaryPath = [] then fallbackName else primaryPath) in
       case readMarkdownFile fs [primaryPath, ''../'' @ fallbackName, ''../../'' @ fallbackName] of
         None \<Rightarrow> FText 404 (fallbackName @ '' not found'')
       | Some body \<Rightarrow> FFile (if Method r = ''HEAD'' then None else Some body)))"

record front_conf =
  httpC :: http_conf
  cleanPath :: "string \<Rightarrow> string"
  files :: "string \<Rightarrow> file_read"
  getenv :: "string \<Rightarrow> string"
  decodeTransition :: "string \<Rightarrow> (RoomState \<times> RoomState) option"
  uFold :: "string \<Rightarrow> string \<Rightarrow> bool"

definition stateless :: "front_conf \<Rightarrow> bool \<Rightarrow> endpoint \<Rightarrow> http_request \<Rightarrow> front option" where
  "stateless F sqlMode e r =
    (case e of
       EpHealthz \<Rightarrow> Some (FReply healthz)
     | EpMode \<Rightarrow> Some (FReply (modeInfo sqlMode r))
     | EpCapabilities \<Rightarrow> Some (FReply (capabilitiesInfo sqlMode r))
     | EpSkillMD \<Rightarrow> Some (serveMarkdownFile (files F) r (TrimSpace (getenv F ''SKILL_MD_PATH'')) ''skill.md'')
     | EpNodeJSLoopMD \<Rightarrow>
         Some (serveMarkdownFile (files F) r (TrimSpace (getenv F ''NODEJS_LOOP_MD_PATH'')) ''nodejs_loop.md'')
     | EpPythonLoopMD \<Rightarrow>
         Some (serveMarkdownFile (files F) r (TrimSpace (getenv F ''PYTHON_LOOP_MD_PATH'')) ''python_loop.md'')
     | EpStateMachine \<Rightarrow> Some (FReply (roomStateMachine (httpC F) (decodeTransition F) r))
     | _ \<Rightarrow> None)"

section \<open>The two modes\<close>

definition sql_handler :: "http_conf \<Rightarrow> (nat \<Rightarrow> bool) \<Rightarrow> endpoint \<Rightarrow> http_request \<Rightarrow> outcome http" where
  "sql_handler H fails e r =
    (case e of
       EpRegister \<Rightarrow> replies (handleAgentRegister_sql H r)
     | EpLogin \<Rightarrow> replies (handleAgentLogin_sql H r)
     | EpAgentStream \<Rightarrow> opens AgentStream (handleAgentStream_open H fails r)
     | EpStreamAck \<Rightarrow> replies (handleAgentStreamAck H r)
     | EpActionable \<Rightarrow> replies (handleAgentActionableRooms H r)
     | EpWebhooks \<Rightarrow> replies (handleAgentWebhooks H r)
     | EpWebhookByID \<Rightarrow> replies (handleAgentWebhookByID H r)
     | EpAdmin \<Rightarrow> replies (handleAdmin H r)
     | EpListings \<Rightarrow> replies (handleListings_sql H r)
     | EpListingSearch \<Rightarrow> replies (handleListingSearch_sql H r)
     | EpListingByID \<Rightarrow> replies (handleListingByID_sql H r)
     | EpRoomByID \<Rightarrow> handleRoomByID_sql H fails r
     | _ \<Rightarrow> replies (not_found H))"

definition serve_sql :: "front_conf \<Rightarrow> (nat \<Rightarrow> bool) \<Rightarrow> http_request \<Rightarrow> front http" where
  "serve_sql F fails r =
    (case ServeMux (cleanPath F) (routes True) (Method r) (URLPath r) of
       NoRoute \<Rightarrow> ok (FText 404 ''404 page not found'')
     | Redirect p \<Rightarrow> ok (FRedirect p)
     | Handler e \<Rightarrow>
         (case stateless F True e r of
            Some out \<Rightarrow> ok out
          | None \<Rightarrow> attempt (sql_handler (httpC F) fails e r) (\<lambda>out. ok (FOutcome out))))"

definition memory_handler :: "http_conf \<Rightarrow> endpoint \<Rightarrow> string request \<Rightarrow> (app, reply) state" where
  "memory_handler H e r =
    (let E = errE H; D = decoders.truncate (decD H) in
     case e of
       EpRegister \<Rightarrow> handleAgentRegister E (withBody (decodeName D) r)
     | EpLogin \<Rightarrow> handleAgentLogin E (withBody (decodeAPIKey D) r)
     | EpListings \<Rightarrow> handleListings E (withBody (decodeListing D) r)
     | EpListingSearch \<Rightarrow> handleListingSearch E (noBody r)
     | EpListingByID \<Rightarrow> handleListingByID E (noBody r)
     | _ \<Rightarrow> handleRoomByID E D r)"

definition serve_memory :: "front_conf \<Rightarrow> http_request \<Rightarrow> (app, front) state" where
  "serve_memory F r =
    (case ServeMux (cleanPath F) (routes False) (Method r) (URLPath r) of
       NoRoute \<Rightarrow> State_Monad.return (FText 404 ''404 page not found'')
     | Redirect p \<Rightarrow> State_Monad.return (FRedirect p)
     | Handler e \<Rightarrow>
         (case stateless F False e r of
            Some out \<Rightarrow> State_Monad.return out
          | None \<Rightarrow> do { out \<leftarrow> memory_handler (httpC F) e (request.truncate r); State_Monad.return (FMemory out) }))"

section \<open>Headers\<close>

type_synonym headers = "(string, string) gomap"

definition default_origins :: "string list" where
  "default_origins = [''http://localhost:3000'', ''http://127.0.0.1:3000'', ''https://areyouai.fun'', ''https://www.areyouai.fun'']"

definition buildAllowedOrigins :: "front_conf \<Rightarrow> string list" where
  "buildAllowedOrigins F =
    (let env = TrimSpace (getenv F ''CORS_ALLOWED_ORIGINS'') in
     if env \<noteq> [] then
       (let out = filter (\<lambda>v. v \<noteq> []) (map TrimSpace (SplitByte (CHR '','') env)) in
        if length out > 0 then out else default_origins)
     else default_origins)"

fun isAllowedOrigin :: "front_conf \<Rightarrow> string \<Rightarrow> string list \<Rightarrow> bool" where
  "isAllowedOrigin F origin [] = False"
| "isAllowedOrigin F origin (a # as) = (if EqualFold (uFold F) origin a then True else isAllowedOrigin F origin as)"

definition cors_headers :: "front_conf \<Rightarrow> string \<Rightarrow> headers" where
  "cors_headers F origin =
    (if origin \<noteq> [] \<and> isAllowedOrigin F origin (buildAllowedOrigins F) then
       [(''Access-Control-Allow-Origin'', origin), (''Vary'', ''Origin''),
        (''Access-Control-Allow-Methods'', ''GET,POST,OPTIONS''),
        (''Access-Control-Allow-Headers'', ''Authorization,Content-Type'')]
     else [])"

text \<open>A preflight request never reaches the handlers.\<close>

definition withCORS :: "front_conf \<Rightarrow> string \<Rightarrow> string \<Rightarrow> (front \<Rightarrow> 'r) \<Rightarrow> ('s, 'r) state \<Rightarrow> ('s, headers \<times> 'r) state" where
  "withCORS F origin method wrap handler =
    (if method = ''OPTIONS'' then State_Monad.return (cors_headers F origin, wrap FNoContent)
     else do { out \<leftarrow> handler; State_Monad.return (cors_headers F origin, out) })"

definition withSecurityHeaders :: "bool \<Rightarrow> ('s, headers \<times> 'r) state \<Rightarrow> ('s, headers \<times> 'r) state" where
  "withSecurityHeaders tls handler = do {
     out \<leftarrow> handler;
     State_Monad.return (case out of (hs, x) \<Rightarrow>
       ([(''X-Content-Type-Options'', ''nosniff''), (''X-Frame-Options'', ''DENY''), (''Referrer-Policy'', ''no-referrer''),
         (''Permissions-Policy'', ''geolocation=(), microphone=(), camera=()'')] @
        (if tls then [(''Strict-Transport-Security'', ''max-age=31536000; includeSubDomains'')] else []) @ hs, x)) }"

end
