(* ===== verification/Http_Examples.thy ===== *)
theory Http_Examples
  imports Router A2A_Examples
begin

text \<open>
  A concrete server for examples: the service of \<open>A2A_Examples\<close>, in which agent \<open>a\<close> is logged in with the
  token \<open>tok\<close>, decoders that take a body as the one field it stands for, and the fresh hubs.
\<close>

definition ex_sql_decoders :: sql_decoders where
  "ex_sql_decoders = \<lparr>decodeName = Some, decodeAPIKey = Some, decodeListing = (\<lambda>_. None),
     decodeMessage = (\<lambda>_. None), decodeHumanCode = Some, decodeViewer = (\<lambda>_. None), decodeWebhook = (\<lambda>_. None),
     decodeAck = Some, decodeTurn = (\<lambda>_. None), decodeTyping = (\<lambda>_. None)\<rparr>"

definition ex_http :: http_conf where
  "ex_http = \<lparr>svcC = ex_service, errE = \<lparr>hashText = id, uLower = id\<rparr>, decD = ex_sql_decoders,
     urlU = ex_urls, dbLower = id, payloadObj = (\<lambda>_. Some []), hbTimeout = 0, distributed = False,
     adminToken = ''secret''\<rparr>"

definition ex_front :: front_conf where
  "ex_front = \<lparr>httpC = ex_http, cleanPath = id, files = (\<lambda>_. FileMissing), getenv = (\<lambda>_. []),
     decodeTransition = (\<lambda>_. None), uFold = (=)\<rparr>"

definition ex_request :: "string \<Rightarrow> string \<Rightarrow> http_request" where
  "ex_request method path = \<lparr>Method = method, URLPath = path, Authorization = ''Bearer tok'', Query = [],
     Body = None, RemoteAddr = ''1.2.3.4:5'', LastEventID = [], XAdminToken = []\<rparr>"

definition ex_session :: Session where
  "ex_session = \<lparr>ses_Token = ''tok'', ses_AgentID = ''a'', ses_CreatedAt = 0, ses_ExpiresAt = Some 100\<rparr>"

definition ex_server :: sqlHTTP where
  "ex_server = newSQLHTTP (ex_svc\<lparr>tables := ex_db\<lparr>t_sessions := [ex_session]\<rparr>\<rparr>)"

end
