(* ===== verification/Http_Spec.thy ===== *)
theory Http_Spec
  imports Http_Safety Http_Examples
begin

text \<open>
  Requests to the server in SQL mode, from the route to the tables and the hubs.
\<close>

section \<open>The agent of a session\<close>

text \<open>Sessions belong to agents with a name that is not blank, as registration gives them.\<close>

definition named_sessions :: "db \<Rightarrow> bool" where
  "named_sessions d \<longleftrightarrow> (\<forall>x \<in> set (t_sessions d). TrimSpace (ses_AgentID x) \<noteq> [])"

lemma AuthAgentID_session:
  assumes "run_state (AuthAgentID tok) sv = (Inr a, sv')"
  shows "\<exists>x \<in> set (t_sessions (tables sv)). ses_AgentID x = a"
proof -
  let ?f = "\<lambda>x. ses_Token x = TrimSpace tok"
  have "run_state (store_nf ErrUnauthorized (FindSession (TrimSpace tok))) sv =
      (if faults sv (stmts sv) then Inl (RepoErr driver_error)
       else (case find ?f (t_sessions (tables sv)) of None \<Rightarrow> Inl ErrUnauthorized | Some x \<Rightarrow> Inr x), sv\<lparr>stmts := Suc (stmts sv)\<rparr>)"
    by (simp add: store_nf_def mapErr_def FindSession_def run_query normalizeErr_row_def driver_error_def split: option.splits)
  then show ?thesis
    using assms by (auto simp: AuthAgentID_def run_attempt Let_def fail_def ok_def s_now_def find_Some_iff
      split: if_splits option.splits)
qed

lemma authAgentID_sql_named:
  assumes "named_sessions (tables sv)" and "run_state (authAgentID_sql r) sv = (Inr a, sv')"
  shows "TrimSpace a \<noteq> []"
  using assms AuthAgentID_session [of _ sv a sv']
  by (auto simp: authAgentID_sql_def Let_def named_sessions_def fail_def split: if_splits)

lemma best_match_Some: "best_match rs path = Some (p, e) \<Longrightarrow> (p, e) \<in> set rs \<and> pattern_matches p path"
  by (induction rs arbitrary: p e) (auto split: option.splits if_splits prod.splits)

lemma ServeMux_handler:
  assumes "ServeMux clean rs m path = Handler e"
  obtains p where "(p, e) \<in> set rs" "pattern_matches p path"
  using assms best_match_Some [of rs path]
  by (fastforce simp: ServeMux_def Let_def split: if_splits option.splits prod.splits)

lemma agent_stream_path:
  assumes "ServeMux clean (routes True) m path = Handler EpAgentStream"
  shows "path = ''/v1/agent/stream''"
proof (rule ServeMux_handler [OF assms])
  fix p assume "(p, EpAgentStream) \<in> set (routes True)" and m: "pattern_matches p path"
  then have "p = ''/v1/agent/stream''" by (simp add: routes_def common_routes_def sql_routes_def)
  moreover have "\<not> suffix ''/'' ''/v1/agent/stream''" by code_simp
  ultimately show ?thesis using m by (simp add: pattern_matches_def)
qed

context served
begin

lemma connect_ok:
  "calmly (\<lambda>s. srv_inv I b n k s \<and> named_sessions (tables (svcS s))) (srv_inv I b n k) (handleListingByID_sql H r)"
proof -
  let ?P = "\<lambda>s. srv_inv I b n k s \<and> named_sessions (tables (svcS s))"
  have auth: "hoare ?P (call (authAgentID_sql r)) (\<lambda>x s. srv_inv I b n k s \<and> x \<noteq> Inl Panicked \<and>
      (\<forall>a. x = Inr (Inr a) \<longrightarrow> TrimSpace a \<noteq> []))"
  proof (rule hoareI)
    fix s assume P: "?P s"
    have "kept I b (call (authAgentID_sql r))"
      by (intro kept_call keeps_calm_I calm_auth(1))
    then have "srv_inv I b n k (snd (run_state (call (authAgentID_sql r)) s)) \<and>
        fst (run_state (call (authAgentID_sql r)) s) \<noteq> Inl Panicked"
      unfolding kept_def calmly_def hoare_def using P by blast
    moreover have "TrimSpace a \<noteq> []" if "fst (run_state (call (authAgentID_sql r)) s) = Inr (Inr a)" for a
      using that P authAgentID_sql_named [of "svcS s" r a]
      by (auto simp: call_def Let_def split: prod.splits option.splits if_splits)
    ultimately show "srv_inv I b n k (snd (run_state (call (authAgentID_sql r)) s)) \<and>
        fst (run_state (call (authAgentID_sql r)) s) \<noteq> Inl Panicked \<and>
        (\<forall>a. fst (run_state (call (authAgentID_sql r)) s) = Inr (Inr a) \<longrightarrow> TrimSpace a \<noteq> [])" by blast
  qed
  have conn: "calmly (srv_inv I b n k) (srv_inv I b n k) (serve (writeListingServiceErr H) (ConnectListing (svcC H) a l) (\<lambda>out. ok (f out)))"
    if "TrimSpace a \<noteq> []" for a l f
    by (rule calmly_kept [OF kept_serve [OF keeps_ConnectListing [OF that] kept_ok]])
  have "calmly ?P (srv_inv I b n k) (serve (writeServiceErr H) (authAgentID_sql r) (\<lambda>agentID.
      serve (writeListingServiceErr H) (ConnectListing (svcC H) agentID l) (\<lambda>out. ok (f out))))" for l f
    unfolding serve_def [of _ "authAgentID_sql r"] calmly_def
  proof (rule hoare_attempt [OF auth])
    fix x
    show "hoare (\<lambda>s. srv_inv I b n k s \<and> (Inr x :: halt + svc_error + string) \<noteq> Inl Panicked \<and>
        (\<forall>a. (Inr x :: halt + svc_error + string) = Inr (Inr a) \<longrightarrow> TrimSpace a \<noteq> []))
      (case x of Inl err \<Rightarrow> ok (writeServiceErr H err)
       | Inr a \<Rightarrow> serve (writeListingServiceErr H) (ConnectListing (svcC H) a l) (\<lambda>out. ok (f out)))
      (\<lambda>r s. srv_inv I b n k s \<and> r \<noteq> Inl Panicked)"
    proof (cases x)
      case (Inl e)
      then show ?thesis by (auto intro: hoare_ok)
    next
      case (Inr a)
      then show ?thesis
        using conn [of a l f] by (cases "TrimSpace a = []") (auto simp: calmly_def hoare_def)
    qed
  qed auto
  then show ?thesis
    unfolding handleListingByID_sql_def not_found_def method_error_def Let_def
    by (auto intro!: calmly_ok)
qed

lemma sql_handler_ok:
  assumes "e \<noteq> EpAgentStream" and "n < max64" "k < max64"
  shows "calmly (\<lambda>s. srv_inv I True n k s \<and> named_sessions (tables (svcS s))) (srv_inv I False (n + 1) (k + 1))
    (sql_handler H fails e r)"
proof (cases "e = EpListingByID")
  case True
  have "calmly (\<lambda>s. srv_inv I True n k s \<and> named_sessions (tables (svcS s))) (srv_inv I True n k)
      (replies (handleListingByID_sql H r))"
    unfolding replies_def by (rule calmly_attempt [OF connect_ok calmly_ok])
  then show ?thesis
    using True by (auto simp: sql_handler_def calmly_def hoare_def srv_inv_def)
next
  case False
  have "opened I (replies m)" if "kept I True m" for m
    unfolding replies_def by (intro opened_attempt_kept opened_kept that kept_ok)
  then have "opened I (sql_handler H fails e r)"
    using assms(1) False unfolding sql_handler_def
    by (auto intro!: kept_plain opened_rooms split: endpoint.splits)
  then show ?thesis
    using assms(2,3) by (auto simp: opened_def calmly_def hoare_def)
qed

lemma serve_sql_ok:
  assumes "URLPath r \<noteq> ''/v1/agent/stream''" and "n < max64" "k < max64"
  shows "calmly (\<lambda>s. srv_inv I True n k s \<and> named_sessions (tables (svcS s))) (srv_inv I False (n + 1) (k + 1))
    (serve_sql F fails r)"
proof -
  have "e \<noteq> EpAgentStream" if "ServeMux (cleanPath F) (routes True) (Method r) (URLPath r) = Handler e" for e
    using agent_stream_path that assms(1) by metis
  then have "calmly (\<lambda>s. srv_inv I True n k s \<and> named_sessions (tables (svcS s))) (srv_inv I False (n + 1) (k + 1))
      (attempt (sql_handler H fails e r) (\<lambda>out. ok (FOutcome out)))"
    if "ServeMux (cleanPath F) (routes True) (Method r) (URLPath r) = Handler e" for H e
    using that by (intro calmly_attempt [OF sql_handler_ok calmly_ok] assms(2,3)) auto
  moreover have "calmly (\<lambda>s. srv_inv I True n k s \<and> named_sessions (tables (svcS s))) (srv_inv I False (n + 1) (k + 1))
      (ok out)" for out :: front
    by (rule calmly_ok) (auto elim: srv_inv_mono)
  ultimately show ?thesis
    unfolding serve_sql_def by (simp split: routed.split option.split)
qed

text \<open>
  The stream of an agent panics on a delivery whose payload is the text \<open>null\<close>; what it leaves behind is the
  same in any case.
\<close>

lemma keeps_kept: "kept I b m \<Longrightarrow> keeps (srv_inv I b n k) m"
  by (auto simp: kept_def calmly_def hoare_def)

lemma keeps_agent_stream: "keeps (srv_inv I b n k) (handleAgentStream_open H fails r)"
proof -
  note calls = keeps_kept [OF kept_call [OF keeps_calm_I [OF calm_auth(1)]]] keeps_kept [OF kept_now]
    keeps_kept [OF kept_call [OF keeps_calm_I [OF calm_access(5)]]]
    keeps_kept [OF kept_call [OF keeps_calm_I [OF calm_access(6)]]]
  show ?thesis
    unfolding handleAgentStream_open_def serve_def writePendingAgentStreamBatch_def
    by (intro hoare_intros calls)
qed

lemma serve_sql_tables:
  assumes "n < max64" "k < max64"
  shows "hoare (\<lambda>s. srv_inv I True n k s \<and> named_sessions (tables (svcS s))) (serve_sql F fails r)
    (\<lambda>_. srv_inv I False (n + 1) (k + 1))"
proof -
  let ?P = "\<lambda>s. srv_inv I True n k s \<and> named_sessions (tables (svcS s))"
  let ?Q = "srv_inv I False (n + 1) (k + 1)"
  have PQ: "?P s \<Longrightarrow> ?Q s" for s by (auto elim: srv_inv_mono)
  have handler: "hoare ?P (sql_handler H fails e r) (\<lambda>_. ?Q)" for H e
  proof (cases "e = EpAgentStream")
    case True
    have "keeps (srv_inv I True n k) (sql_handler H fails e r)"
      unfolding True sql_handler_def endpoint.case opens_def
      by (intro keeps_attempt keeps_agent_stream keeps_ok)
    then show ?thesis by (rule hoare_conseq) (auto elim: srv_inv_mono)
  next
    case False
    from sql_handler_ok [OF this assms] show ?thesis by (auto simp: calmly_def hoare_def)
  qed
  have "hoare ?P (attempt (sql_handler H fails e r) (\<lambda>out. ok (FOutcome out))) (\<lambda>_. ?Q)" for H e
    by (rule hoare_attempt [OF handler]) (auto intro: hoare_ok)
  moreover have "hoare ?P (ok out :: front http) (\<lambda>_. ?Q)" for out
    by (rule hoare_ok) (rule PQ)
  ultimately show ?thesis
    unfolding serve_sql_def by (simp split: routed.split option.split)
qed

end

section \<open>Any request\<close>

text \<open>The hubs hold their invariants, every subscription still has a number, and no room shows two typists.\<close>

definition hubs_ok :: "sqlHTTP \<Rightarrow> bool" where
  "hubs_ok s \<longleftrightarrow> hub_inv (evHub s) \<and> nextSubID (evHub s) < max64 \<and>
     typing_inv (tyHub s) \<and> nextSubID (tyHub s) < max64 \<and> solo (tyHub s)"

text \<open>
  C2. The server in SQL mode refines the machine of rooms. Take any request, whatever its method, path,
  headers and body, on a server with well-formed tables and hubs. Whether it is answered, opens a stream,
  panics or never returns, and whichever statements fail, what it leaves in the tables of rooms and messages
  is reached from what it found by steps of the machine, and the tables stay well formed.
\<close>

theorem http_refines_rooms:
  assumes "hubs_ok s" and "rooms_wf (tables (svcS s))" and "named_sessions (tables (svcS s))"
    and "s' = snd (run_state (serve_sql F fails r) s)"
  shows "room_step\<^sup>*\<^sup>* (ledger (tables (svcS s))) (ledger (tables (svcS s'))) \<and> rooms_wf (tables (svcS s'))"
  using hist.serve_sql_tables [of "nextSubID (evHub s)" "nextSubID (tyHub s)"
      "ledger (tables (svcS s))" F fails r] assms
  by (auto simp: hoare_def srv_inv_def hubs_ok_def)

lemma ex_server_ok:
  "hubs_ok ex_server" "rooms_wf (tables (svcS ex_server))" "named_sessions (tables (svcS ex_server))"
proof -
  show "hubs_ok ex_server"
    using hub_inv_new [of 64] typing_inv_new [of 64]
    by (simp add: hubs_ok_def ex_server_def newSQLHTTP_def solo_def newRoomEventHub_def newTypingHub_def room_states_def
      max64_def)
  show "rooms_wf (tables (svcS ex_server))"
    using ex_rooms_wf by (simp add: ex_server_def newSQLHTTP_def rooms_wf_def ex_svc_def has_room_def)
  have "TrimSpace ''a'' = ''a''" by code_simp
  then show "named_sessions (tables (svcS ex_server))"
    by (simp add: ex_server_def newSQLHTTP_def ex_svc_def named_sessions_def ex_session_def)
qed

theorem http_refines_rooms_witness:
  "room_step\<^sup>*\<^sup>* (ledger (tables (svcS ex_server)))
     (ledger (tables (svcS (snd (run_state (serve_sql ex_front (\<lambda>_. False) (ex_request ''POST'' ''/v1/rooms/r/close'')) ex_server)))))"
  using http_refines_rooms [OF ex_server_ok refl, of ex_front "\<lambda>_. False" "ex_request ''POST'' ''/v1/rooms/r/close''"]
  by simp



end
