(* ===== verification/Stream_Spec.thy ===== *)
theory Stream_Spec
  imports Http_Safety Http_Examples
begin

text \<open>
  What a client of the event stream of a room receives: the ids and the order of the frames under any
  interleaving with other requests, what the replay covers, and where it stops too early.
\<close>

section \<open>Programs that leave the events alone\<close>

named_theorems answers_intros \<open>programs of the server that leave the table of events as it is\<close>

definition srv_events :: "sqlHTTP \<Rightarrow> RoomEvent list" where
  "srv_events s = t_events (tables (svcS s))"

text \<open>\<open>answers E m P\<close>: with the events \<open>E\<close>, the program \<open>m\<close> keeps them and a value it returns satisfies \<open>P\<close>.\<close>

definition answers :: "RoomEvent list \<Rightarrow> 'a http \<Rightarrow> ('a \<Rightarrow> bool) \<Rightarrow> bool" where
  "answers E m P \<longleftrightarrow> hoare (\<lambda>s. srv_events s = E) m (\<lambda>r s. srv_events s = E \<and> (\<forall>x. r = Inr x \<longrightarrow> P x))"

lemma answers_attempt [answers_intros]:
  "answers E m (\<lambda>_. True) \<Longrightarrow> (\<And>x. answers E (f x) P) \<Longrightarrow> answers E (attempt m f) P"
  unfolding answers_def by (rule hoare_attempt) (auto simp: hoare_def)

lemma answers_ok: "P x \<Longrightarrow> answers E (ok x) P"
  by (auto simp: answers_def intro: hoare_ok)

lemma answers_case_option [answers_intros]:
  "answers E m P \<Longrightarrow> (\<And>a. answers E (f a) P) \<Longrightarrow> answers E (case x of None \<Rightarrow> m | Some a \<Rightarrow> f a) P"
  by (cases x) auto

lemma answers_if [answers_intros]:
  "(c \<Longrightarrow> answers E m P) \<Longrightarrow> (\<not> c \<Longrightarrow> answers E n P) \<Longrightarrow> answers E (if c then m else n) P"
  by simp

lemma answers_call [answers_intros]:
  assumes "keeps (\<lambda>s. t_events (tables s) = E) m"
  shows "answers E (call m) (\<lambda>_. True)"
  using assms by (auto simp: answers_def hoare_def call_def srv_events_def Let_def split: prod.splits option.splits)

lemma answers_on_events [answers_intros]: "answers E (on_events f) (\<lambda>_. True)"
  by (auto simp: answers_def hoare_def on_events_def srv_events_def split: option.splits prod.splits)

lemma answers_count [answers_intros]: "answers E (subscriber_count i) (\<lambda>_. True)"
  unfolding subscriber_count_def by (rule answers_on_events)

lemma keeps_audit_events: "keeps (\<lambda>s. t_events (tables s) = E) (appendAuditEventBestEffort C i e m n)"
  by (auto simp: hoare_def appendAuditEventBestEffort_def AppendAuditEvent_def Let_def ok_def)

lemma answers_audit [answers_intros]: "answers E (AppendSecurityAudit H i e m n) (\<lambda>_. True)"
  unfolding AppendSecurityAudit_def by (intro answers_intros answers_ok keeps_audit_events TrueI)

lemma answers_release [answers_intros]: "answers E (releaseStreamSlot sl) (\<lambda>_. True)"
proof (cases sl)
  case (LocalSlot k)
  then show ?thesis by (simp add: releaseStreamSlot_def answers_def hoare_def srv_events_def)
next
  case (LeaseSlot i)
  have "keeps (\<lambda>s. t_events (tables s) = E) (ReleaseRoomEventStreamLease i)"
    unfolding ReleaseRoomEventStreamLease_def Let_def by (intro keeps_if keeps_ok keeps_exec) simp
  with LeaseSlot show ?thesis
    unfolding releaseStreamSlot_def store_def by (auto intro!: answers_intros answers_ok keeps_mapErr)
qed

lemma answers_leave: "answers E (leave_stream c) (\<lambda>c'. c' = c\<lparr>ec_Phase := Ended\<rparr>)"
  unfolding leave_stream_def by (intro answers_intros answers_ok refl TrueI)

lemma answers_go_live: "answers E (go_live H c) (\<lambda>c'. c' = c\<lparr>ec_Since := ec_Last c, ec_Phase := Live\<rparr>)"
  unfolding go_live_def by (intro answers_intros answers_ok refl)

lemma answers_close: "answers E (close_stream H why c) (\<lambda>c'. c' = c\<lparr>ec_Phase := Ended\<rparr>)"
  unfolding close_stream_def by (intro answers_intros answers_leave)

lemma answers_case_prod [answers_intros]: "(\<And>u v. answers E (f u v) P) \<Longrightarrow> answers E (case x of (u, v) \<Rightarrow> f u v) P"
  by (cases x) auto

lemma answers_case_offer [answers_intros]:
  "answers E m P \<Longrightarrow> (\<And>e. answers E (f e) P) \<Longrightarrow> answers E n P \<Longrightarrow>
   answers E (case x of Waiting \<Rightarrow> m | Item e \<Rightarrow> f e | ChanClosed \<Rightarrow> n) P"
  by (cases x) auto

text \<open>\<open>yields m P\<close>: a value the program returns satisfies \<open>P\<close>, whatever it does to the server.\<close>

named_theorems yields_intros \<open>rules for the values of a program\<close>

definition yields :: "'a http \<Rightarrow> ('a \<Rightarrow> bool) \<Rightarrow> bool" where
  "yields m P \<longleftrightarrow> hoare (\<lambda>_. True) m (\<lambda>r _. \<forall>x. r = Inr x \<longrightarrow> P x)"

lemma yieldsD: "yields m P \<Longrightarrow> run_state m s = (Inr x, s') \<Longrightarrow> P x"
  by (auto simp: yields_def hoare_def dest!: spec [of _ s])

lemma yields_answers: "(\<And>E. answers E m P) \<Longrightarrow> yields m P"
  by (simp add: yields_def answers_def hoare_def)

lemma yields_attempt: "yields m P \<Longrightarrow> (\<And>x. P x \<Longrightarrow> yields (f x) Q) \<Longrightarrow> yields (attempt m f) Q"
  unfolding yields_def by (rule hoare_attempt) (auto simp: hoare_def)

lemma yields_any [yields_intros]: "(\<And>x. yields (f x) P) \<Longrightarrow> yields (attempt m f) P"
  by (rule yields_attempt [of m "\<lambda>_. True"]) (simp_all add: yields_def hoare_def)

lemma yields_ok: "P x \<Longrightarrow> yields (ok x) P"
  by (auto simp: yields_def intro: hoare_ok)

lemma yields_if [yields_intros]: "(c \<Longrightarrow> yields m P) \<Longrightarrow> (\<not> c \<Longrightarrow> yields n P) \<Longrightarrow> yields (if c then m else n) P"
  by simp

lemma yields_let [yields_intros]: "(\<And>y. y = x \<Longrightarrow> yields (f y) P) \<Longrightarrow> yields (Let x f) P"
  by simp

lemma yields_cases [yields_intros]:
  "yields m P \<Longrightarrow> (\<And>a. u = Some a \<Longrightarrow> yields (f a) P) \<Longrightarrow> yields (case u of None \<Rightarrow> m | Some a \<Rightarrow> f a) P"
  "(\<And>e. yields (g e) P) \<Longrightarrow> (\<And>b. yields (h b) P) \<Longrightarrow> yields (case v of Inl e \<Rightarrow> g e | Inr b \<Rightarrow> h b) P"
  "(\<And>y z. yields (k y z) P) \<Longrightarrow> yields (case p of (y, z) \<Rightarrow> k y z) P"
  by (simp_all split: option.split sum.split prod.split)

lemma yields_serve [yields_intros]:
  "(\<And>e. P (wr e)) \<Longrightarrow> (\<And>x. yields (f x) P) \<Longrightarrow> yields (serve wr m f) P"
  unfolding serve_def by (intro yields_intros yields_ok)

section \<open>A page of the history\<close>

definition ev_key :: "RoomEvent \<Rightarrow> int \<times> string" where
  "ev_key e = (ev_ID e, ev_RoomID e)"

text \<open>The events of a room after a cursor, in the order of their ids.\<close>

definition room_after :: "RoomEvent list \<Rightarrow> string \<Rightarrow> int \<Rightarrow> RoomEvent list" where
  "room_after E i since = sort_key ev_ID (filter (\<lambda>e. ev_RoomID e = i \<and> ev_ID e > since) E)"

definition page_size :: "int \<Rightarrow> nat" where
  "page_size limit = (if limit \<le> 0 \<or> limit > 200 then 200 else nat limit)"

lemma decrypt_events_keys: "decrypt_events C c es = Inr es' \<Longrightarrow> map ev_key es' = map ev_key es"
proof (induction es arbitrary: es')
  case (Cons e es)
  then show ?case
    by (cases "decrypt_events C c es") (auto simp: ev_key_def split: option.splits if_splits sum.splits)
qed simp

lemma decryptRoomEvents_keys: "decryptRoomEvents C rm es = Inr es' \<Longrightarrow> map ev_key es' = map ev_key es"
  by (auto simp: decryptRoomEvents_def decrypt_events_keys split: sum.splits option.splits)

lemma joined_event_keys: "map ev_key (map (joined_event d) es) = map ev_key es"
  by (simp add: ev_key_def joined_event_def)

lemma succ_ListRoomEvents:
  "succ (\<lambda>_. True) (ListRoomEvents \<lparr>lei_RoomID = i, lei_SinceID = since, lei_Limit = int (page_size n)\<rparr>)
     (\<lambda>items d. map ev_key items = map ev_key (take (page_size n) (room_after (t_events d) i since)))"
  unfolding ListRoomEvents_def
  by (rule succ_query) (auto simp: Let_def joined_event_keys room_after_def page_size_def simp del: map_map split: if_splits)

lemma succ_history:
  "succ (\<lambda>_. True) (ListRoomEventHistory C a i since n)
     (\<lambda>out d. map ev_key (eh_Items out) = map ev_key (take (page_size n) (room_after (t_events d) i since)))"
proof -
  have lim: "(if n \<le> 0 \<or> n > maxRoomEventHistoryLimit then maxRoomEventHistoryLimit else n) = int (page_size n)"
    by (simp add: page_size_def maxRoomEventHistoryLimit_def)
  have any: "succ (\<lambda>_. True) m (\<lambda>_ _. True)" for m :: "'x prog"
    by (simp add: succ_def hoare_def)
  have dec: "succ (\<lambda>d. map ev_key items = K d) (attempt (cipher_result (decryptRoomEvents C rm items))
      (\<lambda>items. ok \<lparr>eh_Items = items, eh_NextSince = f items\<rparr>)) (\<lambda>out d. map ev_key (eh_Items out) = K d)"
    for items rm f and K :: "db \<Rightarrow> (int \<times> string) list"
    by (cases "decryptRoomEvents C rm items")
      (auto simp: succ_def hoare_def cipher_result_def run_attempt fail_def ok_def decryptRoomEvents_keys)
  have st: "succ (\<lambda>_. True) (store (ListRoomEvents \<lparr>lei_RoomID = i, lei_SinceID = since, lei_Limit = int (page_size n)\<rparr>))
      (\<lambda>items d. map ev_key items = map ev_key (take (page_size n) (room_after (t_events d) i since)))"
    unfolding store_def by (rule succ_mapErr [OF succ_ListRoomEvents])
  have body: "succ (\<lambda>_. True) (attempt (check_since i since) (\<lambda>_.
      attempt (store (ListRoomEvents \<lparr>lei_RoomID = i, lei_SinceID = since, lei_Limit = int (page_size n)\<rparr>)) (\<lambda>items.
      attempt (cipher_result (decryptRoomEvents C rm items))
        (\<lambda>items. ok \<lparr>eh_Items = items, eh_NextSince = f items\<rparr>))))
    (\<lambda>out d. map ev_key (eh_Items out) = map ev_key (take (page_size n) (room_after (t_events d) i since)))" for rm f
    by (rule succ_attempt [OF any], rule succ_attempt [OF st], rule dec)
  show ?thesis
    unfolding ListRoomEventHistory_def lim Let_def
    by (intro succ_if succ_fail succ_attempt [OF any] succ_bind [where R = "\<lambda>_ _. True"] body) (simp add: hoare_def)
qed

section \<open>Writing\<close>

definition event_frames :: "chunk list \<Rightarrow> frame list" where
  "event_frames cs = concat (map (\<lambda>c. case c of Event f \<Rightarrow> [f] | _ \<Rightarrow> []) cs)"

lemma event_frames_simps [simp]:
  "event_frames [] = []" "event_frames (cs @ ds) = event_frames cs @ event_frames ds"
  "event_frames [Event f] = [f]" "event_frames [Retry] = []" "event_frames [KeepAliveComment] = []"
  "event_frames [ErrorBody r] = []" "event_frames (map (\<lambda>e. Event (g e)) es) = map g es"
  by (induction es) (simp_all add: event_frames_def)

definition ids_of :: "RoomEvent list \<Rightarrow> int \<Rightarrow> int" where
  "ids_of ys k = (if ys = [] then k else ev_ID (last ys))"

lemma write_items_prefix:
  assumes "write_items es c = (b, c')"
  shows "\<exists>ys zs. es = ys @ zs \<and> (b \<longrightarrow> zs = []) \<and>
    c' = c\<lparr>ec_W := (ec_W c)\<lparr>wr_Out := wr_Out (ec_W c) @ map (\<lambda>e. Event (room_event_frame e)) ys\<rparr>,
           ec_Last := ids_of ys (ec_Last c)\<rparr>"
  using assms
proof (induction es arbitrary: c)
  case Nil
  then show ?case by (simp add: ids_of_def)
next
  case (Cons e es)
  show ?case
  proof (cases "writeSSEEvent e (ec_W c)")
    case None
    with Cons.prems show ?thesis
      by (intro exI [of _ "[]"] exI [of _ "e # es"]) (simp add: ids_of_def)
  next
    case (Some w)
    then have w: "w = (ec_W c)\<lparr>wr_Out := wr_Out (ec_W c) @ [Event (room_event_frame e)]\<rparr>"
      by (auto simp: writeSSEEvent_def write_chunk_def split: if_splits)
    obtain ys zs where "es = ys @ zs" "b \<longrightarrow> zs = []" "c' = c\<lparr>ec_W := w\<lparr>wr_Out := wr_Out w @ map (\<lambda>e. Event (room_event_frame e)) ys\<rparr>,
        ec_Last := ids_of ys (ev_ID e)\<rparr>"
      using Cons.IH [of "c\<lparr>ec_W := w, ec_Last := ev_ID e\<rparr>"] Cons.prems Some by auto
    then show ?thesis
      by (intro exI [of _ "e # ys"] exI [of _ zs]) (simp add: w ids_of_def)
  qed
qed

section \<open>A round of the replay\<close>

text \<open>The connection after a page of \<open>items\<close>, of which a failing write leaves the rest unsent.\<close>

definition after_page :: "RoomEvent list \<Rightarrow> ev_conn \<Rightarrow> ev_conn" where
  "after_page items c =
    (case write_items items c of
       (False, c') \<Rightarrow> c'\<lparr>ec_Phase := Ended\<rparr>
     | (True, c') \<Rightarrow>
         if items = [] \<or> int (length items) < ec_Limit c then c'\<lparr>ec_Since := ec_Last c', ec_Phase := Live\<rparr> else c')"

definition page_result :: "ev_conn \<Rightarrow> RoomEvent list \<Rightarrow> ev_conn \<Rightarrow> bool" where
  "page_result c E c' \<longleftrightarrow>
    (\<exists>w. event_frames (wr_Out w) = event_frames (wr_Out (ec_W c)) \<and> c' = c\<lparr>ec_W := w, ec_Phase := Ended\<rparr>) \<or>
    (\<exists>items. map ev_key items = map ev_key (take (page_size (ec_Limit c)) (room_after E (ec_Room c) (ec_Last c))) \<and>
       c' = after_page items c)"

lemma write_items_limit: "write_items es c = (b, c') \<Longrightarrow> ec_Limit c' = ec_Limit c"
  by (drule write_items_prefix) auto

lemma replay_page_result:
  assumes "run_state (replay_page H c) s = (Inr c', s')"
  shows "page_result c (srv_events s') c'"
proof -
  let ?m = "ListRoomEventHistory (svcC H) (ec_Agent c) (ec_Room c) (ec_Last c) (ec_Limit c)"
  let ?k = "\<lambda>res. case res of
      Inl err \<Rightarrow> leave_stream (case write_chunk (ErrorBody (writeRoomServiceErr H err)) (ec_W c) of
          None \<Rightarrow> c | Some w \<Rightarrow> c\<lparr>ec_W := w\<rparr>)
    | Inr out \<Rightarrow>
        if length (eh_Items out) = 0 then go_live H c
        else (case write_items (eh_Items out) c of
          (False, c) \<Rightarrow> leave_stream c
        | (True, c) \<Rightarrow> if int (length (eh_Items out)) < ec_Limit c then go_live H c else ok c)"
  obtain res s1 where call: "run_state (call ?m) s = (Inr res, s1)" and rest: "run_state (?k res) s1 = (Inr c', s')"
    using assms unfolding replay_page_def run_attempt by (auto split: prod.splits sum.splits)
  have fin: "srv_events s' = srv_events s1 \<and> P c'" if "answers (srv_events s1) (?k res) P" for P
    using that rest by (auto simp: answers_def hoare_def dest!: spec [of _ s1])
  show ?thesis
  proof (cases res)
    case (Inl err)
    have "page_result c (srv_events s1) (x\<lparr>ec_Phase := Ended\<rparr>)"
      if "x = c \<or> (\<exists>w. write_chunk (ErrorBody (writeRoomServiceErr H err)) (ec_W c) = Some w \<and> x = c\<lparr>ec_W := w\<rparr>)" for x
      unfolding page_result_def
      using that by (intro disjI1 exI [of _ "ec_W x"]) (auto simp: write_chunk_def split: if_splits)
    moreover have "srv_events s' = srv_events s1 \<and> c' = (case write_chunk (ErrorBody (writeRoomServiceErr H err)) (ec_W c) of
          None \<Rightarrow> c | Some w \<Rightarrow> c\<lparr>ec_W := w\<rparr>)\<lparr>ec_Phase := Ended\<rparr>"
      using Inl by (intro fin) (simp add: answers_leave)
    ultimately show ?thesis by (auto split: option.splits)
  next
    case (Inr out)
    have keys: "map ev_key (eh_Items out) = map ev_key (take (page_size (ec_Limit c)) (room_after (srv_events s1) (ec_Room c) (ec_Last c)))"
      using succD [OF succ_history [of "svcC H" "ec_Agent c" "ec_Room c" "ec_Last c" "ec_Limit c"], of "svcS s" out] call Inr
      by (auto simp: call_def srv_events_def Let_def split: prod.splits option.splits if_splits)
    obtain b c1 where w: "write_items (eh_Items out) c = (b, c1)" by fastforce
    have "answers (srv_events s1) (?k res) (\<lambda>x. x = after_page (eh_Items out) c)"
    proof (cases "eh_Items out = []")
      case True
      then show ?thesis by (simp add: Inr after_page_def answers_go_live)
    next
      case False
      then show ?thesis
        by (cases b) (simp_all add: Inr after_page_def w write_items_limit [OF w] answers_go_live answers_leave answers_ok)
    qed
    from fin [OF this] keys show ?thesis
      by (auto simp: page_result_def)
  qed
qed

section \<open>Order\<close>

text \<open>The ids of events are the primary key of their table.\<close>

definition events_keyed :: "RoomEvent list \<Rightarrow> bool" where
  "events_keyed E \<longleftrightarrow> distinct (map ev_ID E)"

text \<open>
  The life of a connection: between its rounds the server may do anything, so every round starts from some
  state of the server.
\<close>

inductive stream_run :: "http_conf \<Rightarrow> ev_conn \<Rightarrow> ev_conn \<Rightarrow> bool" for H c0 where
  opened: "stream_run H c0 c0"
| round: "stream_run H c0 c \<Longrightarrow> run_state (handleRoomEvents_step H sel c) s = (Inr c', s') \<Longrightarrow>
    events_keyed (srv_events s') \<Longrightarrow> stream_run H c0 c'"

text \<open>The events \<open>es\<close> of the room, in strictly increasing order, after one id and up to another.\<close>

definition rising :: "string \<Rightarrow> int \<Rightarrow> RoomEvent list \<Rightarrow> int \<Rightarrow> bool" where
  "rising i lo es hi \<longleftrightarrow> lo \<le> hi \<and> sorted_wrt (<) (map ev_ID es) \<and>
     (\<forall>e \<in> set es. ev_RoomID e = i \<and> lo < ev_ID e \<and> ev_ID e \<le> hi)"

lemma rising_append: "rising i lo es mid \<Longrightarrow> rising i mid fs hi \<Longrightarrow> rising i lo (es @ fs) hi"
  by (fastforce simp: rising_def sorted_wrt_append)

lemma rising_keys:
  assumes "map ev_key es = map ev_key fs" and "rising i lo fs hi"
  shows "rising i lo es hi"
proof -
  have len: "length es = length fs" using assms(1) by (rule map_eq_imp_length_eq)
  have at: "ev_ID (es ! k) = ev_ID (fs ! k)" "ev_RoomID (es ! k) = ev_RoomID (fs ! k)" if "k < length fs" for k
    using arg_cong [OF assms(1), of "\<lambda>l. l ! k"] that len by (simp_all add: ev_key_def)
  then have "map ev_ID es = map ev_ID fs" by (simp add: list_eq_iff_nth_eq len)
  with assms(2) show ?thesis
    using at len by (auto simp: rising_def all_set_conv_all_nth)
qed

lemma sorted_key_last: "sorted (map f xs) \<Longrightarrow> x \<in> set xs \<Longrightarrow> f x \<le> f (last xs)"
  for f :: "'x \<Rightarrow> int"
  by (induction xs) auto

lemma rising_prefix: "rising i lo (ys @ zs) hi \<Longrightarrow> rising i lo ys (ids_of ys lo)"
proof -
  assume r: "rising i lo (ys @ zs) hi"
  have "ev_ID e \<le> ev_ID (last ys)" if "e \<in> set ys" for e
  proof -
    have "sorted_wrt (<) (map ev_ID ys)" using r by (simp add: rising_def sorted_wrt_append)
    then have "sorted (map ev_ID ys)" by (rule strict_sorted_imp_sorted)
    then show ?thesis using that by (rule sorted_key_last)
  qed
  moreover from this have "ys \<noteq> [] \<Longrightarrow> lo < ev_ID (last ys)"
    using r by (auto simp: rising_def)
  ultimately show ?thesis
    using r by (auto simp: rising_def ids_of_def sorted_wrt_append intro: less_imp_le)
qed

lemma rising_room_after:
  assumes "events_keyed E"
  obtains hi where "rising i lo (take n (room_after E i lo)) hi"
proof -
  let ?xs = "room_after E i lo"
  have "distinct (map ev_ID ?xs)"
    using assms by (auto simp: room_after_def events_keyed_def distinct_map inj_on_def)
  then have "sorted_wrt (<) (map ev_ID ?xs)"
    by (simp add: strict_sorted_iff room_after_def)
  moreover define hi where "hi = Max (insert lo (ev_ID ` set ?xs))"
  moreover have "lo \<le> hi" "\<And>e. e \<in> set ?xs \<Longrightarrow> ev_ID e \<le> hi" by (auto simp: hi_def)
  moreover have "\<And>e. e \<in> set ?xs \<Longrightarrow> ev_RoomID e = i \<and> lo < ev_ID e" by (auto simp: room_after_def)
  ultimately have "rising i lo ?xs hi" by (auto simp: rising_def)
  then have "rising i lo (take n ?xs) hi"
    by (auto simp: rising_def sorted_wrt_take take_map [symmetric] dest: in_set_takeD)
  with that show ?thesis .
qed

text \<open>What holds of a connection between its rounds.\<close>

definition conn_inv :: "ev_conn \<Rightarrow> ev_conn \<Rightarrow> bool" where
  "conn_inv c0 c \<longleftrightarrow> ec_Room c = ec_Room c0 \<and> (ec_Phase c = Live \<longrightarrow> ec_Since c = ec_Last c) \<and>
    (\<exists>es. event_frames (wr_Out (ec_W c)) = event_frames (wr_Out (ec_W c0)) @ map room_event_frame es \<and>
       rising (ec_Room c0) (ec_Last c0) es (ec_Last c))"

lemma conn_inv_ended: "conn_inv c0 c \<Longrightarrow> conn_inv c0 (c\<lparr>ec_Phase := Ended\<rparr>)"
  by (auto simp: conn_inv_def)

lemma conn_inv_quiet:
  "conn_inv c0 c \<Longrightarrow> event_frames (wr_Out w) = event_frames (wr_Out (ec_W c)) \<Longrightarrow> conn_inv c0 (c\<lparr>ec_W := w\<rparr>)"
  by (auto simp: conn_inv_def)

lemma conn_inv_written:
  assumes "conn_inv c0 c" and "rising (ec_Room c) (ec_Last c) ys k" and "p = Live \<longrightarrow> since = k"
  shows "conn_inv c0 (c\<lparr>ec_W := (ec_W c)\<lparr>wr_Out := wr_Out (ec_W c) @ map (\<lambda>e. Event (room_event_frame e)) ys\<rparr>,
    ec_Last := k, ec_Since := since, ec_Phase := p\<rparr>)"
proof -
  obtain es where es: "event_frames (wr_Out (ec_W c)) = event_frames (wr_Out (ec_W c0)) @ map room_event_frame es"
      "rising (ec_Room c0) (ec_Last c0) es (ec_Last c)"
    using assms(1) by (auto simp: conn_inv_def)
  have "rising (ec_Room c0) (ec_Last c0) (es @ ys) k"
    using rising_append [OF es(2)] assms(1,2) by (simp add: conn_inv_def)
  with es(1) assms(1,3) show ?thesis
    by (auto simp: conn_inv_def intro!: exI [of _ "es @ ys"])
qed

lemma after_page_written:
  assumes "ec_Phase c = Replay"
  obtains ys zs p since where "items = ys @ zs" "p = Live \<longrightarrow> since = ids_of ys (ec_Last c)"
    "after_page items c =
      c\<lparr>ec_W := (ec_W c)\<lparr>wr_Out := wr_Out (ec_W c) @ map (\<lambda>e. Event (room_event_frame e)) ys\<rparr>,
        ec_Last := ids_of ys (ec_Last c), ec_Since := since, ec_Phase := p\<rparr>"
    "p = Live \<Longrightarrow> zs = [] \<and> (items = [] \<or> int (length items) < ec_Limit c)"
    "p = Replay \<Longrightarrow> items \<noteq> [] \<and> int (length items) \<ge> ec_Limit c"
proof -
  obtain b c1 where w: "write_items items c = (b, c1)" by fastforce
  obtain ys zs where y: "items = ys @ zs" "b \<longrightarrow> zs = []"
      "c1 = c\<lparr>ec_W := (ec_W c)\<lparr>wr_Out := wr_Out (ec_W c) @ map (\<lambda>e. Event (room_event_frame e)) ys\<rparr>,
           ec_Last := ids_of ys (ec_Last c)\<rparr>"
    using write_items_prefix [OF w] by blast
  show ?thesis
  proof (cases "b \<and> (items = [] \<or> int (length items) < ec_Limit c)")
    case True
    then show ?thesis
      using assms w y by (intro that [of ys zs Live "ids_of ys (ec_Last c)"]) (auto simp: after_page_def)
  next
    case False
    then show ?thesis
      using assms w y by (intro that [of ys zs "if b then Replay else Ended" "ec_Since c"]) (auto simp: after_page_def split: bool.splits if_splits)
  qed
qed

lemma conn_inv_page:
  assumes "page_result c E c'" and "conn_inv c0 c" "ec_Phase c = Replay" and "events_keyed E"
  shows "conn_inv c0 c'"
  using assms(1) unfolding page_result_def
proof (elim disjE exE conjE)
  fix w assume "event_frames (wr_Out w) = event_frames (wr_Out (ec_W c))" "c' = c\<lparr>ec_W := w, ec_Phase := Ended\<rparr>"
  then show ?thesis using conn_inv_ended [OF conn_inv_quiet [OF assms(2)]] by simp
next
  fix items
  assume keys: "map ev_key items = map ev_key (take (page_size (ec_Limit c)) (room_after E (ec_Room c) (ec_Last c)))"
    and c': "c' = after_page items c"
  obtain hi where "rising (ec_Room c) (ec_Last c) items hi"
    using rising_room_after [OF assms(4)] rising_keys [OF keys] by metis
  moreover obtain ys zs p since where "items = ys @ zs" "p = Live \<longrightarrow> since = ids_of ys (ec_Last c)"
      "c' = c\<lparr>ec_W := (ec_W c)\<lparr>wr_Out := wr_Out (ec_W c) @ map (\<lambda>e. Event (room_event_frame e)) ys\<rparr>,
        ec_Last := ids_of ys (ec_Last c), ec_Since := since, ec_Phase := p\<rparr>"
    unfolding c' by (rule after_page_written [OF assms(3), of items])
  ultimately show ?thesis
    using conn_inv_written [OF assms(2) rising_prefix, of ys zs hi p since] by simp
qed

lemma answers_weaken: "answers E m P \<Longrightarrow> (\<And>x. P x \<Longrightarrow> Q x) \<Longrightarrow> answers E m Q"
  by (auto simp: answers_def hoare_def)

lemma answers_step_live:
  assumes "conn_inv c0 c" and "ec_Phase c = Live"
  shows "answers E (handleRoomEvents_step H sel c) (conn_inv c0)"
proof -
  have ended: "answers E (close_stream H why c) (conn_inv c0)" for why
    by (rule answers_weaken [OF answers_close]) (simp add: conn_inv_ended assms(1))
  have item: "answers E (if ev_ID e \<le> ec_Since c \<or> ev_RoomID e \<noteq> ec_Room c then ok c
        else (case writeSSEEvent e (ec_W c) of
          None \<Rightarrow> close_stream H ''write_failed'' c
        | Some w \<Rightarrow> ok (c\<lparr>ec_W := w, ec_Since := ev_ID e, ec_Last := ev_ID e\<rparr>))) (conn_inv c0)" for e
  proof (cases "ev_ID e \<le> ec_Since c \<or> ev_RoomID e \<noteq> ec_Room c \<or> writeSSEEvent e (ec_W c) = None")
    case True
    with assms(1) ended show ?thesis by (auto intro!: answers_ok)
  next
    case False
    then have "rising (ec_Room c) (ec_Last c) [e] (ev_ID e)"
      using assms by (auto simp: rising_def conn_inv_def)
    from conn_inv_written [OF assms(1) this, of Live "ev_ID e"] False assms(2) show ?thesis
      by (cases c) (auto simp: writeSSEEvent_def write_chunk_def intro!: answers_ok split: if_splits)
  qed
  have "answers E (deliver H c) (conn_inv c0)"
    unfolding deliver_def
    by (intro answers_attempt answers_on_events answers_case_prod answers_case_offer item ended answers_ok assms(1))
  moreover have "answers E (keep_alive H c) (conn_inv c0)"
    using ended conn_inv_quiet [OF assms(1)]
    by (auto simp: keep_alive_def write_chunk_def intro!: answers_ok)
  moreover have "answers E (reauth_events H c) (conn_inv c0)"
  proof -
    have "keeps (\<lambda>s. t_events (tables s) = E) (authAgentID_sql (ec_Req c))"
      unfolding authAgentID_sql_def AuthAgentID_def store_nf_def FindSession_def Let_def
      by (intro hoare_intros sql_intros) (simp add: hoare_def s_now_def)
    then show ?thesis
      unfolding reauth_events_def
      by (intro answers_attempt answers_call) (auto intro!: ended answers_ok assms(1) split: sum.splits)
  qed
  ultimately show ?thesis
    using assms ended by (auto simp: handleRoomEvents_step_def intro!: answers_ok split: select.splits)
qed

lemma conn_inv_step:
  assumes "run_state (handleRoomEvents_step H sel c) s = (Inr c', s')" and "conn_inv c0 c" and "events_keyed (srv_events s')"
  shows "conn_inv c0 c'"
proof (cases "ec_Phase c")
  case Replay
  then show ?thesis
    using assms replay_page_result [of H c s c' s'] conn_inv_page by (simp add: handleRoomEvents_step_def)
next
  case Live
  then show ?thesis
    using answers_step_live [OF assms(2) Live, of "srv_events s" H sel] assms(1) by (auto simp: answers_def hoare_def)
next
  case Ended
  then show ?thesis using assms by (simp add: handleRoomEvents_step_def ok_def)
qed

lemma stream_run_inv: "stream_run H c0 c \<Longrightarrow> ec_Phase c0 \<noteq> Live \<Longrightarrow> conn_inv c0 c"
  by (induction rule: stream_run.induct)
    (auto simp: conn_inv_def [of c0 c0] rising_def intro: conn_inv_step)

lemma opened_conn:
  assumes "run_state (handleRoomEvents_open H fails r i) s = (Inr (Inr c), s')"
  shows "ec_Room c = i" "ec_Last c = ec_Since c" "ec_Phase c \<noteq> Live" "event_frames (wr_Out (ec_W c)) = []"
proof -
  let ?P = "\<lambda>x. \<forall>c. x = Inr c \<longrightarrow>
    ec_Room c = i \<and> ec_Last c = ec_Since c \<and> ec_Phase c \<noteq> Live \<and> event_frames (wr_Out (ec_W c)) = []"
  have "yields (handleRoomEvents_open H fails r i) ?P"
    unfolding handleRoomEvents_open_def
    by (intro yields_if yields_serve yields_cases yields_let yields_ok
        yields_any [where m = h_now] yields_any [where m = "acquireStreamSlot _ _ _ _ _"]
        yields_any [where m = "subscriber_count _"] yields_any [where m = "AppendSecurityAudit _ _ _ _ _"]
        yields_any [where m = "on_events _"] yields_attempt [OF yields_answers [OF answers_leave]])
      (auto simp: write_chunk_def split: if_splits)
  from yieldsD [OF this assms]
  show "ec_Room c = i" "ec_Last c = ec_Since c" "ec_Phase c \<noteq> Live" "event_frames (wr_Out (ec_W c)) = []"
    by simp_all
qed

section \<open>An example\<close>

text \<open>Agent \<open>a\<close> has joined the room, which has one event; a client with the given page size connects.\<close>

definition ex_event :: RoomEvent where
  "ex_event = \<lparr>ev_ID = 7, ev_RoomID = ''r'', ev_EventType = ''room.joined'', ev_MessageID = None,
     ev_Turn = None, ev_SenderID = None, ev_Ciphertext = None, ev_CreatedAt = 0\<rparr>"

definition ex_streaming :: sqlHTTP where
  "ex_streaming = ex_server\<lparr>svcS := (svcS ex_server)\<lparr>tables := (tables (svcS ex_server))\<lparr>t_events := [ex_event]\<rparr>,
     joinedBy := (\<lambda>i a. a = ''a'')\<rparr>\<rparr>"

definition ex_listen :: "string \<Rightarrow> http_request" where
  "ex_listen limit = (ex_request ''GET'' ''/v1/rooms/r/events'')\<lparr>Query := [(''limit'', limit)]\<rparr>"

definition ex_round :: "string \<Rightarrow> (ev_conn \<times> ev_conn) http" where
  "ex_round limit = attempt (handleRoomEvents_open ex_http (\<lambda>_. False) (ex_listen limit) ''r'') (\<lambda>x.
     case x of Inl _ \<Rightarrow> fail Stuck | Inr c \<Rightarrow> attempt (handleRoomEvents_step ex_http Ready c) (\<lambda>c'. ok (c, c')))"

definition conn_view :: "ev_conn \<Rightarrow> phase \<times> int \<times> int \<times> nat" where
  "conn_view c = (ec_Phase c, ec_Limit c, ec_Last c, length (event_frames (wr_Out (ec_W c))))"

definition round_view :: "string \<Rightarrow> (halt + (phase \<times> int \<times> int \<times> nat) \<times> (phase \<times> int \<times> int \<times> nat)) \<times> int list" where
  "round_view limit = (case run_state (ex_round limit) ex_streaming of
     (r, s) \<Rightarrow> (map_sum id (map_prod conn_view conn_view) r, map ev_ID (srv_events s)))"

lemma round_view_run:
  assumes "round_view limit = (Inr (v, v'), ids)"
  obtains c s1 c' s' where
    "run_state (handleRoomEvents_open ex_http (\<lambda>_. False) (ex_listen limit) ''r'') ex_streaming = (Inr (Inr c), s1)"
    "run_state (handleRoomEvents_step ex_http Ready c) s1 = (Inr c', s')"
    "conn_view c = v" "conn_view c' = v'" "map ev_ID (srv_events s') = ids"
proof -
  obtain r s' where "run_state (ex_round limit) ex_streaming = (r, s')" by fastforce
  moreover from this obtain c c' where "r = Inr (c, c')" "conn_view c = v" "conn_view c' = v'" "map ev_ID (srv_events s') = ids"
    using assms by (cases r) (auto simp: round_view_def)
  ultimately show ?thesis
    by (auto simp: ex_round_def run_attempt fail_def ok_def split: prod.splits sum.splits intro: that)
qed

lemma ex_round_50: "round_view ''50'' = (Inr ((Replay, 50, 0, 0), (Live, 50, 7, 1)), [7])"
  by code_simp

lemma ex_round_500: "round_view ''500'' = (Inr ((Replay, 500, 0, 0), (Live, 500, 7, 1)), [7])"
  by code_simp

text \<open>
  C6. The stream of a room is in order. Open the event stream of a room and let its rounds - pages of the
  replay, live events, keep-alives and checks of the session - interleave with anything else the server does,
  only that the ids of the stored events stay distinct. Then the events the client has been sent, replayed or
  live, are events of that room with ids after the cursor the client gave, in strictly increasing order: none
  is sent twice, and none out of order.
\<close>

theorem room_stream_in_order:
  assumes "run_state (handleRoomEvents_open H fails r i) s0 = (Inr (Inr c0), s1)" and "stream_run H c0 c"
  shows "\<exists>es. event_frames (wr_Out (ec_W c)) = map room_event_frame es \<and> sorted_wrt (<) (map ev_ID es) \<and>
    (\<forall>e \<in> set es. ev_RoomID e = i \<and> ec_Since c0 < ev_ID e)"
  using stream_run_inv [OF assms(2)] opened_conn [OF assms(1)] by (auto simp: conn_inv_def rising_def)

theorem room_stream_in_order_witness:
  "\<exists>c0 c es. stream_run ex_http c0 c \<and> length (event_frames (wr_Out (ec_W c))) = 1 \<and>
     event_frames (wr_Out (ec_W c)) = map room_event_frame es \<and> (\<forall>e \<in> set es. ev_RoomID e = ''r'')"
proof (rule round_view_run [OF ex_round_50])
  fix c0 s1 c s'
  assume op: "run_state (handleRoomEvents_open ex_http (\<lambda>_. False) (ex_listen ''50'') ''r'') ex_streaming = (Inr (Inr c0), s1)"
    and st: "run_state (handleRoomEvents_step ex_http Ready c0) s1 = (Inr c, s')"
    and view: "conn_view c = (Live, 50, 7, 1)" and ids: "map ev_ID (srv_events s') = [7]"
  have run: "stream_run ex_http c0 c"
    by (rule stream_run.round [OF stream_run.opened st]) (simp add: events_keyed_def ids)
  from room_stream_in_order [OF op run] run view show ?thesis
    by (auto simp: conn_view_def)
qed

section \<open>What the replay covers\<close>

lemma room_after_complete:
  assumes "length (room_after E i lo) < n \<or> room_after E i lo = []"
  shows "\<forall>e \<in> set E. ev_RoomID e = i \<longrightarrow> ev_ID e \<le> ids_of (take n (room_after E i lo)) lo"
proof (intro ballI impI)
  fix e assume e: "e \<in> set E" "ev_RoomID e = i"
  let ?xs = "room_after E i lo"
  show "ev_ID e \<le> ids_of (take n ?xs) lo"
  proof (cases "ev_ID e \<le> lo")
    case True
    have "?xs \<noteq> [] \<Longrightarrow> lo < ev_ID (last ?xs)"
      using last_in_set [of ?xs] by (auto simp: room_after_def)
    with True assms show ?thesis by (auto simp: ids_of_def)
  next
    case False
    then have mem: "e \<in> set ?xs" using e by (simp add: room_after_def)
    have "sorted (map ev_ID ?xs)" by (simp add: room_after_def)
    then have "ev_ID e \<le> ev_ID (last ?xs)"
      using mem by (rule sorted_key_last)
    with mem assms show ?thesis by (auto simp: ids_of_def)
  qed
qed

lemma ids_of_keys: "map ev_key xs = map ev_key ys \<Longrightarrow> ids_of xs k = ids_of ys k"
  by (cases xs rule: rev_cases; cases ys rule: rev_cases) (auto simp: ids_of_def ev_key_def)

text \<open>
  C7. The replay is complete. When a round of the replay ends by going live and the limit of a page is at
  most 200 - the default, for instance -, no event of the room that is stored by then is left behind: every
  one has an id of at most the last id sent. The subscription to the hub exists since before the replay,
  so the events published afterwards reach the connection live.
\<close>

theorem replay_complete:
  assumes "run_state (handleRoomEvents_step H sel c) s = (Inr c', s')"
    and "ec_Phase c = Replay" and "ec_Phase c' = Live" and "0 < ec_Limit c" "ec_Limit c \<le> 200"
  shows "\<forall>e \<in> set (srv_events s'). ev_RoomID e = ec_Room c \<longrightarrow> ev_ID e \<le> ec_Last c'"
proof -
  let ?xs = "room_after (srv_events s') (ec_Room c) (ec_Last c)"
  have "page_result c (srv_events s') c'"
    using assms(1,2) by (intro replay_page_result) (simp add: handleRoomEvents_step_def)
  then obtain items where keys: "map ev_key items = map ev_key (take (page_size (ec_Limit c)) ?xs)"
      and c': "c' = after_page items c"
    using assms(3) by (auto simp: page_result_def)
  have "ec_Last c' = ids_of items (ec_Last c) \<and> (items = [] \<or> int (length items) < ec_Limit c)"
    using assms(3) unfolding c' by (rule_tac after_page_written [OF assms(2), of items]) auto
  moreover have "length items = length (take (page_size (ec_Limit c)) ?xs)"
    using keys by (rule map_eq_imp_length_eq)
  moreover have "page_size (ec_Limit c) = nat (ec_Limit c)" using assms(4,5) by (simp add: page_size_def)
  ultimately have "length ?xs < page_size (ec_Limit c) \<or> ?xs = []" and "ec_Last c' = ids_of items (ec_Last c)"
    using assms(4) by (auto split: if_splits simp: min_def)
  then show ?thesis
    using room_after_complete by (simp add: ids_of_keys [OF keys])
qed

theorem replay_complete_witness:
  "\<exists>c s c' s'. run_state (handleRoomEvents_step ex_http Ready c) s = (Inr c', s') \<and> ec_Phase c' = Live \<and>
     map ev_ID (srv_events s') = [7] \<and> (\<forall>e \<in> set (srv_events s'). ev_RoomID e = ec_Room c \<longrightarrow> ev_ID e \<le> ec_Last c')"
proof (rule round_view_run [OF ex_round_50])
  fix c s1 c' s'
  assume st: "run_state (handleRoomEvents_step ex_http Ready c) s1 = (Inr c', s')"
    and view: "conn_view c = (Replay, 50, 0, 0)" "conn_view c' = (Live, 50, 7, 1)" and ids: "map ev_ID (srv_events s') = [7]"
  have "\<forall>e \<in> set (srv_events s'). ev_RoomID e = ec_Room c \<longrightarrow> ev_ID e \<le> ec_Last c'"
    using view by (intro replay_complete [OF st]) (simp_all add: conn_view_def)
  moreover have "ec_Phase c' = Live" using view by (simp add: conn_view_def)
  ultimately show ?thesis using st ids by (intro exI conjI)
qed

text \<open>
  C8. A large page size cuts the replay short. The service caps a page at 200 events, but the handler takes a
  page with fewer events than the limit it was given as the last one. So with a limit above 200 the replay
  is over after one page, of at most 200 events, however many events the room has: when it goes live, the
  events after those of the first page are never sent.
\<close>

theorem replay_stops_early:
  assumes "run_state (handleRoomEvents_step H sel c) s = (Inr c', s')"
    and "ec_Phase c = Replay" and "200 < ec_Limit c"
  shows "ec_Phase c' \<noteq> Replay \<and>
    length (event_frames (wr_Out (ec_W c'))) \<le> length (event_frames (wr_Out (ec_W c))) + 200"
proof -
  let ?xs = "room_after (srv_events s') (ec_Room c) (ec_Last c)"
  have "page_result c (srv_events s') c'"
    using assms(1,2) by (intro replay_page_result) (simp add: handleRoomEvents_step_def)
  then consider "ec_Phase c' = Ended" "event_frames (wr_Out (ec_W c')) = event_frames (wr_Out (ec_W c))"
    | items where "map ev_key items = map ev_key (take (page_size (ec_Limit c)) ?xs)" "c' = after_page items c"
    by (auto simp: page_result_def)
  then show ?thesis
  proof cases
    case 1
    then show ?thesis by simp
  next
    case (2 items)
    have "length items = length (take (page_size (ec_Limit c)) ?xs)"
      using 2(1) by (rule map_eq_imp_length_eq)
    then have len: "length items \<le> 200" using assms(3) by (simp add: page_size_def)
    show ?thesis
      unfolding 2(2) using len assms(3) by (rule_tac after_page_written [OF assms(2), of items]) auto
  qed
qed

theorem replay_stops_early_witness:
  "\<exists>c s c' s'. run_state (handleRoomEvents_step ex_http Ready c) s = (Inr c', s') \<and> ec_Phase c = Replay \<and>
     ec_Limit c = 500 \<and> ec_Phase c' \<noteq> Replay"
proof (rule round_view_run [OF ex_round_500])
  fix c s1 c' s'
  assume st: "run_state (handleRoomEvents_step ex_http Ready c) s1 = (Inr c', s')"
    and view: "conn_view c = (Replay, 500, 0, 0)"
  from replay_stops_early [OF st] view st show ?thesis
    by (auto simp: conn_view_def)
qed

end
