(* ===== verification/Access_Log.thy ===== *)
theory Access_Log
  imports Router
begin

text \<open>
  \<open>internal/httpapi/access_log.go\<close> and \<open>request.go\<close>: the response writer that counts what is written, the
  record of a request that goes to the log and to the table \<open>api_request_logs\<close>, and the reading of a JSON
  body. \<open>url.ParseQuery\<close> and \<open>json.Decoder\<close> are parameters; \<open>url.Values.Encode\<close> is written out.
\<close>

section \<open>The counting response writer\<close>

record loggingResponseWriter =
  lw_status :: int
  lw_bytes :: int
  lw_wroteHeader :: bool

definition new_writer :: loggingResponseWriter where
  "new_writer = \<lparr>lw_status = 200, lw_bytes = 0, lw_wroteHeader = False\<rparr>"

definition WriteHeader :: "int \<Rightarrow> loggingResponseWriter \<Rightarrow> loggingResponseWriter" where
  "WriteHeader status w =
    (if lw_wroteHeader w then w else w\<lparr>lw_wroteHeader := True, lw_status := status\<rparr>)"

text \<open>\<open>n\<close> is the number of bytes the underlying writer took.\<close>

definition Write :: "int \<Rightarrow> loggingResponseWriter \<Rightarrow> loggingResponseWriter" where
  "Write n w =
    (let w = (if \<not> lw_wroteHeader w then WriteHeader 200 w else w) in w\<lparr>lw_bytes := lw_bytes w + n\<rparr>)"

section \<open>The query string in the log\<close>

definition clipString :: "string \<Rightarrow> nat \<Rightarrow> string" where
  "clipString s mx = (if mx \<le> 0 \<or> length s \<le> mx then s else take mx s @ ''...'')"

definition sensitive_keys :: "string list" where
  "sensitive_keys = [''human_code'', ''viewer_token'', ''api_key'', ''session_token'', ''token'', ''authorization'', ''admin_token'']"

definition isSensitiveQueryKey :: "(string \<Rightarrow> string) \<Rightarrow> string \<Rightarrow> bool" where
  "isSensitiveQueryKey ul key = (ToLower ul (TrimSpace key) \<in> set sensitive_keys)"

definition upper_hex :: "nat \<Rightarrow> char" where
  "upper_hex n = (if n < 10 then char_of (48 + n) else char_of (55 + n))"

definition escape_byte :: "char \<Rightarrow> string" where
  "escape_byte c =
    (let n = of_char c :: nat in
     if (48 \<le> n \<and> n \<le> 57) \<or> (65 \<le> n \<and> n \<le> 90) \<or> (97 \<le> n \<and> n \<le> 122) \<or> c \<in> set ''-_.~'' then [c]
     else if c = CHR '' '' then ''+''
     else [CHR ''%'', upper_hex (n div 16), upper_hex (n mod 16)])"

definition QueryEscape :: "string \<Rightarrow> string" where
  "QueryEscape s = concat (map escape_byte s)"

text \<open>\<open>Values.Encode\<close>: the keys in order, each with its values.\<close>

fun insert_key :: "string \<times> string list \<Rightarrow> (string \<times> string list) list \<Rightarrow> (string \<times> string list) list" where
  "insert_key x [] = [x]"
| "insert_key x (y # ys) =
    (if lexordp_eq (map (of_char :: char \<Rightarrow> nat) (fst x)) (map of_char (fst y)) then x # y # ys else y # insert_key x ys)"

definition Encode :: "(string \<times> string list) list \<Rightarrow> string" where
  "Encode vs = Join (concat (map (\<lambda>(k, xs). map (\<lambda>v. QueryEscape k @ ''='' @ QueryEscape v) xs) (foldr insert_key vs []))) ''&''"

definition sanitize_entry :: "(string \<Rightarrow> string) \<Rightarrow> string \<times> string list \<Rightarrow> string \<times> string list" where
  "sanitize_entry ul kv =
    (case kv of (key, vals) \<Rightarrow>
      (key, if isSensitiveQueryKey ul key then [''[REDACTED]'']
            else if length vals = 0 then [[]]
            else map (\<lambda>v. clipString (TrimSpace v) 128) vals))"

definition sanitizeQueryString ::
  "(string \<Rightarrow> string) \<Rightarrow> (string \<Rightarrow> (string \<times> string list) list option) \<Rightarrow> string \<Rightarrow> string" where
  "sanitizeQueryString ul parse raw =
    (if TrimSpace raw = [] then []
     else (case parse raw of
       None \<Rightarrow> []
     | Some values \<Rightarrow> clipString (Encode (map (sanitize_entry ul) values)) 512))"

section \<open>The record of a request\<close>

record web_request = http_request +
  Origin :: string
  RawQuery :: string
  UserAgent :: string
  IDHeaders :: "string list"
  TLS :: bool

definition requestRouteName :: "string \<Rightarrow> string \<Rightarrow> string" where
  "requestRouteName method path =
    (if method = ''GET'' \<and> HasSuffix path ''/context'' then ''room_context''
     else if method = ''POST'' \<and> HasSuffix path ''/context/ack'' then ''room_context_ack''
     else [])"

fun first_id :: "string list \<Rightarrow> string option" where
  "first_id [] = None"
| "first_id (item # items) =
    (let i = TrimSpace item in
     if i \<noteq> [] then Some (if length i > 64 then take 64 i else i) else first_id items)"

text \<open>\<open>rnd\<close> is \<open>randomHex(8)\<close>.\<close>

definition requestIDFromHeaders :: "string \<Rightarrow> web_request \<Rightarrow> string" where
  "requestIDFromHeaders rnd r = (case first_id (IDHeaders r) of Some i \<Rightarrow> i | None \<Rightarrow> ''req_'' @ rnd)"

record front_state =
  fs_http :: sqlHTTP
  fs_logs :: "APIRequestLog list"

definition AppendAPIRequestLog :: "AppendAPIRequestLogInput \<Rightarrow> (front_state, repo_error + unit) state" where
  "AppendAPIRequestLog inp = State (\<lambda>f.
     let sv = svcS (fs_http f);
         f' = f\<lparr>fs_http := (fs_http f)\<lparr>svcS := sv\<lparr>stmts := Suc (stmts sv)\<rparr>\<rparr>\<rparr> in
     if faults sv (stmts sv) then (Inl driver_error, f')
     else (Inr (), f'\<lparr>fs_logs := fs_logs f @
       [\<lparr>al_ID = int (length (fs_logs f)) + 1, al_RequestID = ali_RequestID inp, al_Method = ali_Method inp,
         al_Path = ali_Path inp, al_RouteName = ali_RouteName inp, al_Query = ali_Query inp,
         al_StatusCode = ali_StatusCode inp, al_DurationMS = ali_DurationMS inp, al_RemoteIP = ali_RemoteIP inp,
         al_UserAgent = ali_UserAgent inp, al_BytesWritten = ali_BytesWritten inp,
         al_AuthPresent = ali_AuthPresent inp, al_CreatedAt = dbClock sv (stmts sv)\<rparr>]\<rparr>))"

definition log_input ::
  "(string \<Rightarrow> string) \<Rightarrow> (string \<Rightarrow> (string \<times> string list) list option) \<Rightarrow> string \<Rightarrow> web_request \<Rightarrow>
   loggingResponseWriter \<Rightarrow> duration \<Rightarrow> AppendAPIRequestLogInput" where
  "log_input ul parse requestID r lw elapsed =
    (let path = (if TrimSpace (URLPath r) = [] then ''/'' else TrimSpace (URLPath r));
         ip = (if remoteIP (RemoteAddr r) = [] then ''unknown'' else remoteIP (RemoteAddr r));
         ua = TrimSpace (UserAgent r);
         ms = go_div elapsed Millisecond
     in \<lparr>ali_RequestID = requestID, ali_Method = Method r, ali_Path = path,
         ali_RouteName = requestRouteName (Method r) path, ali_Query = sanitizeQueryString ul parse (RawQuery r),
         ali_StatusCode = lw_status lw, ali_DurationMS = (if ms < 0 then 0 else ms), ali_RemoteIP = ip,
         ali_UserAgent = (if length ua > 256 then take 256 ua else ua), ali_BytesWritten = lw_bytes lw,
         ali_AuthPresent = (TrimSpace (Authorization r) \<noteq> [] \<or> TrimSpace (XAdminToken r) \<noteq> [])\<rparr>)"

text \<open>
  The wrapper in SQL mode: the handler \<open>next\<close> also tells what it wrote; a failure to store the record is
  only logged.
\<close>

definition withAccessLogs ::
  "(string \<Rightarrow> string) \<Rightarrow> (string \<Rightarrow> (string \<times> string list) list option) \<Rightarrow> string \<Rightarrow> duration \<Rightarrow> web_request \<Rightarrow>
   (front_state, 'r \<times> loggingResponseWriter) state \<Rightarrow> (front_state, headers \<times> 'r) state" where
  "withAccessLogs ul parse rnd elapsed r nxt = do {
     let requestID = requestIDFromHeaders rnd r;
     out \<leftarrow> nxt;
     let (x, lw) = out;
     res \<leftarrow> AppendAPIRequestLog (log_input ul parse requestID r lw elapsed);
     State_Monad.return ([(''X-Request-Id'', requestID)], x) }"

section \<open>Reading a JSON body\<close>

text \<open>
  What \<open>json.Decoder\<close> finds in the rest of the body: a value and what follows, the end of the input, or
  an error. \<open>over\<close> tells it that the reader ends with the error of \<open>http.MaxBytesReader\<close>.
\<close>

datatype 'b decoded = Value 'b string | AtEOF | DecodeError

definition maxJSONBodyBytes :: nat where
  "maxJSONBodyBytes = 2 ^ 20"

definition decodeJSON ::
  "(bool \<Rightarrow> string \<Rightarrow> 'b decoded) \<Rightarrow> (bool \<Rightarrow> string \<Rightarrow> unit decoded) \<Rightarrow> string \<Rightarrow> 'b option" where
  "decodeJSON first second body =
    (let over = (length body > maxJSONBodyBytes); input = take maxJSONBodyBytes body in
     case first over input of
       Value x rest \<Rightarrow> (case second over rest of DecodeError \<Rightarrow> None | _ \<Rightarrow> Some x)
     | _ \<Rightarrow> None)"

end
