(* ===== verification/Front_Spec.thy ===== *)
theory Front_Spec
  imports Http_Examples Access_Log
begin

text \<open>
  Properties of the surface of the server: the errors it answers with against the list it publishes, who may
  read the admin pages, what reaches the request log, and the limits on event streams.
\<close>

section \<open>Error codes\<close>

definition error_writers :: "http_conf \<Rightarrow> (svc_error \<Rightarrow> http_reply) list" where
  "error_writers H = [writeServiceErr H, writeRoomServiceErr H, writeListingServiceErr H, writeRoomOrViewerServiceErr H]"

definition internal_fault :: "svc_error \<Rightarrow> bool" where
  "internal_fault err = (case err of RepoErr _ \<Rightarrow> True | CipherErr _ \<Rightarrow> True | Blocked \<Rightarrow> True | _ \<Rightarrow> False)"

text \<open>The reply to an error is one of the published list, apart from the two kinds the list does not have.\<close>

definition fits_list :: "svc_error \<Rightarrow> http_reply \<Rightarrow> bool" where
  "fits_list err rep \<longleftrightarrow> (\<exists>code st rec. error_triple rep = Some (code, st, rec) \<and>
    (if err = ErrPayloadTooLarge then code = ''payload_too_large'' \<and> code \<notin> fst ` set capabilityErrorCodes
     else if internal_fault err then code = ''internal_error'' \<and> code \<notin> fst ` set capabilityErrorCodes
     else (code, st, rec) \<in> set capabilityErrorCodes))"

lemma messages_trimmed:
  "TrimSpace ''invalid request'' = ''invalid request''" "TrimSpace ''missing or invalid token'' = ''missing or invalid token''"
  "TrimSpace ''policy blocked'' = ''policy blocked''" "TrimSpace ''forbidden'' = ''forbidden''"
  "TrimSpace ''not found'' = ''not found''" "TrimSpace ''turn_mismatch'' = ''turn_mismatch''"
  "TrimSpace ''stale_bundle_hash'' = ''stale_bundle_hash''" "TrimSpace ''conflict'' = ''conflict''"
  "TrimSpace ''gone'' = ''gone''" "TrimSpace ''rate limit exceeded'' = ''rate limit exceeded''"
  "TrimSpace ''internal error'' = ''internal error''"
  by code_simp+

text \<open>The lower-case form of the message \<open>internal error\<close> does not depend on the tables of Unicode.\<close>

lemma internal_error_code:
  "error_triple (writeError E 500 ''internal error'') = Some (''internal_error'', 500, True)"
proof -
  have "ReplaceByte (CHR '' '') (CHR ''_'') (ReplaceByte (CHR ''-'') (CHR ''_'') (ToLower ul ''internal error'')) = ''internal_error''" for ul
    by code_simp
  then show ?thesis
    by (simp add: error_triple_def normalizeError_def messages_trimmed Let_def)
qed

text \<open>
  C38. The published list of errors is right about the service. Whatever error the service reports to a
  handler, the handler answers with a code, a status and a \<open>recoverable\<close> flag that stand together in the
  list of \<open>/v1/capabilities\<close>; the exceptions are a message that is too large and internal faults, whose
  codes \<open>payload_too_large\<close> and \<open>internal_error\<close> the list does not have.
\<close>

theorem advertised_error_codes:
  assumes "w \<in> set (error_writers H)"
  shows "fits_list err (w err)"
proof -
  have service: "fits_list err (writeServiceErr H err)"
    unfolding fits_list_def
    by (cases err) (simp_all add: writeServiceErr_def internal_fault_def internal_error_code capabilityErrorCodes_def,
      simp_all add: error_triple_def normalizeError_def messages_trimmed no_options_def Let_def ex_bool_eq)
  have special: "fits_list err (writeAPIError st c no_options)"
    if "(c, st, False) \<in> set capabilityErrorCodes" "err \<noteq> ErrPayloadTooLarge" "\<not> internal_fault err" for st c
    unfolding fits_list_def
    using that by (intro exI [of _ c] exI [of _ st] exI [of _ False]) (simp add: error_triple_def no_options_def)
  have "fits_list err (writeAPIError 404 c no_options)"
    if "err = ErrSvcNotFound" "c \<in> {''room_not_found'', ''listing_not_found'', ''viewer_not_found''}" for c
    using that by (intro special) (auto simp: capabilityErrorCodes_def internal_fault_def)
  moreover have "fits_list err (writeAPIError 409 ''listing_already_connected'' no_options)" if "err = ErrSvcConflict"
    using that by (intro special) (simp_all add: capabilityErrorCodes_def internal_fault_def)
  ultimately show ?thesis
    using assms service
    by (auto simp: error_writers_def writeRoomServiceErr_def writeListingServiceErr_def writeRoomOrViewerServiceErr_def)
qed

theorem advertised_error_codes_witness:
  "fits_list ErrSvcConflict (writeListingServiceErr ex_http ErrSvcConflict)"
  using advertised_error_codes [of "writeListingServiceErr ex_http" ex_http ErrSvcConflict]
  by (simp add: error_writers_def)

text \<open>
  A viewer token nobody holds is answered as a fault of the server. The store reports a missing viewer
  with the repository's \<open>ErrNotFound\<close>, while the handler of the viewer's event stream looks for the
  service's error of the same name, so the reply is 500 \<open>internal_error\<close> and not 404 \<open>viewer_not_found\<close>.
\<close>

theorem unknown_viewer_is_500:
  assumes "Method r = ''GET''" and "bearerTokenFromRequest (Authorization r) = token" "token \<noteq> []"
    and "\<forall>v \<in> set (t_viewers (tables (svcS s))). vw_ViewerToken v \<noteq> token"
    and "\<not> faults (svcS s) (stmts (svcS s))"
  shows "\<exists>rep s'. run_state (handleRoomViewerEvents_open H fails r i) s = (Inr (Inl rep), s') \<and>
    error_triple rep = Some (''internal_error'', 500, True)"
proof -
  have none: "find (\<lambda>x. vw_ViewerToken x = token) (t_viewers (tables (svcS s))) = None"
    using assms(4) by (simp add: find_None_iff)
  have get: "run_state (store (GetViewer token)) (svcS s) = (Inl (RepoErr ErrNotFound), (svcS s)\<lparr>stmts := Suc (stmts (svcS s))\<rparr>)"
    using assms(5) none by (simp add: run_store GetViewer_def run_query normalizeErr_row_def)
  have "run_state (call (store (GetViewer token))) s =
      (Inr (Inl (RepoErr ErrNotFound)), s\<lparr>svcS := (svcS s)\<lparr>stmts := Suc (stmts (svcS s))\<rparr>\<rparr>)"
    by (simp add: call_def get)
  then show ?thesis
    using assms(1-3)
    by (simp add: handleRoomViewerEvents_open_def serve_def run_attempt ok_def writeRoomOrViewerServiceErr_def
      writeRoomServiceErr_def writeServiceErr_def internal_error_code)
qed

theorem unknown_viewer_is_500_witness:
  "\<exists>rep s'. run_state (handleRoomViewerEvents_open ex_http (\<lambda>_. False) (ex_request ''GET'' ''/v1/rooms/r/viewer-events'') ''r'') ex_server =
     (Inr (Inl rep), s') \<and> error_triple rep = Some (''internal_error'', 500, True)"
proof -
  have "bearerTokenFromRequest ''Bearer tok'' = ''tok''" by code_simp
  then show ?thesis
    by (intro unknown_viewer_is_500 [of _ "''tok''"])
      (simp_all add: ex_request_def ex_server_def newSQLHTTP_def ex_svc_def ex_db_def)
qed

section \<open>The admin pages\<close>

lemma byte_of_char_eq: "(of_nat (of_char x) :: 8 word) = of_nat (of_char y) \<longleftrightarrow> x = y"
proof -
  have "of_char z < (2 :: nat) ^ LENGTH(8)" for z :: char
    using nat_of_char_less_256 [of z] by simp
  then have "(of_char x :: nat) = of_char y" if "(of_nat (of_char x) :: 8 word) = of_nat (of_char y)"
    using arg_cong [OF that, of unat] by (simp add: unat_of_nat take_bit_nat_eq_self)
  then show ?thesis by auto
qed

lemma xor_zero_iff: "xor a b = 0 \<longleftrightarrow> a = b" for a b :: "8 word"
  by (metis xor.assoc xor_self_eq xor.right_neutral xor.left_neutral)

lemma xor_diff_zero: "length a = length b \<Longrightarrow> xor_diff d a b = 0 \<longleftrightarrow> d = 0 \<and> a = b"
proof (induction d a b rule: xor_diff.induct)
  case (1 diff x xs y ys)
  then show ?case
    by (auto simp: xor_zero_iff byte_of_char_eq or_eq_0_iff)
qed auto

lemma constant_time_equal: "subtleConstantTimeEqual a b \<longleftrightarrow> a = b"
  by (auto simp: subtleConstantTimeEqual_def xor_diff_zero)

text \<open>
  C36. The admin pages need the admin token. A reply of status 200 to any request under \<open>/v1/admin/\<close> means
  that an admin token is configured, that the bearer token of the request is equal to it - which is what
  the constant-time comparison decides -, and that the request was a GET without credentials in the query.
\<close>

theorem admin_needs_token:
  assumes "run_state (handleAdmin H r) s = (Inr rep, s')" and "Status rep = 200"
  shows "TrimSpace (adminToken H) \<noteq> [] \<and> bearerTokenFromRequest (Authorization r) = TrimSpace (adminToken H) \<and>
    Method r = ''GET'' \<and> gm_get (Query r) ''admin_token'' = None"
proof -
  have "adminAuthorized H r \<and> TrimSpace (adminToken H) \<noteq> [] \<and> Method r = ''GET'' \<and> gm_get (Query r) ''admin_token'' = None"
    using assms by (auto simp: handleAdmin_def Let_def not_found_def method_error_def ok_def split: if_splits)
  moreover have "bearerTokenFromRequest (Authorization r) = TrimSpace (adminToken H)" if "adminAuthorized H r"
    using that by (auto simp: adminAuthorized_def bearerTokenFromRequest_def Let_def constant_time_equal HasPrefix_def split: if_splits)
  ultimately show ?thesis by blast
qed

definition ex_admin :: http_request where
  "ex_admin = (ex_request ''GET'' ''/v1/admin/overview'')\<lparr>Authorization := ''Bearer secret''\<rparr>"

lemma ex_admin_reply: "map_sum id Status (fst (run_state (handleAdmin ex_http ex_admin) ex_server)) = Inr 200"
  by code_simp

theorem admin_needs_token_witness:
  "\<exists>rep. fst (run_state (handleAdmin ex_http ex_admin) ex_server) = Inr rep \<and> Status rep = 200 \<and>
     bearerTokenFromRequest (Authorization ex_admin) = TrimSpace (adminToken ex_http)"
proof -
  obtain out s' where run: "run_state (handleAdmin ex_http ex_admin) ex_server = (out, s')" by fastforce
  moreover obtain rep where "out = Inr rep" "Status rep = 200"
    using ex_admin_reply run by (cases out) auto
  ultimately show ?thesis
    using admin_needs_token [of ex_http ex_admin ex_server rep s'] by simp
qed

section \<open>The request log\<close>

text \<open>Two queries that differ only in the values of sensitive keys.\<close>

definition same_but_secrets :: "(string \<Rightarrow> string) \<Rightarrow> (string \<times> string list) list \<Rightarrow> (string \<times> string list) list \<Rightarrow> bool" where
  "same_but_secrets ul q q' \<longleftrightarrow>
    list_all2 (\<lambda>(k, vs) (k', vs'). k = k' \<and> (isSensitiveQueryKey ul k \<or> vs = vs')) q q'"

text \<open>
  C37. The request log does not depend on secrets. Take two requests that differ only in their query strings,
  and these only in the values of the keys for codes, tokens, api keys and the like. Their records in the
  log are equal, so nothing about such a value can be read from the log.
\<close>

theorem query_log_hides_secrets:
  assumes "parse (RawQuery r) = Some q" and "parse raw' = Some q'" and "same_but_secrets ul q q'"
    and "TrimSpace (RawQuery r) \<noteq> []" "TrimSpace raw' \<noteq> []"
  shows "log_input ul parse i r lw d = log_input ul parse i (r\<lparr>RawQuery := raw'\<rparr>) lw d"
proof -
  have "map (sanitize_entry ul) q = map (sanitize_entry ul) q'"
    using assms(3) unfolding same_but_secrets_def
    by (induction rule: list_all2_induct) (auto simp: sanitize_entry_def)
  then show ?thesis
    using assms(1,2,4,5) by (simp add: log_input_def sanitizeQueryString_def Let_def)
qed

definition ex_web :: "string \<Rightarrow> web_request" where
  "ex_web raw = \<lparr>Method = ''GET'', URLPath = ''/v1/rooms/r/transcript'', Authorization = [], Query = [], Body = None,
     RemoteAddr = ''1.2.3.4:5'', LastEventID = [], XAdminToken = [], Origin = [], RawQuery = raw, UserAgent = [],
     IDHeaders = [], TLS = True\<rparr>"

definition ex_parse :: "string \<Rightarrow> (string \<times> string list) list option" where
  "ex_parse raw = Some [(''human_code'', [raw]), (''page'', [''2''])]"

theorem query_log_hides_secrets_witness:
  "log_input id ex_parse ''i'' (ex_web ''123'') new_writer 0 = log_input id ex_parse ''i'' (ex_web ''456'') new_writer 0"
proof -
  have sens: "isSensitiveQueryKey id ''human_code''" by code_simp
  have raw: "TrimSpace ''123'' \<noteq> []" "TrimSpace ''456'' \<noteq> []" by code_simp+
  have "log_input id ex_parse ''i'' (ex_web ''123'') new_writer 0 =
      log_input id ex_parse ''i'' ((ex_web ''123'')\<lparr>RawQuery := ''456''\<rparr>) new_writer 0"
    by (rule query_log_hides_secrets) (auto simp: ex_web_def ex_parse_def same_but_secrets_def sens raw)
  then show ?thesis by (simp add: ex_web_def)
qed

section \<open>Messages per address\<close>

text \<open>The limit on messages per IP address is one more sliding window.\<close>

interpretation iprl: rate_limiter "\<lambda>s ip now. ip_window_step ip now s" "\<lambda>s. window_of (ipWindows s)" 120 Minute
  by unfold_locales (auto simp: ip_window_step_def Let_def window_of_def Minute_def split: if_splits)

text \<open>The times at which messages from an address with the given IP were let through.\<close>

fun ip_grants :: "string \<Rightarrow> sqlHTTP \<Rightarrow> (string \<times> time) list \<Rightarrow> time list" where
  "ip_grants ip s [] = []"
| "ip_grants ip s ((addr, now) # cs) =
    (case run_state (allowIPMessage addr now) s of
       (passed, s') \<Rightarrow> (if remoteIP addr = ip \<and> passed then [now] else []) @ ip_grants ip s' cs)"

lemma ip_grants_window:
  "\<forall>c \<in> set cs. remoteIP (fst c) \<noteq> [] \<Longrightarrow>
   ip_grants ip s cs = rl_grants (\<lambda>s ip now. ip_window_step ip now s) ip s (map (\<lambda>c. (remoteIP (fst c), snd c)) cs)"
  by (induction cs arbitrary: s) (auto simp: allowIPMessage_def Let_def case_prod_beta)

text \<open>Of the messages from one IP address at most 120 pass in any minute, whatever comes in the order of time.\<close>

lemma ip_messages_limited:
  assumes "ipWindows s ip = None" and "sorted (map snd cs)" and "\<forall>c \<in> set cs. remoteIP (fst c) \<noteq> []"
  shows "length (filter (\<lambda>t. T - Minute < t \<and> t \<le> T) (ip_grants ip s cs)) \<le> 120"
  using iprl.grants_bounded [of s ip "map (\<lambda>c. (remoteIP (fst c), snd c)) cs" T] assms
  by (simp add: ip_grants_window window_of_def o_def)

section \<open>Slots of the event stream\<close>

text \<open>
  The slots in one instance: a server and the keys of the slots its streams hold. A stream releases the slot
  it was given, once.
\<close>

inductive slots_run :: "svc \<Rightarrow> sqlHTTP \<Rightarrow> string list \<Rightarrow> bool" for sv where
  start: "slots_run sv (newSQLHTTP sv) []"
| acquired: "slots_run sv s held \<Longrightarrow> acquireLocalSlot agentID roomID addr now s = (Inr (LocalSlot key), s') \<Longrightarrow>
    slots_run sv s' (key # held)"
| refused: "slots_run sv s held \<Longrightarrow> acquireLocalSlot agentID roomID addr now s = (Inl e, s') \<Longrightarrow> slots_run sv s' held"
| released: "slots_run sv s held \<Longrightarrow> key \<in> set held \<Longrightarrow> run_state (releaseStreamSlot (LocalSlot key)) s = (x, s') \<Longrightarrow>
    slots_run sv s' (remove1 key held)"

lemma acquireLocalSlot_counts:
  assumes "acquireLocalSlot agentID roomID addr now s = (res, s')"
  shows "(\<exists>e. res = Inl e) \<and> streamCounts s' = streamCounts s \<or>
    (\<exists>key. res = Inr (LocalSlot key) \<and> count_at (streamCounts s) key < 5 \<and>
       streamCounts s' = (streamCounts s)(key \<mapsto> count_at (streamCounts s) key + 1))"
  using assms by (auto simp: acquireLocalSlot_def Let_def maxActiveStreamsPerAgentRoom_def split: if_splits)

text \<open>
  C35. An agent never has more than five streams of a room open in one instance. Whatever connection attempts
  are granted and refused and whatever streams end, the counter of an agent and a room is the number of slots
  its open streams hold, and it never exceeds five.
\<close>

theorem stream_slots_bounded:
  assumes "slots_run sv s held"
  shows "count_at (streamCounts s) key = int (count_list held key) \<and> int (count_list held key) \<le> maxActiveStreamsPerAgentRoom"
  using assms
proof (induction arbitrary: key)
  case start
  then show ?case by (simp add: newSQLHTTP_def count_at_def maxActiveStreamsPerAgentRoom_def)
next
  case (acquired s held agentID roomID addr now k s')
  from acquireLocalSlot_counts [OF acquired.hyps(2)] acquired.IH [of key] acquired.IH [of k] show ?case
    by (auto simp: count_at_def maxActiveStreamsPerAgentRoom_def)
next
  case (refused s held agentID roomID addr now e s')
  from acquireLocalSlot_counts [OF refused.hyps(2)] refused.IH [of key] show ?case by auto
next
  case (released s held k x s')
  have "count_list held k \<noteq> 0" using released.hyps(2) count_list_0_iff by metis
  with released.hyps released.IH [of key] released.IH [of k] show ?case
    by (auto simp: releaseStreamSlot_def count_at_def count_list_remove1 split: if_splits)
qed

theorem stream_slots_bounded_witness:
  "\<exists>s. slots_run ex_svc s [''r|a''] \<and> count_at (streamCounts s) ''r|a'' = 1"
proof -
  have "streamKey ''a'' ''r'' = ''r|a''" by code_simp
  then obtain s where "acquireLocalSlot ''a'' ''r'' ''1.2.3.4:5'' 0 (newSQLHTTP ex_svc) = (Inr (LocalSlot ''r|a''), s)"
    by (simp add: acquireLocalSlot_def Let_def newSQLHTTP_def count_at_def maxActiveStreamsPerAgentRoom_def
      window_of_def pruneTimeWindow_def maxStreamConnectsPerMinuteRoomKey_def maxStreamConnectsPerMinuteIP_def)
  then have run: "slots_run ex_svc s [''r|a'']" by (rule slots_run.acquired [OF slots_run.start])
  from stream_slots_bounded [OF run, of "''r|a''"] run show ?thesis by auto
qed

text \<open>
  C39. A refused connection makes earlier ones count twice. \<open>pruneTimeWindow\<close> moves the recent times to the
  front of the array that the map still refers to, and a refusal for too many open streams does not store
  the shortened slice. If the window holds at least as many old times as recent ones, the recent times are
  afterwards in it twice, so that the limit on connections per minute is reached at half its value.
\<close>

theorem refused_stream_counts_twice:
  assumes "acquireLocalSlot agentID roomID addr now s = (Inl (''max_active_streams_per_agent_room'', err), s')"
    and "window_of (streamOpenWindows s) (streamKey agentID roomID) = older @ recent"
    and "\<forall>t \<in> set older. t \<le> now - Minute" and "\<forall>t \<in> set recent. now - Minute < t"
    and "length recent \<le> length older"
  shows "pruneTimeWindow (window_of (streamOpenWindows s') (streamKey agentID roomID)) (now - Minute) = recent @ recent"
proof -
  let ?k = "streamKey agentID roomID"
  have none: "prune_window xs (now - Minute) = []" if "set xs \<subseteq> set older" for xs
    using that assms(3) by (fastforce simp: prune_window_filter filter_empty_conv)
  have all: "prune_window recent (now - Minute) = recent"
    using assms(4) by (simp add: prune_window_filter filter_id_conv)
  have app: "prune_window (xs @ ys) t = prune_window xs t @ prune_window ys t" for xs ys t
    by (simp add: prune_window_filter)
  have "streamOpenWindows s' = pruned_in_place (streamOpenWindows s) ?k (now + - Minute)"
    using assms(1) by (auto simp: acquireLocalSlot_def Let_def split: if_splits)
  then have "window_of (streamOpenWindows s') ?k = (if older @ recent = [] then [] else recent @ drop (length recent) older @ recent)"
    using assms(2,5) all none [of older]
    by (auto simp: pruned_in_place_def window_of_def pruneTimeWindow_def app Let_def split: option.splits)
  then show ?thesis
    using none [of "drop (length recent) older"] all assms(5)
    by (auto simp: pruneTimeWindow_def app dest: in_set_dropD)
qed

text \<open>A server where agent \<open>a\<close> has five open streams, one opened over a minute ago and one since.\<close>

definition ex_busy :: sqlHTTP where
  "ex_busy = ex_server\<lparr>streamCounts := [''r|a'' \<mapsto> 5], streamOpenWindows := [''r|a'' \<mapsto> [0, 2 * Minute]]\<rparr>"

theorem refused_stream_counts_twice_witness:
  "pruneTimeWindow (window_of (streamOpenWindows (snd (acquireLocalSlot ''a'' ''r'' ''1.2.3.4:5'' (2 * Minute + 1) ex_busy))) ''r|a'')
     (Minute + 1) = [2 * Minute, 2 * Minute]"
proof -
  have key: "streamKey ''a'' ''r'' = ''r|a''" by code_simp
  obtain s' where run: "acquireLocalSlot ''a'' ''r'' ''1.2.3.4:5'' (2 * Minute + 1) ex_busy =
      (Inl (''max_active_streams_per_agent_room'', ErrRateLimit), s')"
    by (simp add: acquireLocalSlot_def Let_def key ex_busy_def count_at_def maxActiveStreamsPerAgentRoom_def)
  have "pruneTimeWindow (window_of (streamOpenWindows s') (streamKey ''a'' ''r'')) (2 * Minute + 1 - Minute) = [2 * Minute] @ [2 * Minute]"
    by (rule refused_stream_counts_twice [OF run, of "[0]"])
      (simp_all add: key ex_busy_def window_of_def duration_units)
  moreover have "2 * Minute + 1 - Minute = Minute + 1" by simp
  ultimately show ?thesis by (simp only: run key snd_conv append_Cons append_Nil)
qed

end
