(* ===== verification/Config_Load.thy ===== *)
theory Config_Load
  imports Http_Parse A2A_Rooms
begin

text \<open>
  \<open>internal/config/config.go\<close>, and the worker of \<open>internal/worker/purge/worker.go\<close> that the configuration
  drives. \<open>os.Getenv\<close> is a function: the empty string for a variable that is not set.
\<close>

section \<open>Configuration\<close>

record Config =
  APIAddr :: string
  PostgresDSN :: string
  RedisAddr :: string
  cfg_AdminToken :: string
  cfg_ViewerHeartbeatTimeout :: duration
  cfg_ClosedRoomGraceDelay :: duration
  cfg_MaxClosedRetention :: duration
  WebhookWorkerEnabled :: bool
  cfg_WebhookSecretKey :: string
  cfg_WebhookSecretKeyset :: string
  cfg_RoomDEKKey :: string
  cfg_RoomDEKKeyset :: string
  WebhookPollInterval :: duration
  WebhookDeliveryTimeout :: duration
  WebhookClaimStaleAfter :: duration
  WebhookBatchSize :: int
  WebhookMaxAttempts :: int
  WebhookBaseBackoff :: duration
  WebhookMaxBackoff :: duration
  PurgeWorkerEnabled :: bool
  PurgePollInterval :: duration
  PurgeBatchSize :: int

definition getenv_or :: "(string \<Rightarrow> string) \<Rightarrow> string \<Rightarrow> string \<Rightarrow> string" where
  "getenv_or env k fallback = (if env k = [] then fallback else env k)"

text \<open>The product of durations wraps around.\<close>

definition getDurationSeconds :: "(string \<Rightarrow> string) \<Rightarrow> string \<Rightarrow> int \<Rightarrow> duration" where
  "getDurationSeconds env name fallbackSeconds =
    (let raw = env name in
     if raw = [] then wrap64 (fallbackSeconds * Second)
     else (case ParseInt raw of
       None \<Rightarrow> wrap64 (fallbackSeconds * Second)
     | Some n \<Rightarrow> if n \<le> 0 then wrap64 (fallbackSeconds * Second) else wrap64 (n * Second)))"

definition getInt :: "(string \<Rightarrow> string) \<Rightarrow> string \<Rightarrow> int \<Rightarrow> int" where
  "getInt env name fallback =
    (let raw = env name in
     if raw = [] then fallback
     else (case ParseInt raw of None \<Rightarrow> fallback | Some n \<Rightarrow> if n \<le> 0 then fallback else n))"

definition getBool :: "(string \<Rightarrow> string) \<Rightarrow> string \<Rightarrow> bool \<Rightarrow> bool" where
  "getBool env name fallback =
    (let raw = env name in
     if raw = [] then fallback
     else if raw \<in> {''1'', ''true'', ''TRUE'', ''yes'', ''YES'', ''on'', ''ON''} then True
     else if raw \<in> {''0'', ''false'', ''FALSE'', ''no'', ''NO'', ''off'', ''OFF''} then False
     else fallback)"

definition Load :: "(string \<Rightarrow> string) \<Rightarrow> Config" where
  "Load env =
    \<lparr>APIAddr = getenv_or env ''API_ADDR'' ''127.0.0.1:8080'',
     PostgresDSN = getenv_or env ''POSTGRES_DSN'' [],
     RedisAddr = getenv_or env ''REDIS_ADDR'' ''localhost:6379'',
     cfg_AdminToken = getenv_or env ''ADMIN_TOKEN'' [],
     cfg_ViewerHeartbeatTimeout = getDurationSeconds env ''VIEWER_HEARTBEAT_TIMEOUT_SECONDS'' 45,
     cfg_ClosedRoomGraceDelay = getDurationSeconds env ''CLOSED_ROOM_GRACE_DELAY_SECONDS'' 120,
     cfg_MaxClosedRetention = getDurationSeconds env ''MAX_CLOSED_RETENTION_SECONDS'' 86400,
     WebhookWorkerEnabled = getBool env ''WEBHOOK_WORKER_ENABLED'' True,
     cfg_WebhookSecretKey = getenv_or env ''WEBHOOK_SECRET_ENCRYPTION_KEY'' [],
     cfg_WebhookSecretKeyset = getenv_or env ''WEBHOOK_SECRET_ENCRYPTION_KEYS'' [],
     cfg_RoomDEKKey = getenv_or env ''ROOM_DEK_ENCRYPTION_KEY'' [],
     cfg_RoomDEKKeyset = getenv_or env ''ROOM_DEK_ENCRYPTION_KEYS'' [],
     WebhookPollInterval = getDurationSeconds env ''WEBHOOK_POLL_INTERVAL_SECONDS'' 2,
     WebhookDeliveryTimeout = getDurationSeconds env ''WEBHOOK_DELIVERY_TIMEOUT_SECONDS'' 10,
     WebhookClaimStaleAfter = getDurationSeconds env ''WEBHOOK_CLAIM_STALE_AFTER_SECONDS'' 45,
     WebhookBatchSize = getInt env ''WEBHOOK_BATCH_SIZE'' 20,
     WebhookMaxAttempts = getInt env ''WEBHOOK_MAX_ATTEMPTS'' 8,
     WebhookBaseBackoff = getDurationSeconds env ''WEBHOOK_BASE_BACKOFF_SECONDS'' 5,
     WebhookMaxBackoff = getDurationSeconds env ''WEBHOOK_MAX_BACKOFF_SECONDS'' 300,
     PurgeWorkerEnabled = getBool env ''PURGE_WORKER_ENABLED'' True,
     PurgePollInterval = getDurationSeconds env ''PURGE_POLL_INTERVAL_SECONDS'' 15,
     PurgeBatchSize = getInt env ''PURGE_BATCH_SIZE'' 200\<rparr>"

section \<open>The service\<close>

text \<open>
  \<open>New\<close> of \<open>internal/service/a2a/service.go\<close>: the options over the defaults. The builder and the library
  functions come with \<open>C\<close>; a service starts with empty tables of its own and no mutex held.
\<close>

record svc_options =
  opt_ViewerHeartbeatTimeout :: duration
  opt_ClosedRoomGraceDelay :: duration
  opt_MaxClosedRetention :: duration
  opt_WebhookSecretKey :: string
  opt_WebhookSecretKeyset :: string
  opt_RoomDEKKey :: string
  opt_RoomDEKKeyset :: string

definition newService :: "svc_conf \<Rightarrow> svc_options \<Rightarrow> svc_conf" where
  "newService C opts = C\<lparr>
     sealC := NewWithKeyset (crypt C) (opt_WebhookSecretKey opts) (opt_WebhookSecretKeyset opts),
     roomSealC := NewWithKeyset (crypt C) (opt_RoomDEKKey opts) (opt_RoomDEKKeyset opts),
     heartbeatTimeout := (if opt_ViewerHeartbeatTimeout opts > 0 then opt_ViewerHeartbeatTimeout opts else 45 * Second),
     graceDelay := (if opt_ClosedRoomGraceDelay opts > 0 then opt_ClosedRoomGraceDelay opts else 2 * Minute),
     closedRetention := (if opt_MaxClosedRetention opts > 0 then opt_MaxClosedRetention opts else 24 * Hour)\<rparr>"

definition newServiceState :: "pg \<Rightarrow> (nat \<Rightarrow> time) \<Rightarrow> (nat \<Rightarrow> string) \<Rightarrow> svc" where
  "newServiceState d clock rnd = pg.extend d
     \<lparr>joinedBy = \<lambda>_ _. False, agentWindows = Map.empty, roomWindows = Map.empty, policyWindows = Map.empty,
      blockedAgents = Map.empty, locksHeld = [], published = [], wallClock = clock, wallTicks = 0,
      randoms = rnd, randomDraws = 0\<rparr>"

section \<open>The purge worker\<close>

record purgeWorker =
  pw_pollInterval :: duration
  pw_batchSize :: int

definition newPurgeWorker :: "duration \<Rightarrow> int \<Rightarrow> purgeWorker" where
  "newPurgeWorker interval batch =
    \<lparr>pw_pollInterval = (if interval \<le> 0 then 15 * Second else interval),
     pw_batchSize = (if batch \<le> 0 \<or> batch > 5000 then 200 else batch)\<rparr>"

text \<open>The sweep, timed by two readings of the clock; the duration is only logged.\<close>

definition purge_RunOnce :: "svc_conf \<Rightarrow> purgeWorker \<Rightarrow> LifecycleSweepResult prog" where
  "purge_RunOnce C w = do {
     start \<leftarrow> s_now;
     res \<leftarrow> SweepLifecycle C (pw_batchSize w);
     fin \<leftarrow> s_now;
     case res of Inl err \<Rightarrow> fail err | Inr out \<Rightarrow> ok out }"

text \<open>\<open>Run\<close> until the context ends: after each sweep, \<open>False\<close> in the schedule is \<open>ctx.Done\<close>.\<close>

fun purge_Run :: "svc_conf \<Rightarrow> purgeWorker \<Rightarrow> bool list \<Rightarrow> unit prog" where
  "purge_Run C w [] = ok ()"
| "purge_Run C w (tick # ticks) = do {
     res \<leftarrow> purge_RunOnce C w;
     case res of
       Inl Blocked \<Rightarrow> fail Blocked
     | _ \<Rightarrow> if tick then purge_Run C w ticks else ok () }"

end
