(* ===== verification/Purge_Spec.thy ===== *)
theory Purge_Spec
  imports Config_Load A2A_Examples Sql_Rules
begin

text \<open>The purge worker: how many rooms a sweep looks at, whatever batch size is configured.\<close>

section \<open>Scanned rooms\<close>

text \<open>A value that does not depend on the tables.\<close>

lemma succ_any: "succ (\<lambda>_. True) m (\<lambda>_ _. True)"
  by (simp add: succ_def hoare_def)

lemma succ_free: "(\<And>r. succ (\<lambda>_. True) (f r) Q) \<Longrightarrow> succ (\<lambda>_. True) (State_Monad.bind m f) Q"
  by (rule succ_bind [where R = "\<lambda>_ _. True"]) (simp_all add: hoare_def)

lemma succ_closed_counts:
  "succ (\<lambda>_. True) (sweep_closed_counts C rm out) (\<lambda>res _. sw_Scanned res = sw_Scanned out)"
  unfolding sweep_closed_counts_def Let_def
  by (intro succ_free succ_attempt [OF succ_any] succ_ok) simp

lemma succ_sweep_loop: "succ (\<lambda>_. True) (sweep_loop C rooms out) (\<lambda>res _. sw_Scanned res = sw_Scanned out)"
proof (induction rooms arbitrary: out)
  case (Cons cand rest)
  let ?same = "\<lambda>o' (_ :: db). sw_Scanned o' = sw_Scanned out"
  have counts: "succ (\<lambda>_. True) (if room_State after = RoomStateClosed then sweep_closed_counts C after out else ok out) ?same" for after
    by (intro succ_if succ_closed_counts succ_ok) simp
  have rest: "succ (?same o') (sweep_loop C rest o'') ?same" if "sw_Scanned o'' = sw_Scanned o'" for o' o''
    using Cons.IH [of o''] that by (auto simp: succ_def hoare_def)
  show ?case
    unfolding sweep_loop.simps Let_def
    by (rule succ_attempt [OF succ_any], rule succ_attempt [OF counts], rule rest) simp
qed (simp add: succ_ok)

text \<open>
  A sweep of the purge worker is bounded. Whatever batch size is configured, a sweep that succeeds has looked
  at no more rooms than that, and at most at 1000; but a size above 1000, which the worker accepts up to
  5000, makes the store fall back to 200 rooms, fewer than a size of 1000 gives.
\<close>

theorem purge_scan_capped:
  assumes "run_state (purge_RunOnce C (newPurgeWorker interval batch)) s = (Inr res, s')"
  shows "sw_Scanned res \<le> (if batch \<le> 0 \<or> batch > 1000 then 200 else batch)"
proof -
  let ?n = "pw_batchSize (newPurgeWorker interval batch)"
  have n: "(if ?n \<le> 0 \<or> ?n > 1000 then 200 else ?n) = (if batch \<le> 0 \<or> batch > 1000 then 200 else batch)"
    by (auto simp: newPurgeWorker_def)
  have "succ (\<lambda>_. True) (ListRoomsForLifecycleSweep now ?n)
      (\<lambda>rooms _. int (length rooms) \<le> (if ?n \<le> 0 \<or> ?n > 1000 then 200 else ?n))" for now
    unfolding ListRoomsForLifecycleSweep_def by (rule succ_stmt) (auto simp: Let_def)
  then have "succ (\<lambda>_. True) (store (ListRoomsForLifecycleSweep now ?n))
      (\<lambda>rooms _. int (length rooms) \<le> (if batch \<le> 0 \<or> batch > 1000 then 200 else batch))" for now
    unfolding store_def n by (rule succ_mapErr)
  moreover have "succ (\<lambda>_. int (length rooms) \<le> k) (sweep_loop C rooms
      \<lparr>sw_Scanned = int (length rooms), sw_ClosedTransitions = 0, sw_PurgedTransitions = 0,
       sw_ViewerBlocked = 0, sw_ReadyForPurge = 0\<rparr>) (\<lambda>res _. sw_Scanned res \<le> k)" for rooms k
    using succ_sweep_loop [of C rooms "\<lparr>sw_Scanned = int (length rooms), sw_ClosedTransitions = 0,
      sw_PurgedTransitions = 0, sw_ViewerBlocked = 0, sw_ReadyForPurge = 0\<rparr>"]
    by (auto simp: succ_def hoare_def)
  ultimately have sweep: "succ (\<lambda>_. True) (SweepLifecycle C ?n) (\<lambda>res _. sw_Scanned res \<le> (if batch \<le> 0 \<or> batch > 1000 then 200 else batch))"
    unfolding SweepLifecycle_def by (intro succ_free succ_attempt)
  show ?thesis
    using assms succD [OF sweep]
    by (auto simp: purge_RunOnce_def s_now_def fail_def ok_def split: prod.splits sum.splits)
qed

lemma ex_sweep: "map_sum id sw_Scanned (fst (run_state (purge_RunOnce ex_service (newPurgeWorker 0 3000)) ex_svc)) = Inr 0"
  by code_simp

theorem purge_scan_capped_witness:
  "\<exists>res. fst (run_state (purge_RunOnce ex_service (newPurgeWorker 0 3000)) ex_svc) = Inr res \<and> sw_Scanned res \<le> 200"
proof -
  obtain out s' where run: "run_state (purge_RunOnce ex_service (newPurgeWorker 0 3000)) ex_svc = (out, s')" by fastforce
  moreover obtain res where "out = Inr res" using ex_sweep run by (cases out) auto
  ultimately show ?thesis
    using purge_scan_capped [of ex_service 0 3000 ex_svc res s'] by simp
qed

end
