(* ===== verification/Migrate.thy ===== *)
theory Migrate
  imports Http_Parse A2A_Examples "HOL-Library.List_Lexorder"
begin

text \<open>
  The migration tool \<open>cmd/migrate/main.go\<close>: the table \<open>schema_migrations\<close> and the actions \<open>up\<close>, \<open>down\<close> and
  \<open>status\<close>. What a migration file does to the rest of the database (\<open>runSQL\<close>; \<open>None\<close> is an error, which
  undoes the file, as PostgreSQL runs a query of several statements as one transaction), the file system
  (\<open>glob\<close>, \<open>readF\<close>, \<open>statOK\<close>, \<open>joinPath\<close>) and the collation of the database are parameters.
\<close>

section \<open>The database\<close>

datatype mig_error = DBError | ReadFailed string | DownMissing string

record 'd mig_env =
  glob :: "string \<Rightarrow> string list"
  readF :: "string \<Rightarrow> string option"
  statOK :: "string \<Rightarrow> bool"
  joinPath :: "string \<Rightarrow> string \<Rightarrow> string"
  runSQL :: "string \<Rightarrow> 'd \<Rightarrow> 'd option"
  collate :: "string \<Rightarrow> nat list"

text \<open>\<open>mg_Versions\<close> is the table of versions, if it exists; statement \<open>k\<close> fails when \<open>mg_Faults k\<close>.\<close>

record 'd mig =
  mg_Data :: 'd
  mg_Versions :: "string list option"
  mg_Faults :: "nat \<Rightarrow> bool"
  mg_Stmts :: nat

type_synonym ('d, 'a) migration = "('d mig, mig_error + 'a) state"

definition mig_stmt :: "('d mig \<Rightarrow> (mig_error + 'a) \<times> 'd mig) \<Rightarrow> ('d, 'a) migration" where
  "mig_stmt f = State (\<lambda>s.
     let s' = s\<lparr>mg_Stmts := Suc (mg_Stmts s)\<rparr> in if mg_Faults s (mg_Stmts s) then (Inl DBError, s') else f s')"

text \<open>A statement on the table of versions.\<close>

definition on_versions :: "(string list \<Rightarrow> (mig_error + 'a) \<times> string list) \<Rightarrow> ('d, 'a) migration" where
  "on_versions f = mig_stmt (\<lambda>s. case mg_Versions s of
     None \<Rightarrow> (Inl DBError, s)
   | Some vs \<Rightarrow> (case f vs of (r, vs') \<Rightarrow> (r, s\<lparr>mg_Versions := Some vs'\<rparr>)))"

definition ensureMigrationsTable :: "('d, unit) migration" where
  "ensureMigrationsTable = mig_stmt (\<lambda>s. (Inr (),
     s\<lparr>mg_Versions := Some (case mg_Versions s of None \<Rightarrow> [] | Some vs \<Rightarrow> vs)\<rparr>))"

definition isApplied :: "string \<Rightarrow> ('d, bool) migration" where
  "isApplied version = on_versions (\<lambda>vs. (Inr (version \<in> set vs), vs))"

text \<open>The primary key refuses a version twice.\<close>

definition insert_version :: "string \<Rightarrow> ('d, unit) migration" where
  "insert_version version = on_versions (\<lambda>vs. if version \<in> set vs then (Inl DBError, vs) else (Inr (), vs @ [version]))"

section \<open>Files\<close>

text \<open>\<open>filepath.Base\<close>: the last element of a path, without trailing slashes.\<close>

definition Base :: "string \<Rightarrow> string" where
  "Base path =
    (if path = [] then ''.''
     else (let p = rev (dropWhile (\<lambda>c. c = CHR ''/'') (rev path)) in
       if p = [] then ''/'' else rev (takeWhile (\<lambda>c. c \<noteq> CHR ''/'') (rev p))))"

definition versionFromPath :: "string \<Rightarrow> string \<Rightarrow> string" where
  "versionFromPath path x = TrimSuffix (Base path) x"

definition up_version :: "string \<Rightarrow> string" where
  "up_version file = versionFromPath file ''.up.sql''"

text \<open>The files of the directory in the order of \<open>sort.Strings\<close>, byte by byte.\<close>

definition up_files :: "'d mig_env \<Rightarrow> string \<Rightarrow> string list" where
  "up_files E dir = sort_key (map (of_char :: char \<Rightarrow> nat)) (glob E (joinPath E dir ''*.up.sql''))"

definition execSQLFile :: "'d mig_env \<Rightarrow> string \<Rightarrow> ('d, unit) migration" where
  "execSQLFile E file =
    (case readF E file of
       None \<Rightarrow> fail (ReadFailed file)
     | Some content \<Rightarrow> mig_stmt (\<lambda>s. case runSQL E content (mg_Data s) of
         None \<Rightarrow> (Inl DBError, s)
       | Some d \<Rightarrow> (Inr (), s\<lparr>mg_Data := d\<rparr>)))"

section \<open>Actions\<close>

fun up_loop :: "'d mig_env \<Rightarrow> string list \<Rightarrow> ('d, unit) migration" where
  "up_loop E [] = ok ()"
| "up_loop E (file # files) =
    (let version = up_version file in
     attempt (isApplied version) (\<lambda>applied.
     if applied then up_loop E files
     else attempt (execSQLFile E file) (\<lambda>_.
       attempt (insert_version version) (\<lambda>_. up_loop E files))))"

definition applyUp :: "'d mig_env \<Rightarrow> string \<Rightarrow> ('d, unit) migration" where
  "applyUp E dir = up_loop E (up_files E dir)"

text \<open>The version that comes last in the collation of the database.\<close>

definition last_version :: "'d mig_env \<Rightarrow> string list \<Rightarrow> string option" where
  "last_version E vs = (if vs = [] then None else Some (last (sort_key (collate E) vs)))"

definition applyDown :: "'d mig_env \<Rightarrow> string \<Rightarrow> ('d, unit) migration" where
  "applyDown E dir =
    attempt (on_versions (\<lambda>vs. (Inr (last_version E vs), vs))) (\<lambda>found.
    case found of
      None \<Rightarrow> ok ()
    | Some version \<Rightarrow>
        (let file = joinPath E dir (version @ ''.down.sql'') in
         if \<not> statOK E file then fail (DownMissing version)
         else attempt (execSQLFile E file) (\<lambda>_.
           on_versions (\<lambda>vs. (Inr (), filter (\<lambda>v. v \<noteq> version) vs)))))"

definition printStatus :: "'d mig_env \<Rightarrow> string \<Rightarrow> ('d, (string \<times> string) list) migration" where
  "printStatus E dir =
    attempt (on_versions (\<lambda>vs. (Inr vs, vs))) (\<lambda>appliedSet.
    ok (map (\<lambda>file. (if up_version file \<in> set appliedSet then ''applied'' else ''pending'', up_version file)) (up_files E dir)))"

datatype mig_action = Up | Down | Status

definition migrate_main :: "'d mig_env \<Rightarrow> string \<Rightarrow> mig_action \<Rightarrow> ('d, (string \<times> string) list) migration" where
  "migrate_main E dir action =
    attempt ensureMigrationsTable (\<lambda>_.
    case action of
      Up \<Rightarrow> attempt (applyUp E dir) (\<lambda>_. ok [])
    | Down \<Rightarrow> attempt (applyDown E dir) (\<lambda>_. ok [])
    | Status \<Rightarrow> printStatus E dir)"

section \<open>What up does\<close>

text \<open>The files of \<open>up\<close> that are not applied yet, and what they do to the data, one after the other.\<close>

fun pending :: "string list \<Rightarrow> string list \<Rightarrow> string list" where
  "pending vs [] = []"
| "pending vs (file # files) =
    (if up_version file \<in> set vs then pending vs files else file # pending (vs @ [up_version file]) files)"

fun run_files :: "'d mig_env \<Rightarrow> string list \<Rightarrow> 'd \<Rightarrow> 'd option" where
  "run_files E [] d = Some d"
| "run_files E (file # files) d =
    (case readF E file of
       None \<Rightarrow> None
     | Some content \<Rightarrow> (case runSQL E content d of None \<Rightarrow> None | Some d \<Rightarrow> run_files E files d))"

lemma run_on_versions:
  "run_state (on_versions f) s = (let s' = s\<lparr>mg_Stmts := Suc (mg_Stmts s)\<rparr> in
     if mg_Faults s (mg_Stmts s) then (Inl DBError, s')
     else case mg_Versions s of None \<Rightarrow> (Inl DBError, s')
       | Some vs \<Rightarrow> (fst (f vs), s'\<lparr>mg_Versions := Some (snd (f vs))\<rparr>))"
  by (auto simp: on_versions_def mig_stmt_def Let_def case_prod_beta split: option.splits)

lemma isApplied_Inr:
  "run_state (isApplied v) s = (Inr b, s') \<Longrightarrow> mg_Versions s = Some vs \<Longrightarrow>
   (b \<longleftrightarrow> v \<in> set vs) \<and> mg_Versions s' = Some vs \<and> mg_Data s' = mg_Data s"
  by (auto simp: isApplied_def run_on_versions Let_def split: if_splits)

lemma insert_version_Inr:
  "run_state (insert_version v) s = (Inr x, s') \<Longrightarrow> mg_Versions s = Some vs \<Longrightarrow>
   mg_Versions s' = Some (vs @ [v]) \<and> mg_Data s' = mg_Data s"
  by (auto simp: insert_version_def run_on_versions Let_def split: if_splits)

lemma execSQLFile_Inr:
  assumes "run_state (execSQLFile E f) s = (Inr x, s')"
  obtains content where "readF E f = Some content" "runSQL E content (mg_Data s) = Some (mg_Data s')"
    "mg_Versions s' = mg_Versions s"
  using assms by (auto simp: execSQLFile_def mig_stmt_def fail_def Let_def split: option.splits if_splits)

lemma up_loop_Inr:
  assumes "run_state (up_loop E files) s = (Inr x, s')" and "mg_Versions s = Some vs"
  shows "mg_Versions s' = Some (vs @ map up_version (pending vs files)) \<and>
    run_files E (pending vs files) (mg_Data s) = Some (mg_Data s')"
  using assms
proof (induction files arbitrary: s vs)
  case Nil
  then show ?case by (simp add: ok_def)
next
  case (Cons f files)
  let ?v = "up_version f"
  obtain b s1 where s1: "run_state (isApplied ?v) s = (Inr b, s1)"
    using Cons.prems(1) by (auto simp: run_attempt Let_def split: prod.splits sum.splits)
  have app: "b \<longleftrightarrow> ?v \<in> set vs" "mg_Versions s1 = Some vs" "mg_Data s1 = mg_Data s"
    using isApplied_Inr [OF s1 Cons.prems(2)] by simp_all
  show ?case
  proof (cases b)
    case True
    with Cons.prems(1) s1 have "run_state (up_loop E files) s1 = (Inr x, s')" by (simp add: run_attempt Let_def)
    from Cons.IH [OF this app(2)] app True show ?thesis by simp
  next
    case False
    then obtain y s2 z s3 where s2: "run_state (execSQLFile E f) s1 = (Inr y, s2)"
        and s3: "run_state (insert_version ?v) s2 = (Inr z, s3)" and rest: "run_state (up_loop E files) s3 = (Inr x, s')"
      using Cons.prems(1) s1 by (auto simp: run_attempt Let_def split: prod.splits sum.splits)
    obtain content where ex: "readF E f = Some content" "runSQL E content (mg_Data s) = Some (mg_Data s2)"
        "mg_Versions s2 = Some vs"
      using app by (metis execSQLFile_Inr [OF s2])
    have ins: "mg_Versions s3 = Some (vs @ [?v])" "mg_Data s3 = mg_Data s2"
      using insert_version_Inr [OF s3 ex(3)] by simp_all
    from Cons.IH [OF rest ins(1)] app False ex ins(2) show ?thesis by simp
  qed
qed

lemma pending_all: "set (map up_version files) \<subseteq> set (vs @ map up_version (pending vs files))"
proof (induction files arbitrary: vs)
  case (Cons f files)
  then show ?case using Cons.IH [of vs] Cons.IH [of "vs @ [up_version f]"] by auto
qed simp

lemma pending_none: "set (map up_version files) \<subseteq> set vs \<Longrightarrow> pending vs files = []"
  by (induction files) auto

text \<open>A run over files that are all applied changes neither the data nor the table, whichever statements fail.\<close>

lemma up_loop_applied:
  assumes "set (map up_version files) \<subseteq> set vs" and "mg_Versions s = Some vs"
    and "run_state (up_loop E files) s = (out, s')"
  shows "mg_Data s' = mg_Data s \<and> mg_Versions s' = Some vs"
  using assms
proof (induction files arbitrary: s)
  case (Cons f files)
  let ?s1 = "s\<lparr>mg_Stmts := Suc (mg_Stmts s), mg_Versions := Some vs\<rparr>"
  show ?case
    using Cons.prems Cons.IH [of ?s1]
    by (auto simp: run_attempt isApplied_def run_on_versions Let_def split: if_splits)
qed (simp add: ok_def)

text \<open>
  C40. Migrating up applies what is missing, in order, once. When \<open>up\<close> succeeds, it has run the files whose
  versions were not recorded, in the order of their names, each on the result of the one before, and has
  recorded exactly their versions; so every version is recorded. A second run of \<open>up\<close> on the same files
  changes neither the data nor the record, whether it succeeds or not.
\<close>

theorem migrate_up_once:
  assumes "run_state (applyUp E dir) s = (Inr (), s')" and "mg_Versions s = Some vs"
  shows "mg_Versions s' = Some (vs @ map up_version (pending vs (up_files E dir))) \<and>
    run_files E (pending vs (up_files E dir)) (mg_Data s) = Some (mg_Data s') \<and>
    (\<forall>out s''. run_state (applyUp E dir) s' = (out, s'') \<longrightarrow> mg_Data s'' = mg_Data s' \<and> mg_Versions s'' = mg_Versions s')"
proof -
  note up = up_loop_Inr [OF assms(1) [unfolded applyUp_def] assms(2)]
  then have "mg_Data s'' = mg_Data s' \<and> mg_Versions s'' = mg_Versions s'" if "run_state (applyUp E dir) s' = (out, s'')" for out s''
    using up_loop_applied [OF pending_all, of s' vs "up_files E dir" E out s''] that by (simp add: applyUp_def)
  with up show ?thesis by blast
qed

text \<open>Two files, of which the first is recorded already; the data is the list of texts that were run.\<close>

definition ex_mig_env :: "string list mig_env" where
  "ex_mig_env = \<lparr>glob = (\<lambda>_. [''m/2.up.sql'', ''m/1.up.sql'']), readF = Some, statOK = (\<lambda>_. True),
     joinPath = (\<lambda>d x. d @ ''/'' @ x), runSQL = (\<lambda>c d. Some (d @ [c])), collate = map of_char\<rparr>"

definition ex_mig :: "string list mig" where
  "ex_mig = \<lparr>mg_Data = [''m/1.up.sql''], mg_Versions = Some [''1''], mg_Faults = (\<lambda>_. False), mg_Stmts = 0\<rparr>"

theorem migrate_up_once_witness:
  "\<exists>s'. run_state (applyUp ex_mig_env ''m'') ex_mig = (Inr (), s') \<and> mg_Versions s' = Some [''1'', ''2''] \<and>
     mg_Data s' = [''m/1.up.sql'', ''m/2.up.sql'']"
proof -
  have ok: "map_sum id id (fst (run_state (applyUp ex_mig_env ''m'') ex_mig)) = Inr ()" by code_simp
  then obtain s' where run: "run_state (applyUp ex_mig_env ''m'') ex_mig = (Inr (), s')"
    by (cases "run_state (applyUp ex_mig_env ''m'') ex_mig"; cases "fst (run_state (applyUp ex_mig_env ''m'') ex_mig)") auto
  have p: "pending [''1''] (up_files ex_mig_env ''m'') = [''m/2.up.sql'']" "up_version ''m/2.up.sql'' = ''2''" by code_simp+
  have vs: "mg_Versions ex_mig = Some [''1'']" by (simp add: ex_mig_def)
  have "mg_Versions s' = Some [''1'', ''2'']" "run_files ex_mig_env [''m/2.up.sql''] (mg_Data ex_mig) = Some (mg_Data s')"
    using migrate_up_once [OF run vs] by (simp_all add: p)
  with run show ?thesis by (simp add: ex_mig_env_def ex_mig_def)
qed

text \<open>
  A file and the record of its version are two statements. When the second fails, the file has been run and
  its version is not recorded, so the next \<open>up\<close> runs the file again.
\<close>

lemma migrate_interrupted_repeats:
  assumes "mg_Versions s = Some vs" and "up_version f \<notin> set vs" and "readF E f = Some content"
    and "runSQL E content (mg_Data s) = Some d"
    and "\<not> mg_Faults s (mg_Stmts s)" "\<not> mg_Faults s (Suc (mg_Stmts s))" "mg_Faults s (Suc (Suc (mg_Stmts s)))"
    and "run_state (up_loop E (f # files)) s = (out, s')"
  shows "out = Inl DBError \<and> mg_Data s' = d \<and> mg_Versions s' = Some vs \<and> f \<in> set (pending vs (f # files))"
  using assms
  by (auto simp: run_attempt isApplied_def insert_version_def run_on_versions execSQLFile_def mig_stmt_def Let_def)

end
