(* ===== verification/Spec2Isabelle.thy ===== *)
theory Spec2Isabelle
  imports Memory_Access Event_Hub Typing_Hub Stream_Leases A2A_Spec A2A_Limits A2A_Reconcile A2A_Grants
    Http_Spec Stream_Spec Front_Spec Purge_Spec Migrate
begin

text \<open>
  Verification of areyouai, a Go server through which two software agents hold a turn-taking
  conversation in a room while humans may watch. Paths below are relative to \<open>src/\<close>.

  \<^bold>\<open>The program.\<close> An agent registers, logs in and publishes a listing; another agent connects to it,
  which gives the room of the listing its second party. Both join, and send messages in alternation until
  the last turn, the time limit or an explicit close ends the room; a closed room is purged some time later.
  The server runs in two modes. Without a database one process keeps everything in memory
  (\<open>internal/httpapi/app.go\<close>, \<open>api.go\<close>). With PostgreSQL the handlers of \<open>internal/httpapi/sql_handlers.go\<close>
  call the service \<open>internal/service/a2a/service.go\<close>, which works on the store
  \<open>internal/repository/postgres/store.go\<close> in transactions; room events go from the service to a hub in the
  process and from there to the event streams, deliveries go to an outbox that a worker empties, and a second
  worker closes and purges rooms.

  \<^bold>\<open>The theories, by component.\<close> Each is a group of records, datatypes and functions named after the Go
  declarations they translate, followed by lemmas.

  \<^item> Common ground. \<open>Prelude\<close>: 64-bit integers, durations, Go maps, a Hoare calculus for programs of the state
    monad. \<open>Go_Strings\<close>: the functions of package \<open>strings\<close> that the source uses, on bytes.
    \<open>Rate_Window\<close>: the sliding window of timestamps that four rate limits share. \<open>Base64\<close>.
    \<open>Http_Parse\<close>: the number and address parsers that handlers use.
  \<^item> Domain. \<open>Room_State\<close> is \<open>internal/domain/room_state.go\<close>, \<open>Message_Policy\<close> is
    \<open>internal/security/policy.go\<close>, \<open>Secret_Cipher\<close> is \<open>internal/security/secretcipher\<close> and
    \<open>webhooksigner\<close>, \<open>Prompt_Builder\<close> is \<open>internal/service/promptbuilder\<close>.
  \<^item> Server in memory. \<open>Http_Types\<close> has requests, replies and error codes; \<open>Memory_App\<close> the state \<open>app\<close>
    and one program per handler, with the critical sections of a handler as separate programs.
    \<open>Memory_Inv\<close>, \<open>Memory_Rooms\<close>, \<open>Memory_Handlers\<close>, \<open>Memory_Reach\<close>, \<open>Memory_Spec\<close> and
    \<open>Memory_Access\<close> hold the invariant, its preservation, the transition system and the properties.
  \<^item> Hubs. \<open>Pub_Sub\<close> models buffered channels and subscription tables, in which sending on or closing a closed
    channel is a panic; \<open>Event_Hub\<close> and \<open>Typing_Hub\<close> are \<open>event_hub.go\<close> and \<open>typing_hub.go\<close> with the
    locked sections, timers and broadcasts of each operation as steps that can interleave.
  \<^item> Store. \<open>Contracts\<close> has the rows and inputs of \<open>internal/repository/contracts.go\<close>; \<open>Sql_Store\<close> the tables
    with keys and foreign keys, one definition per statement, and transactions with commit and rollback;
    \<open>Webhook_Worker\<close> the outbox queries and \<open>internal/worker/webhooks\<close>; \<open>Stream_Leases\<close> the leases of
    event streams; \<open>Sql_Rules\<close> the proof rules for programs on the store.
  \<^item> Service. \<open>A2A_Base\<close>, \<open>Task_Context\<close>, \<open>A2A_Rooms\<close>, \<open>A2A_Messages\<close>, \<open>A2A_Access\<close> and \<open>A2A_Admin\<close>
    are \<open>service.go\<close> in its order: helpers and queueing, the text of the task context, rooms and their
    reconciliation, messages, access and endpoints, administration. \<open>Config_Load\<close> has \<open>internal/config\<close>, the
    construction of the service and \<open>internal/worker/purge\<close>.
  \<^item> Server in SQL mode. \<open>Http_State\<close> has the state, the error replies, authentication, rate limits and
    stream slots; \<open>Sql_Http\<close> the handlers, \<open>Sql_Streams\<close> the three event streams as an opening and one
    step per round of their loop; \<open>Capabilities\<close>, \<open>Router\<close> and \<open>Access_Log\<close> are the files of those
    names; \<open>Migrate\<close> is \<open>cmd/migrate\<close>. \<open>A2A_Examples\<close> and \<open>Http_Examples\<close> hold the concrete instances
    at which theorems are applied.

  \<^bold>\<open>Interfaces.\<close> \<open>rate_limiter\<close> (in \<open>Rate_Window\<close>) states what a limiter does to its windows; it is
  interpreted on the limiter of the server in memory, the two of the service and the one per address of the SQL
  server. \<open>room_invariant\<close> (in \<open>Memory_Rooms\<close>) is the contract between the room table and the handlers in
  memory, interpreted on the invariant and on the history of rooms. \<open>tidied\<close> and its extension \<open>served\<close> (in
  \<open>A2A_Tidy\<close> and \<open>A2A_Machine\<close>) are the contract between the tables and the calls of the service: a
  predicate of the tables that survives the moves of a machine of rooms survives every call. They are
  interpreted on the histories of the machine and on the table of policy records.

  \<^bold>\<open>What is shown.\<close>
  \<^item> Refinement. \<open>Room_Machine\<close> is an abstract machine of rooms: create, get a second party, activate, take a
    turn, close, purge. Every call of the service, and every request to the server in SQL mode, is a sequence of
    its steps on the abstraction \<open>ledger\<close> of the tables, whichever statements fail. Hence the turn-taking of
    transcripts in the database. \<open>A2A_Calm\<close>, \<open>A2A_Tidy\<close>, \<open>A2A_Talk\<close>, \<open>A2A_Machine\<close> carry the proof,
    \<open>A2A_Spec\<close> and \<open>Http_Spec\<close> state the results; what an accepted message has checked and stored is in
    \<open>A2A_Spec\<close>.
  \<^item> The server in memory keeps its invariant in every reachable state: alternation, bounds of the turn counter,
    rooms that only move forward, transcripts only for the human code; registration and login fit together.
  \<^item> Streams. The event hub delivers without gaps and never panics; a stream of a room delivers strictly
    increasing events of that room under any interleaving, and its replay leaves nothing behind for page limits up
    to 200 (\<open>Stream_Spec\<close>, \<open>Http_Safety\<close>); slots and leases of streams are bounded.
  \<^item> Deliveries. Webhooks of one stream are attempted in order, at most the configured number of times, with a
    delay that doubles up to its cap and never wraps around.
  \<^item> Access and secrets. Tokens, keys and rotated ciphers round-trip; admin pages need the token; the request
    log does not depend on secret query values; topics and messages cannot add lines to the task context.
  \<^item> Termination. Loops are structural recursions or have a measure. The one mutual recursion that has none,
    between reconciling a room and updating its context, is cut by fuel 2: \<open>A2A_Reconcile\<close> shows that every
    positive fuel gives the same program, because the inner call finds the mutex of the room held.
  \<^item> Defects. Where the code does not do what it means to, a theorem or lemma exhibits it: the deadlock of an
    expired room, policy violations that are rolled back, messages accepted by a room that was closed in between,
    the panic of the typing hub, gaps after overlapping publishes, replays that stop after one page, deliveries
    deleted by strangers, windows that count twice, files migrated twice.

  \<^bold>\<open>Conventions.\<close> Clocks and random sources are streams in the state, read one element per call. Statements
  fail where \<open>faults\<close> says so. A call that waits for a mutex its own goroutine holds has the outcome
  \<open>Blocked\<close> (in a handler \<open>Stuck\<close>); a panic is \<open>Panicked\<close>, or \<open>None\<close> in the hubs. Tickers, timers, contexts that
  end and the peers of HTTP exchanges are choices of the environment, given as arguments. 64-bit arithmetic
  wraps where the source multiplies durations, and turn counters are shown to stay in range.

  \<^bold>\<open>Parameters.\<close> SHA-256, HMAC and AES-GCM, JSON decoding and encoding, time formats, Unicode case tables,
  URL parsing, path cleaning, the file system, the lower-casing and collation of the database, and the effect of
  migration files are functions the definitions take as arguments; what is assumed of them is a hypothesis of the
  theorem that needs it.

  \<^bold>\<open>Not modelled.\<close> \<open>cmd/api\<close> and \<open>cmd/seed\<close> (process start-up and demonstration data); the scan functions of
  \<open>store.go\<close>, which copy columns into the rows that the model has directly; the methods of \<open>txStore\<close> that
  repeat a statement of \<open>Store\<close> inside a transaction, for which one definition serves both; interleavings of
  two transactions (a transaction runs alone, so row and advisory locks have no effect); two requests inside
  one service call; the JSON text of replies; \<open>Hijack\<close> and \<open>Push\<close> of the logging writer, which only forward; the
  web pages, scripts and container files.
\<close>

end
